(* ===== verification/Prelude.thy ===== *)
theory Prelude
  imports Complex_Main "HOL-Library.Sublist"
begin

text \<open>
  The pure vocabulary every component shares: Python's string and dictionary operations, and
  the plain values that travel through JSON, structlog and \<^verbatim>\<open>MessageToDict\<close>.

  \<^item> Python strings are \<^typ>\<open>string\<close>: the UTF-8 bytes of the text, so \<^verbatim>\<open>encode()\<close> is the
    identity; \<^verbatim>\<open>strip\<close> and \<^verbatim>\<open>lower\<close> act on the ASCII range, which is where the code uses them
    (tokens, field names, role names).
  \<^item> Dictionaries whose order the code observes are association lists.
\<close>

named_theorems io_simps \<open>evaluation of the error and state monad\<close>
named_theorems py_simps \<open>evaluation of the string and dictionary helpers\<close>

section \<open>Strings\<close>

definition py_space :: "char \<Rightarrow> bool" where
  "py_space c \<longleftrightarrow> (let n = (of_char c :: nat) in (9 \<le> n \<and> n \<le> 13) \<or> (28 \<le> n \<and> n \<le> 32))"

definition strip :: "string \<Rightarrow> string" where
  "strip s = rev (dropWhile py_space (rev (dropWhile py_space s)))"

definition lower_char :: "char \<Rightarrow> char" where
  "lower_char c = (let n = (of_char c :: nat) in if 65 \<le> n \<and> n \<le> 90 then char_of (n + 32) else c)"

definition lower :: "string \<Rightarrow> string" where
  "lower = map lower_char"

definition removeprefix :: "string \<Rightarrow> string \<Rightarrow> string" where
  "removeprefix p s = (if take (length p) s = p then drop (length p) s else s)"

definition startswith :: "string \<Rightarrow> string \<Rightarrow> bool" where
  "startswith p s \<longleftrightarrow> take (length p) s = p"

definition endswith :: "string \<Rightarrow> string \<Rightarrow> bool" where
  "endswith suf s \<longleftrightarrow> length suf \<le> length s \<and> drop (length s - length suf) s = suf"

fun join :: "string \<Rightarrow> string list \<Rightarrow> string" where
  "join sep [] = []"
| "join sep [x] = x"
| "join sep (x # y # xs) = x @ sep @ join sep (y # xs)"

text \<open>\<^verbatim>\<open>s.partition(sep)\<close>: the text before and after the first occurrence of \<open>sep\<close>.\<close>

fun split_first :: "string \<Rightarrow> string \<Rightarrow> (string \<times> string) option" where
  "split_first sep [] = None"
| "split_first sep (c # cs) =
     (if take (length sep) (c # cs) = sep then Some ([], drop (length sep) (c # cs))
      else map_option (\<lambda>(a, b). (c # a, b)) (split_first sep cs))"

lemma split_first_length: "split_first sep s = Some (a, b) \<Longrightarrow> sep \<noteq> [] \<Longrightarrow> length b < length s"
  by (induction sep s arbitrary: a b rule: split_first.induct)
     (auto split: if_splits simp: less_SucI)

text \<open>\<^verbatim>\<open>s.split(sep)\<close> for the non-empty separators the code uses.\<close>

function py_split :: "string \<Rightarrow> string \<Rightarrow> string list" where
  "py_split sep s =
     (if sep = [] then [s]
      else case split_first sep s of None \<Rightarrow> [s] | Some (a, b) \<Rightarrow> a # py_split sep b)"
  by pat_completeness auto
termination
  by (relation "measure (\<lambda>(sep, s). length s)") (auto dest: split_first_length)

declare py_split.simps [simp del]

lemma split_first_fresh:
  "sep \<noteq> [] \<Longrightarrow> hd sep \<notin> set x \<Longrightarrow> split_first sep (x @ sep @ t) = Some (x, t)"
proof (induction x)
  case Nil
  then show ?case by (cases sep) auto
next
  case (Cons c x)
  then have "take (length sep) (c # x @ sep @ t) \<noteq> sep" by (cases sep) auto
  with Cons show ?case by simp
qed

lemma split_first_none:
  "sep \<noteq> [] \<Longrightarrow> hd sep \<notin> set x \<Longrightarrow> split_first sep x = None"
proof (induction x)
  case (Cons c x)
  then have "take (length sep) (c # x) \<noteq> sep" by (cases sep) auto
  with Cons show ?case by simp
qed simp

lemma split_first_append: "split_first sep s = Some (a, b) \<Longrightarrow> s = a @ sep @ b"
proof (induction sep s arbitrary: a b rule: split_first.induct)
  case (2 sep c cs)
  show ?case
  proof (cases "take (length sep) (c # cs) = sep")
    case True
    with 2 show ?thesis by (metis append_Nil append_take_drop_id fst_conv option.inject
      snd_conv split_first.simps(2))
  next
    case False
    with 2 show ?thesis by auto
  qed
qed simp

lemma py_split_join:
  assumes "sep \<noteq> []" and "xs \<noteq> []" and "\<forall>x \<in> set xs. hd sep \<notin> set x"
  shows "py_split sep (join sep xs) = xs"
  using assms
proof (induction sep xs rule: join.induct)
  case (2 sep' x)
  then show ?case by (subst py_split.simps) (simp add: split_first_none)
next
  case (3 sep' x y xs)
  then show ?case
    by (subst py_split.simps) (simp add: split_first_fresh)
qed simp

lemma join_inject:
  assumes "sep \<noteq> []" and "xs \<noteq> []" and "ys \<noteq> []"
    and "\<forall>x \<in> set xs. hd sep \<notin> set x" and "\<forall>y \<in> set ys. hd sep \<notin> set y"
    and "join sep xs = join sep ys"
  shows "xs = ys"
  using py_split_join [of sep xs] py_split_join [of sep ys] assms by metis

lemma set_join: "set (join sep xs) \<subseteq> set sep \<union> (\<Union>x \<in> set xs. set x)"
  by (induction sep xs rule: join.induct) auto

lemma strip_idem [simp]: "strip (strip s) = strip s"
proof -
  define t where "t = dropWhile py_space s"
  define u where "u = rev (dropWhile py_space (rev t))"
  have pre: "\<exists>w. t = u @ w" unfolding u_def
    by (metis rev_append rev_rev_ident takeWhile_dropWhile_id)
  have hd_t: "t \<noteq> [] \<Longrightarrow> \<not> py_space (hd t)" by (simp add: t_def hd_dropWhile)
  have "dropWhile py_space u = u"
  proof (cases u)
    case (Cons c cs)
    with pre have "t \<noteq> []" "hd t = c" by auto
    with hd_t Cons show ?thesis by simp
  qed simp
  moreover have "rev (dropWhile py_space (rev u)) = u" by (simp add: u_def)
  ultimately show ?thesis by (simp add: strip_def t_def [symmetric] u_def [symmetric])
qed

lemma strip_Nil [simp]: "strip [] = []"
  by (simp add: strip_def)

lemma strip_no_space: "\<forall>c \<in> set s. \<not> py_space c \<Longrightarrow> strip s = s"
  by (simp add: strip_def dropWhile_eq_self_iff) (metis dropWhile_eq_self_iff hd_in_set rev_rev_ident set_rev)

lemma strip_eq_iff: "strip s = s \<longleftrightarrow> s = [] \<or> \<not> py_space (hd s) \<and> \<not> py_space (last s)"
proof (cases s)
  case (Cons c cs)
  show ?thesis
  proof (cases "py_space c")
    case True
    then have "length (strip s) < length s"
      using Cons length_dropWhile_le [of py_space "rev (dropWhile py_space cs)"]
        length_dropWhile_le [of py_space cs] by (simp add: strip_def)
    with True Cons show ?thesis by auto
  next
    case False
    have "rev (dropWhile py_space (rev s)) = s \<longleftrightarrow> dropWhile py_space (rev s) = rev s"
      by (metis rev_rev_ident)
    also have "\<dots> \<longleftrightarrow> \<not> py_space (last s)"
      using Cons by (simp add: dropWhile_eq_self_iff hd_rev del: rev.simps)
    finally show ?thesis using False Cons by (simp add: strip_def)
  qed
qed simp

text \<open>Python's \<^verbatim>\<open>a or b\<close> on strings.\<close>

definition str_or :: "string \<Rightarrow> string \<Rightarrow> string" where
  "str_or a b = (if a = [] then b else a)"

lemma str_or_simps [simp, py_simps]: "str_or [] b = b" "str_or (c # cs) b = c # cs"
  by (simp_all add: str_or_def)

section \<open>Dictionaries\<close>

text \<open>A dictionary literal is its list of items; \<^verbatim>\<open>d.get(k, default)\<close> reads the last binding.\<close>

definition dict_get :: "('k \<times> 'v) list \<Rightarrow> 'k \<Rightarrow> 'v \<Rightarrow> 'v" where
  "dict_get d k v = (case map_of (rev d) k of None \<Rightarrow> v | Some x \<Rightarrow> x)"

definition dict_invert :: "('k \<times> 'v) list \<Rightarrow> ('v \<times> 'k) list" where
  "dict_invert d = map (\<lambda>(k, v). (v, k)) d"

lemma dict_get_in: "distinct (map fst d) \<Longrightarrow> (k, v) \<in> set d \<Longrightarrow> dict_get d k u = v"
  by (simp add: dict_get_def rev_map [symmetric])

lemma dict_get_not_in: "k \<notin> fst ` set d \<Longrightarrow> dict_get d k u = u"
  by (simp add: dict_get_def map_of_eq_None_iff [THEN iffD2])

lemma dict_get_cases: "dict_get d k u = u \<or> (k, dict_get d k u) \<in> set d"
  by (auto simp: dict_get_def split: option.splits dest!: map_of_SomeD)

section \<open>Plain Python values\<close>

text \<open>
  What \<^verbatim>\<open>json\<close>, structlog and \<^verbatim>\<open>MessageToDict\<close> move around: a value built of dicts, lists and
  scalars. Numbers only travel, nothing is computed with them.
\<close>

datatype pyval =
    PyNone
  | PyBool bool
  | PyNum real
  | PyStr string
  | PyList "pyval list"
  | PyDict "(string \<times> pyval) list"

end
