(* ===== verification/Context.thy ===== *)
theory Context
  imports Prelude
begin

text \<open>
  The request context of \<^verbatim>\<open>app/platform/context.py\<close>: the normalized principal, the
  \<^verbatim>\<open>AuthContext\<close> the decorators read, and the configuration of \<^verbatim>\<open>app/settings.py\<close> that the
  modelled code uses.
\<close>

section \<open>Who is calling\<close>

record principal =
  p_subject :: string
  p_email :: string
  p_email_verified :: bool
  p_name :: string
  p_avatar_url :: string
  p_providers :: "string list"
  p_session_id :: string

record auth_context =
  a_principal :: principal
  a_raw_token :: string
  a_user_id :: string
  a_account_id :: string
  a_role :: string
  a_grants :: "string \<rightharpoonup> string"

definition has_role :: "auth_context \<Rightarrow> string list \<Rightarrow> bool" where
  "has_role ctx roles \<longleftrightarrow> a_role ctx \<in> set roles"

text \<open>Owner and admin hold \<open>manage\<close> over every resource; the others what the core granted.\<close>

definition grant_level :: "auth_context \<Rightarrow> string \<Rightarrow> string option" where
  "grant_level ctx resource_id =
     (if a_role ctx \<in> {''owner'', ''admin''} then Some ''manage'' else a_grants ctx resource_id)"

text \<open>The actor's name the metadata carries: \<^verbatim>\<open>principal.name or principal.email\<close>.\<close>

definition actor_name :: "principal \<Rightarrow> string" where
  "actor_name p = str_or (p_name p) (p_email p)"

section \<open>Configuration\<close>

record settings =
  core_deadline_s :: real
  agent_turn_deadline_s :: real
  call_auth_key :: string
  firebase_project :: string
  firebase_auth_emulator_host :: string
  firebase_auth_domain :: string
  sse_ping_s :: int
  sse_retry_ms :: int

end
