(* ===== verification/Dates.thy ===== *)
theory Dates
  imports Prelude
begin

text \<open>
  A protobuf timestamp as text and back. The second factor's and the identity's use cases answer
  \<^verbatim>\<open>ToDatetime().isoformat() + "Z"\<close>, and their gRPC ports read that text again with
  \<^verbatim>\<open>datetime.fromisoformat\<close> to write a timestamp. The calendar is Python's \<^verbatim>\<open>datetime\<close>: proleptic
  Gregorian, days counted from 1 for the first of January of the year 1.
\<close>

section \<open>Timestamps and what a datetime keeps of them\<close>

record timestamp =
  ts_seconds :: int
  ts_nanos :: int

text \<open>
  \<^verbatim>\<open>ToDatetime()\<close>: a Python datetime holds microseconds, and the rest of the nanoseconds goes. What a
  datetime holds \<^verbatim>\<open>FromDatetime\<close> writes back as it is, so where no text comes between them a datetime is the
  timestamp it would be written as.
\<close>

definition instant :: "timestamp \<Rightarrow> timestamp" where
  "instant t = t\<lparr>ts_nanos := 1000 * (ts_nanos t div 1000)\<rparr>"

lemma instant_idem [simp]: "instant (instant t) = instant t"
  by (simp add: instant_def)

definition no_time :: timestamp where
  "no_time = \<lparr>ts_seconds = 0, ts_nanos = 0\<rparr>"

text \<open>The range protobuf documents: the years 1 to 9999, which are a datetime's.\<close>

definition in_range :: "timestamp \<Rightarrow> bool" where
  "in_range t \<longleftrightarrow> - 62135596800 \<le> ts_seconds t \<and> ts_seconds t \<le> 253402300799
     \<and> 0 \<le> ts_nanos t \<and> ts_nanos t < 1000000000"

section \<open>The calendar\<close>

definition is_leap :: "int \<Rightarrow> bool" where
  "is_leap y \<longleftrightarrow> y mod 4 = 0 \<and> (y mod 100 \<noteq> 0 \<or> y mod 400 = 0)"

definition days_in_month :: "bool \<Rightarrow> int \<Rightarrow> int" where
  "days_in_month leap m = (if m = 2 then (if leap then 29 else 28) else if m \<in> {4, 6, 9, 11} then 30 else 31)"

definition days_before_month :: "bool \<Rightarrow> int \<Rightarrow> int" where
  "days_before_month leap m = [0, 31, 59, 90, 120, 151, 181, 212, 243, 273, 304, 334] ! nat (m - 1)
     + (if 2 < m \<and> leap then 1 else 0)"

definition days_before_year :: "int \<Rightarrow> int" where
  "days_before_year y = (y - 1) * 365 + (y - 1) div 4 - (y - 1) div 100 + (y - 1) div 400"

definition ymd2ord :: "int \<Rightarrow> int \<Rightarrow> int \<Rightarrow> int" where
  "ymd2ord y m d = days_before_year y + days_before_month (is_leap y) m + d"

text \<open>\<^verbatim>\<open>_ord2ymd\<close>: cycles of 400, 100, 4 and 1 years, the month guessed and put right.\<close>

definition month_day :: "bool \<Rightarrow> int \<Rightarrow> int \<times> int" where
  "month_day leap n = (let m = (n + 50) div 32
     in if days_before_month leap m > n then (m - 1, n - days_before_month leap (m - 1) + 1)
        else (m, n - days_before_month leap m + 1))"

definition ord2ymd :: "int \<Rightarrow> int \<times> int \<times> int" where
  "ord2ymd ord = (let n400 = (ord - 1) div 146097; r400 = (ord - 1) mod 146097;
       n100 = r400 div 36524; r100 = r400 mod 36524;
       n4 = r100 div 1461; r4 = r100 mod 1461;
       n1 = r4 div 365; r1 = r4 mod 365;
       year = 400 * n400 + 100 * n100 + 4 * n4 + n1 + 1
     in if n1 = 4 \<or> n100 = 4 then (year - 1, 12, 31)
        else (year, month_day (n1 = 3 \<and> (n4 \<noteq> 24 \<or> n100 = 3)) r1))"

lemma month_day_check:
  "\<forall>leap \<in> set [False, True]. \<forall>n \<in> set [0..364]. (case month_day leap n of (m, d) \<Rightarrow>
     1 \<le> m \<and> m \<le> 12 \<and> 1 \<le> d \<and> d \<le> days_in_month leap m \<and> days_before_month leap m + d = n + 1)"
  by code_simp

text \<open>A day of the year is a day of its month. (The last day of a leap year never reaches \<open>month_day\<close>.)\<close>

lemma month_day_says:
  assumes "0 \<le> n" and "n \<le> 364" and "month_day leap n = (m, d)"
  shows "1 \<le> m \<and> m \<le> 12 \<and> 1 \<le> d \<and> d \<le> days_in_month leap m \<and> days_before_month leap m + d = n + 1"
proof -
  have "n \<in> set [0..364]" using assms(1,2) by simp
  with month_day_check have "case month_day leap n of (m, d) \<Rightarrow>
     1 \<le> m \<and> m \<le> 12 \<and> 1 \<le> d \<and> d \<le> days_in_month leap m \<and> days_before_month leap m + d = n + 1"
    by (cases leap) (simp_all only: list.set insert_iff ball_simps)
  with assms(3) show ?thesis by simp
qed

lemma days_before_year_cycles:
  assumes "0 \<le> b" "b \<le> 3" "0 \<le> c" "c \<le> 24" "0 \<le> d" "d \<le> 3"
  shows "days_before_year (400 * a + 100 * b + 4 * c + d + 1) = 146097 * a + 36524 * b + 1461 * c + 365 * d"
    and "is_leap (400 * a + 100 * b + 4 * c + d + 1) \<longleftrightarrow> d = 3 \<and> (c \<noteq> 24 \<or> b = 3)"
proof -
  let ?y = "400 * a + 100 * b + 4 * c + d"
  have y: "?y = 4 * (100 * a + 25 * b + c) + d" "?y = 100 * (4 * a + b) + (4 * c + d)"
    "?y = 400 * a + (100 * b + 4 * c + d)" by simp_all
  have "?y div 4 = 100 * a + 25 * b + c" by (subst y(1)) (use assms in simp)
  moreover have "?y div 100 = 4 * a + b" by (subst y(2)) (use assms in simp)
  moreover have "?y div 400 = a" by (subst y(3)) (use assms in simp)
  ultimately show "days_before_year (?y + 1) = 146097 * a + 36524 * b + 1461 * c + 365 * d"
    by (simp add: days_before_year_def)
  show "is_leap (?y + 1) \<longleftrightarrow> d = 3 \<and> (c \<noteq> 24 \<or> b = 3)"
  proof -
    have z: "?y + 1 = (d + 1) + (100 * a + 25 * b + c) * 4" "?y + 1 = (4 * c + d + 1) + (4 * a + b) * 100"
      "?y + 1 = (100 * b + 4 * c + d + 1) + a * 400" by simp_all
    have "(?y + 1) mod 4 = (d + 1) mod 4" by (subst z(1)) (rule mod_mult_self1)
    moreover have "(?y + 1) mod 100 = (4 * c + d + 1) mod 100" by (subst z(2)) (rule mod_mult_self1)
    moreover have "(?y + 1) mod 400 = (100 * b + 4 * c + d + 1) mod 400" by (subst z(3)) (rule mod_mult_self1)
    moreover have "(d + 1) mod 4 = 0 \<longleftrightarrow> d = 3" using assms by (cases "d = 3") simp_all
    moreover have "d = 3 \<Longrightarrow> (4 * c + d + 1) mod 100 = 0 \<longleftrightarrow> c = 24" using assms by (cases "c = 24") simp_all
    moreover have "d = 3 \<Longrightarrow> c = 24 \<Longrightarrow> (100 * b + 4 * c + d + 1) mod 400 = 0 \<longleftrightarrow> b = 3"
      using assms by (cases "b = 3") simp_all
    ultimately show ?thesis unfolding is_leap_def by (cases "d = 3"; cases "c = 24") (simp_all only: simp_thms refl)
  qed
qed

lemma last_day_of_leap:
  assumes "0 \<le> b" "b \<le> 3" "0 \<le> c" "c \<le> 24" "c \<noteq> 24 \<or> b = 3"
  shows "ymd2ord (400 * a + 100 * b + 4 * c + 4) 12 31 = 146097 * a + 36524 * b + 1461 * c + 1461"
proof -
  have y: "400 * a + 100 * b + 4 * c + 4 = 400 * a + 100 * b + 4 * c + 3 + 1" by simp
  show ?thesis unfolding y ymd2ord_def
    using days_before_year_cycles [of b c 3 a] assms by (simp add: days_before_month_def)
qed

text \<open>What \<open>ord2ymd\<close> answers is a date, and \<open>ymd2ord\<close> numbers it as it was.\<close>

definition date_ok :: "int \<Rightarrow> int \<Rightarrow> int \<Rightarrow> bool" where
  "date_ok y m d \<longleftrightarrow> 1 \<le> y \<and> y \<le> 9999 \<and> 1 \<le> m \<and> m \<le> 12 \<and> 1 \<le> d \<and> d \<le> days_in_month (is_leap y) m"

lemma ord2ymd_says:
  assumes ord: "1 \<le> ord" "ord \<le> 3652059" and ymd: "ord2ymd ord = (y, m, d)"
  shows "ymd2ord y m d = ord \<and> date_ok y m d"
proof -
  define a where "a = (ord - 1) div 146097"
  define r400 where "r400 = (ord - 1) mod 146097"
  define b where "b = r400 div 36524"
  define r100 where "r100 = r400 mod 36524"
  define c where "c = r100 div 1461"
  define r4 where "r4 = r100 mod 1461"
  define e where "e = r4 div 365"
  define r1 where "r1 = r4 mod 365"
  have n: "ord = 146097 * a + r400 + 1" "r400 = 36524 * b + r100" "r100 = 1461 * c + r4" "r4 = 365 * e + r1"
    by (simp_all add: a_def r400_def b_def r100_def c_def r4_def e_def r1_def)
  have a: "0 \<le> a" "0 \<le> r400" "r400 < 146097" using ord by (simp_all add: a_def r400_def pos_imp_zdiv_nonneg_iff)
  then have b: "0 \<le> b" "0 \<le> r100" "r100 < 36524" by (simp_all add: b_def r100_def pos_imp_zdiv_nonneg_iff)
  then have c: "0 \<le> c" "0 \<le> r4" "r4 < 1461" by (simp_all add: c_def r4_def pos_imp_zdiv_nonneg_iff)
  then have e: "0 \<le> e" "0 \<le> r1" "r1 \<le> 364" by (simp_all add: e_def r1_def pos_imp_zdiv_nonneg_iff)
  have most: "b \<le> 4" "c \<le> 24" "e \<le> 4" using n a b c e by linarith+
  have out: "(if e = 4 \<or> b = 4 then (400 * a + 100 * b + 4 * c + e, 12, 31)
      else (400 * a + 100 * b + 4 * c + e + 1, month_day (e = 3 \<and> (c \<noteq> 24 \<or> b = 3)) r1)) = (y, m, d)"
    using ymd unfolding ord2ymd_def Let_def a_def [symmetric] r400_def [symmetric] b_def [symmetric]
      r100_def [symmetric] c_def [symmetric] r4_def [symmetric] e_def [symmetric] r1_def [symmetric]
    by (simp only: add_diff_cancel_right')
  consider (century) "b = 4" | (leap) "e = 4" "b \<le> 3" | (plain) "e \<le> 3" "b \<le> 3" using most by linarith
  then show ?thesis
  proof cases
    case century
    with n a b c e have zero: "c = 0" "e = 0" "r1 = 0" by linarith+
    with out century have y: "y = 400 * a + 100 * 3 + 4 * 24 + 4" "m = 12" "d = 31" by simp_all
    from last_day_of_leap [of 3 24 a] have "ymd2ord y m d = ord" unfolding y using n century zero by simp
    moreover have "y \<le> 9999" using y n ord century zero by linarith
    ultimately show ?thesis using y a by (simp add: date_ok_def days_in_month_def)
  next
    case leap
    with n b c e have small: "r1 = 0" "c \<noteq> 24" by linarith+
    with out leap have y: "y = 400 * a + 100 * b + 4 * c + 4" "m = 12" "d = 31" by simp_all
    from last_day_of_leap [of b c a] have "ymd2ord y m d = ord" unfolding y using n leap small b c most by simp
    moreover have "c \<le> 23" "a \<le> 24" using n ord small most a b c e by linarith+
    then have "y \<le> 9999" using y leap by linarith
    ultimately show ?thesis using y a b c by (simp add: date_ok_def days_in_month_def)
  next
    case plain
    with out have y: "y = 400 * a + 100 * b + 4 * c + e + 1" and md: "month_day (e = 3 \<and> (c \<noteq> 24 \<or> b = 3)) r1 = (m, d)"
      by auto
    note cycles = days_before_year_cycles [OF b(1) plain(2) c(1) most(2) e(1) plain(1), of a, folded y]
    from month_day_says [OF e(2,3) md] cycles have "ymd2ord y m d = ord" by (simp add: ymd2ord_def n)
    moreover have "y \<le> 9999"
    proof (rule ccontr)
      assume "\<not> y \<le> 9999"
      with y n ord e b c plain most show False by linarith
    qed
    ultimately show ?thesis using month_day_says [OF e(2,3) md] cycles y a b c e by (simp add: date_ok_def)
  qed
qed

section \<open>A datetime and its text\<close>

record datetime =
  dt_year :: int
  dt_month :: int
  dt_day :: int
  dt_hour :: int
  dt_minute :: int
  dt_second :: int
  dt_microsecond :: int

text \<open>The first of January 1970 is day 719163.\<close>

definition to_datetime :: "timestamp \<Rightarrow> datetime" where
  "to_datetime t = (let (y, m, d) = ord2ymd (ts_seconds t div 86400 + 719163); s = ts_seconds t mod 86400
     in \<lparr>dt_year = y, dt_month = m, dt_day = d, dt_hour = s div 3600, dt_minute = s mod 3600 div 60,
         dt_second = s mod 60, dt_microsecond = ts_nanos t div 1000\<rparr>)"

definition from_datetime :: "datetime \<Rightarrow> timestamp" where
  "from_datetime dt = \<lparr>ts_seconds = (ymd2ord (dt_year dt) (dt_month dt) (dt_day dt) - 719163) * 86400
       + dt_hour dt * 3600 + dt_minute dt * 60 + dt_second dt,
     ts_nanos = dt_microsecond dt * 1000\<rparr>"

definition datetime_ok :: "datetime \<Rightarrow> bool" where
  "datetime_ok dt \<longleftrightarrow> date_ok (dt_year dt) (dt_month dt) (dt_day dt) \<and> 0 \<le> dt_hour dt \<and> dt_hour dt < 24
     \<and> 0 \<le> dt_minute dt \<and> dt_minute dt < 60 \<and> 0 \<le> dt_second dt \<and> dt_second dt < 60
     \<and> 0 \<le> dt_microsecond dt \<and> dt_microsecond dt < 1000000"

lemma to_datetime_says:
  assumes "in_range t"
  shows "datetime_ok (to_datetime t) \<and> from_datetime (to_datetime t) = instant t"
proof -
  let ?days = "ts_seconds t div 86400" and ?s = "ts_seconds t mod 86400"
  obtain y m d where ymd: "ord2ymd (?days + 719163) = (y, m, d)" by (cases "ord2ymd (?days + 719163)")
  have whole: "?days * 86400 + ?s = ts_seconds t" "0 \<le> ?s" "?s < 86400" by simp_all
  with assms have "1 \<le> ?days + 719163" "?days + 719163 \<le> 3652059" unfolding in_range_def by linarith+
  from ord2ymd_says [OF this ymd] have day: "ymd2ord y m d - 719163 = ?days" "date_ok y m d" by simp_all
  have clock: "?s div 3600 * 3600 + ?s mod 3600 div 60 * 60 + ?s mod 60 = ?s"
  proof -
    have "?s mod 3600 mod 60 = ?s mod 60" by (rule mod_mod_cancel) simp
    moreover have "?s div 3600 * 3600 + ?s mod 3600 = ?s" "?s mod 3600 div 60 * 60 + ?s mod 3600 mod 60 = ?s mod 3600"
      by (rule div_mult_mod_eq)+
    ultimately show ?thesis by linarith
  qed
  have dt: "to_datetime t = \<lparr>dt_year = y, dt_month = m, dt_day = d, dt_hour = ?s div 3600,
      dt_minute = ?s mod 3600 div 60, dt_second = ?s mod 60, dt_microsecond = ts_nanos t div 1000\<rparr>"
    by (simp only: to_datetime_def ymd Let_def prod.case)
  have bounds: "0 \<le> ?s div 3600" "?s div 3600 < 24" "0 \<le> ?s mod 3600 div 60" "?s mod 3600 div 60 < 60"
    "0 \<le> ?s mod 60" "?s mod 60 < 60"
    using whole by (simp_all add: pos_imp_zdiv_nonneg_iff div_less_iff_less_mult)
  have micros: "0 \<le> ts_nanos t div 1000" "ts_nanos t div 1000 < 1000000"
    using assms zdiv_mono1 [of "ts_nanos t" 999999999 1000] by (simp_all add: in_range_def pos_imp_zdiv_nonneg_iff)
  have "datetime_ok (to_datetime t)" unfolding datetime_ok_def dt datetime.select_convs
    by (intro conjI day(2) bounds micros)
  moreover have seconds: "?days * 86400 + ?s div 3600 * 3600 + ?s mod 3600 div 60 * 60 + ?s mod 60 = ts_seconds t"
    using clock whole(1) by linarith
  have "from_datetime (to_datetime t) = instant t"
    unfolding from_datetime_def dt datetime.select_convs day(1) instant_def
    by (simp only: seconds) (simp add: mult.commute)
  ultimately show ?thesis by blast
qed

text \<open>Numbers at a fixed width, as \<^verbatim>\<open>isoformat\<close> writes its fields.\<close>

primrec pad :: "nat \<Rightarrow> int \<Rightarrow> string" where
  "pad 0 n = []"
| "pad (Suc k) n = pad k (n div 10) @ [char_of (48 + nat (n mod 10))]"

definition number :: "string \<Rightarrow> int" where
  "number s = foldl (\<lambda>n c. 10 * n + (int (of_char c) - 48)) 0 s"

definition all_digits :: "string \<Rightarrow> bool" where
  "all_digits s \<longleftrightarrow> list_all (\<lambda>c. 48 \<le> (of_char c :: nat) \<and> (of_char c :: nat) \<le> 57) s"

lemma length_pad [simp]: "length (pad k n) = k"
  by (induction k arbitrary: n) simp_all

lemma digit_char: "(of_char (char_of (48 + nat (n mod 10))) :: nat) = 48 + nat (n mod 10)"
proof -
  have "nat (n mod 10) < 10" by (simp add: nat_less_iff)
  then show ?thesis by simp
qed

lemma all_digits_pad [simp]: "all_digits (pad k n)"
proof (induction k arbitrary: n)
  case (Suc k)
  have "nat (n mod 10) < 10" by (simp add: nat_less_iff)
  with Suc show ?case by (simp add: all_digits_def digit_char)
qed (simp add: all_digits_def)

lemma number_pad: "0 \<le> n \<Longrightarrow> n < 10 ^ k \<Longrightarrow> number (pad k n) = n"
proof (induction k arbitrary: n)
  case 0
  then show ?case by (simp add: number_def)
next
  case (Suc k)
  have "number (pad k (n div 10)) = n div 10" by (rule Suc.IH) (use Suc.prems in simp_all)
  then show ?case by (simp add: number_def digit_char)
qed

section \<open>isoformat and fromisoformat\<close>

text \<open>
  \<^verbatim>\<open>isoformat\<close> of a datetime without a zone, the microseconds written when there are any. \<open>fromisoformat\<close> is
  the reader of that form, and raises on a field out of its range; the library reads other forms too, which
  never come to it here (\<open>ts_text_read\<close>).
\<close>

definition isoformat :: "datetime \<Rightarrow> string" where
  "isoformat dt = pad 4 (dt_year dt) @ ''-'' @ pad 2 (dt_month dt) @ ''-'' @ pad 2 (dt_day dt) @ ''T''
     @ pad 2 (dt_hour dt) @ '':'' @ pad 2 (dt_minute dt) @ '':'' @ pad 2 (dt_second dt)
     @ (if dt_microsecond dt = 0 then [] else ''.'' @ pad 6 (dt_microsecond dt))"

definition fromisoformat :: "string \<Rightarrow> datetime option" where
  "fromisoformat s = (let part = (\<lambda>i k. take k (drop i s));
       whole = length s = 19; fraction = length s = 26 \<and> part 19 1 = ''.'' \<and> all_digits (part 20 6);
       marks = part 4 1 = ''-'' \<and> part 7 1 = ''-'' \<and> part 10 1 = ''T'' \<and> part 13 1 = '':'' \<and> part 16 1 = '':'';
       numbers = all_digits (part 0 4) \<and> list_all (\<lambda>i. all_digits (part i 2)) [5, 8, 11, 14, 17];
       dt = \<lparr>dt_year = number (part 0 4), dt_month = number (part 5 2), dt_day = number (part 8 2),
         dt_hour = number (part 11 2), dt_minute = number (part 14 2), dt_second = number (part 17 2),
         dt_microsecond = (if whole then 0 else number (part 20 6))\<rparr>
     in if (whole \<or> fraction) \<and> marks \<and> numbers \<and> datetime_ok dt then Some dt else None)"

lemma isoformat_read:
  assumes "datetime_ok dt"
  shows "fromisoformat (isoformat dt) = Some dt"
proof -
  have "number (pad 4 (dt_year dt)) = dt_year dt" "number (pad 2 (dt_month dt)) = dt_month dt"
    "number (pad 2 (dt_day dt)) = dt_day dt" "number (pad 2 (dt_hour dt)) = dt_hour dt"
    "number (pad 2 (dt_minute dt)) = dt_minute dt" "number (pad 2 (dt_second dt)) = dt_second dt"
    "number (pad 6 (dt_microsecond dt)) = dt_microsecond dt"
    using assms by (auto intro!: number_pad simp: datetime_ok_def date_ok_def days_in_month_def split: if_splits)
  with assms show ?thesis
    by (cases dt; cases "dt_microsecond dt = 0") (simp_all add: fromisoformat_def isoformat_def Let_def)
qed

lemma digits_no_Z: "filter (\<lambda>c. c \<noteq> CHR ''Z'') (pad k n) = pad k n"
proof (rule filter_True, rule ballI)
  fix c assume "c \<in> set (pad k n)"
  with all_digits_pad [of k n] have "(of_char c :: nat) \<le> 57" unfolding all_digits_def list_all_iff by blast
  then show "c \<noteq> CHR ''Z''" by auto
qed

lemma isoformat_no_Z: "filter (\<lambda>c. c \<noteq> CHR ''Z'') (isoformat dt) = isoformat dt"
  by (simp add: isoformat_def digits_no_Z del: pad.simps)

section \<open>The code's two converters\<close>

text \<open>\<^verbatim>\<open>_ts(value)\<close> of the use cases: a timestamp that was never set is None, not 1970.\<close>

definition ts_text :: "timestamp \<Rightarrow> string option" where
  "ts_text t = (if ts_seconds t \<noteq> 0 \<or> ts_nanos t \<noteq> 0 then Some (isoformat (to_datetime t) @ ''Z'') else None)"

text \<open>
  \<^verbatim>\<open>_ts(value)\<close> of the gRPC ports: absent stays absent, a text loses every \<^verbatim>\<open>Z\<close> and is read. A text that is no
  date would be a ValueError; none is, for every text here is one that \<open>ts_text\<close> wrote.
\<close>

definition grpc_ts :: "string option \<Rightarrow> timestamp option" where
  "grpc_ts value = (if value = None \<or> value = Some [] then None
     else map_option from_datetime (fromisoformat (filter (\<lambda>c. c \<noteq> CHR ''Z'') (the value))))"

lemma ts_text_None: "ts_text t = None \<longleftrightarrow> t = no_time"
  by (cases t) (auto simp: ts_text_def no_time_def)

lemma ts_text_read:
  assumes "in_range t" and "ts_text t = Some s"
  shows "fromisoformat (filter (\<lambda>c. c \<noteq> CHR ''Z'') s) = Some (to_datetime t)"
  using assms to_datetime_says [OF assms(1)]
  by (auto simp: ts_text_def isoformat_no_Z isoformat_read split: if_splits)

lemma grpc_ts_text:
  assumes "in_range t"
  shows "grpc_ts (ts_text t) = (if t = no_time then None else Some (instant t))"
proof (cases "ts_text t")
  case None
  then show ?thesis by (cases t) (auto simp: grpc_ts_def ts_text_def no_time_def split: if_splits)
next
  case (Some s)
  with ts_text_read [OF assms Some] to_datetime_says [OF assms] show ?thesis
    by (auto simp: grpc_ts_def ts_text_def no_time_def split: if_splits)
qed

end
