(* ===== verification/Effects.thy ===== *)
theory Effects
  imports Context Dates
begin

text \<open>
  Exceptions, the runtime state and the computations over it.

  An \<^verbatim>\<open>async def\<close> of the program is a value of \<open>('w, 'a) io\<close>: a function of the runtime state
  that returns an exception or a result, and the state after it. The state holds the two
  ContextVars, whether the channel to the core is open, the lines written to the log, and
  \<open>'w\<close>, the outside world: the core, the clock and the random source. The world stays
  abstract, and every stub is a function on it, so a computation that leaves it unchanged
  has called nobody.
\<close>

section \<open>Exceptions\<close>

text \<open>The canonical gRPC codes, in the order of their numbers.\<close>

datatype grpc_status =
    OK | CANCELLED | UNKNOWN | INVALID_ARGUMENT | DEADLINE_EXCEEDED | NOT_FOUND
  | ALREADY_EXISTS | PERMISSION_DENIED | RESOURCE_EXHAUSTED | FAILED_PRECONDITION
  | ABORTED | OUT_OF_RANGE | UNIMPLEMENTED | INTERNAL | UNAVAILABLE | DATA_LOSS
  | UNAUTHENTICATED

text \<open>
  One constructor per exception class the code raises or catches by name; the detail of a
  gRPC error is optional because \<^verbatim>\<open>exc.details()\<close> is. Any other exception is \<open>OtherError\<close>.
\<close>

datatype exn =
    HTTPException int string
  | AioRpcError grpc_status "string option"
  | InvalidToken string
  | ValidationError string
  | LinkNotGenerated string
  | AssertionFailure string
  | RuntimeError string
  | KeyError string
  | OtherError string

section \<open>The runtime state\<close>

datatype log_line =
    LogCall string
  | LogReturn string
  | LogError string exn
  | LogInfo string string
  | LogWarning string string

text \<open>A line is written in a context, which \<^verbatim>\<open>_add_context\<close> reads as it goes out.\<close>

record stamped =
  sp_line :: log_line
  sp_request :: "string \<rightharpoonup> string"
  sp_auth :: "auth_context option"

record 'w rt =
  auth_ctx :: "auth_context option"
  request_ctx :: "string \<rightharpoonup> string"
  channel_open :: bool
  log_lines :: "stamped list"
  ext :: 'w

type_synonym ('w, 'a) io = "'w rt \<Rightarrow> (exn + 'a) \<times> 'w rt"

definition ret :: "'a \<Rightarrow> ('w, 'a) io" where
  "ret x = (\<lambda>s. (Inr x, s))"

definition raise :: "exn \<Rightarrow> ('w, 'a) io" where
  "raise e = (\<lambda>s. (Inl e, s))"

definition bnd :: "('w, 'a) io \<Rightarrow> ('a \<Rightarrow> ('w, 'b) io) \<Rightarrow> ('w, 'b) io" where
  "bnd m f = (\<lambda>s. case m s of (Inl e, s') \<Rightarrow> (Inl e, s') | (Inr x, s') \<Rightarrow> f x s')"

definition try_with :: "('w, 'a) io \<Rightarrow> (exn \<Rightarrow> ('w, 'a) io) \<Rightarrow> ('w, 'a) io" where
  "try_with m h = (\<lambda>s. case m s of (Inl e, s') \<Rightarrow> h e s' | (Inr x, s') \<Rightarrow> (Inr x, s'))"

definition try_finally :: "('w, 'a) io \<Rightarrow> ('w rt \<Rightarrow> 'w rt) \<Rightarrow> ('w, 'a) io" where
  "try_finally m f = (\<lambda>s. case m s of (r, s') \<Rightarrow> (r, f s'))"

definition ask :: "('w rt \<Rightarrow> 'a) \<Rightarrow> ('w, 'a) io" where
  "ask f = (\<lambda>s. (Inr (f s), s))"

definition mapv :: "('a \<Rightarrow> 'b) \<Rightarrow> ('w, 'a) io \<Rightarrow> ('w, 'b) io" where
  "mapv f m = bnd m (\<lambda>x. ret (f x))"

text \<open>\<^verbatim>\<open>[await f(x) for x in xs]\<close>: in order, stopping at the first exception.\<close>

fun each :: "('a \<Rightarrow> ('w, 'b) io) \<Rightarrow> 'a list \<Rightarrow> ('w, 'b list) io" where
  "each f [] = ret []"
| "each f (x # xs) = bnd (f x) (\<lambda>y. bnd (each f xs) (\<lambda>ys. ret (y # ys)))"

text \<open>Reading the outside world, and appending a line to the log.\<close>

definition outside :: "('w \<Rightarrow> 'a \<times> 'w) \<Rightarrow> ('w, 'a) io" where
  "outside f = (\<lambda>s. case f (ext s) of (x, w) \<Rightarrow> (Inr x, s\<lparr>ext := w\<rparr>))"

definition stamp :: "log_line \<Rightarrow> 'w rt \<Rightarrow> stamped" where
  "stamp l s = \<lparr>sp_line = l, sp_request = request_ctx s, sp_auth = auth_ctx s\<rparr>"

definition write_log :: "log_line \<Rightarrow> 'w rt \<Rightarrow> 'w rt" where
  "write_log l s = s\<lparr>log_lines := log_lines s @ [stamp l s]\<rparr>"

definition emit :: "log_line \<Rightarrow> ('w, unit) io" where
  "emit l = (\<lambda>s. (Inr (), write_log l s))"

text \<open>
  \<^verbatim>\<open>ctx = auth_ctx.get()\<close> followed by a field of \<^verbatim>\<open>ctx\<close>: with no context the attribute
  access fails.
\<close>

definition from_ctx :: "(auth_context \<Rightarrow> 'a) \<Rightarrow> ('w, 'a) io" where
  "from_ctx f = bnd (ask auth_ctx) (\<lambda>c. case c of
      None \<Rightarrow> raise (OtherError ''AttributeError'') | Some ctx \<Rightarrow> ret (f ctx))"

text \<open>How a computation's answer is read off.\<close>

definition result :: "('w, 'a) io \<Rightarrow> 'w rt \<Rightarrow> exn + 'a" where
  "result m s = fst (m s)"

definition after :: "('w, 'a) io \<Rightarrow> 'w rt \<Rightarrow> 'w rt" where
  "after m s = snd (m s)"

text \<open>
  The computation fails with \<open>e\<close> before it has touched the outside world: no call to the
  core, no clock read, no key drawn.
\<close>

definition refuses :: "('w, 'a) io \<Rightarrow> 'w rt \<Rightarrow> exn \<Rightarrow> bool" where
  "refuses m s e \<longleftrightarrow> result m s = Inl e \<and> ext (after m s) = ext s"

section \<open>The monad\<close>

lemma ret_run [simp, io_simps]: "ret x s = (Inr x, s)"
  by (simp add: ret_def)

lemma raise_run [simp, io_simps]: "raise e s = (Inl e, s)"
  by (simp add: raise_def)

lemma ask_run [simp, io_simps]: "ask f s = (Inr (f s), s)"
  by (simp add: ask_def)

lemma emit_run [simp, io_simps]: "emit l s = (Inr (), write_log l s)"
  by (simp add: emit_def)

lemma bnd_run [io_simps]:
  "bnd m f s = (case m s of (Inl e, s') \<Rightarrow> (Inl e, s') | (Inr x, s') \<Rightarrow> f x s')"
  by (simp add: bnd_def)

lemma bnd_run_Inl [simp]: "m s = (Inl e, s') \<Longrightarrow> bnd m f s = (Inl e, s')"
  by (simp add: bnd_def)

lemma bnd_run_Inr [simp]: "m s = (Inr x, s') \<Longrightarrow> bnd m f s = f x s'"
  by (simp add: bnd_def)

lemma bnd_ret [simp]: "bnd (ret x) f = f x"
  by (simp add: bnd_def fun_eq_iff)

lemma bnd_raise [simp]: "bnd (raise e) f = raise e"
  by (simp add: bnd_def fun_eq_iff)

lemma bnd_ret_right [simp]: "bnd m ret = m"
  by (auto simp: bnd_def fun_eq_iff split: prod.splits sum.splits)

lemma bnd_assoc: "bnd (bnd m f) g = bnd m (\<lambda>x. bnd (f x) g)"
  by (auto simp: bnd_def fun_eq_iff split: prod.splits sum.splits)

lemma mapv_run [io_simps]:
  "mapv f m s = (case m s of (Inl e, s') \<Rightarrow> (Inl e, s') | (Inr x, s') \<Rightarrow> (Inr (f x), s'))"
  by (simp add: mapv_def bnd_def split: prod.splits sum.splits)

lemma try_with_run [io_simps]:
  "try_with m h s = (case m s of (Inl e, s') \<Rightarrow> h e s' | (Inr x, s') \<Rightarrow> (Inr x, s'))"
  by (simp add: try_with_def)

lemma try_finally_run [io_simps]: "try_finally m f s = (case m s of (r, s') \<Rightarrow> (r, f s'))"
  by (simp add: try_finally_def)

lemma outside_run [io_simps]:
  "outside f s = (case f (ext s) of (x, w) \<Rightarrow> (Inr x, s\<lparr>ext := w\<rparr>))"
  by (simp add: outside_def)

lemma write_log_simps [simp]:
  "auth_ctx (write_log l s) = auth_ctx s"
  "request_ctx (write_log l s) = request_ctx s"
  "channel_open (write_log l s) = channel_open s"
  "ext (write_log l s) = ext s"
  "log_lines (write_log l s) = log_lines s @ [stamp l s]"
  by (simp_all add: write_log_def)

lemma from_ctx_run [io_simps]:
  "from_ctx f s = (case auth_ctx s of None \<Rightarrow> Inl (OtherError ''AttributeError'') | Some ctx \<Rightarrow> Inr (f ctx), s)"
  by (simp add: from_ctx_def bnd_run split: option.splits)

lemma refusesI: "m s = (Inl e, s') \<Longrightarrow> ext s' = ext s \<Longrightarrow> refuses m s e"
  by (simp add: refuses_def result_def after_def)

lemma refuses_bnd: "refuses m s e \<Longrightarrow> refuses (bnd m f) s e"
  by (auto simp: refuses_def result_def after_def bnd_def split: prod.splits sum.splits)

section \<open>Calls to the core\<close>

text \<open>
  A stub method takes the request, the metadata with the deadline, and the world; it answers
  a gRPC error or a response. Its behaviour is the core's, so every method the use cases call
  is a parameter of the model, in a record per service.
\<close>

record call_opts =
  co_metadata :: "(string \<times> string) list"
  co_timeout :: "real option"

type_synonym ('w, 'q, 'r) rpc =
  "'q \<Rightarrow> call_opts \<Rightarrow> 'w \<Rightarrow> ((grpc_status \<times> string option) + 'r) \<times> 'w"

definition call :: "('w, 'q, 'r) rpc \<Rightarrow> 'q \<Rightarrow> call_opts \<Rightarrow> ('w, 'r) io" where
  "call rpc req opts = (\<lambda>s. case rpc req opts (ext s) of
      (Inl (code, detail), w) \<Rightarrow> (Inl (AioRpcError code detail), s\<lparr>ext := w\<rparr>)
    | (Inr resp, w) \<Rightarrow> (Inr resp, s\<lparr>ext := w\<rparr>))"

text \<open>
  What the process takes from outside: its settings, \<^verbatim>\<open>uuid.uuid4().hex\<close>, \<^verbatim>\<open>time.time()\<close> and
  HMAC-SHA256 in hexadecimal.
\<close>

record 'w env =
  cfg :: settings
  uuid4_hex :: "'w \<Rightarrow> string \<times> 'w"
  time_now :: "'w \<Rightarrow> real \<times> 'w"
  hmac_sha256_hex :: "string \<Rightarrow> string \<Rightarrow> string"

lemma call_run [io_simps]:
  "call rpc req opts s = (case rpc req opts (ext s) of
      (Inl (code, detail), w) \<Rightarrow> (Inl (AioRpcError code detail), s\<lparr>ext := w\<rparr>)
    | (Inr resp, w) \<Rightarrow> (Inr resp, s\<lparr>ext := w\<rparr>))"
  by (simp add: call_def)

text \<open>
  A core that answers every request with one fixed answer and counts the calls: the witnesses
  run on it, with the number of calls as the world.
\<close>

definition answering :: "'r \<Rightarrow> (nat, 'q, 'r) rpc" where
  "answering r = (\<lambda>req opts n. (Inr r, Suc n))"

definition failing :: "grpc_status \<Rightarrow> string \<Rightarrow> (nat, 'q, 'r) rpc" where
  "failing c d = (\<lambda>req opts n. (Inl (c, Some d), Suc n))"

definition demo_settings :: settings where
  "demo_settings = \<lparr>core_deadline_s = 10, agent_turn_deadline_s = 600, call_auth_key = '''',
     firebase_project = ''dop-local'', firebase_auth_emulator_host = '''',
     firebase_auth_domain = '''', sse_ping_s = 15, sse_retry_ms = 3000\<rparr>"

definition demo_env :: "nat env" where
  "demo_env = \<lparr>cfg = demo_settings, uuid4_hex = (\<lambda>n. (''0f'', n)), time_now = (\<lambda>n. (1000, n)),
     hmac_sha256_hex = (\<lambda>k p. k)\<rparr>"

definition demo_principal :: principal where
  "demo_principal = \<lparr>p_subject = ''sub-1'', p_email = ''ana@dop.dev'', p_email_verified = True,
     p_name = ''Ana'', p_avatar_url = '''', p_providers = [''google.com''], p_session_id = ''5e55''\<rparr>"

definition demo_ctx :: "string \<Rightarrow> string \<Rightarrow> auth_context" where
  "demo_ctx account role = \<lparr>a_principal = demo_principal, a_raw_token = ''tok'',
     a_user_id = ''u-1'', a_account_id = account, a_role = role, a_grants = Map.empty\<rparr>"

definition demo_rt :: "auth_context option \<Rightarrow> nat rt" where
  "demo_rt ctx = \<lparr>auth_ctx = ctx, request_ctx = [''request_id'' \<mapsto> ''r-1''], channel_open = True,
     log_lines = [], ext = 0\<rparr>"

lemmas demo_defs = answering_def failing_def demo_settings_def demo_env_def demo_principal_def
  demo_ctx_def demo_rt_def

end
