(* ===== verification/Base64.thy ===== *)
theory Base64
  imports Prelude
begin

text \<open>
  The part of Python's \<^verbatim>\<open>base64\<close> module the program uses, on bytes as characters:
  \<^verbatim>\<open>b64encode\<close>, \<^verbatim>\<open>urlsafe_b64encode\<close>, \<^verbatim>\<open>b64decode\<close> with and without \<^verbatim>\<open>validate\<close>, and
  \<^verbatim>\<open>urlsafe_b64decode\<close>. The decoder is the library's loop: one character at a time, skipping
  what is not in the alphabet unless \<open>strict\<close>, stopping at a complete padding. The code relies
  on the round trip, which is proved here for both alphabets.
\<close>

section \<open>The alphabet\<close>

definition b64_alphabet :: string where
  "b64_alphabet = ''ABCDEFGHIJKLMNOPQRSTUVWXYZabcdefghijklmnopqrstuvwxyz0123456789+/''"

definition b64_char :: "nat \<Rightarrow> char" where
  "b64_char v = b64_alphabet ! v"

text \<open>The value of a character, by its position in the alphabet; 64 for any other.\<close>

fun index_of :: "'a \<Rightarrow> 'a list \<Rightarrow> nat" where
  "index_of x [] = 0"
| "index_of x (y # ys) = (if x = y then 0 else Suc (index_of x ys))"

definition b64_value :: "char \<Rightarrow> nat" where
  "b64_value c = index_of c b64_alphabet"

lemma length_b64_alphabet: "length b64_alphabet = 64"
  by (simp add: b64_alphabet_def)

lemma index_of_nth: "distinct xs \<Longrightarrow> i < length xs \<Longrightarrow> index_of (xs ! i) xs = i"
proof (induction xs arbitrary: i)
  case (Cons x xs)
  then show ?case by (cases i) auto
qed simp

lemma b64_value_char [simp]: "v < 64 \<Longrightarrow> b64_value (b64_char v) = v"
  using index_of_nth [of b64_alphabet v] length_b64_alphabet
  by (simp add: b64_value_def b64_char_def b64_alphabet_def)

lemma b64_char_in: "v < 64 \<Longrightarrow> b64_char v \<in> set b64_alphabet"
  by (simp add: b64_char_def length_b64_alphabet)

lemma b64_char_not [simp]: "v < 64 \<Longrightarrow> b64_char v \<noteq> CHR ''=''"
  "v < 64 \<Longrightarrow> b64_char v \<noteq> CHR ''-''" "v < 64 \<Longrightarrow> b64_char v \<noteq> CHR ''_''"
  "v < 64 \<Longrightarrow> b64_char v \<noteq> CHR ''.''" "v < 64 \<Longrightarrow> b64_char v \<noteq> CHR ''|''"
  using b64_char_in [of v] by (auto simp: b64_alphabet_def)

lemma b64_char_ascii [simp]: "v < 64 \<Longrightarrow> (of_char (b64_char v) :: nat) < 128"
  using b64_char_in [of v] by (auto simp: b64_alphabet_def)

section \<open>Encoding\<close>

text \<open>The characters before the padding, three bytes to four characters at a time.\<close>

fun b64_core :: "string \<Rightarrow> string" where
  "b64_core [] = []"
| "b64_core [a] = (let x = of_char a in [b64_char (x div 4), b64_char (x mod 4 * 16)])"
| "b64_core [a, b] = (let x = of_char a; y = of_char b in
     [b64_char (x div 4), b64_char (x mod 4 * 16 + y div 16), b64_char (y mod 16 * 4)])"
| "b64_core (a # b # c # r) = (let x = of_char a; y = of_char b; z = of_char c in
     b64_char (x div 4) # b64_char (x mod 4 * 16 + y div 16)
     # b64_char (y mod 16 * 4 + z div 64) # b64_char (z mod 64) # b64_core r)"

fun b64_pad :: "string \<Rightarrow> string" where
  "b64_pad [] = []"
| "b64_pad [a] = ''==''"
| "b64_pad [a, b] = ''=''"
| "b64_pad (a # b # c # r) = b64_pad r"

definition b64encode :: "string \<Rightarrow> string" where
  "b64encode bs = b64_core bs @ b64_pad bs"

definition to_urlsafe :: "char \<Rightarrow> char" where
  "to_urlsafe c = (if c = CHR ''+'' then CHR ''-'' else if c = CHR ''/'' then CHR ''_'' else c)"

definition of_urlsafe :: "char \<Rightarrow> char" where
  "of_urlsafe c = (if c = CHR ''-'' then CHR ''+'' else if c = CHR ''_'' then CHR ''/'' else c)"

definition urlsafe_b64encode :: "string \<Rightarrow> string" where
  "urlsafe_b64encode bs = map to_urlsafe (b64encode bs)"

text \<open>\<^verbatim>\<open>rstrip(b"=")\<close>, and the padding \<^verbatim>\<open>"=" * (-len(segment) % 4)\<close> that puts it back.\<close>

definition rstrip_eq :: "string \<Rightarrow> string" where
  "rstrip_eq s = rev (dropWhile (\<lambda>c. c = CHR ''='') (rev s))"

definition repad :: "string \<Rightarrow> string" where
  "repad s = s @ replicate ((4 - length s mod 4) mod 4) CHR ''=''"

section \<open>Decoding\<close>

text \<open>
  The state of the loop: the position in the quad, the bits left over, the padding seen, and
  whether padding has started (only the strict mode looks at that).
\<close>

fun a2b :: "bool \<Rightarrow> nat \<Rightarrow> nat \<Rightarrow> nat \<Rightarrow> bool \<Rightarrow> string \<Rightarrow> string option" where
  "a2b strict q left pads started [] = (if q = 0 then Some [] else None)"
| "a2b strict q left pads started (c # cs) =
     (if c = CHR ''='' then
        (if 2 \<le> q \<and> 4 \<le> q + Suc pads then (if strict \<and> cs \<noteq> [] then None else Some [])
         else a2b strict q left (if 2 \<le> q then Suc pads else pads) True cs)
      else let v = b64_value c in
        if 64 \<le> v then (if strict then None else a2b strict q left pads started cs)
        else if strict \<and> started then None
        else if q = 0 then a2b strict 1 v 0 started cs
        else if q = 1 then
          map_option ((#) (char_of (left * 4 + v div 16))) (a2b strict 2 (v mod 16) 0 started cs)
        else if q = 2 then
          map_option ((#) (char_of (left * 16 + v div 4))) (a2b strict 3 (v mod 4) 0 started cs)
        else map_option ((#) (char_of (left * 64 + v))) (a2b strict 0 0 0 started cs))"

text \<open>A string with a character outside ASCII, or one that strictly starts with padding, is refused.\<close>

definition b64decode :: "bool \<Rightarrow> string \<Rightarrow> string option" where
  "b64decode validate s =
     (if (\<exists>c \<in> set s. 128 \<le> (of_char c :: nat)) then None
      else if validate \<and> startswith ''='' s then None
      else a2b validate 0 0 0 False s)"

definition urlsafe_b64decode :: "string \<Rightarrow> string option" where
  "urlsafe_b64decode s = b64decode False (map of_urlsafe s)"

section \<open>Round trips\<close>

lemma of_char_bound: "(of_char c :: nat) < 256"
  by simp

lemma hi4: "(y :: nat) < 256 \<Longrightarrow> y div 16 < 16"
  by (simp add: less_mult_imp_div_less)

lemma hi2: "(z :: nat) < 256 \<Longrightarrow> z div 64 < 4"
  by (simp add: less_mult_imp_div_less)

lemma sextet1 [simp]: "(x :: nat) < 256 \<Longrightarrow> x div 4 < 64"
  by (simp add: less_mult_imp_div_less)

lemma sextet2 [simp]: "(y :: nat) < 256 \<Longrightarrow> x mod 4 * 16 + y div 16 < 64"
  using hi4 [of y] mod_less_divisor [of 4 x] by linarith

lemma sextet3 [simp]: "(z :: nat) < 256 \<Longrightarrow> y mod 16 * 4 + z div 64 < 64"
  using hi2 [of z] mod_less_divisor [of 16 y] by linarith

lemma sextet4 [simp]: "x mod 4 * 16 < (64::nat)" "y mod 16 * 4 < (64::nat)" "z mod 64 < (64::nat)"
  using mod_less_divisor [of 4 x] mod_less_divisor [of 16 y] by (linarith, linarith, simp)

lemma byte1_parts: "(y :: nat) < 256 \<Longrightarrow> y div 16 div 16 = 0 \<and> y div 16 mod 16 = y div 16"
  using hi4 [of y] by simp

lemma byte2_parts: "y div 16 * 16 + y mod 16 = (y :: nat)"
  by simp

lemma byte3_parts:
  "(z :: nat) < 256 \<Longrightarrow> z div 64 div 4 = 0 \<and> z div 64 mod 4 = z div 64
     \<and> z div 64 * 64 + z mod 64 = z"
  using hi2 [of z] by simp

text \<open>One step of the decoder on a character the encoder produced.\<close>

lemma a2b_char:
  assumes "v < 64" and "\<not> (strict \<and> started)"
  shows "a2b strict q left pads started (b64_char v # cs) =
    (if q = 0 then a2b strict 1 v 0 started cs
     else if q = 1 then
       map_option ((#) (char_of (left * 4 + v div 16))) (a2b strict 2 (v mod 16) 0 started cs)
     else if q = 2 then
       map_option ((#) (char_of (left * 16 + v div 4))) (a2b strict 3 (v mod 4) 0 started cs)
     else map_option ((#) (char_of (left * 64 + v))) (a2b strict 0 0 0 started cs))"
  using assms by (auto simp: Let_def)

declare a2b.simps(2) [simp del]

lemma a2b_two: "a2b strict 2 left 0 False ''=='' = Some []"
  by (simp add: a2b.simps)

lemma a2b_one: "a2b strict 3 left 0 False ''='' = Some []"
  by (simp add: a2b.simps)

lemma a2b_encode: "a2b strict 0 0 0 False (b64encode bs) = Some bs"
proof (induction bs rule: b64_core.induct)
  case (2 a)
  then show ?case
    by (simp add: b64encode_def Let_def a2b_char of_char_bound a2b_two)
next
  case (3 a b)
  then show ?case
    by (simp add: b64encode_def Let_def a2b_char of_char_bound a2b_one byte1_parts byte2_parts)
next
  case (4 a b c r)
  then show ?case
    by (simp add: b64encode_def Let_def a2b_char of_char_bound byte1_parts byte2_parts byte3_parts)
qed (simp add: b64encode_def)

lemma b64_charI: "v < 64 \<Longrightarrow> b64_char v \<in> b64_char ` {..<64}"
  by simp

lemma set_b64_core: "set (b64_core bs) \<subseteq> b64_char ` {..<64}"
  by (induction bs rule: b64_core.induct)
     (simp_all add: Let_def b64_charI of_char_bound)

lemma set_b64_pad: "set (b64_pad bs) \<subseteq> {CHR ''=''}"
  by (induction bs rule: b64_pad.induct) simp_all

lemma b64_core_char:
  assumes "c \<in> set (b64_core bs)"
  obtains v where "v < 64" and "c = b64_char v"
  using assms set_b64_core [of bs] by auto

lemma b64_core_chars:
  assumes "c \<in> set (b64_core bs)"
  shows "c \<noteq> CHR ''='' \<and> c \<noteq> CHR ''-'' \<and> c \<noteq> CHR ''_'' \<and> c \<noteq> CHR ''.'' \<and> c \<noteq> CHR ''|''
    \<and> (of_char c :: nat) < 128"
  using assms by (auto elim!: b64_core_char)

lemma b64encode_char:
  "c \<in> set (b64encode bs) \<Longrightarrow> c \<noteq> CHR ''-'' \<and> c \<noteq> CHR ''_'' \<and> (of_char c :: nat) < 128"
  using set_b64_pad [of bs] by (auto simp: b64encode_def dest: b64_core_chars)

lemma b64encode_head: "\<not> startswith ''='' (b64encode bs)"
  by (induction bs rule: b64_core.induct)
     (simp_all add: b64encode_def startswith_def Let_def of_char_bound)

theorem b64decode_encode [simp]: "b64decode validate (b64encode bs) = Some bs"
proof -
  have "\<not> (\<exists>c \<in> set (b64encode bs). 128 \<le> (of_char c :: nat))"
    using b64encode_char by (auto simp: not_le)
  then show ?thesis using b64encode_head [of bs] by (simp add: b64decode_def a2b_encode)
qed

lemma of_to_urlsafe: "c \<noteq> CHR ''-'' \<Longrightarrow> c \<noteq> CHR ''_'' \<Longrightarrow> of_urlsafe (to_urlsafe c) = c"
  by (simp add: to_urlsafe_def of_urlsafe_def)

theorem urlsafe_round_trip [simp]: "urlsafe_b64decode (urlsafe_b64encode bs) = Some bs"
proof -
  have "map of_urlsafe (map to_urlsafe (b64encode bs)) = b64encode bs"
    by (auto simp: of_to_urlsafe dest: b64encode_char intro!: map_idI)
  then show ?thesis by (simp add: urlsafe_b64decode_def urlsafe_b64encode_def)
qed

section \<open>Dropping and restoring the padding\<close>

lemma length_b64: "length (b64_core bs) mod 4 = (4 - length (b64_pad bs)) mod 4"
  by (induction bs rule: b64_core.induct) (simp_all add: Let_def)

lemma b64_pad_cases: "b64_pad bs = [] \<or> b64_pad bs = ''='' \<or> b64_pad bs = ''==''"
  by (induction bs rule: b64_pad.induct) simp_all

lemma rstrip_eq_fresh:
  assumes "CHR ''='' \<notin> set s"
  shows "rstrip_eq (s @ replicate n CHR ''='') = s"
proof -
  have "dropWhile (\<lambda>c. c = CHR ''='') (replicate n CHR ''='' @ rev s)
      = dropWhile (\<lambda>c. c = CHR ''='') (rev s)"
    by (induction n) simp_all
  also have "\<dots> = rev s"
    using assms by (metis (full_types) dropWhile_eq_self_iff hd_in_set set_rev)
  finally show ?thesis by (simp add: rstrip_eq_def)
qed

definition url_core :: "string \<Rightarrow> string" where
  "url_core bs = map to_urlsafe (b64_core bs)"

lemma url_core_not_eq: "CHR ''='' \<notin> set (url_core bs)" "CHR ''.'' \<notin> set (url_core bs)"
  by (auto simp: url_core_def to_urlsafe_def dest: b64_core_chars split: if_splits)

lemma rstrip_urlsafe: "rstrip_eq (urlsafe_b64encode bs) = url_core bs"
proof -
  obtain n where "b64_pad bs = replicate n CHR ''=''"
    using b64_pad_cases [of bs] by (metis replicate.simps)
  then have "urlsafe_b64encode bs = url_core bs @ replicate n CHR ''=''"
    by (simp add: urlsafe_b64encode_def b64encode_def url_core_def to_urlsafe_def)
  then show ?thesis using url_core_not_eq by (simp add: rstrip_eq_fresh)
qed

lemma repad_url_core: "repad (url_core bs) = urlsafe_b64encode bs"
proof -
  have "b64_pad bs = replicate ((4 - length (b64_core bs) mod 4) mod 4) CHR ''=''"
    using b64_pad_cases [of bs] unfolding length_b64 [of bs]
    by (elim disjE) (simp_all add: numeral_2_eq_2)
  then show ?thesis
    by (simp add: repad_def url_core_def urlsafe_b64encode_def b64encode_def to_urlsafe_def)
qed

theorem unpadded_round_trip:
  "urlsafe_b64decode (repad (rstrip_eq (urlsafe_b64encode bs))) = Some bs"
  by (simp add: rstrip_urlsafe repad_url_core)

end
