(* ===== verification/Callauth.thy ===== *)
theory Callauth
  imports Effects Base64
begin

text \<open>
  \<^verbatim>\<open>app/coreclient/callauth.py\<close>: the assertion the edge signs for every call to the core. The
  wire format is \<^verbatim>\<open>base64url(payload) "." hex(hmac)\<close> with the payload's fields separated by
  \<^verbatim>\<open>|\<close>; \<open>read_assertion\<close> is the reader of that format, and the theorems say that what was
  signed is exactly what a reader finds, so no two claims share an assertion.
\<close>

definition SEPARATORS :: string where
  "SEPARATORS = ''|.''"

definition TTL_SECONDS :: real where
  "TTL_SECONDS = 120"

text \<open>\<^verbatim>\<open>int(x)\<close> of a float, and \<^verbatim>\<open>str(n)\<close> of an integer.\<close>

definition py_int :: "real \<Rightarrow> int" where
  "py_int x = (if 0 \<le> x then \<lfloor>x\<rfloor> else \<lceil>x\<rceil>)"

definition digits :: string where
  "digits = ''0123456789''"

fun str_nat :: "nat \<Rightarrow> string" where
  "str_nat n = (if n < 10 then [digits ! n] else str_nat (n div 10) @ [digits ! (n mod 10)])"

declare str_nat.simps [simp del]

definition str_int :: "int \<Rightarrow> string" where
  "str_int i = (if i < 0 then CHR ''-'' # str_nat (nat (- i)) else str_nat (nat i))"

record claim =
  c_caller :: string
  c_actor_id :: string
  c_actor_kind :: string
  c_account_id :: string
  c_session_id :: string

definition claim_fields :: "claim \<Rightarrow> real \<Rightarrow> string list" where
  "claim_fields c now = [c_caller c, c_actor_id c, c_actor_kind c, c_account_id c, c_session_id c,
     str_int (py_int (now + TTL_SECONDS))]"

definition has_separator :: "string \<Rightarrow> bool" where
  "has_separator f \<longleftrightarrow> (\<exists>sep \<in> set SEPARATORS. sep \<in> set f)"

text \<open>The exception carries the offending field, which its message shows.\<close>

definition sign_at :: "(string \<Rightarrow> string \<Rightarrow> string) \<Rightarrow> string \<Rightarrow> claim \<Rightarrow> real \<Rightarrow> exn + string" where
  "sign_at mac_of key c now =
     (let fields = claim_fields c now in
      case List.find has_separator fields of
        Some f \<Rightarrow> Inl (AssertionFailure f)
      | None \<Rightarrow>
          (let payload = join ''|'' fields; mac = mac_of key payload
           in Inr (rstrip_eq (urlsafe_b64encode payload) @ ''.'' @ mac)))"

definition sign :: "'w env \<Rightarrow> claim \<Rightarrow> ('w, string) io" where
  "sign env c = bnd (outside (time_now env)) (\<lambda>now.
     case sign_at (hmac_sha256_hex env) (call_auth_key (cfg env)) c now of
       Inl e \<Rightarrow> raise e
     | Inr a \<Rightarrow> ret a)"

text \<open>The reader of the wire format: the fields, and the hexadecimal MAC.\<close>

definition read_assertion :: "string \<Rightarrow> (string list \<times> string) option" where
  "read_assertion a = (case split_first ''.'' a of
       None \<Rightarrow> None
     | Some (b, mac) \<Rightarrow>
         map_option (\<lambda>payload. (py_split ''|'' payload, mac)) (urlsafe_b64decode (repad b)))"

section \<open>The expiry never collides with a separator\<close>

lemma set_str_nat: "set (str_nat n) \<subseteq> set digits"
proof (induction n rule: str_nat.induct)
  case (1 n)
  have len: "length digits = 10" by (simp add: digits_def)
  show ?case
  proof (cases "n < 10")
    case True
    then show ?thesis by (subst str_nat.simps) (simp add: len)
  next
    case False
    with 1 show ?thesis by (subst str_nat.simps) (simp add: len)
  qed
qed

lemma str_nat_char: "c \<in> set (str_nat n) \<Longrightarrow> c \<noteq> CHR ''|'' \<and> c \<noteq> CHR ''.''"
  using set_str_nat [of n] by (auto simp: digits_def)

lemma str_int_no_separator [simp]: "\<not> has_separator (str_int i)"
  by (auto simp: has_separator_def SEPARATORS_def str_int_def dest: str_nat_char)

lemma sign_at_cases:
  "sign_at mac_of key c now =
     (case List.find has_separator [c_caller c, c_actor_id c, c_actor_kind c, c_account_id c, c_session_id c] of
        Some f \<Rightarrow> Inl (AssertionFailure f)
      | None \<Rightarrow> (let payload = join ''|'' (claim_fields c now)
           in Inr (rstrip_eq (urlsafe_b64encode payload) @ ''.'' @ mac_of key payload)))"
  by (simp add: sign_at_def claim_fields_def Let_def str_int_no_separator)

lemma find_None_all: "List.find P xs = None \<longleftrightarrow> (\<forall>x \<in> set xs. \<not> P x)"
  by (auto simp: find_None_iff)

section \<open>Round trip\<close>

lemma sign_reads:
  assumes "sign_at mac_of key c now = Inr a"
  shows "read_assertion a =
    Some ([c_caller c, c_actor_id c, c_actor_kind c, c_account_id c, c_session_id c,
           str_int (py_int (now + 120))],
          mac_of key (join ''|'' [c_caller c, c_actor_id c, c_actor_kind c, c_account_id c,
           c_session_id c, str_int (py_int (now + 120))]))"
proof -
  let ?p = "join ''|'' (claim_fields c now)"
  from assms have fresh: "\<forall>f \<in> set (claim_fields c now). \<not> has_separator f"
    and a: "a = url_core ?p @ ''.'' @ mac_of key ?p"
    by (auto simp: sign_at_def Let_def rstrip_urlsafe find_None_all split: option.splits)
  have "split_first ''.'' a = Some (url_core ?p, mac_of key ?p)"
    using url_core_not_eq(2) [of ?p] by (simp add: a split_first_fresh [of "''.''", simplified])
  moreover have "py_split ''|'' ?p = claim_fields c now"
    using fresh by (intro py_split_join) (auto simp: has_separator_def SEPARATORS_def claim_fields_def)
  ultimately show ?thesis
    by (simp add: read_assertion_def repad_url_core claim_fields_def TTL_SECONDS_def)
qed

text \<open>
  C27. What was signed is what a reader finds: a successful signature decodes to the six fields
  of the claim, in order, with the MAC of exactly that payload under the shared key.
\<close>

theorem sign_round_trip:
  assumes "sign_at mac_of key c now = Inr a"
  shows "read_assertion a =
    Some ([c_caller c, c_actor_id c, c_actor_kind c, c_account_id c, c_session_id c,
           str_int (py_int (now + 120))],
          mac_of key (join ''|'' [c_caller c, c_actor_id c, c_actor_kind c, c_account_id c,
           c_session_id c, str_int (py_int (now + 120))]))"
  using assms by (rule sign_reads)

theorem sign_round_trip_witness:
  "read_assertion ''YmZmfHUxfHVzZXJ8YTF8czF8MTEyMA.k'' =
     Some ([''bff'', ''u1'', ''user'', ''a1'', ''s1'', ''1120''], ''k'')"
proof -
  let ?c = "\<lparr>c_caller = ''bff'', c_actor_id = ''u1'', c_actor_kind = ''user'',
    c_account_id = ''a1'', c_session_id = ''s1''\<rparr>"
  have "sign_at (\<lambda>key payload. key) ''k'' ?c 1000 = Inr ''YmZmfHUxfHVzZXJ8YTF8czF8MTEyMA.k''"
    by (simp add: sign_at_cases has_separator_def SEPARATORS_def claim_fields_def TTL_SECONDS_def
        py_int_def str_int_def str_nat.simps digits_def rstrip_urlsafe url_core_def b64_char_def
        b64_alphabet_def to_urlsafe_def Let_def)
  from sign_round_trip [OF this] show ?thesis
    by (simp add: py_int_def str_int_def str_nat.simps digits_def)
qed

text \<open>
  The signature covers the claim: two assertions under which anything differs (actor, kind,
  account, session or caller) are never the same string, and a field that carries a separator
  is refused rather than signed.
\<close>

theorem sign_injective_or_refused:
  "(\<forall>a. sign_at mac_of key c now = Inr a \<and> sign_at mac_of' key' c' now' = Inr a \<longrightarrow> c = c')
   \<and> ((\<exists>f. sign_at mac_of key c now = Inl (AssertionFailure f) \<and> has_separator f)
      \<longleftrightarrow> (\<exists>f \<in> {c_caller c, c_actor_id c, c_actor_kind c, c_account_id c, c_session_id c}.
            has_separator f))"
proof (intro conjI allI impI)
  fix a
  assume "sign_at mac_of key c now = Inr a \<and> sign_at mac_of' key' c' now' = Inr a"
  then have "read_assertion a = Some ([c_caller c, c_actor_id c, c_actor_kind c, c_account_id c,
      c_session_id c, str_int (py_int (now + 120))], snd (the (read_assertion a)))"
    "read_assertion a = Some ([c_caller c', c_actor_id c', c_actor_kind c', c_account_id c',
      c_session_id c', str_int (py_int (now' + 120))], snd (the (read_assertion a)))"
    using sign_reads by (metis option.sel snd_conv)+
  then have "[c_caller c, c_actor_id c, c_actor_kind c, c_account_id c, c_session_id c,
      str_int (py_int (now + 120))]
    = [c_caller c', c_actor_id c', c_actor_kind c', c_account_id c', c_session_id c',
      str_int (py_int (now' + 120))]"
    by (metis option.inject prod.inject)
  then show "c = c'" by simp
next
  show "(\<exists>f. sign_at mac_of key c now = Inl (AssertionFailure f) \<and> has_separator f)
      \<longleftrightarrow> (\<exists>f \<in> {c_caller c, c_actor_id c, c_actor_kind c, c_account_id c, c_session_id c}.
            has_separator f)"
    by (auto simp: sign_at_cases Let_def)
qed

theorem sign_injective_or_refused_witness:
  "(\<exists>f. sign_at (\<lambda>key payload. key) ''k'' \<lparr>c_caller = ''bff'', c_actor_id = ''u1'', c_actor_kind = ''user'',
      c_account_id = ''a|1'', c_session_id = ''s1''\<rparr> 1000 = Inl (AssertionFailure f) \<and> has_separator f)"
  using sign_injective_or_refused [of "\<lambda>key payload. key" "''k''"
    "\<lparr>c_caller = ''bff'', c_actor_id = ''u1'', c_actor_kind = ''user'',
      c_account_id = ''a|1'', c_session_id = ''s1''\<rparr>" 1000 "\<lambda>key payload. key" "''k''"
    "\<lparr>c_caller = ''bff'', c_actor_id = ''u1'', c_actor_kind = ''user'',
      c_account_id = ''a|1'', c_session_id = ''s1''\<rparr>" 1000]
  by (simp add: has_separator_def SEPARATORS_def)

end
