(* ===== verification/Errors.thy ===== *)
theory Errors
  imports Effects
begin

text \<open>
  \<^verbatim>\<open>app/platform/errors.py\<close>: the translation of the core's gRPC status into an HTTP answer and
  back, and the single writer of the detail a client sees. The interface \<open>error_writer\<close>
  states what every port promises: past 499 nothing of the core's message goes out.
\<close>

section \<open>The two tables\<close>

definition STATUS_TO_HTTP :: "(grpc_status \<times> int) list" where
  "STATUS_TO_HTTP =
     [(OK, 200), (INVALID_ARGUMENT, 400), (UNAUTHENTICATED, 401), (PERMISSION_DENIED, 403),
      (NOT_FOUND, 404), (ALREADY_EXISTS, 409), (ABORTED, 409), (FAILED_PRECONDITION, 412),
      (RESOURCE_EXHAUSTED, 429), (UNIMPLEMENTED, 501), (UNAVAILABLE, 503),
      (DEADLINE_EXCEEDED, 504)]"

definition http_status_for :: "grpc_status \<Rightarrow> int" where
  "http_status_for code = dict_get STATUS_TO_HTTP code 500"

definition HTTP_TO_STATUS :: "(int \<times> grpc_status) list" where
  "HTTP_TO_STATUS =
     [(400, INVALID_ARGUMENT), (401, UNAUTHENTICATED), (403, PERMISSION_DENIED),
      (404, NOT_FOUND), (409, ALREADY_EXISTS), (412, FAILED_PRECONDITION),
      (429, RESOURCE_EXHAUSTED), (501, UNIMPLEMENTED), (503, UNAVAILABLE),
      (504, DEADLINE_EXCEEDED)]"

definition grpc_status_for_http :: "int \<Rightarrow> grpc_status" where
  "grpc_status_for_http status = dict_get HTTP_TO_STATUS status INTERNAL"

section \<open>The writers\<close>

text \<open>\<^verbatim>\<open>exc.details() or "core error"\<close>.\<close>

definition details_or :: "string option \<Rightarrow> string \<Rightarrow> string" where
  "details_or d dflt = (case d of None \<Rightarrow> dflt | Some t \<Rightarrow> str_or t dflt)"

definition detail_for :: "string option \<Rightarrow> int \<Rightarrow> string" where
  "detail_for d status = (if 500 \<le> status then ''internal error'' else details_or d ''core error'')"

record json_response =
  jr_status :: int
  jr_detail :: string

definition grpc_exception_handler :: "grpc_status \<Rightarrow> string option \<Rightarrow> json_response" where
  "grpc_exception_handler code d =
     (let status = http_status_for code in \<lparr>jr_status = status, jr_detail = detail_for d status\<rparr>)"

definition as_http :: "grpc_status \<Rightarrow> string option \<Rightarrow> exn" where
  "as_http code d = (let status = http_status_for code in HTTPException status (detail_for d status))"

definition as_grpc :: "grpc_status \<Rightarrow> string option \<Rightarrow> grpc_status \<times> string" where
  "as_grpc code d = (code, detail_for d (http_status_for code))"

definition as_grpc_from_http :: "int \<Rightarrow> string \<Rightarrow> grpc_status \<times> string" where
  "as_grpc_from_http status_code detail =
     (grpc_status_for_http status_code,
      if 500 \<le> status_code then ''internal error'' else detail)"

lemma http_status_for_simps [simp]:
  "http_status_for OK = 200" "http_status_for CANCELLED = 500" "http_status_for UNKNOWN = 500"
  "http_status_for INVALID_ARGUMENT = 400" "http_status_for DEADLINE_EXCEEDED = 504"
  "http_status_for NOT_FOUND = 404" "http_status_for ALREADY_EXISTS = 409"
  "http_status_for PERMISSION_DENIED = 403" "http_status_for RESOURCE_EXHAUSTED = 429"
  "http_status_for FAILED_PRECONDITION = 412" "http_status_for ABORTED = 409"
  "http_status_for OUT_OF_RANGE = 500" "http_status_for UNIMPLEMENTED = 501"
  "http_status_for INTERNAL = 500" "http_status_for UNAVAILABLE = 503"
  "http_status_for DATA_LOSS = 500" "http_status_for UNAUTHENTICATED = 401"
  by (simp_all add: http_status_for_def STATUS_TO_HTTP_def dict_get_def)

lemma grpc_status_for_http_simps [simp]:
  "grpc_status_for_http 400 = INVALID_ARGUMENT" "grpc_status_for_http 401 = UNAUTHENTICATED"
  "grpc_status_for_http 403 = PERMISSION_DENIED" "grpc_status_for_http 404 = NOT_FOUND"
  "grpc_status_for_http 409 = ALREADY_EXISTS" "grpc_status_for_http 412 = FAILED_PRECONDITION"
  "grpc_status_for_http 429 = RESOURCE_EXHAUSTED" "grpc_status_for_http 501 = UNIMPLEMENTED"
  "grpc_status_for_http 503 = UNAVAILABLE" "grpc_status_for_http 504 = DEADLINE_EXCEEDED"
  "grpc_status_for_http 500 = INTERNAL" "grpc_status_for_http 200 = INTERNAL"
  "grpc_status_for_http 422 = INTERNAL"
  by (simp_all add: grpc_status_for_http_def HTTP_TO_STATUS_def dict_get_def)

lemma http_status_range: "200 \<le> http_status_for c \<and> http_status_for c \<le> 504"
  by (cases c) simp_all

section \<open>What every port promises\<close>

text \<open>
  A port writes a core error as some class of status and some detail. The contract: the
  class depends on the code alone, and for a server-side failure so does the detail, so two
  failures that differ only in the core's message look the same from outside.
\<close>

locale error_writer =
  fixes wr :: "grpc_status \<Rightarrow> string option \<Rightarrow> 'status \<times> string"
    and server_side :: "grpc_status \<Rightarrow> bool"
  assumes status_blind: "fst (wr c d) = fst (wr c d')"
    and server_side_blind: "server_side c \<Longrightarrow> snd (wr c d) = snd (wr c d')"
    and client_side_shown: "\<not> server_side c \<Longrightarrow> t \<noteq> [] \<Longrightarrow> snd (wr c (Some t)) = t"
begin

lemma no_leak: "server_side c \<Longrightarrow> wr c d = wr c d'"
  using status_blind [of c d d'] server_side_blind [of c d d'] by (simp add: prod_eq_iff)

lemma leak_free_or_client: "wr c (Some t) = wr c (Some t') \<or> t = [] \<or> t' = [] \<or>
    snd (wr c (Some t)) = t \<and> snd (wr c (Some t')) = t'"
  using no_leak client_side_shown by blast

end

definition is_server_side :: "grpc_status \<Rightarrow> bool" where
  "is_server_side c \<longleftrightarrow> 500 \<le> http_status_for c"

interpretation rest_writer: error_writer
  "\<lambda>c d. (jr_status (grpc_exception_handler c d), jr_detail (grpc_exception_handler c d))"
  is_server_side
  by unfold_locales
     (auto simp: grpc_exception_handler_def detail_for_def details_or_def is_server_side_def
        Let_def str_or_def)

interpretation grpc_writer: error_writer as_grpc is_server_side
  by unfold_locales
     (auto simp: as_grpc_def detail_for_def details_or_def is_server_side_def str_or_def)

text \<open>
  C26. A failure of the core's leaks through neither port: whenever the status is a 5xx, the REST
  answer and the gRPC answer are the same whatever the core wrote in its message.
\<close>

theorem server_error_detail_hidden:
  assumes "500 \<le> http_status_for code"
  shows "grpc_exception_handler code d = grpc_exception_handler code d'
    \<and> as_grpc code d = as_grpc code d' \<and> as_http code d = as_http code d'
    \<and> jr_detail (grpc_exception_handler code d) = ''internal error''
    \<and> snd (as_grpc code d) = ''internal error''"
proof -
  have s: "is_server_side code" using assms by (simp add: is_server_side_def)
  have "as_grpc code d = as_grpc code d'" by (rule grpc_writer.no_leak [OF s])
  moreover have "grpc_exception_handler code d = grpc_exception_handler code d'"
    using rest_writer.no_leak [OF s, of d d'] by simp
  ultimately show ?thesis using assms
    by (simp add: as_http_def as_grpc_def grpc_exception_handler_def detail_for_def)
qed

theorem server_error_detail_hidden_witness:
  "as_grpc UNAVAILABLE (Some ''host db-1 down'') = as_grpc UNAVAILABLE None"
  using server_error_detail_hidden [of UNAVAILABLE "Some ''host db-1 down''" None] by simp

text \<open>
  The two ports agree on a core error, and a status crosses intact. Handling the error on
  the gRPC port keeps the core's code, and answers the same detail as REST. An error that
  the resolver turned into an HTTP refusal and the interceptor turned back keeps its code too,
  for every code but \<^verbatim>\<open>OK\<close>, \<^verbatim>\<open>ABORTED\<close> (which shares 409 with \<^verbatim>\<open>ALREADY_EXISTS\<close>) and the four
  that the table does not list.
\<close>

theorem status_crosses_both_ports:
  "fst (as_grpc code d) = code
   \<and> snd (as_grpc code d) = jr_detail (grpc_exception_handler code d)
   \<and> (\<exists>st t. as_http code d = HTTPException st t
        \<and> st = jr_status (grpc_exception_handler code d)
        \<and> snd (as_grpc_from_http st t) = snd (as_grpc code d)
        \<and> (fst (as_grpc_from_http st t) = code
             \<longleftrightarrow> code \<notin> {OK, CANCELLED, UNKNOWN, ABORTED, OUT_OF_RANGE, DATA_LOSS}))"
  by (cases code)
     (auto simp: as_grpc_def as_http_def as_grpc_from_http_def grpc_exception_handler_def
        detail_for_def Let_def)

end
