(* ===== verification/CoreClient.thy ===== *)
theory CoreClient
  imports Callauth Errors
begin

text \<open>
  \<^verbatim>\<open>app/coreclient/client.py\<close>: the metadata every call to the core carries, the guarded channel,
  the idempotency key, and the cached service token. \<open>unary\<close> is the shape of almost every use
  case: create the stub, build the request, take the metadata, call with the deadline.
\<close>

section \<open>The metadata contract\<close>

definition current_request_id :: "'w rt \<Rightarrow> string" where
  "current_request_id s = (case request_ctx s ''request_id'' of None \<Rightarrow> [] | Some r \<Rightarrow> r)"

definition current_account_id :: "'w rt \<Rightarrow> string" where
  "current_account_id s = (case auth_ctx s of None \<Rightarrow> [] | Some ctx \<Rightarrow> a_account_id ctx)"

text \<open>The keyword arguments of \<^verbatim>\<open>metadata_for\<close>, with their defaults.\<close>

record md_args =
  m_user_id :: string
  m_account_id :: string
  m_actor_name :: string
  m_actor_kind :: string
  m_session_id :: string
  m_raw_token :: string

definition no_args :: md_args where
  "no_args = \<lparr>m_user_id = [], m_account_id = [], m_actor_name = [], m_actor_kind = ''user'',
     m_session_id = [], m_raw_token = []\<rparr>"

definition has_actor :: "md_args \<Rightarrow> bool" where
  "has_actor a \<longleftrightarrow> m_user_id a \<noteq> [] \<or> m_account_id a \<noteq> []"

definition claim_of :: "md_args \<Rightarrow> claim" where
  "claim_of a = \<lparr>c_caller = ''bff'', c_actor_id = m_user_id a,
     c_actor_kind = (if has_actor a then m_actor_kind a else ''system''),
     c_account_id = m_account_id a, c_session_id = m_session_id a\<rparr>"

definition metadata_for :: "'w env \<Rightarrow> md_args \<Rightarrow> ('w, (string \<times> string) list) io" where
  "metadata_for env a =
     bnd (ask current_request_id) (\<lambda>current.
     bnd (if current = [] then outside (uuid4_hex env) else ret current) (\<lambda>rid.
     bnd (if call_auth_key (cfg env) = [] then ret []
          else mapv (\<lambda>t. [(''x-dop-assertion'', t)]) (sign env (claim_of a))) (\<lambda>assertion.
     ret ([(''x-request-id'', rid)] @ assertion
       @ (if m_raw_token a = [] then [] else [(''authorization'', ''Bearer '' @ m_raw_token a)])
       @ (if has_actor a then
            [(''x-account-id'', m_account_id a), (''x-actor-id'', m_user_id a),
             (''x-actor-kind'', m_actor_kind a), (''x-actor-name'', m_actor_name a),
             (''x-session-id'', m_session_id a)]
          else [])))))"

definition ctx_args :: "auth_context option \<Rightarrow> md_args" where
  "ctx_args c = (case c of None \<Rightarrow> no_args
     | Some ctx \<Rightarrow> no_args\<lparr>m_user_id := a_user_id ctx, m_account_id := a_account_id ctx,
         m_actor_name := actor_name (a_principal ctx),
         m_session_id := p_session_id (a_principal ctx), m_raw_token := a_raw_token ctx\<rparr>)"

definition core_metadata :: "'w env \<Rightarrow> ('w, (string \<times> string) list) io" where
  "core_metadata env = bnd (ask auth_ctx) (\<lambda>c. metadata_for env (ctx_args c))"

section \<open>Calling the core\<close>

definition channel :: "('w, unit) io" where
  "channel = bnd (ask channel_open)
     (\<lambda>up. if up then ret () else raise (RuntimeError ''CoreClient not started''))"

definition opts_of :: "'w env \<Rightarrow> (string \<times> string) list \<Rightarrow> call_opts" where
  "opts_of env md = \<lparr>co_metadata = md, co_timeout = Some (core_deadline_s (cfg env))\<rparr>"

definition idempotency_key :: "'w env \<Rightarrow> ('w, string) io" where
  "idempotency_key env = outside (uuid4_hex env)"

text \<open>\<^verbatim>\<open>_idempotency(key)\<close> of the use cases: the client's key, or one of ours.\<close>

definition idempotency :: "'w env \<Rightarrow> string \<Rightarrow> ('w, string) io" where
  "idempotency env key = (if key = [] then idempotency_key env else ret key)"

definition unary_by :: "real \<Rightarrow> 'w env \<Rightarrow> ('w, 'q, 'r) rpc \<Rightarrow> ('w, 'q) io \<Rightarrow> ('w, 'r) io" where
  "unary_by timeout env rpc request =
     bnd channel (\<lambda>_. bnd request (\<lambda>req. bnd (core_metadata env) (\<lambda>md.
       call rpc req \<lparr>co_metadata = md, co_timeout = Some timeout\<rparr>)))"

definition unary :: "'w env \<Rightarrow> ('w, 'q, 'r) rpc \<Rightarrow> ('w, 'q) io \<Rightarrow> ('w, 'r) io" where
  "unary env = unary_by (core_deadline_s (cfg env)) env"

section \<open>The service's own token\<close>

text \<open>
  \<^verbatim>\<open>_ServiceIdentity\<close> and \<^verbatim>\<open>FirebaseAdmin\<close> cache a token of the metadata server in the same two
  attributes, and renew it 300 seconds early.
\<close>

record token_cache =
  tc_token :: string
  tc_expires_at :: real

definition no_token :: token_cache where
  "no_token = \<lparr>tc_token = [], tc_expires_at = 0\<rparr>"

definition SKEW :: real where
  "SKEW = 300"

text \<open>
  \<^verbatim>\<open>_fresh_token\<close>: \<open>fetched\<close> is what the metadata server would answer now, an exception or the
  response's text.
\<close>

definition fresh_token :: "token_cache \<Rightarrow> real \<Rightarrow> exn + string \<Rightarrow> (exn + string) \<times> token_cache" where
  "fresh_token c now fetched =
     (if tc_token c \<noteq> [] \<and> now < tc_expires_at c - SKEW then (Inr (tc_token c), c)
      else case fetched of
        Inl e \<Rightarrow> (Inl e, c)
      | Inr text \<Rightarrow> (Inr (strip text), \<lparr>tc_token = strip text, tc_expires_at = now + 3600\<rparr>))"

text \<open>The plugin's \<^verbatim>\<open>__call__\<close>: the header, or the exception handed to gRPC as the call's error.\<close>

definition service_identity :: "token_cache \<Rightarrow> real \<Rightarrow> exn + string
    \<Rightarrow> ((string \<times> string) list \<times> exn option) \<times> token_cache" where
  "service_identity c now fetched = (case fresh_token c now fetched of
      (Inl e, c') \<Rightarrow> (([], Some e), c')
    | (Inr t, c') \<Rightarrow> (([(''x-serverless-authorization'', ''Bearer '' @ t)], None), c'))"

section \<open>Lemmas on the monadic pieces\<close>

lemma channel_run [simp, io_simps]:
  "channel s = (if channel_open s then Inr () else Inl (RuntimeError ''CoreClient not started''), s)"
  by (simp add: channel_def bnd_def)

lemma idempotency_given [simp]: "key \<noteq> [] \<Longrightarrow> idempotency env key = ret key"
  by (simp add: idempotency_def)

lemma call_iff_Inr: "call rpc req opts s = (Inr r, s') \<longleftrightarrow> (\<exists>w. rpc req opts (ext s) = (Inr r, w) \<and> s' = s\<lparr>ext := w\<rparr>)"
  by (auto simp: call_run split: prod.splits sum.splits)

lemmas call_Inr = call_iff_Inr [THEN iffD1]

lemma bnd_Inr: "bnd m f s = (Inr y, s') \<longleftrightarrow> (\<exists>x s1. m s = (Inr x, s1) \<and> f x s1 = (Inr y, s'))"
  by (auto simp: bnd_run split: prod.splits sum.splits)

lemma mapv_Inr: "mapv f m s = (Inr y, s') \<longleftrightarrow> (\<exists>x. m s = (Inr x, s') \<and> y = f x)"
  by (auto simp: mapv_run split: prod.splits sum.splits)

lemma channel_Inr: "channel s = (Inr u, s') \<longleftrightarrow> channel_open s \<and> s' = s"
  by auto

text \<open>
  A call that succeeded: the channel was up, the metadata was the context's, and the core
  answered \<open>resp\<close> to exactly that request.
\<close>

definition asked :: "'w env \<Rightarrow> ('w, 'q, 'r) rpc \<Rightarrow> 'q \<Rightarrow> 'w rt \<Rightarrow> 'r \<Rightarrow> 'w rt \<Rightarrow> bool" where
  "asked env rpc req s resp s' \<longleftrightarrow> channel_open s \<and>
     (\<exists>md s1 w. core_metadata env s = (Inr md, s1) \<and> rpc req (opts_of env md) (ext s1) = (Inr resp, w)
        \<and> s' = s1\<lparr>ext := w\<rparr>)"

lemma unary_Inr: "unary env rpc request s = (Inr resp, s') \<longleftrightarrow>
    channel_open s \<and> (\<exists>req s1 md s2 w. request s = (Inr req, s1) \<and> core_metadata env s1 = (Inr md, s2)
      \<and> rpc req (opts_of env md) (ext s2) = (Inr resp, w) \<and> s' = s2\<lparr>ext := w\<rparr>)"
  by (simp add: unary_def unary_by_def bnd_Inr opts_of_def call_iff_Inr channel_Inr conj_commute)

lemma unary_asked: "unary env rpc (ret req) s = (Inr resp, s') \<longleftrightarrow> asked env rpc req s resp s'"
  by (auto simp: unary_Inr asked_def)

lemma unary_from_ctx: "unary env rpc (from_ctx f) s = (Inr resp, s') \<longleftrightarrow>
    (\<exists>ctx. auth_ctx s = Some ctx \<and> asked env rpc (f ctx) s resp s')"
  by (auto simp: unary_Inr asked_def io_simps split: option.splits)

lemma idempotency_Inr: "idempotency env key s = (Inr k, s') \<longleftrightarrow>
    (if key = [] then \<exists>w. uuid4_hex env (ext s) = (k, w) \<and> s' = s\<lparr>ext := w\<rparr> else k = key \<and> s' = s)"
  by (auto simp: idempotency_def idempotency_key_def io_simps split: prod.splits)

lemma unary_closed: "\<not> channel_open s \<Longrightarrow>
    refuses (unary env rpc request) s (RuntimeError ''CoreClient not started'')"
  by (simp add: refuses_def result_def after_def unary_def unary_by_def bnd_def)

lemma metadata_for_state:
  "metadata_for env a s = (r, s') \<Longrightarrow> auth_ctx s' = auth_ctx s \<and> request_ctx s' = request_ctx s
     \<and> channel_open s' = channel_open s \<and> log_lines s' = log_lines s"
  by (auto simp: metadata_for_def sign_def io_simps split: prod.splits sum.splits if_splits)

lemma core_metadata_state:
  "core_metadata env s = (r, s') \<Longrightarrow> auth_ctx s' = auth_ctx s \<and> request_ctx s' = request_ctx s
     \<and> channel_open s' = channel_open s \<and> log_lines s' = log_lines s"
  by (auto simp: core_metadata_def io_simps dest: metadata_for_state)

text \<open>
  With no signing key and a request id at hand, the metadata is a function of the context: the
  shape every use case's witness runs on.
\<close>

definition plain_metadata :: "md_args \<Rightarrow> string \<Rightarrow> (string \<times> string) list" where
  "plain_metadata a rid = [(''x-request-id'', rid)]
     @ (if m_raw_token a = [] then [] else [(''authorization'', ''Bearer '' @ m_raw_token a)])
     @ (if has_actor a then
          [(''x-account-id'', m_account_id a), (''x-actor-id'', m_user_id a),
           (''x-actor-kind'', m_actor_kind a), (''x-actor-name'', m_actor_name a),
           (''x-session-id'', m_session_id a)]
        else [])"

lemma metadata_for_plain:
  "call_auth_key (cfg env) = [] \<Longrightarrow> current_request_id s \<noteq> [] \<Longrightarrow>
   metadata_for env a s = (Inr (plain_metadata a (current_request_id s)), s)"
  by (simp add: metadata_for_def plain_metadata_def bnd_def)

lemma current_request_id_simps [simp]:
  "current_request_id (s\<lparr>ext := w\<rparr>) = current_request_id s"
  "current_request_id (s\<lparr>auth_ctx := c\<rparr>) = current_request_id s"
  "current_request_id (write_log l s) = current_request_id s"
  by (simp_all add: current_request_id_def)

text \<open>How the computations run on the demonstration core.\<close>

named_theorems demo_run \<open>evaluation of computations on the demonstration core\<close>

lemma demo_fields [demo_run]:
  "cfg demo_env = demo_settings" "call_auth_key demo_settings = []" "core_deadline_s demo_settings = 10"
  "agent_turn_deadline_s demo_settings = 600" "firebase_auth_domain demo_settings = []"
  "uuid4_hex demo_env n = (''0f'', n)" "time_now demo_env n = (1000, n)"
  "auth_ctx (demo_rt c) = c" "channel_open (demo_rt c)" "ext (demo_rt c) = 0" "log_lines (demo_rt c) = []"
  "current_request_id (demo_rt c) = ''r-1''"
  "a_principal (demo_ctx acc role) = demo_principal" "a_raw_token (demo_ctx acc role) = ''tok''"
  "a_user_id (demo_ctx acc role) = ''u-1''" "a_account_id (demo_ctx acc role) = acc"
  "a_role (demo_ctx acc role) = role" "a_grants (demo_ctx acc role) = Map.empty"
  by (simp_all add: demo_defs current_request_id_def)

lemma demo_answering [demo_run]: "answering r req opts n = (Inr r, Suc n)"
  "failing code d req opts n = (Inl (code, Some d), Suc n)"
  by (simp_all add: demo_defs)

lemmas demo_metadata [demo_run] = metadata_for_plain [where env = demo_env]

section \<open>What the metadata says\<close>

lemma metadata_for_shape:
  assumes "metadata_for env a s = (Inr md, s')"
  obtains rid pf where "md = (''x-request-id'', rid) # pf @ tl (plain_metadata a rid)"
    and "pf = [] \<or> (\<exists>now t. pf = [(''x-dop-assertion'', t)]
          \<and> sign_at (hmac_sha256_hex env) (call_auth_key (cfg env)) (claim_of a) now = Inr t)"
    and "call_auth_key (cfg env) = [] \<longleftrightarrow> pf = []"
  using assms
  by (auto simp: metadata_for_def plain_metadata_def sign_def io_simps
      split: prod.splits sum.splits if_splits)

lemma metadata_for_says:
  assumes "metadata_for env a s = (Inr md, s')"
  shows "(map_of md ''x-account-id'' = (if has_actor a then Some (m_account_id a) else None))
    \<and> (map_of md ''x-actor-id'' = (if has_actor a then Some (m_user_id a) else None))
    \<and> (map_of md ''x-actor-kind'' = (if has_actor a then Some (m_actor_kind a) else None))
    \<and> (map_of md ''x-session-id'' = (if has_actor a then Some (m_session_id a) else None))
    \<and> (map_of md ''authorization''
         = (if m_raw_token a = [] then None else Some (''Bearer '' @ m_raw_token a)))
    \<and> (map_of md ''x-dop-assertion'' = None \<longleftrightarrow> call_auth_key (cfg env) = [])
    \<and> (\<forall>t. map_of md ''x-dop-assertion'' = Some t \<longrightarrow>
         (\<exists>expires mac. read_assertion t =
            Some ([''bff'', m_user_id a, if has_actor a then m_actor_kind a else ''system'',
                   m_account_id a, m_session_id a, expires], mac)))"
proof -
  from metadata_for_shape [OF assms] obtain rid proof' where
    md: "md = (''x-request-id'', rid) # proof' @ tl (plain_metadata a rid)"
    and pf: "proof' = [] \<or> (\<exists>now t. proof' = [(''x-dop-assertion'', t)]
          \<and> sign_at (hmac_sha256_hex env) (call_auth_key (cfg env)) (claim_of a) now = Inr t)"
    and key: "call_auth_key (cfg env) = [] \<longleftrightarrow> proof' = []" by blast
  from pf show ?thesis
  proof (elim disjE exE conjE)
    assume "proof' = []"
    with key show ?thesis by (auto simp: md plain_metadata_def)
  next
    fix now t
    assume p: "proof' = [(''x-dop-assertion'', t)]"
      and s: "sign_at (hmac_sha256_hex env) (call_auth_key (cfg env)) (claim_of a) now = Inr t"
    from sign_reads [OF s] p key show ?thesis
      by (auto simp: md plain_metadata_def claim_of_def)
  qed
qed

text \<open>
  The metadata of a call made on behalf of somebody says the same thing everywhere: the
  account, actor and session headers are the context's, the person's own token travels exactly
  when there is one, and the signed assertion (sent whenever a key is configured) decodes to
  the very actor, account and session of those headers. A call with no actor carries no actor
  header at all, and is signed as \<^verbatim>\<open>system\<close>.
\<close>

theorem metadata_contract:
  assumes "metadata_for env a s = (Inr md, s')"
  shows "(map_of md ''x-account-id'' = (if has_actor a then Some (m_account_id a) else None))
    \<and> (map_of md ''x-actor-id'' = (if has_actor a then Some (m_user_id a) else None))
    \<and> (map_of md ''x-actor-kind'' = (if has_actor a then Some (m_actor_kind a) else None))
    \<and> (map_of md ''x-session-id'' = (if has_actor a then Some (m_session_id a) else None))
    \<and> (map_of md ''authorization''
         = (if m_raw_token a = [] then None else Some (''Bearer '' @ m_raw_token a)))
    \<and> (map_of md ''x-dop-assertion'' = None \<longleftrightarrow> call_auth_key (cfg env) = [])
    \<and> (\<forall>t. map_of md ''x-dop-assertion'' = Some t \<longrightarrow>
         (\<exists>expires mac. read_assertion t =
            Some ([''bff'', m_user_id a, if has_actor a then m_actor_kind a else ''system'',
                   m_account_id a, m_session_id a, expires], mac)))"
  using assms by (rule metadata_for_says)

theorem metadata_contract_witness:
  "map_of (plain_metadata (ctx_args (Some (demo_ctx ''acc-1'' ''owner''))) ''r-1'') ''x-account-id''
     = Some ''acc-1''"
proof -
  let ?a = "ctx_args (Some (demo_ctx ''acc-1'' ''owner''))"
  have "metadata_for demo_env ?a (demo_rt None)
      = (Inr (plain_metadata ?a ''r-1''), demo_rt None)"
    using metadata_for_plain [of demo_env "demo_rt None" ?a]
    by (simp add: demo_defs current_request_id_def)
  from metadata_contract [OF this] show ?thesis
    by (simp add: has_actor_def ctx_args_def demo_defs)
qed

text \<open>
  A cached service token is never used close to its end: whatever is sent was fetched now, or
  has more than 300 seconds left; while it has, no fetch is made; and a failed fetch surfaces as
  the call's error with no header, leaving the cache as it was.
\<close>

theorem service_token_fresh:
  assumes "service_identity c now fetched = ((headers, failure), c')"
  shows "(case failure of
      Some e \<Rightarrow> headers = [] \<and> fetched = Inl e \<and> c' = c
    | None \<Rightarrow> headers = [(''x-serverless-authorization'', ''Bearer '' @ tc_token c')]
        \<and> now + 300 < tc_expires_at c'
        \<and> (if tc_token c \<noteq> [] \<and> now + 300 < tc_expires_at c then c' = c
           else \<exists>t. fetched = Inr t \<and> tc_token c' = strip t \<and> tc_expires_at c' = now + 3600))"
  using assms
  by (cases fetched)
     (auto simp: service_identity_def fresh_token_def SKEW_def algebra_simps split: if_splits)

theorem service_token_fresh_witness:
  "service_identity no_token 1000 (Inr ''jwt'')
     = (([(''x-serverless-authorization'', ''Bearer jwt'')], None),
        \<lparr>tc_token = ''jwt'', tc_expires_at = 4600\<rparr>)
   \<and> 1000 + 300 < tc_expires_at \<lparr>tc_token = ''jwt'', tc_expires_at = 4600\<rparr>"
proof -
  have run: "service_identity no_token 1000 (Inr ''jwt'')
     = (([(''x-serverless-authorization'', ''Bearer jwt'')], None),
        \<lparr>tc_token = ''jwt'', tc_expires_at = 4600\<rparr>)"
    by (simp add: service_identity_def fresh_token_def no_token_def strip_def py_space_def)
  with service_token_fresh [OF run] show ?thesis by simp
qed

end
