(* ===== verification/Logging.thy ===== *)
theory Logging
  imports Effects
begin

text \<open>
  \<^verbatim>\<open>app/platform/logging\<close>: the masking processor that every line passes through, the context
  it is given, and the \<^verbatim>\<open>@log\<close> decorator. Timing fields are measurements and are left out of
  the lines; the renderer and the output stream are structlog's.
\<close>

section \<open>Masking\<close>

definition AUTO_MASK :: "string list" where
  "AUTO_MASK = [''password'', ''token'', ''secret'', ''authorization'', ''api_key'', ''private_key'',
     ''client_secret'', ''credential'', ''id_token'', ''refresh_token'', ''cpf'', ''cnpj'']"

definition REDACTED :: string where
  "REDACTED = ''***''"

definition sensitive :: "string \<Rightarrow> bool" where
  "sensitive k \<longleftrightarrow> lower k \<in> set AUTO_MASK"

text \<open>\<^verbatim>\<open>walk\<close> of \<^verbatim>\<open>_mask_processor\<close>; a scalar is returned as it is.\<close>

fun walk :: "pyval \<Rightarrow> pyval" where
  "walk (PyDict kvs) =
     PyDict (map (\<lambda>(k, v). (k, if sensitive k then PyStr REDACTED else walk v)) kvs)"
| "walk (PyList vs) = PyList (map walk vs)"
| "walk v = v"

definition mask_processor :: "(string \<times> pyval) list \<Rightarrow> (string \<times> pyval) list" where
  "mask_processor event = map (\<lambda>(k, v). (k, if sensitive k then PyStr REDACTED else walk v)) event"

lemma walk_mask: "walk (PyDict event) = PyDict (mask_processor event)"
  by (simp add: mask_processor_def)

text \<open>Every key with its value, at any depth: what a reader of the line can see under a name.\<close>

fun entries :: "pyval \<Rightarrow> (string \<times> pyval) set" where
  "entries (PyDict kvs) = (\<Union>(k, v) \<in> set kvs. insert (k, v) (entries v))"
| "entries (PyList vs) = (\<Union>v \<in> set vs. entries v)"
| "entries v = {}"

lemma walk_entries: "(k, v) \<in> entries (walk x) \<Longrightarrow> sensitive k \<Longrightarrow> v = PyStr REDACTED"
  by (induction x rule: walk.induct) (auto split: if_splits)

lemma walk_id: "(\<forall>(k, v) \<in> entries x. \<not> sensitive k) \<Longrightarrow> walk x = x"
proof (induction x rule: walk.induct)
  case (1 kvs)
  have "(k, if sensitive k then PyStr REDACTED else walk v) = (k, v)" if "(k, v) \<in> set kvs" for k v
    using that 1 by fastforce
  then show ?case by (auto intro!: map_idI)
next
  case (2 vs)
  then show ?case by (auto intro!: map_idI)
qed simp_all

lemma walk_idem: "walk (walk x) = walk x"
  by (induction x rule: walk.induct) auto

text \<open>The secrets replaced by another value, everything else kept: what masking must not depend on.\<close>

fun with_secrets :: "(string \<Rightarrow> pyval \<Rightarrow> pyval) \<Rightarrow> pyval \<Rightarrow> pyval" where
  "with_secrets f (PyDict kvs) =
     PyDict (map (\<lambda>(k, v). (k, if sensitive k then f k v else with_secrets f v)) kvs)"
| "with_secrets f (PyList vs) = PyList (map (with_secrets f) vs)"
| "with_secrets f v = v"

lemma walk_with_secrets: "walk (with_secrets f x) = walk x"
  by (induction f x rule: with_secrets.induct) auto

text \<open>
  No secret reaches a log line: after the processor, whatever stands under a sensitive name
  at any depth of the event is \<^verbatim>\<open>***\<close>; two events that differ only in their secrets become the
  same line; an event without sensitive names is untouched, and masking twice changes nothing.
\<close>

theorem mask_hides_secrets:
  "(\<forall>k v. (k, v) \<in> entries (PyDict (mask_processor event)) \<and> sensitive k \<longrightarrow> v = PyStr REDACTED)
   \<and> walk (with_secrets f (PyDict event)) = PyDict (mask_processor event)
   \<and> (map fst (mask_processor event) = map fst event)
   \<and> ((\<forall>(k, v) \<in> entries (PyDict event). \<not> sensitive k) \<longrightarrow> mask_processor event = event)
   \<and> mask_processor (mask_processor event) = mask_processor event"
proof (intro conjI allI impI)
  fix k v
  assume "(k, v) \<in> entries (PyDict (mask_processor event)) \<and> sensitive k"
  then show "v = PyStr REDACTED" using walk_entries walk_mask by metis
next
  show "walk (with_secrets f (PyDict event)) = PyDict (mask_processor event)"
    by (metis walk_with_secrets walk_mask)
next
  show "map fst (mask_processor event) = map fst event"
    by (auto simp: mask_processor_def)
next
  assume "\<forall>(k, v) \<in> entries (PyDict event). \<not> sensitive k"
  from walk_id [OF this] show "mask_processor event = event" by (simp add: walk_mask del: walk.simps)
next
  show "mask_processor (mask_processor event) = mask_processor event"
    using walk_idem [of "PyDict event"] by (simp add: walk_mask del: walk.simps)
qed

theorem mask_hides_secrets_witness:
  "mask_processor [(''event'', PyStr ''call''),
      (''user'', PyDict [(''Password'', PyStr ''hunter2''), (''id'', PyStr ''u1'')])]
    = [(''event'', PyStr ''call''),
       (''user'', PyDict [(''Password'', PyStr ''***''), (''id'', PyStr ''u1'')])]"
proof -
  let ?e = "[(''event'', PyStr ''call''),
      (''user'', PyDict [(''Password'', PyStr ''hunter2''), (''id'', PyStr ''u1'')])]"
  have s: "sensitive ''Password''" "\<not> sensitive ''event''" "\<not> sensitive ''user''" "\<not> sensitive ''id''"
    by code_simp+
  have "(''Password'', v) \<in> entries (PyDict (mask_processor ?e)) \<Longrightarrow> v = PyStr REDACTED" for v
    using mask_hides_secrets [of ?e "\<lambda>k v. v"] s by blast
  then show ?thesis by (simp add: mask_processor_def s REDACTED_def)
qed

section \<open>The context of a line\<close>

definition setdefault :: "string \<Rightarrow> pyval \<Rightarrow> (string \<times> pyval) list \<Rightarrow> (string \<times> pyval) list" where
  "setdefault k v event = (if k \<in> fst ` set event then event else event @ [(k, v)])"

text \<open>\<^verbatim>\<open>_add_context\<close>; the span's ids are OpenTelemetry's, empty when there is no span.\<close>

definition add_context :: "(string \<Rightarrow> string option) \<Rightarrow> auth_context option \<Rightarrow> string \<times> string
    \<Rightarrow> (string \<times> pyval) list \<Rightarrow> (string \<times> pyval) list" where
  "add_context request auth ids event =
     (let rid = (case request ''request_id'' of None \<Rightarrow> [] | Some r \<Rightarrow> r);
          e1 = (if rid = [] then event else setdefault ''request_id'' (PyStr rid) event);
          e2 = (case auth of None \<Rightarrow> e1
                | Some a \<Rightarrow> setdefault ''actor_id'' (PyStr (a_user_id a))
                    (setdefault ''account_id'' (PyStr (a_account_id a)) e1))
      in if fst ids = [] then e2
         else setdefault ''span_id'' (PyStr (snd ids)) (setdefault ''trace_id'' (PyStr (fst ids)) e2))"

text \<open>
  \<^verbatim>\<open>_masked_params\<close>: \<open>bound\<close> is what \<^verbatim>\<open>inspect.signature(func).bind\<close> gives, with each value's
  \<^verbatim>\<open>repr\<close>, or nothing when the binding fails.
\<close>

definition masked_params :: "(string \<times> string) list option \<Rightarrow> string list \<Rightarrow> (string \<times> string) list" where
  "masked_params bound extra = (case bound of None \<Rightarrow> []
     | Some args \<Rightarrow> map (\<lambda>(n, v). (n, if lower n \<in> set AUTO_MASK \<union> set extra then REDACTED else v))
         (filter (\<lambda>(n, v). n \<noteq> ''self'') args))"

section \<open>The decorator\<close>

text \<open>\<^verbatim>\<open>@log\<close>: a line on entry, one on the way out, and the exception goes on.\<close>

definition logged :: "string \<Rightarrow> ('w, 'a) io \<Rightarrow> ('w, 'a) io" where
  "logged name m = bnd (emit (LogCall name)) (\<lambda>_.
     try_with (bnd m (\<lambda>x. bnd (emit (LogReturn name)) (\<lambda>_. ret x)))
       (\<lambda>e. bnd (emit (LogError name e)) (\<lambda>_. raise e)))"

lemma logged_run [io_simps]:
  "logged name m s = (case m (write_log (LogCall name) s) of
      (Inl e, s') \<Rightarrow> (Inl e, write_log (LogError name e) s')
    | (Inr x, s') \<Rightarrow> (Inr x, write_log (LogReturn name) s'))"
  by (simp add: logged_def bnd_run try_with_run split: prod.splits sum.splits)

text \<open>Logging never changes an answer, as long as the body does not read the log.\<close>

lemma logged_refuses:
  "m (write_log (LogCall name) s) = (Inl e, s') \<Longrightarrow> ext s' = ext s \<Longrightarrow> refuses (logged name m) s e"
  by (simp add: refuses_def result_def after_def logged_run)

lemma logged_result: "result (logged name m) s = result m (write_log (LogCall name) s)"
  by (simp add: result_def logged_run split: prod.splits sum.splits)

lemma logged_ext: "ext (after (logged name m) s) = ext (after m (write_log (LogCall name) s))"
  by (simp add: after_def logged_run split: prod.splits sum.splits)

lemma logged_auth_ctx:
  "auth_ctx (after (logged name m) s) = auth_ctx (after m (write_log (LogCall name) s))"
  by (simp add: after_def logged_run split: prod.splits sum.splits)

end
