(* ===== verification/Security.thy ===== *)
theory Security
  imports Logging
begin

text \<open>
  \<^verbatim>\<open>app/platform/security/decorator.py\<close>: the authorization decorators, and the registry of
  routes exempt from authentication. A decorator wraps a computation; the interface \<open>guard\<close>
  is what the use cases rely on: admitted calls run the body unchanged, refused calls end with
  an HTTP refusal and touch nothing. Two guards stacked are a guard again.
\<close>

section \<open>Decorators\<close>

definition ctx_or_401 :: "('w, auth_context) io" where
  "ctx_or_401 = bnd (ask auth_ctx) (\<lambda>c. case c of
      None \<Rightarrow> raise (HTTPException 401 ''Not authenticated'')
    | Some ctx \<Rightarrow> ret ctx)"

definition wrap :: "(auth_context \<Rightarrow> exn option) \<Rightarrow> ('w, 'a) io \<Rightarrow> ('w, 'a) io" where
  "wrap check func = bnd ctx_or_401 (\<lambda>ctx. case check ctx of Some e \<Rightarrow> raise e | None \<Rightarrow> func)"

definition no_account :: exn where
  "no_account = HTTPException 400 ''No active account selected''"

definition account_check :: "auth_context \<Rightarrow> exn option" where
  "account_check ctx = (if a_account_id ctx = [] then Some no_account else None)"

definition account_scoped :: "('w, 'a) io \<Rightarrow> ('w, 'a) io" where
  "account_scoped func = wrap account_check func"

definition role_check :: "string list \<Rightarrow> auth_context \<Rightarrow> exn option" where
  "role_check roles ctx =
     (if a_account_id ctx = [] then Some no_account
      else if \<not> has_role ctx roles then Some (HTTPException 403 ''Insufficient permission'')
      else None)"

definition require_role :: "string list \<Rightarrow> ('w, 'a) io \<Rightarrow> ('w, 'a) io" where
  "require_role roles func = wrap (role_check roles) func"

definition ranking :: "(string \<times> nat) list" where
  "ranking = [(''use'', 1), (''manage'', 2)]"

definition no_grant_detail :: "string \<Rightarrow> string" where
  "no_grant_detail level = ''No '' @ [CHR 0x27] @ level @ [CHR 0x27] @ '' grant over the resource''"

text \<open>\<^verbatim>\<open>require_grant(level, param=...)\<close> on a call with the keyword arguments \<open>kwargs\<close>.\<close>

definition grant_check :: "string \<Rightarrow> string \<Rightarrow> (string \<times> string) list \<Rightarrow> auth_context \<Rightarrow> exn option" where
  "grant_check level param kwargs ctx =
     (let needed = dict_get ranking level 1;
          resource_id = dict_get kwargs param [];
          granted = (case grant_level ctx resource_id of None \<Rightarrow> [] | Some l \<Rightarrow> l)
      in if resource_id = [] then Some (HTTPException 400 (''Missing parameter '' @ param))
         else if dict_get ranking granted 0 < needed
         then Some (HTTPException 403 (no_grant_detail level))
         else None)"

definition require_grant :: "string \<Rightarrow> string \<Rightarrow> (string \<times> string) list \<Rightarrow> ('w, 'a) io \<Rightarrow> ('w, 'a) io" where
  "require_grant level param kwargs func = wrap (grant_check level param kwargs) func"

section \<open>The contract of a decorator\<close>

text \<open>\<open>refusal s\<close> is the exception a call in state \<open>s\<close> is refused with, if it is.\<close>

locale guard =
  fixes protect :: "('w, 'a) io \<Rightarrow> ('w, 'a) io"
    and refusal :: "'w rt \<Rightarrow> exn option"
  assumes refused: "refusal s = Some e \<Longrightarrow> protect m s = (Inl e, s)"
    and admitted: "refusal s = None \<Longrightarrow> protect m s = m s"
begin

lemma refused_untouched: "refusal s = Some e \<Longrightarrow> refuses (protect m) s e"
  by (simp add: refuses_def result_def after_def refused)

lemma protect_run: "protect m s = (case refusal s of Some e \<Rightarrow> (Inl e, s) | None \<Rightarrow> m s)"
  by (simp add: refused admitted split: option.splits)

lemma body_runs: "result (protect m) s = Inr x \<Longrightarrow> refusal s = None \<and> result m s = Inr x"
  by (simp add: result_def protect_run split: option.splits)

lemma logged_refusal:
  "refusal (write_log (LogCall n) s) = Some e \<Longrightarrow> refuses (logged n (protect m)) s e"
  by (rule logged_refuses [where s' = "write_log (LogCall n) s"]) (simp_all add: refused)

end

locale stacked_guards = outer: guard outer outer_refusal + inner: guard inner inner_refusal
  for outer :: "('w, 'a) io \<Rightarrow> ('w, 'a) io" and outer_refusal :: "'w rt \<Rightarrow> exn option"
    and inner :: "('w, 'a) io \<Rightarrow> ('w, 'a) io" and inner_refusal :: "'w rt \<Rightarrow> exn option"

text \<open>Whoever the outer one refuses never reaches the inner one; together they are one guard.\<close>

sublocale stacked_guards \<subseteq> both: guard "\<lambda>m. outer (inner m)"
  "\<lambda>s. case outer_refusal s of Some e \<Rightarrow> Some e | None \<Rightarrow> inner_refusal s"
  by unfold_locales (auto simp: outer.protect_run inner.protect_run split: option.splits)

text \<open>What \<open>wrap\<close> refuses with, and the two decorators on the model.\<close>

definition refusal_of :: "(auth_context \<Rightarrow> exn option) \<Rightarrow> 'w rt \<Rightarrow> exn option" where
  "refusal_of check s = (case auth_ctx s of
      None \<Rightarrow> Some (HTTPException 401 ''Not authenticated'') | Some ctx \<Rightarrow> check ctx)"

lemma refusal_of_log [simp]: "refusal_of check (write_log l s) = refusal_of check s"
  by (simp add: refusal_of_def)

lemma wrap_run [io_simps]:
  "wrap check m s = (case refusal_of check s of Some e \<Rightarrow> (Inl e, s) | None \<Rightarrow> m s)"
  by (simp add: wrap_def ctx_or_401_def refusal_of_def bnd_run split: option.splits)

interpretation checked: guard "wrap check" "refusal_of check" for check
  by unfold_locales (simp_all add: wrap_run)

interpretation scoped: guard account_scoped "refusal_of account_check"
  by unfold_locales (simp_all add: account_scoped_def wrap_run)

interpretation roled: guard "require_role roles" "refusal_of (role_check roles)" for roles
  by unfold_locales (simp_all add: require_role_def wrap_run)

interpretation granted: guard "require_grant level param kwargs"
  "refusal_of (grant_check level param kwargs)" for level param kwargs
  by unfold_locales (simp_all add: require_grant_def wrap_run)

interpretation scoped_roled: stacked_guards account_scoped "refusal_of account_check"
  "require_role roles" "refusal_of (role_check roles)" for roles
  by unfold_locales

text \<open>The role check repeats the account check, so the stack refuses what the inner one does.\<close>

lemma scoped_roled_run [io_simps]:
  "account_scoped (require_role roles m) s =
     (case refusal_of (role_check roles) s of Some e \<Rightarrow> (Inl e, s) | None \<Rightarrow> m s)"
  by (simp add: scoped_roled.both.protect_run) (simp add: refusal_of_def account_check_def role_check_def split: option.splits)

interpretation managed: guard "\<lambda>m. account_scoped (require_role roles m)"
  "refusal_of (role_check roles)" for roles
  by unfold_locales (simp_all add: scoped_roled_run)

lemma account_scoped_run [io_simps]:
  "account_scoped m s = (case refusal_of account_check s of Some e \<Rightarrow> (Inl e, s) | None \<Rightarrow> m s)"
  by (rule scoped.protect_run)

definition may_call :: "string list \<Rightarrow> auth_context \<Rightarrow> bool" where
  "may_call roles ctx \<longleftrightarrow> a_account_id ctx \<noteq> [] \<and> a_role ctx \<in> set roles"

lemma refusal_role_iff:
  "refusal_of (role_check roles) s = None \<longleftrightarrow> (\<exists>ctx. auth_ctx s = Some ctx \<and> may_call roles ctx)"
  by (auto simp: refusal_of_def role_check_def may_call_def has_role_def split: option.splits)

lemma refusal_account_iff:
  "refusal_of account_check s = None \<longleftrightarrow> (\<exists>ctx. auth_ctx s = Some ctx \<and> a_account_id ctx \<noteq> [])"
  by (auto simp: refusal_of_def account_check_def split: option.splits)

text \<open>
  C10. The stack \<^verbatim>\<open>@log\<close>, \<^verbatim>\<open>@account_scoped\<close>, \<^verbatim>\<open>@require_role\<close> on any use case: with no identity the
  call ends in 401, with no active account in 400, with another role in 403, each without the
  body running and without a single step outside; otherwise it is exactly the body, with its
  answer and its effects, between two log lines.
\<close>

theorem decorated_use_case:
  "(auth_ctx s = None \<longrightarrow>
      refuses (logged n (account_scoped (require_role roles m))) s (HTTPException 401 ''Not authenticated''))
   \<and> (\<forall>ctx. auth_ctx s = Some ctx \<and> a_account_id ctx = [] \<longrightarrow>
      refuses (logged n (account_scoped (require_role roles m))) s (HTTPException 400 ''No active account selected''))
   \<and> (\<forall>ctx. auth_ctx s = Some ctx \<and> a_account_id ctx \<noteq> [] \<and> a_role ctx \<notin> set roles \<longrightarrow>
      refuses (logged n (account_scoped (require_role roles m))) s (HTTPException 403 ''Insufficient permission''))
   \<and> (\<forall>ctx. auth_ctx s = Some ctx \<and> may_call roles ctx \<longrightarrow>
      logged n (account_scoped (require_role roles m)) s = logged n m s)"
proof (intro conjI allI impI)
  assume "auth_ctx s = None"
  then show "refuses (logged n (account_scoped (require_role roles m))) s
      (HTTPException 401 ''Not authenticated'')"
    by (intro managed.logged_refusal) (simp add: refusal_of_def)
next
  fix ctx assume "auth_ctx s = Some ctx \<and> a_account_id ctx = []"
  then show "refuses (logged n (account_scoped (require_role roles m))) s
      (HTTPException 400 ''No active account selected'')"
    by (intro managed.logged_refusal) (simp add: refusal_of_def role_check_def no_account_def)
next
  fix ctx assume "auth_ctx s = Some ctx \<and> a_account_id ctx \<noteq> [] \<and> a_role ctx \<notin> set roles"
  then show "refuses (logged n (account_scoped (require_role roles m))) s
      (HTTPException 403 ''Insufficient permission'')"
    by (intro managed.logged_refusal) (simp add: refusal_of_def role_check_def has_role_def)
next
  fix ctx assume "auth_ctx s = Some ctx \<and> may_call roles ctx"
  then have "refusal_of (role_check roles) s = None" by (auto simp: refusal_role_iff)
  then show "logged n (account_scoped (require_role roles m)) s = logged n m s"
    by (simp add: logged_run scoped_roled_run)
qed

theorem decorated_use_case_witness:
  "refuses (logged ''list_members'' (account_scoped (require_role [''owner'', ''admin'']
      (outside (\<lambda>n. ((), Suc n)))))) (demo_rt (Some (demo_ctx ''acc-1'' ''viewer'')))
    (HTTPException 403 ''Insufficient permission'')"
  using decorated_use_case [of "demo_rt (Some (demo_ctx ''acc-1'' ''viewer''))" "''list_members''"
    "[''owner'', ''admin'']" "outside (\<lambda>n. ((), Suc n))"]
  by (simp add: demo_defs)

text \<open>
  \<^verbatim>\<open>@require_grant\<close>: with the level \<^verbatim>\<open>use\<close> or \<^verbatim>\<open>manage\<close> and a resource named in the call, the
  body runs exactly when the actor is owner or admin of the account or holds the level or a
  higher one over that resource; a call that names no resource is a 400, never a pass.
\<close>

theorem grant_decides:
  assumes "auth_ctx s = Some ctx" and "level \<in> {''use'', ''manage''}"
  shows "require_grant level param kwargs m s =
    (if dict_get kwargs param [] = [] then (Inl (HTTPException 400 (''Missing parameter '' @ param)), s)
     else if a_role ctx \<in> {''owner'', ''admin''}
        \<or> a_grants ctx (dict_get kwargs param []) = Some ''manage''
        \<or> level = ''use'' \<and> a_grants ctx (dict_get kwargs param []) = Some ''use''
     then m s
     else (Inl (HTTPException 403 (no_grant_detail level)), s))"
proof -
  have rank: "dict_get ranking l (0::nat) = (if l = ''manage'' then 2 else if l = ''use'' then 1 else 0)" for l
    by (simp add: dict_get_def ranking_def)
  have need: "dict_get ranking ''use'' (Suc 0) = 1" "dict_get ranking ''manage'' (Suc 0) = 2"
    by (simp_all add: dict_get_def ranking_def)
  have adm: "grant_level ctx r = (if a_role ctx \<in> {''owner'', ''admin''} then Some ''manage''
      else a_grants ctx r)" for r
    by (simp add: grant_level_def)
  show ?thesis
  proof (cases "dict_get kwargs param [] = []")
    case True
    with assms(1) show ?thesis
      by (simp add: granted.protect_run refusal_of_def grant_check_def Let_def)
  next
    case False
    with assms show ?thesis
      by (cases "a_role ctx \<in> {''owner'', ''admin''}"; cases "a_grants ctx (dict_get kwargs param [])")
         (auto simp: granted.protect_run refusal_of_def grant_check_def adm rank need Let_def)
  qed
qed

theorem grant_decides_witness:
  "require_grant ''manage'' ''resource_id'' [(''resource_id'', ''res-1'')] (ret True)
      (demo_rt (Some ((demo_ctx ''acc-1'' ''developer'')\<lparr>a_grants := [''res-1'' \<mapsto> ''use'']\<rparr>)))
    = (Inl (HTTPException 403 (no_grant_detail ''manage'')),
       demo_rt (Some ((demo_ctx ''acc-1'' ''developer'')\<lparr>a_grants := [''res-1'' \<mapsto> ''use'']\<rparr>)))"
  by (subst grant_decides [where ctx = "(demo_ctx ''acc-1'' ''developer'')\<lparr>a_grants := [''res-1'' \<mapsto> ''use'']\<rparr>"])
     (simp_all add: demo_defs dict_get_def)

end
