(* ===== verification/Usecase.thy ===== *)
theory Usecase
  imports CoreClient Security
begin

text \<open>
  What the use cases share: the roles that manage an account, the key of a write, and how a
  successful call through the decorators is read back to the one call of the core it made.
\<close>

definition managers :: "string list" where
  "managers = [''owner'', ''admin'']"

text \<open>A use case that reads \<^verbatim>\<open>ctx\<close> after the call, with the context it took before it.\<close>

definition with_ctx :: "(auth_context \<Rightarrow> 'a \<Rightarrow> 'b) \<Rightarrow> ('w, 'a) io \<Rightarrow> ('w, 'b) io" where
  "with_ctx f m = bnd (ask auth_ctx) (\<lambda>c. bnd m (\<lambda>x. case c of
      None \<Rightarrow> raise (OtherError ''AttributeError'') | Some ctx \<Rightarrow> ret (f ctx x)))"

definition writers :: "string list" where
  "writers = [''owner'', ''admin'', ''developer'']"

lemma scoped_Inr: "account_scoped m s = (Inr x, s') \<longleftrightarrow>
    (\<exists>ctx. auth_ctx s = Some ctx \<and> a_account_id ctx \<noteq> []) \<and> m s = (Inr x, s')"
  using refusal_account_iff [of s] by (auto simp: account_scoped_run split: option.splits)

lemma managed_Inr: "account_scoped (require_role roles m) s = (Inr x, s') \<longleftrightarrow>
    (\<exists>ctx. auth_ctx s = Some ctx \<and> may_call roles ctx) \<and> m s = (Inr x, s')"
  using refusal_role_iff [of roles s] by (auto simp: scoped_roled_run split: option.splits)

lemma logged_Inr: "logged n m s = (Inr x, s') \<Longrightarrow>
    \<exists>s1. m (write_log (LogCall n) s) = (Inr x, s1) \<and> s' = write_log (LogReturn n) s1"
  by (auto simp: logged_run split: prod.splits sum.splits)

text \<open>The key a write is sent under: the client's, or one drawn for this call.\<close>

definition keyed :: "'w env \<Rightarrow> string \<Rightarrow> 'w rt \<Rightarrow> string \<Rightarrow> bool" where
  "keyed env key s k \<longleftrightarrow> k = (if key = [] then fst (uuid4_hex env (ext s)) else key)"

lemma keyed_log [simp]: "keyed env key (write_log l s) = keyed env key s"
  by (simp add: keyed_def fun_eq_iff)

lemma unary_keyed: "unary env rpc (mapv f (idempotency env key)) s = (Inr resp, s') \<Longrightarrow>
    \<exists>k s1. keyed env key s k \<and> asked env rpc (f k) s1 resp s' \<and> auth_ctx s1 = auth_ctx s"
proof -
  assume "unary env rpc (mapv f (idempotency env key)) s = (Inr resp, s')"
  then obtain k s1 md s2 w where k: "idempotency env key s = (Inr k, s1)"
    and c: "channel_open s" "core_metadata env s1 = (Inr md, s2)"
      "rpc (f k) (opts_of env md) (ext s2) = (Inr resp, w)" "s' = s2\<lparr>ext := w\<rparr>"
    by (auto simp: unary_Inr mapv_Inr)
  from k have "keyed env key s k" "channel_open s1 = channel_open s" "auth_ctx s1 = auth_ctx s"
    by (auto simp: idempotency_Inr keyed_def split: if_splits)
  with c show ?thesis unfolding asked_def by blast
qed

text \<open>The two shapes of a use case that is one call: a read, and a write under a key.\<close>

lemma read_Inr: "logged n (account_scoped (mapv f (unary env rpc (ret req)))) s = (Inr x, s') \<Longrightarrow>
    \<exists>resp s1 s2. asked env rpc req s1 resp s2 \<and> auth_ctx s1 = auth_ctx s \<and> x = f resp"
  by (drule logged_Inr) (fastforce simp: scoped_Inr mapv_Inr unary_asked)

lemma managed_read_Inr:
  "logged n (account_scoped (require_role roles (mapv f (unary env rpc (ret req))))) s = (Inr x, s') \<Longrightarrow>
    \<exists>ctx resp s1 s2. auth_ctx s = Some ctx \<and> may_call roles ctx
      \<and> asked env rpc req s1 resp s2 \<and> auth_ctx s1 = auth_ctx s \<and> x = f resp"
  by (drule logged_Inr) (fastforce simp: managed_Inr mapv_Inr unary_asked)

lemma write_Inr:
  "logged n (account_scoped (require_role roles (mapv f (unary env rpc (mapv g (idempotency env key)))))) s = (Inr x, s') \<Longrightarrow>
    \<exists>ctx k resp s1 s2. auth_ctx s = Some ctx \<and> may_call roles ctx \<and> keyed env key s k
      \<and> asked env rpc (g k) s1 resp s2 \<and> auth_ctx s1 = auth_ctx s \<and> x = f resp"
  by (drule logged_Inr) (fastforce simp: managed_Inr mapv_Inr dest!: unary_keyed)

lemma mapv_ret: "mapv f (ret x) = ret (f x)"
  by (simp add: fun_eq_iff mapv_run ret_def)

text \<open>A call with a session and no account, where \<^verbatim>\<open>@log\<close> is the only decorator.\<close>

lemma session_Inr: "logged n (mapv f (unary env rpc (ret req))) s = (Inr x, s') \<Longrightarrow>
    \<exists>resp s1 s2. asked env rpc req s1 resp s2 \<and> auth_ctx s1 = auth_ctx s \<and> x = f resp"
  by (drule logged_Inr) (fastforce simp: mapv_Inr unary_asked)

lemma not_manager_refused:
  assumes "auth_ctx s = Some ctx" and "a_account_id ctx \<noteq> []" and "a_role ctx \<notin> set managers"
  shows "refuses (logged n (account_scoped (require_role managers m))) s
    (HTTPException 403 ''Insufficient permission'')"
  using assms
  by (intro managed.logged_refusal) (simp add: refusal_of_def role_check_def has_role_def)

lemma demo_asked:
  "asked demo_env (answering r) q (demo_rt (Some c)) r (demo_rt (Some c)\<lparr>ext := 1\<rparr>)"
  by (simp add: asked_def demo_run core_metadata_def io_simps)

lemma require_role_run [demo_run]:
  "require_role roles m s = (case refusal_of (role_check roles) s of Some e \<Rightarrow> (Inl e, s) | None \<Rightarrow> m s)"
  by (rule roled.protect_run)

lemma demo_admitted [demo_run]:
  "refusal_of account_check (demo_rt (Some (demo_ctx acc role))) = (if acc = [] then Some no_account else None)"
  "refusal_of (role_check roles) (demo_rt (Some (demo_ctx acc role))) =
     (if acc = [] then Some no_account
      else if role \<in> set roles then None else Some (HTTPException 403 ''Insufficient permission''))"
  by (simp_all add: refusal_of_def account_check_def role_check_def has_role_def demo_defs)

lemma asked_ctx: "asked env rpc req s resp s' \<Longrightarrow> auth_ctx s' = auth_ctx s"
  by (auto simp: asked_def dest: core_metadata_state)

text \<open>A further call on a stub already in hand: the channel is not looked at again.\<close>

definition on_stub :: "'w env \<Rightarrow> ('w, 'q, 'r) rpc \<Rightarrow> 'q \<Rightarrow> ('w, 'r) io" where
  "on_stub env rpc req = bnd (core_metadata env) (\<lambda>md. call rpc req (opts_of env md))"

lemma on_stub_open: "channel_open s \<Longrightarrow> on_stub env rpc req s = unary env rpc (ret req) s"
  by (simp add: on_stub_def unary_def unary_by_def bnd_run opts_of_def)

lemma asked_open: "asked env rpc req s r s' \<Longrightarrow> channel_open s'"
  by (auto simp: asked_def dest: core_metadata_state)

section \<open>A call the core refuses\<close>

definition turned_down :: "'w env \<Rightarrow> ('w, 'q, 'r) rpc \<Rightarrow> 'q \<Rightarrow> 'w rt \<Rightarrow> grpc_status \<Rightarrow> string option \<Rightarrow> 'w rt \<Rightarrow> bool" where
  "turned_down env rpc req s c d s' \<longleftrightarrow> channel_open s \<and>
     (\<exists>md s1 w. core_metadata env s = (Inr md, s1) \<and> rpc req (opts_of env md) (ext s1) = (Inl (c, d), w)
        \<and> s' = s1\<lparr>ext := w\<rparr>)"

lemma bnd_Inl: "bnd m f s = (Inl e, s') \<longleftrightarrow>
    m s = (Inl e, s') \<or> (\<exists>x s1. m s = (Inr x, s1) \<and> f x s1 = (Inl e, s'))"
  by (auto simp: bnd_run split: prod.splits sum.splits)

lemma mapv_Inl: "mapv f m s = (Inl e, s') \<longleftrightarrow> m s = (Inl e, s')"
  by (auto simp: mapv_run split: prod.splits sum.splits)

lemma call_Inl: "call rpc req opts s = (Inl e, s') \<longleftrightarrow>
    (\<exists>c d w. rpc req opts (ext s) = (Inl (c, d), w) \<and> e = AioRpcError c d \<and> s' = s\<lparr>ext := w\<rparr>)"
  by (auto simp: call_run split: prod.splits sum.splits)

lemma metadata_for_error: "metadata_for env a s = (Inl e, s') \<Longrightarrow> \<exists>f. e = AssertionFailure f"
  by (auto simp: metadata_for_def sign_def sign_at_def Let_def bnd_Inl io_simps
      split: if_splits prod.splits sum.splits option.splits)

lemma core_metadata_error: "core_metadata env s = (Inl e, s') \<Longrightarrow> \<exists>f. e = AssertionFailure f"
  by (auto simp: core_metadata_def bnd_Inl dest: metadata_for_error)

lemma idempotency_no_error: "idempotency env key s \<noteq> (Inl e, s')"
  by (auto simp: idempotency_def idempotency_key_def io_simps split: prod.splits)

lemma unary_error: "unary env rpc (ret req) s = (Inl (AioRpcError c d), s') \<longleftrightarrow> turned_down env rpc req s c d s'"
  by (auto simp: unary_def unary_by_def bnd_Inl call_Inl turned_down_def opts_of_def dest: core_metadata_error
      split: if_splits)

lemma unary_keyed_error: "unary env rpc (mapv f (idempotency env key)) s = (Inl (AioRpcError c d), s') \<Longrightarrow>
    \<exists>k s1. keyed env key s k \<and> turned_down env rpc (f k) s1 c d s'"
proof -
  assume a: "unary env rpc (mapv f (idempotency env key)) s = (Inl (AioRpcError c d), s')"
  then have up: "channel_open s" by (auto simp: unary_def unary_by_def bnd_Inl split: if_splits)
  from a obtain k s1 where k: "idempotency env key s = (Inr k, s1)"
    and u: "bnd (core_metadata env) (\<lambda>md. call rpc (f k) \<lparr>co_metadata = md, co_timeout = Some (core_deadline_s (cfg env))\<rparr>) s1
      = (Inl (AioRpcError c d), s')"
    by (auto simp: unary_def unary_by_def bnd_Inl mapv_Inl mapv_Inr idempotency_no_error split: if_splits)
  from k up have "keyed env key s k" "channel_open s1"
    by (auto simp: idempotency_Inr keyed_def split: if_splits)
  moreover from u \<open>channel_open s1\<close> have "turned_down env rpc (f k) s1 c d s'"
    by (auto simp: bnd_Inl call_Inl turned_down_def opts_of_def dest: core_metadata_error)
  ultimately show ?thesis by blast
qed

lemma scoped_Inl: "account_scoped m s = (Inl (AioRpcError c d), s') \<Longrightarrow> m s = (Inl (AioRpcError c d), s')"
  by (auto simp: account_scoped_run refusal_of_def account_check_def no_account_def
      split: option.splits if_splits)

lemma logged_Inl: "logged n m s = (Inl e, s') \<Longrightarrow> \<exists>s1. m (write_log (LogCall n) s) = (Inl e, s1)"
  by (auto simp: logged_run split: prod.splits sum.splits)

lemma read_Inl: "logged n (account_scoped (mapv f (unary env rpc (ret req)))) s = (Inl (AioRpcError c d), s') \<Longrightarrow>
    \<exists>s1 s2. turned_down env rpc req s1 c d s2 \<and> auth_ctx s1 = auth_ctx s"
  by (drule logged_Inl) (fastforce dest!: scoped_Inl simp: mapv_Inl unary_error)

section \<open>Two calls at once\<close>

text \<open>
  \<^verbatim>\<open>await asyncio.gather(a, b)\<close>: both run, in an order the scheduler chooses (here of whole
  calls, which share nothing but the core), and the first exception in that order is the answer.
\<close>

definition gather :: "bool \<Rightarrow> ('w, 'a) io \<Rightarrow> ('w, 'b) io \<Rightarrow> ('w, 'a \<times> 'b) io" where
  "gather left_first a b =
     (if left_first
      then (\<lambda>s. case a s of (ra, s1) \<Rightarrow> (case b s1 of (rb, s2) \<Rightarrow>
             (case ra of Inl e \<Rightarrow> (Inl e, s2) | Inr x \<Rightarrow>
               (case rb of Inl e \<Rightarrow> (Inl e, s2) | Inr y \<Rightarrow> (Inr (x, y), s2)))))
      else (\<lambda>s. case b s of (rb, s1) \<Rightarrow> (case a s1 of (ra, s2) \<Rightarrow>
             (case rb of Inl e \<Rightarrow> (Inl e, s2) | Inr y \<Rightarrow>
               (case ra of Inl e \<Rightarrow> (Inl e, s2) | Inr x \<Rightarrow> (Inr (x, y), s2))))))"

lemma gather_Inr: "gather left_first a b s = (Inr (x, y), s2) \<longleftrightarrow>
    (\<exists>s1. if left_first then a s = (Inr x, s1) \<and> b s1 = (Inr y, s2)
          else b s = (Inr y, s1) \<and> a s1 = (Inr x, s2))"
  by (auto simp: gather_def split: prod.splits sum.splits)

lemma gather_no_half: "gather left_first a b s = (Inr p, s2) \<Longrightarrow>
    (\<exists>s1 s1'. a s1 = (Inr (fst p), s1')) \<and> (\<exists>s1 s1'. b s1 = (Inr (snd p), s1'))"
  by (cases p) (auto simp: gather_Inr split: if_splits)

end
