(* ===== verification/Identity_Core.thy ===== *)
theory Identity_Core
  imports CoreClient
begin

text \<open>
  The core's identity service as the edge sees it: the messages of
  \<^verbatim>\<open>app/coreclient/gen/dop/v1/identity_pb2\<close> with the fields the edge reads or writes, and
  the methods of the stub. What a method answers is the core's business: each is a parameter,
  a field of \<open>identity_stub\<close>. A request with one field is that field.
\<close>

record ensure_user_request =
  eu_subject :: string
  eu_email :: string
  eu_email_verified :: bool
  eu_name :: string
  eu_avatar_url :: string
  eu_provider :: string
  eu_idempotency_key :: string

record core_user =
  cu_id :: string
  cu_name :: string
  cu_avatar_url :: string
  cu_locale :: string
  cu_timezone :: string
  cu_phone :: string
  cu_phone_verified :: bool
  cu_email_verified :: bool
  cu_birth_date :: string
  cu_onboarded :: bool
  cu_phone_whatsapp :: bool

record core_account =
  ca_id :: string
  ca_kind :: int
  ca_handle :: string
  ca_display_name :: string
  ca_plan_key :: string

record membership =
  mb_id :: string
  mb_user_id :: string
  mb_account_id :: string
  mb_role :: int

text \<open>\<^verbatim>\<open>ListAccountsResponse\<close>: the accounts, and each with the caller's role in it.\<close>

record account_list =
  al_accounts :: "core_account list"
  al_items :: "(core_account \<times> int) list"

record core_invite =
  ci_id :: string
  ci_email :: string
  ci_role :: int
  ci_status :: int
  ci_expires_at :: timestamp

record core_invite_preview =
  cp_id :: string
  cp_account_name :: string
  cp_role :: int
  cp_status :: int
  cp_expires_at :: timestamp
  cp_usable :: bool

record core_onboarding =
  co_steps :: "(string \<times> string) list"
  co_current :: string
  co_complete :: bool
  co_email_verified :: bool
  co_phone :: string
  co_phone_verified :: bool
  co_code_connections :: int
  co_task_connections :: int
  co_plan_key :: string
  co_personal_account_id :: string

record core_handle =
  ch_handle :: string
  ch_available :: bool
  ch_suggestion :: string

text \<open>An optional field of a request that was not set is None.\<close>

record update_profile_request =
  up_name :: "string option"
  up_birth_date :: "string option"
  up_locale :: "string option"
  up_timezone :: "string option"
  up_phone :: "string option"
  up_phone_whatsapp :: "bool option"

record create_account_request =
  cr_kind :: int
  cr_handle :: string
  cr_display_name :: string
  cr_legal_id :: string
  cr_idempotency_key :: string

record create_invite_request =
  iv_email :: string
  iv_role :: int
  iv_grants :: "(string \<times> string) list"
  iv_idempotency_key :: string

record verification_request =
  vr_email :: string
  vr_subject :: string
  vr_link :: string
  vr_display_name :: string

record 'w identity_stub =
  EnsureUser :: "('w, ensure_user_request, core_user) rpc"
  GetUser :: "('w, string, core_user) rpc"
  UpdateProfile :: "('w, update_profile_request, core_user) rpc"
  GetOnboarding :: "('w, unit, core_onboarding) rpc"
  RecordOnboardingStep :: "('w, string \<times> string, core_onboarding) rpc"
  CompleteOnboarding :: "('w, unit, core_onboarding) rpc"
  CheckHandle :: "('w, string, core_handle) rpc"
  UpdatePersonalAccount :: "('w, string \<times> string, core_account) rpc"
  SetPlan :: "('w, string, core_account) rpc"
  ListAccounts :: "('w, string, account_list) rpc"
  GetAccount :: "('w, string, core_account) rpc"
  CreateAccount :: "('w, create_account_request, core_account) rpc"
  ListMemberships :: "('w, string, membership list) rpc"
  UpdateMembership :: "('w, string \<times> int, membership) rpc"
  RemoveMembership :: "('w, string, unit) rpc"
  CreateInvite :: "('w, create_invite_request, core_invite) rpc"
  ListInvites :: "('w, unit, core_invite list) rpc"
  GetInvite :: "('w, string, core_invite_preview) rpc"
  AcceptInvite :: "('w, string \<times> string, membership) rpc"
  RevokeInvite :: "('w, string, core_invite) rpc"
  SendEmailVerification :: "('w, verification_request, unit) rpc"

end
