(* ===== verification/Vocabulary.thy ===== *)
theory Vocabulary
  imports Prelude
begin

text \<open>
  The enum tables of the edge. Every vocabulary is a dictionary from the proto's number to a
  name, read with \<^verbatim>\<open>.get(value, "")\<close>, and its inversion, read with \<^verbatim>\<open>.get(name, UNSPECIFIED)\<close>.
  The interface \<open>vocabulary\<close> is what a table owes its readers, and \<open>shared_vocabulary\<close> what the
  core's and the edge's copies of one enum owe each other. The identity tables of
  \<^verbatim>\<open>app/coreclient/convert.py\<close> and \<^verbatim>\<open>app/grpcapi/convert.py\<close> are here; the others stand with the
  component that owns them.
\<close>

definition enum_name :: "(int \<times> string) list \<Rightarrow> int \<Rightarrow> string" where
  "enum_name table n = dict_get table n []"

definition enum_value :: "(int \<times> string) list \<Rightarrow> string \<Rightarrow> int" where
  "enum_value table s = dict_get (dict_invert table) s 0"

definition known_number :: "(int \<times> string) list \<Rightarrow> int \<Rightarrow> bool" where
  "known_number table n \<longleftrightarrow> n \<in> fst ` set table"

definition known_name :: "(int \<times> string) list \<Rightarrow> string \<Rightarrow> bool" where
  "known_name table s \<longleftrightarrow> s \<in> snd ` set table"

locale vocabulary =
  fixes table :: "(int \<times> string) list"
  assumes distinct_numbers: "distinct (map fst table)"
    and distinct_names: "distinct (map snd table)"
    and unspecified_absent: "0 \<notin> fst ` set table"
    and empty_absent: "[] \<notin> snd ` set table"
begin

lemma name_in: "(n, s) \<in> set table \<Longrightarrow> enum_name table n = s"
  by (simp add: enum_name_def dict_get_in distinct_numbers)

lemma value_in: "(n, s) \<in> set table \<Longrightarrow> enum_value table s = n"
proof -
  assume "(n, s) \<in> set table"
  then have "(s, n) \<in> set (dict_invert table)" by (force simp: dict_invert_def)
  moreover have "distinct (map fst (dict_invert table))"
    using distinct_names by (simp add: dict_invert_def comp_def split_beta)
  ultimately show ?thesis by (simp add: enum_value_def dict_get_in)
qed

lemma name_unknown: "\<not> known_number table n \<Longrightarrow> enum_name table n = []"
  by (simp add: enum_name_def known_number_def dict_get_not_in)

lemma value_unknown: "\<not> known_name table s \<Longrightarrow> enum_value table s = 0"
  unfolding enum_value_def known_name_def
  by (rule dict_get_not_in) (force simp: dict_invert_def)

lemma name_of_value: "enum_name table (enum_value table s) = (if known_name table s then s else [])"
proof (cases "known_name table s")
  case True
  then obtain n where "(n, s) \<in> set table" by (auto simp: known_name_def)
  with True show ?thesis by (simp add: value_in name_in)
next
  case False
  with unspecified_absent show ?thesis
    by (simp add: value_unknown name_unknown known_number_def)
qed

lemma value_of_name: "enum_value table (enum_name table n) = (if known_number table n then n else 0)"
proof (cases "known_number table n")
  case True
  then obtain s where "(n, s) \<in> set table" by (auto simp: known_number_def)
  with True show ?thesis by (simp add: value_in name_in)
next
  case False
  with empty_absent show ?thesis by (simp add: name_unknown value_unknown known_name_def)
qed

lemma value_zero_iff: "enum_value table s = 0 \<longleftrightarrow> \<not> known_name table s"
  using unspecified_absent value_in value_unknown by (force simp: known_name_def)

lemma name_empty_iff: "enum_name table n = [] \<longleftrightarrow> \<not> known_number table n"
  using empty_absent name_in name_unknown by (force simp: known_number_def)

lemma known_value: "known_name table s \<Longrightarrow> known_number table (enum_value table s)"
  using value_in by (force simp: known_name_def known_number_def)

lemma known_enum_name: "known_number table n \<Longrightarrow> known_name table (enum_name table n)"
  using name_in by (force simp: known_name_def known_number_def)

lemma names_round_trip:
  "\<forall>s \<in> set ss. known_name table s \<Longrightarrow> map (\<lambda>s. enum_name table (enum_value table s)) ss = ss"
  by (simp add: name_of_value map_idI)

end

locale shared_vocabulary = core: vocabulary core + edge: vocabulary edge
  for core :: "(int \<times> string) list" and edge :: "(int \<times> string) list" +
  assumes same_items: "set core = set edge"
begin

lemma same_known: "known_number core n = known_number edge n" "known_name core s = known_name edge s"
  by (simp_all add: known_number_def known_name_def same_items)

lemma same_name: "enum_name core n = enum_name edge n"
proof (cases "known_number core n")
  case True
  then obtain s where "(n, s) \<in> set core" by (auto simp: known_number_def)
  then show ?thesis using core.name_in edge.name_in same_items by simp
next
  case False
  then show ?thesis using core.name_unknown edge.name_unknown same_known by simp
qed

lemma crossing_out: "enum_value edge (enum_name core n) = (if known_number core n then n else 0)"
  using edge.value_of_name [of n] by (simp add: same_name same_known)

lemma crossing_in: "enum_value core (enum_name edge n) = (if known_number edge n then n else 0)"
  using core.value_of_name [of n] by (simp add: same_name same_known)

end

text \<open>
  A vocabulary read from the core by number and written on the gRPC port through a dictionary from
  its names: the port's dictionary has to be the core's table read backwards.
\<close>

locale crossing = vocabulary core for core :: "(int \<times> string) list" +
  fixes outward :: "(string \<times> int) list"
  assumes backwards: "outward = dict_invert core"
begin

lemma crosses: "dict_get outward (enum_name core n) 0 = (if known_number core n then n else 0)"
  using value_of_name [of n] by (simp add: backwards enum_value_def)

end

section \<open>The core's identity vocabulary\<close>

definition ROLE_TO_NAME :: "(int \<times> string) list" where
  "ROLE_TO_NAME = [(1, ''owner''), (2, ''admin''), (3, ''developer''), (4, ''viewer'')]"

definition KIND_TO_NAME :: "(int \<times> string) list" where
  "KIND_TO_NAME = [(1, ''personal''), (2, ''organization'')]"

definition INVITE_STATUS_TO_NAME :: "(int \<times> string) list" where
  "INVITE_STATUS_TO_NAME = [(1, ''pending''), (2, ''accepted''), (3, ''expired''), (4, ''revoked'')]"

definition role_name :: "int \<Rightarrow> string" where
  "role_name role = enum_name ROLE_TO_NAME role"

definition role_value :: "string \<Rightarrow> int" where
  "role_value name = enum_value ROLE_TO_NAME (lower name)"

definition account_kind_name :: "int \<Rightarrow> string" where
  "account_kind_name kind = enum_name KIND_TO_NAME kind"

definition invite_status_name :: "int \<Rightarrow> string" where
  "invite_status_name status = enum_name INVITE_STATUS_TO_NAME status"

interpretation roles: vocabulary ROLE_TO_NAME
  by unfold_locales (simp_all add: ROLE_TO_NAME_def)

section \<open>The edge contract's identity vocabulary\<close>

definition bff_ROLE_TO_NAME :: "(int \<times> string) list" where
  "bff_ROLE_TO_NAME = [(1, ''owner''), (2, ''admin''), (3, ''developer''), (4, ''viewer'')]"

definition KIND_FROM_NAME :: "(string \<times> int) list" where
  "KIND_FROM_NAME = [(''personal'', 1), (''organization'', 2)]"

definition STATUS_FROM_NAME :: "(string \<times> int) list" where
  "STATUS_FROM_NAME = [(''pending'', 1), (''accepted'', 2), (''expired'', 3), (''revoked'', 4)]"

definition role_enum :: "string \<Rightarrow> int" where
  "role_enum name = enum_value bff_ROLE_TO_NAME name"

definition bff_role_name :: "int \<Rightarrow> string" where
  "bff_role_name v = enum_name bff_ROLE_TO_NAME v"

definition kind_enum :: "string \<Rightarrow> int" where
  "kind_enum name = dict_get KIND_FROM_NAME name 0"

definition status_enum :: "string \<Rightarrow> int" where
  "status_enum name = dict_get STATUS_FROM_NAME name 0"

interpretation kinds: crossing KIND_TO_NAME KIND_FROM_NAME
  by unfold_locales (simp_all add: KIND_TO_NAME_def KIND_FROM_NAME_def dict_invert_def)

interpretation invite_statuses: crossing INVITE_STATUS_TO_NAME STATUS_FROM_NAME
  by unfold_locales (simp_all add: INVITE_STATUS_TO_NAME_def STATUS_FROM_NAME_def dict_invert_def)

lemma kind_enum_value: "kind_enum name = enum_value KIND_TO_NAME name"
  by (simp add: kind_enum_def enum_value_def KIND_FROM_NAME_def KIND_TO_NAME_def dict_invert_def)

lemma status_enum_value: "status_enum name = enum_value INVITE_STATUS_TO_NAME name"
  by (simp add: status_enum_def enum_value_def STATUS_FROM_NAME_def INVITE_STATUS_TO_NAME_def
      dict_invert_def)

interpretation bff_roles: shared_vocabulary ROLE_TO_NAME bff_ROLE_TO_NAME
  by unfold_locales (simp_all add: ROLE_TO_NAME_def bff_ROLE_TO_NAME_def)

lemma known_role_lower: "known_name ROLE_TO_NAME s \<Longrightarrow> lower s = s"
  by (auto simp: known_name_def ROLE_TO_NAME_def) code_simp+

lemma role_value_name: "role_value (role_name n) = (if known_number ROLE_TO_NAME n then n else 0)"
proof (cases "known_number ROLE_TO_NAME n")
  case True
  with known_role_lower [OF roles.known_enum_name [OF True]] show ?thesis
    by (simp add: role_value_def role_name_def roles.value_of_name)
next
  case False
  then show ?thesis
    using roles.value_zero_iff [of "[]"] roles.empty_absent
    by (simp add: role_value_def role_name_def roles.name_unknown lower_def known_name_def)
qed

text \<open>
  A role means the same at every boundary. Read from the core, shown as a name and written
  on the gRPC port it keeps its number; taken from the gRPC port, named and sent to the core
  it keeps its number; a number outside the vocabulary is never promoted to a role, and a name
  outside it (in any case of letters) is sent as unspecified. The same holds outwards for
  account kinds and invite statuses.
\<close>

theorem role_crosses_boundaries:
  "role_enum (role_name n) = (if n \<in> {1, 2, 3, 4} then n else 0)
   \<and> role_value (bff_role_name n) = (if n \<in> {1, 2, 3, 4} then n else 0)
   \<and> (role_value s = 0 \<longleftrightarrow> lower s \<notin> {''owner'', ''admin'', ''developer'', ''viewer''})
   \<and> kind_enum (account_kind_name n) = (if n \<in> {1, 2} then n else 0)
   \<and> status_enum (invite_status_name n) = (if n \<in> {1, 2, 3, 4} then n else 0)"
proof -
  have k: "known_number ROLE_TO_NAME n \<longleftrightarrow> n \<in> {1, 2, 3, 4}" by (simp add: known_number_def ROLE_TO_NAME_def)
  have "role_enum (role_name n) = (if n \<in> {1, 2, 3, 4} then n else 0)"
    by (simp only: role_enum_def role_name_def bff_roles.crossing_out k)
  moreover have "role_value (bff_role_name n) = (if n \<in> {1, 2, 3, 4} then n else 0)"
    using role_value_name [of n] by (simp only: bff_role_name_def role_name_def bff_roles.same_name k)
  moreover have "role_value s = 0 \<longleftrightarrow> lower s \<notin> {''owner'', ''admin'', ''developer'', ''viewer''}"
    using roles.value_zero_iff [of "lower s"]
    by (simp add: role_value_def) (simp add: known_name_def ROLE_TO_NAME_def)
  moreover have "kind_enum (account_kind_name n) = (if n \<in> {1, 2} then n else 0)"
    by (simp add: kind_enum_value account_kind_name_def kinds.value_of_name)
       (auto simp: known_number_def KIND_TO_NAME_def)
  moreover have "status_enum (invite_status_name n) = (if n \<in> {1, 2, 3, 4} then n else 0)"
    by (simp add: status_enum_value invite_status_name_def invite_statuses.value_of_name)
       (auto simp: known_number_def INVITE_STATUS_TO_NAME_def)
  ultimately show ?thesis by blast
qed

end
