(* ===== verification/Resolver.thy ===== *)
theory Resolver
  imports Identity_Core Vocabulary
begin

text \<open>
  \<^verbatim>\<open>app/coreclient/resolver.py\<close>: who the user is and what they may do, asked of the core once
  per request. A resolver answers the triple of user id, role and grants, or an exception.
\<close>

type_synonym 'w resolver =
  "principal \<Rightarrow> string \<Rightarrow> string \<Rightarrow> ('w, string \<times> string \<times> (string \<rightharpoonup> string)) io"

definition TOLERABLE :: "grpc_status list" where
  "TOLERABLE = [UNIMPLEMENTED, PERMISSION_DENIED, NOT_FOUND]"

text \<open>\<^verbatim>\<open>except AioRpcError as exc: raise as_http(exc) from exc\<close>.\<close>

definition via_http :: "('w, 'a) io \<Rightarrow> ('w, 'a) io" where
  "via_http m = try_with m (\<lambda>e. case e of
      AioRpcError code d \<Rightarrow> raise (as_http code d) | _ \<Rightarrow> raise e)"

definition ensure_user_req :: "principal \<Rightarrow> string \<Rightarrow> ensure_user_request" where
  "ensure_user_req p key = \<lparr>eu_subject = p_subject p, eu_email = p_email p,
     eu_email_verified = p_email_verified p, eu_name = p_name p, eu_avatar_url = p_avatar_url p,
     eu_provider = (case p_providers p of [] \<Rightarrow> [] | x # _ \<Rightarrow> x), eu_idempotency_key = key\<rparr>"

definition ensure_user :: "'w env \<Rightarrow> 'w identity_stub \<Rightarrow> principal \<Rightarrow> string \<Rightarrow> ('w, string) io" where
  "ensure_user env st p raw_token =
     bnd (idempotency_key env) (\<lambda>key.
     mapv cu_id (via_http (bnd channel (\<lambda>_.
       bnd (metadata_for env (no_args\<lparr>m_raw_token := raw_token\<rparr>)) (\<lambda>md.
       call (EnsureUser st) (ensure_user_req p key) (opts_of env md))))))"

definition not_a_member :: exn where
  "not_a_member = HTTPException 403 ''No membership in the requested account''"

definition assert_membership :: "'w env \<Rightarrow> 'w identity_stub \<Rightarrow> string \<Rightarrow> string
    \<Rightarrow> (string \<times> string) list \<Rightarrow> ('w, unit) io" where
  "assert_membership env st user_id account_id md =
     bnd (via_http (bnd channel (\<lambda>_. call (ListAccounts st) user_id (opts_of env md)))) (\<lambda>resp.
       if account_id \<in> set (map ca_id (al_accounts resp)) then ret () else raise not_a_member)"

fun role_among :: "string \<Rightarrow> membership list \<Rightarrow> string" where
  "role_among user_id [] = []"
| "role_among user_id (m # ms) =
     (if mb_user_id m = user_id then role_name (mb_role m) else role_among user_id ms)"

definition role_in_account :: "'w env \<Rightarrow> 'w identity_stub \<Rightarrow> string \<Rightarrow> string
    \<Rightarrow> (string \<times> string) list \<Rightarrow> ('w, string) io" where
  "role_in_account env st user_id account_id md =
     try_with
       (mapv (role_among user_id)
         (bnd channel (\<lambda>_. call (ListMemberships st) account_id (opts_of env md))))
       (\<lambda>e. case e of
           AioRpcError code d \<Rightarrow>
             if code \<in> set TOLERABLE
             then bnd (emit (LogWarning ''role not resolved'' account_id)) (\<lambda>_. ret [])
             else raise (as_http code d)
         | _ \<Rightarrow> raise e)"

definition grants :: "string \<rightharpoonup> string" where
  "grants = Map.empty"

definition core_resolver :: "'w env \<Rightarrow> 'w identity_stub \<Rightarrow> 'w resolver" where
  "core_resolver env st p account_id raw_token =
     bnd (ensure_user env st p raw_token) (\<lambda>user_id.
       if account_id = [] then ret (user_id, [], Map.empty)
       else
         bnd (metadata_for env (no_args\<lparr>m_user_id := user_id, m_account_id := account_id,
                m_actor_name := actor_name p\<rparr>)) (\<lambda>md.
         bnd (assert_membership env st user_id account_id md) (\<lambda>_.
         bnd (role_in_account env st user_id account_id md) (\<lambda>role.
         ret (user_id, role, grants)))))"

section \<open>A resolver leaves the request's context alone\<close>

definition keeps_ctx :: "('w, 'a) io \<Rightarrow> bool" where
  "keeps_ctx m \<longleftrightarrow> (\<forall>s r s'. m s = (r, s') \<longrightarrow> auth_ctx s' = auth_ctx s
     \<and> request_ctx s' = request_ctx s \<and> channel_open s' = channel_open s)"

named_theorems keeps \<open>computations that leave the two ContextVars and the channel as they were\<close>

lemma keeps_ctxD: "keeps_ctx m \<Longrightarrow> m s = (r, s') \<Longrightarrow> auth_ctx s' = auth_ctx s
    \<and> request_ctx s' = request_ctx s \<and> channel_open s' = channel_open s"
  by (simp add: keeps_ctx_def)

lemma keeps_basic [keeps]:
  "keeps_ctx (ret x)" "keeps_ctx (raise e)" "keeps_ctx (ask f)" "keeps_ctx (emit l)"
  "keeps_ctx (outside g)" "keeps_ctx (call rpc req opts)" "keeps_ctx channel"
  "keeps_ctx (idempotency_key env)"
  by (auto simp: keeps_ctx_def io_simps idempotency_key_def split: prod.splits sum.splits)

lemma keeps_bnd [keeps]: "keeps_ctx m \<Longrightarrow> (\<And>x. keeps_ctx (f x)) \<Longrightarrow> keeps_ctx (bnd m f)"
  by (fastforce simp: keeps_ctx_def bnd_run split: prod.splits sum.splits)

lemma keeps_mapv [keeps]: "keeps_ctx m \<Longrightarrow> keeps_ctx (mapv f m)"
  by (simp add: mapv_def keeps)

lemma keeps_try [keeps]: "keeps_ctx m \<Longrightarrow> (\<And>e. keeps_ctx (h e)) \<Longrightarrow> keeps_ctx (try_with m h)"
  by (fastforce simp: keeps_ctx_def try_with_run split: prod.splits sum.splits)

lemma keeps_cases [keeps]:
  "keeps_ctx m \<Longrightarrow> keeps_ctx m' \<Longrightarrow> keeps_ctx (if b then m else m')"
  "keeps_ctx m \<Longrightarrow> (\<And>x. keeps_ctx (f x)) \<Longrightarrow> keeps_ctx (case opt of None \<Rightarrow> m | Some x \<Rightarrow> f x)"
  "(\<And>x. keeps_ctx (g x)) \<Longrightarrow> (\<And>y. keeps_ctx (h y)) \<Longrightarrow> keeps_ctx (case z of Inl x \<Rightarrow> g x | Inr y \<Rightarrow> h y)"
  "keeps_ctx m \<Longrightarrow> (\<And>x l. keeps_ctx (k x l)) \<Longrightarrow> keeps_ctx (case xs of [] \<Rightarrow> m | x # l \<Rightarrow> k x l)"
  "(\<And>x y. keeps_ctx (j x y)) \<Longrightarrow> keeps_ctx (case pr of (x, y) \<Rightarrow> j x y)"
  by (auto split: option.splits sum.splits list.splits prod.splits)

lemma keeps_metadata_for [keeps]: "keeps_ctx (metadata_for env a)"
  using metadata_for_state by (fastforce simp: keeps_ctx_def)

lemma keeps_via_http [keeps]: "keeps_ctx m \<Longrightarrow> keeps_ctx (via_http m)"
  unfolding via_http_def by (rule keeps_try) (auto intro: keeps split: exn.splits)

lemma keeps_core_resolver [keeps]: "keeps_ctx (core_resolver env st p a t)"
  unfolding core_resolver_def ensure_user_def assert_membership_def role_in_account_def
  by (auto intro!: keeps split: exn.splits)

section \<open>What a resolved identity means\<close>

lemma via_http_Inr: "via_http m s = (Inr x, s') \<longleftrightarrow> m s = (Inr x, s')"
  by (auto simp: via_http_def try_with_run split: prod.splits sum.splits exn.splits)

lemma role_among_sound: "role_among u ms \<noteq> [] \<Longrightarrow>
    \<exists>m \<in> set ms. mb_user_id m = u \<and> role_name (mb_role m) = role_among u ms"
  by (induction ms) auto

lemma ensure_user_sound:
  assumes "ensure_user env st p tok s = (Inr u, s')"
  shows "\<exists>usr key md w w'. EnsureUser st (ensure_user_req p key) (opts_of env md) w = (Inr usr, w')
     \<and> cu_id usr = u \<and> (tok \<noteq> [] \<longrightarrow> map_of md ''authorization'' = Some (''Bearer '' @ tok))"
proof -
  from assms obtain key s1 md s2 usr where
    md: "metadata_for env (no_args\<lparr>m_raw_token := tok\<rparr>) s1 = (Inr md, s2)"
    and c: "call (EnsureUser st) (ensure_user_req p key) (opts_of env md) s2 = (Inr usr, s')"
    and u: "u = cu_id usr"
    by (auto simp: ensure_user_def bnd_Inr mapv_Inr via_http_Inr)
  from call_Inr [OF c] obtain w where
    "EnsureUser st (ensure_user_req p key) (opts_of env md) (ext s2) = (Inr usr, w)" by auto
  moreover from metadata_for_says [OF md] have
    "tok \<noteq> [] \<longrightarrow> map_of md ''authorization'' = Some (''Bearer '' @ tok)" by simp
  ultimately show ?thesis using u by blast
qed

lemma assert_membership_sound:
  assumes "assert_membership env st u acc md s = (Inr x, s')"
  shows "\<exists>resp w w'. ListAccounts st u (opts_of env md) w = (Inr resp, w')
     \<and> acc \<in> ca_id ` set (al_accounts resp)"
  using assms
  by (fastforce simp: assert_membership_def bnd_Inr via_http_Inr split: if_splits dest!: call_Inr)

lemma role_in_account_sound:
  assumes "role_in_account env st u acc md s = (Inr role, s')"
  shows "role = [] \<or> (\<exists>ms w w'. ListMemberships st acc (opts_of env md) w = (Inr ms, w')
     \<and> (\<exists>m \<in> set ms. mb_user_id m = u \<and> role_name (mb_role m) = role))"
proof (cases "role = []")
  case False
  from assms obtain ms s1 where c: "call (ListMemberships st) acc (opts_of env md) s1 = (Inr ms, s')"
    and r: "role = role_among u ms" using False
    by (auto simp: role_in_account_def try_with_run bnd_Inr mapv_run bnd_run
        split: prod.splits sum.splits if_splits exn.splits)
  with False call_Inr [OF c] role_among_sound [of u ms] show ?thesis by blast
qed simp

text \<open>
  C11. The edge decides no permission. Whoever the resolver answers with is the user the core's
  EnsureUser named for this person's own token; with no account selected the role is empty; with
  one, the core's own list of that user's accounts contained it, the role is empty or the one
  the core's membership list gives that user there, and no grant is made up.
\<close>

theorem resolved_by_the_core:
  assumes "core_resolver env st p acc tok s = (Inr (u, role, gr), s')"
  shows "(\<exists>usr key md w w'. EnsureUser st (ensure_user_req p key) (opts_of env md) w = (Inr usr, w')
        \<and> cu_id usr = u \<and> (tok \<noteq> [] \<longrightarrow> map_of md ''authorization'' = Some (''Bearer '' @ tok)))
    \<and> gr = Map.empty
    \<and> (if acc = [] then role = []
       else (\<exists>resp opts w w'. ListAccounts st u opts w = (Inr resp, w')
               \<and> acc \<in> ca_id ` set (al_accounts resp))
          \<and> (role = [] \<or> (\<exists>ms opts w w'. ListMemberships st acc opts w = (Inr ms, w')
               \<and> (\<exists>m \<in> set ms. mb_user_id m = u \<and> role_name (mb_role m) = role))))"
proof -
  from assms obtain u' s1 where e': "ensure_user env st p tok s = (Inr u', s1)"
    and k: "(if acc = [] then ret (u', [], Map.empty) else
         bnd (metadata_for env (no_args\<lparr>m_user_id := u', m_account_id := acc,
                m_actor_name := actor_name p\<rparr>)) (\<lambda>md.
         bnd (assert_membership env st u' acc md) (\<lambda>_.
         bnd (role_in_account env st u' acc md) (\<lambda>role.
         ret (u', role, grants))))) s1 = (Inr (u, role, gr), s')"
    by (auto simp: core_resolver_def bnd_Inr)
  from k have u: "u' = u" by (auto simp: bnd_Inr split: if_splits)
  from k have rest: "if acc = [] then role = [] \<and> gr = Map.empty
       else gr = grants \<and> (\<exists>md s2 x s3. assert_membership env st u acc md s2 = (Inr x, s3)
         \<and> role_in_account env st u acc md s3 = (Inr role, s'))"
    by (auto simp: bnd_Inr split: if_splits)
  from e' u have e: "ensure_user env st p tok s = (Inr u, s1)" by simp
  show ?thesis
  proof (cases "acc = []")
    case True
    with ensure_user_sound [OF e] rest show ?thesis by auto
  next
    case False
    with rest obtain md s2 x s3 where "assert_membership env st u acc md s2 = (Inr x, s3)"
      and "role_in_account env st u acc md s3 = (Inr role, s')" and g: "gr = grants" by auto
    from assert_membership_sound [OF this(1)] role_in_account_sound [OF this(2)]
      ensure_user_sound [OF e] False g
    show ?thesis by (fastforce simp: grants_def)
  qed
qed

definition demo_user :: core_user where
  "demo_user = \<lparr>cu_id = ''u-1'', cu_name = ''Ana'', cu_avatar_url = [], cu_locale = ''en'', cu_timezone = [],
     cu_phone = ''+1'', cu_phone_verified = False, cu_email_verified = True, cu_birth_date = [],
     cu_onboarded = True, cu_phone_whatsapp = False\<rparr>"

definition demo_account :: core_account where
  "demo_account = \<lparr>ca_id = ''acc-1'', ca_kind = 2, ca_handle = ''dop'', ca_display_name = ''DOP'',
     ca_plan_key = ''free''\<rparr>"

definition demo_membership :: membership where
  "demo_membership = \<lparr>mb_id = ''m-1'', mb_user_id = ''u-1'', mb_account_id = ''acc-1'', mb_role = 3\<rparr>"

definition demo_invite :: core_invite where
  "demo_invite = \<lparr>ci_id = ''i-1'', ci_email = ''bo@dop.dev'', ci_role = 3, ci_status = 1,
     ci_expires_at = no_time\<rparr>"

definition demo_journey :: core_onboarding where
  "demo_journey = \<lparr>co_steps = [(''profile'', ''done'')], co_current = ''plan'', co_complete = False,
     co_email_verified = True, co_phone = [], co_phone_verified = False, co_code_connections = 0,
     co_task_connections = 0, co_plan_key = [], co_personal_account_id = ''acc-0''\<rparr>"

definition demo_identity :: "nat identity_stub" where
  "demo_identity = \<lparr>EnsureUser = answering demo_user, GetUser = answering demo_user,
     UpdateProfile = answering demo_user, GetOnboarding = answering demo_journey,
     RecordOnboardingStep = answering demo_journey, CompleteOnboarding = answering demo_journey,
     CheckHandle = answering \<lparr>ch_handle = ''dop'', ch_available = False, ch_suggestion = ''dop2''\<rparr>,
     UpdatePersonalAccount = answering demo_account, SetPlan = answering demo_account,
     ListAccounts = answering \<lparr>al_accounts = [demo_account], al_items = [(demo_account, 3)]\<rparr>,
     GetAccount = answering demo_account, CreateAccount = answering demo_account,
     ListMemberships = answering [demo_membership], UpdateMembership = answering demo_membership,
     RemoveMembership = answering (), CreateInvite = answering demo_invite,
     ListInvites = answering [demo_invite],
     GetInvite = answering \<lparr>cp_id = ''i-1'', cp_account_name = ''DOP'', cp_role = 3, cp_status = 1,
        cp_expires_at = no_time, cp_usable = True\<rparr>,
     AcceptInvite = answering demo_membership, RevokeInvite = answering demo_invite,
     SendEmailVerification = answering ()\<rparr>"

theorem resolved_by_the_core_witness:
  "core_resolver demo_env demo_identity demo_principal ''acc-1'' ''tok'' (demo_rt None)
     = (Inr (''u-1'', ''developer'', Map.empty), demo_rt None\<lparr>ext := 3\<rparr>)
   \<and> (\<exists>ms opts w w'. ListMemberships demo_identity ''acc-1'' opts w = (Inr ms, w')
        \<and> (\<exists>m \<in> set ms. mb_user_id m = ''u-1'' \<and> role_name (mb_role m) = ''developer''))"
proof -
  have role: "role_name 3 = ''developer''" by code_simp
  have run: "core_resolver demo_env demo_identity demo_principal ''acc-1'' ''tok'' (demo_rt None)
     = (Inr (''u-1'', ''developer'', Map.empty), demo_rt None\<lparr>ext := 3\<rparr>)"
    by (simp add: core_resolver_def ensure_user_def assert_membership_def role_in_account_def
        via_http_def io_simps demo_run idempotency_key_def demo_identity_def
        role grants_def demo_user_def demo_account_def demo_membership_def)
  from resolved_by_the_core [OF run] run show ?thesis by simp
qed

end
