(* ===== verification/Firebase.thy ===== *)
theory Firebase
  imports CoreClient
begin

text \<open>
  \<^verbatim>\<open>app/platform/security/firebase.py\<close>: from a raw token to a normalized principal. PyJWT,
  the certificate parser, \<^verbatim>\<open>json.loads\<close>, SHA-256 and Google's certificate endpoint are
  parameters, in the record \<open>'w fb_env\<close>; the certificate cache of the verifier is kept in the
  world and reached through two of them. Claims have the types Firebase documents.
\<close>

section \<open>Claims and environment\<close>

record claims =
  cl_sub :: "string option"
  cl_user_id :: "string option"
  cl_email :: "string option"
  cl_email_verified :: "bool option"
  cl_name :: "string option"
  cl_picture :: "string option"
  cl_identities :: "string list"
  cl_sign_in_provider :: "string option"
  cl_auth_time :: "int option"
  cl_iat :: "int option"
  cl_exp :: "int option"
  cl_aud :: "string option"

record cert_cache =
  cc_keys :: "string \<rightharpoonup> string"
  cc_fetched_at :: real

text \<open>
  \<open>f_header\<close> reads a token's unverified header (algorithm, key id) or refuses it as malformed;
  \<open>f_jwt token key project\<close> is \<^verbatim>\<open>jwt.decode\<close> with RS256 only, the project as audience, its
  issuer, the 60 seconds of leeway and the required claims, \<^verbatim>\<open>None\<close> when it raises.
\<close>

record 'w fb_env =
  f_env :: "'w env"
  f_project_id :: string
  f_emulator_host :: string
  f_cache :: "'w \<Rightarrow> cert_cache"
  f_put_cache :: "cert_cache \<Rightarrow> 'w \<Rightarrow> 'w"
  f_http_certs :: "'w \<Rightarrow> (exn + (string \<rightharpoonup> string)) \<times> 'w"
  f_header :: "string \<Rightarrow> (string option \<times> string option) option"
  f_pem_key :: "string \<Rightarrow> exn + string"
  f_jwt :: "string \<Rightarrow> string \<Rightarrow> string \<Rightarrow> claims option"
  f_json :: "string \<Rightarrow> claims option"
  f_sha256_hex :: "string \<Rightarrow> string"

definition outside_exn :: "('w \<Rightarrow> (exn + 'a) \<times> 'w) \<Rightarrow> ('w, 'a) io" where
  "outside_exn f = (\<lambda>s. case f (ext s) of (r, w) \<Rightarrow> (r, s\<lparr>ext := w\<rparr>))"

lemma outside_exn_run [io_simps]: "outside_exn f s = (case f (ext s) of (r, w) \<Rightarrow> (r, s\<lparr>ext := w\<rparr>))"
  by (simp add: outside_exn_def)

definition using_emulator :: "'w fb_env \<Rightarrow> bool" where
  "using_emulator fe \<longleftrightarrow> f_emulator_host fe \<noteq> []"

definition CLOCK_SKEW_S :: real where
  "CLOCK_SKEW_S = 60"

section \<open>Certificates, with the brake\<close>

definition fetch_certificates :: "'w fb_env \<Rightarrow> ('w, unit) io" where
  "fetch_certificates fe =
     bnd (outside (time_now (f_env fe))) (\<lambda>now.
     bnd (ask (\<lambda>s. f_cache fe (ext s))) (\<lambda>cache.
     if now - cc_fetched_at cache < 30 then ret ()
     else bnd (outside_exn (f_http_certs fe)) (\<lambda>keys.
          bnd (outside (time_now (f_env fe))) (\<lambda>t.
          outside (\<lambda>w. ((), f_put_cache fe \<lparr>cc_keys = keys, cc_fetched_at = t\<rparr> w))))))"

definition public_key :: "'w fb_env \<Rightarrow> string \<Rightarrow> ('w, string) io" where
  "public_key fe token = (case f_header fe token of
      None \<Rightarrow> raise (InvalidToken ''malformed token'')
    | Some (alg, kid) \<Rightarrow>
        if alg \<noteq> Some ''RS256'' then raise (InvalidToken ''signature algorithm not accepted'')
        else (case kid of
            None \<Rightarrow> raise (InvalidToken ''token with no kid'')
          | Some k \<Rightarrow>
              if k = [] then raise (InvalidToken ''token with no kid'')
              else
                bnd (ask (\<lambda>s. cc_keys (f_cache fe (ext s)) k)) (\<lambda>here.
                bnd (if here = None then fetch_certificates fe else ret ()) (\<lambda>_.
                bnd (ask (\<lambda>s. cc_keys (f_cache fe (ext s)) k)) (\<lambda>cert.
                case cert of
                  None \<Rightarrow> raise (InvalidToken ''unknown signing key'')
                | Some pem \<Rightarrow>
                    if pem = [] then raise (InvalidToken ''unknown signing key'')
                    else (case f_pem_key fe pem of Inl e \<Rightarrow> raise e | Inr key \<Rightarrow> ret key))))))"

section \<open>The two paths\<close>

definition verified_claims :: "'w fb_env \<Rightarrow> string \<Rightarrow> ('w, claims) io" where
  "verified_claims fe token =
     (if f_project_id fe = [] then raise (InvalidToken ''the verifier has no project configured'')
      else bnd (public_key fe token) (\<lambda>key.
        case f_jwt fe token key (f_project_id fe) of
          None \<Rightarrow> raise (InvalidToken ''invalid token'')
        | Some cl \<Rightarrow> ret cl))"

definition decode_payload :: "'w fb_env \<Rightarrow> string \<Rightarrow> exn + claims" where
  "decode_payload fe segment = (case urlsafe_b64decode (repad segment) of
      None \<Rightarrow> Inl (InvalidToken ''unreadable payload'')
    | Some bytes \<Rightarrow> (case f_json fe bytes of
          None \<Rightarrow> Inl (InvalidToken ''unreadable payload'')
        | Some cl \<Rightarrow> Inr cl))"

definition emulator_claims :: "'w fb_env \<Rightarrow> string \<Rightarrow> ('w, claims) io" where
  "emulator_claims fe token =
     (case py_split ''.'' token of
        p0 # p1 # ps \<Rightarrow>
          (case decode_payload fe p1 of
             Inl e \<Rightarrow> raise e
           | Inr cl \<Rightarrow>
               bnd (case cl_exp cl of
                      None \<Rightarrow> ret ()
                    | Some expiry \<Rightarrow>
                        if expiry = 0 then ret ()
                        else bnd (outside (time_now (f_env fe))) (\<lambda>now.
                          if real_of_int expiry + CLOCK_SKEW_S < now
                          then raise (InvalidToken ''expired token'') else ret ())) (\<lambda>_.
               case cl_aud cl of
                 None \<Rightarrow> ret cl
               | Some aud \<Rightarrow>
                   if aud \<noteq> [] \<and> f_project_id fe \<noteq> [] \<and> aud \<noteq> f_project_id fe
                   then raise (InvalidToken ''token issued for another project'')
                   else ret cl))
      | _ \<Rightarrow> raise (InvalidToken ''malformed token''))"

section \<open>Normalization\<close>

definition opt_str :: "string option \<Rightarrow> string" where
  "opt_str x = (case x of None \<Rightarrow> [] | Some s \<Rightarrow> s)"

text \<open>\<^verbatim>\<open>str(claims.get("auth_time") or claims.get("iat") or "")\<close>, where zero is false.\<close>

definition auth_instant :: "claims \<Rightarrow> string" where
  "auth_instant cl = (case cl_auth_time cl of
      Some t \<Rightarrow> if t \<noteq> 0 then str_int t
                else (case cl_iat cl of Some i \<Rightarrow> if i \<noteq> 0 then str_int i else [] | None \<Rightarrow> [])
    | None \<Rightarrow> (case cl_iat cl of Some i \<Rightarrow> if i \<noteq> 0 then str_int i else [] | None \<Rightarrow> []))"

definition session_id :: "'w fb_env \<Rightarrow> string \<Rightarrow> claims \<Rightarrow> string" where
  "session_id fe subject cl = take 32 (f_sha256_hex fe (subject @ '':'' @ auth_instant cl))"

definition subject_of :: "claims \<Rightarrow> string" where
  "subject_of cl = str_or (opt_str (cl_sub cl)) (opt_str (cl_user_id cl))"

definition normalize :: "'w fb_env \<Rightarrow> claims \<Rightarrow> exn + principal" where
  "normalize fe cl =
     (let subject = subject_of cl;
          sip = opt_str (cl_sign_in_provider cl)
      in if subject = [] then Inl (InvalidToken ''token with no subject'')
         else Inr \<lparr>p_subject = subject, p_email = opt_str (cl_email cl),
           p_email_verified = (cl_email_verified cl = Some True), p_name = opt_str (cl_name cl),
           p_avatar_url = opt_str (cl_picture cl),
           p_providers = cl_identities cl @ (if sip = [] then [] else [sip]),
           p_session_id = session_id fe subject cl\<rparr>)"

definition bearer :: "string \<Rightarrow> string" where
  "bearer raw = strip (removeprefix ''Bearer '' raw)"

definition verify :: "'w fb_env \<Rightarrow> string \<Rightarrow> ('w, principal) io" where
  "verify fe raw =
     (let token = bearer raw in
      if token = [] then raise (InvalidToken ''missing token'')
      else bnd (if using_emulator fe then emulator_claims fe token else verified_claims fe token)
        (\<lambda>cl. case normalize fe cl of Inl e \<Rightarrow> raise e | Inr p \<Rightarrow> ret p))"

section \<open>What a verified token means\<close>

lemma public_key_sound:
  assumes "public_key fe token s = (Inr key, s')"
  obtains kid pem where "f_header fe token = Some (Some ''RS256'', Some kid)"
    and "cc_keys (f_cache fe (ext s')) kid = Some pem" and "f_pem_key fe pem = Inr key"
  using assms
  by (auto simp: public_key_def io_simps split: option.splits if_splits sum.splits prod.splits)

lemma verified_claims_sound:
  assumes "verified_claims fe token s = (Inr cl, s')"
  obtains kid pem key where "f_project_id fe \<noteq> []"
    and "f_header fe token = Some (Some ''RS256'', Some kid)"
    and "cc_keys (f_cache fe (ext s')) kid = Some pem" and "f_pem_key fe pem = Inr key"
    and "f_jwt fe token key (f_project_id fe) = Some cl"
proof -
  from assms obtain key s'' where pk: "public_key fe token s = (Inr key, s'')"
    and proj: "f_project_id fe \<noteq> []" and jwt: "f_jwt fe token key (f_project_id fe) = Some cl"
    and "s'' = s'"
    by (auto simp: verified_claims_def bnd_run split: if_splits prod.splits sum.splits option.splits)
  with public_key_sound [OF pk] show ?thesis using that by metis
qed

text \<open>
  C7. In production nobody gets in on an unverified token. When the emulator is not configured, a
  principal comes out only if a project is configured, the token's header says RS256 and names
  a key, that key is in Google's certificates the verifier holds, and \<^verbatim>\<open>jwt.decode\<close> accepted the
  signature, the audience and the validity under it; and the principal is those claims'
  subject, which is not empty. The token never chooses the path: only the configuration does.
\<close>

theorem production_token_verified:
  assumes "f_emulator_host fe = []" and "verify fe raw s = (Inr p, s')"
  shows "f_project_id fe \<noteq> [] \<and> p_subject p \<noteq> []
    \<and> (\<exists>kid pem key cl. f_header fe (bearer raw) = Some (Some ''RS256'', Some kid)
        \<and> cc_keys (f_cache fe (ext s')) kid = Some pem \<and> f_pem_key fe pem = Inr key
        \<and> f_jwt fe (bearer raw) key (f_project_id fe) = Some cl
        \<and> normalize fe cl = Inr p \<and> p_subject p = subject_of cl)"
proof -
  from assms obtain cl where vc: "verified_claims fe (bearer raw) s = (Inr cl, s')"
    and n: "normalize fe cl = Inr p"
    by (auto simp: verify_def using_emulator_def Let_def bnd_run
        split: if_splits prod.splits sum.splits)
  from n have "p_subject p = subject_of cl" "subject_of cl \<noteq> []"
    by (auto simp: normalize_def Let_def split: if_splits)
  with verified_claims_sound [OF vc] n show ?thesis by metis
qed

definition demo_claims :: claims where
  "demo_claims = \<lparr>cl_sub = Some ''sub-1'', cl_user_id = None, cl_email = Some ''ana@dop.dev'',
     cl_email_verified = Some True, cl_name = None, cl_picture = None, cl_identities = [''google.com''],
     cl_sign_in_provider = Some ''google.com'', cl_auth_time = Some 7, cl_iat = None, cl_exp = Some 2000,
     cl_aud = Some ''dop-local''\<rparr>"

definition demo_fb :: "nat fb_env" where
  "demo_fb = \<lparr>f_env = demo_env, f_project_id = ''dop-local'', f_emulator_host = '''',
     f_cache = (\<lambda>w. \<lparr>cc_keys = [''k1'' \<mapsto> ''PEM''], cc_fetched_at = 0\<rparr>), f_put_cache = (\<lambda>c w. w),
     f_http_certs = (\<lambda>w. (Inr [''k1'' \<mapsto> ''PEM''], Suc w)),
     f_header = (\<lambda>t. if t = ''a.b.c'' then Some (Some ''RS256'', Some ''k1'') else Some (Some ''none'', None)),
     f_pem_key = Inr, f_jwt = (\<lambda>t k pr. Some demo_claims), f_json = (\<lambda>b. Some demo_claims),
     f_sha256_hex = (\<lambda>b. b)\<rparr>"

theorem production_token_verified_witness:
  "\<exists>p. verify demo_fb ''Bearer a.b.c'' (demo_rt None) = (Inr p, demo_rt None)
     \<and> p_subject p = ''sub-1'' \<and> normalize demo_fb demo_claims = Inr p"
proof -
  have b: "bearer ''Bearer a.b.c'' = ''a.b.c''" by code_simp
  obtain p where run: "verify demo_fb ''Bearer a.b.c'' (demo_rt None) = (Inr p, demo_rt None)"
    by (simp add: verify_def b using_emulator_def demo_fb_def verified_claims_def public_key_def
        bnd_run normalize_def demo_claims_def subject_of_def opt_str_def Let_def)
  have "f_emulator_host demo_fb = []" by (simp add: demo_fb_def)
  from production_token_verified [OF this run] have "normalize demo_fb demo_claims = Inr p"
    and "p_subject p = subject_of demo_claims"
    by (auto simp: demo_fb_def)
  then show ?thesis using run by (auto simp: demo_claims_def subject_of_def opt_str_def)
qed

text \<open>
  A token that declares itself unsigned, or signed with anything but RS256, is refused on the
  production path before a key is looked up, whatever else it says, and without a step outside.
\<close>

theorem algorithm_confusion_refused:
  assumes "f_emulator_host fe = []" and "bearer raw \<noteq> []"
    and "\<forall>kid. f_header fe (bearer raw) \<noteq> Some (Some ''RS256'', kid)"
  shows "\<exists>msg. verify fe raw s = (Inl (InvalidToken msg), s)"
  using assms
  by (auto simp: verify_def using_emulator_def Let_def verified_claims_def public_key_def
      split: option.splits)

theorem algorithm_confusion_refused_witness:
  "\<exists>msg. verify demo_fb ''Bearer e.e.'' (demo_rt None) = (Inl (InvalidToken msg), demo_rt None)"
proof (rule algorithm_confusion_refused)
  have b: "bearer ''Bearer e.e.'' = ''e.e.''" by code_simp
  show "f_emulator_host demo_fb = []" by (simp add: demo_fb_def)
  show "bearer ''Bearer e.e.'' \<noteq> []" by (simp add: b)
  show "\<forall>kid. f_header demo_fb (bearer ''Bearer e.e.'') \<noteq> Some (Some ''RS256'', kid)"
    by (simp add: b demo_fb_def)
qed

section \<open>The brake\<close>

text \<open>
  The certificate endpoint is asked at most once every 30 seconds as long as it answers: an
  attempt within 30 seconds of the last fetch that succeeded leaves the endpoint and the cache
  alone; one that goes through stamps the cache with the new keys and the instant it finished;
  and one that fails leaves the stamp as it was, so it does not count against the next.
\<close>

theorem certificate_brake:
  assumes lens: "\<forall>c w. f_cache fe (f_put_cache fe c w) = c"
    and clock: "\<forall>w. f_cache fe (snd (time_now (f_env fe) w)) = f_cache fe w"
    and http: "\<forall>w. f_cache fe (snd (f_http_certs fe w)) = f_cache fe w"
    and now: "time_now (f_env fe) (ext s) = (now, w1)"
    and run: "fetch_certificates fe s = (r, s')"
  shows "if now - cc_fetched_at (f_cache fe (ext s)) < 30
    then r = Inr () \<and> ext s' = w1 \<and> f_cache fe (ext s') = f_cache fe (ext s)
    else (case fst (f_http_certs fe w1) of
        Inl e \<Rightarrow> r = Inl e \<and> f_cache fe (ext s') = f_cache fe (ext s)
      | Inr keys \<Rightarrow> r = Inr () \<and> f_cache fe (ext s') =
          \<lparr>cc_keys = keys, cc_fetched_at = fst (time_now (f_env fe) (snd (f_http_certs fe w1)))\<rparr>)"
proof -
  have c1: "f_cache fe w1 = f_cache fe (ext s)" using clock now by (metis snd_conv)
  show ?thesis
  proof (cases "now - cc_fetched_at (f_cache fe (ext s)) < 30")
    case True
    with run now c1 show ?thesis by (auto simp: fetch_certificates_def io_simps)
  next
    case False
    obtain a w2 where h: "f_http_certs fe w1 = (a, w2)" by fastforce
    obtain t w3 where t: "time_now (f_env fe) w2 = (t, w3)" by fastforce
    from http h have "f_cache fe w2 = f_cache fe w1" by (metis snd_conv)
    with False run now c1 h t lens show ?thesis
      by (cases a) (auto simp: fetch_certificates_def io_simps)
  qed
qed

definition brake_fb :: "real \<Rightarrow> cert_cache fb_env" where
  "brake_fb t = \<lparr>f_env = \<lparr>cfg = demo_settings, uuid4_hex = (\<lambda>w. ([], w)), time_now = (\<lambda>w. (t, w)),
       hmac_sha256_hex = (\<lambda>k p. k)\<rparr>,
     f_project_id = ''dop-local'', f_emulator_host = [], f_cache = (\<lambda>w. w), f_put_cache = (\<lambda>c w. c),
     f_http_certs = (\<lambda>w. (Inr [''k2'' \<mapsto> ''PEM2''], w)), f_header = (\<lambda>t. None), f_pem_key = Inr,
     f_jwt = (\<lambda>t k pr. None), f_json = (\<lambda>b. None), f_sha256_hex = (\<lambda>b. b)\<rparr>"

definition brake_rt :: "cert_cache rt" where
  "brake_rt = \<lparr>auth_ctx = None, request_ctx = Map.empty, channel_open = True, log_lines = [],
     ext = \<lparr>cc_keys = Map.empty, cc_fetched_at = 100\<rparr>\<rparr>"

theorem certificate_brake_witness:
  "\<exists>s'. fetch_certificates (brake_fb 131) brake_rt = (Inr (), s')
     \<and> ext s' = \<lparr>cc_keys = [''k2'' \<mapsto> ''PEM2''], cc_fetched_at = 131\<rparr>"
proof -
  obtain r s' where run: "fetch_certificates (brake_fb 131) brake_rt = (r, s')" by fastforce
  show ?thesis
    using certificate_brake [of "brake_fb 131" brake_rt 131 "ext brake_rt" r s'] run
    by (simp add: brake_fb_def brake_rt_def)
qed

end
