(* ===== verification/Routes.thy ===== *)
theory Routes
  imports Prelude
begin

text \<open>
  The registry of exempt routes of \<^verbatim>\<open>app/platform/security/decorator.py\<close>: flattening the route
  tree, turning a path template into a pattern, and asking whether a request matches one. The
  templates of the routers contain letters, digits, \<open>/\<close>, \<open>-\<close>, \<open>_\<close> and parameters in braces, so
  outside a parameter a character of the pattern matches itself.
\<close>

section \<open>The route tree\<close>

text \<open>The markers the decorators leave on an endpoint.\<close>

record endpoint =
  is_public_marked :: bool
  is_token_only_marked :: bool

record leaf_route =
  lr_endpoint :: "endpoint option"
  lr_path :: string
  lr_methods :: "string list"

text \<open>
  A wrapper holds its children under \<^verbatim>\<open>.routes\<close>, or, failing that, under
  \<^verbatim>\<open>.original_router.routes\<close>; both are its \<open>nested\<close> list here. A wrapper with no children is
  yielded itself, like a leaf.
\<close>

datatype route = Route leaf_route "route list"

fun flatten :: "route list \<Rightarrow> leaf_route list" where
  "flatten [] = []"
| "flatten (Route r nested # rs) = (if nested = [] then [r] else flatten nested) @ flatten rs"

section \<open>Patterns\<close>

datatype tok = Lit char | Seg

text \<open>\<^verbatim>\<open>re.sub(r"\{[^}]+\}", "[^/]+", path)\<close>, character by character.\<close>

function compile :: "string \<Rightarrow> tok list" where
  "compile [] = []"
| "compile (c # cs) =
     (if c = CHR ''{'' \<and> takeWhile (\<lambda>x. x \<noteq> CHR ''}'') cs \<noteq> [] \<and> dropWhile (\<lambda>x. x \<noteq> CHR ''}'') cs \<noteq> []
      then Seg # compile (tl (dropWhile (\<lambda>x. x \<noteq> CHR ''}'') cs))
      else Lit c # compile cs)"
  by pat_completeness auto
termination
  by (relation "measure length") (auto intro: le_imp_less_Suc le_trans [OF diff_le_self length_dropWhile_le])

text \<open>
  \<^verbatim>\<open>re.match("^...$")\<close>: a parameter takes one or more characters other than a slash, and the
  final \<^verbatim>\<open>$\<close> also matches before a trailing newline.
\<close>

fun matches :: "tok list \<Rightarrow> string \<Rightarrow> bool" where
  "matches [] s = (s = [] \<or> s = [CHR 0x0A])"
| "matches (Lit c # ts) [] = False"
| "matches (Lit c # ts) (x # s) = (c = x \<and> matches ts s)"
| "matches (Seg # ts) [] = False"
| "matches (Seg # ts) (x # s) = (x \<noteq> CHR ''/'' \<and> (matches ts s \<or> matches (Seg # ts) s))"

type_synonym patterns = "(string \<times> tok list) list"

definition upper_char :: "char \<Rightarrow> char" where
  "upper_char c = (let n = (of_char c :: nat) in if 97 \<le> n \<and> n \<le> 122 then char_of (n - 32) else c)"

definition upper :: "string \<Rightarrow> string" where
  "upper = map upper_char"

record registry =
  PUBLIC_PATTERNS :: patterns
  TOKEN_ONLY_PATTERNS :: patterns

definition patterns_of :: "leaf_route \<Rightarrow> patterns" where
  "patterns_of r = map (\<lambda>m. (upper m, compile (lr_path r))) (lr_methods r)"

text \<open>One turn of the loop of \<^verbatim>\<open>register_public_routes\<close>, and the loop from two cleared lists.\<close>

definition register_one :: "leaf_route \<Rightarrow> registry \<Rightarrow> registry" where
  "register_one r reg = (case lr_endpoint r of
      None \<Rightarrow> reg
    | Some e \<Rightarrow>
        if is_public_marked e then
          (if lr_path r = [] then reg
           else reg\<lparr>PUBLIC_PATTERNS := PUBLIC_PATTERNS reg @ patterns_of r\<rparr>)
        else if is_token_only_marked e then
          (if lr_path r = [] then reg
           else reg\<lparr>TOKEN_ONLY_PATTERNS := TOKEN_ONLY_PATTERNS reg @ patterns_of r\<rparr>)
        else reg)"

definition register_public_routes :: "route list \<Rightarrow> registry \<Rightarrow> registry" where
  "register_public_routes routes reg =
     fold register_one (flatten routes) \<lparr>PUBLIC_PATTERNS = [], TOKEN_ONLY_PATTERNS = []\<rparr>"

record request =
  rq_method :: string
  rq_path :: string
  rq_headers :: "string \<rightharpoonup> string"

definition is_public :: "registry \<Rightarrow> request \<Rightarrow> bool" where
  "is_public reg q \<longleftrightarrow> (\<exists>(m, p) \<in> set (PUBLIC_PATTERNS reg). m = upper (rq_method q) \<and> matches p (rq_path q))"

definition is_token_only :: "registry \<Rightarrow> request \<Rightarrow> bool" where
  "is_token_only reg q \<longleftrightarrow>
     (\<exists>(m, p) \<in> set (TOKEN_ONLY_PATTERNS reg). m = upper (rq_method q) \<and> matches p (rq_path q))"

section \<open>What a pattern matches\<close>

text \<open>A template filled in: each parameter replaced by a non-empty text without a slash.\<close>

fun fills :: "tok list \<Rightarrow> string \<Rightarrow> bool" where
  "fills [] s = (s = [])"
| "fills (Lit c # ts) s = (\<exists>t. s = c # t \<and> fills ts t)"
| "fills (Seg # ts) s = (\<exists>w t. s = w @ t \<and> w \<noteq> [] \<and> CHR ''/'' \<notin> set w \<and> fills ts t)"

lemma fills_Seg_Cons:
  "fills (Seg # ts) (x # s) \<longleftrightarrow> x \<noteq> CHR ''/'' \<and> (fills ts s \<or> fills (Seg # ts) s)"
proof
  assume "fills (Seg # ts) (x # s)"
  then obtain w t where w: "x # s = w @ t" "w \<noteq> []" "CHR ''/'' \<notin> set w" "fills ts t" by auto
  then obtain v where v: "w = x # v" "s = v @ t" by (cases w) auto
  show "x \<noteq> CHR ''/'' \<and> (fills ts s \<or> fills (Seg # ts) s)"
  proof (cases "v = []")
    case True
    with w v show ?thesis by auto
  next
    case False
    with w v have "fills (Seg # ts) s" by auto
    with w v show ?thesis by auto
  qed
next
  assume a: "x \<noteq> CHR ''/'' \<and> (fills ts s \<or> fills (Seg # ts) s)"
  then consider "fills ts s" | w t where "s = w @ t" "w \<noteq> []" "CHR ''/'' \<notin> set w" "fills ts t" by auto
  then show "fills (Seg # ts) (x # s)"
  proof cases
    case 1
    with a have "x # s = [x] @ s \<and> [x] \<noteq> [] \<and> CHR ''/'' \<notin> set [x] \<and> fills ts s" by simp
    then show ?thesis unfolding fills.simps by blast
  next
    case (2 w t)
    with a have "x # s = (x # w) @ t \<and> x # w \<noteq> [] \<and> CHR ''/'' \<notin> set (x # w) \<and> fills ts t" by auto
    then show ?thesis unfolding fills.simps by blast
  qed
qed

lemma matches_iff_fills: "matches ts s \<longleftrightarrow> fills ts s \<or> (\<exists>s'. s = s' @ [CHR 0x0A] \<and> fills ts s')"
proof (induction ts s rule: matches.induct)
  case (3 c ts x s)
  then show ?case by (auto simp: Cons_eq_append_conv append_eq_Cons_conv)
next
  case (5 ts x s)
  have "(\<exists>s'. x # s = s' @ [CHR 0x0A] \<and> fills (Seg # ts) s')
      \<longleftrightarrow> x \<noteq> CHR ''/'' \<and> (\<exists>u. s = u @ [CHR 0x0A] \<and> (fills ts u \<or> fills (Seg # ts) u))"
  proof
    assume "\<exists>s'. x # s = s' @ [CHR 0x0A] \<and> fills (Seg # ts) s'"
    then obtain s' where s': "x # s = s' @ [CHR 0x0A]" "fills (Seg # ts) s'" by blast
    then obtain u where "s' = x # u" "s = u @ [CHR 0x0A]" by (cases s') auto
    with s'(2) show "x \<noteq> CHR ''/'' \<and> (\<exists>u. s = u @ [CHR 0x0A] \<and> (fills ts u \<or> fills (Seg # ts) u))"
      by (metis fills_Seg_Cons)
  next
    assume "x \<noteq> CHR ''/'' \<and> (\<exists>u. s = u @ [CHR 0x0A] \<and> (fills ts u \<or> fills (Seg # ts) u))"
    then show "\<exists>s'. x # s = s' @ [CHR 0x0A] \<and> fills (Seg # ts) s'"
      by (metis append_Cons fills_Seg_Cons)
  qed
  with 5 show ?case unfolding matches.simps fills_Seg_Cons by blast
qed auto

section \<open>What the registry holds\<close>

definition exempt :: "(endpoint \<Rightarrow> bool) \<Rightarrow> leaf_route \<Rightarrow> bool" where
  "exempt mark r \<longleftrightarrow> (\<exists>e. lr_endpoint r = Some e \<and> mark e) \<and> lr_path r \<noteq> []"

lemma register_fold:
  "set (PUBLIC_PATTERNS (fold register_one rs reg)) =
     set (PUBLIC_PATTERNS reg) \<union> (\<Union>r \<in> {r \<in> set rs. exempt is_public_marked r}. set (patterns_of r))
   \<and> set (TOKEN_ONLY_PATTERNS (fold register_one rs reg)) =
     set (TOKEN_ONLY_PATTERNS reg)
       \<union> (\<Union>r \<in> {r \<in> set rs. exempt (\<lambda>e. is_token_only_marked e \<and> \<not> is_public_marked e) r}. set (patterns_of r))"
  by (induction rs arbitrary: reg)
     (auto simp: register_one_def exempt_def split: option.splits if_splits)

definition serves :: "leaf_route \<Rightarrow> request \<Rightarrow> bool" where
  "serves r q \<longleftrightarrow> upper (rq_method q) \<in> upper ` set (lr_methods r)
     \<and> (fills (compile (lr_path r)) (rq_path q)
        \<or> (\<exists>s. rq_path q = s @ [CHR 0x0A] \<and> fills (compile (lr_path r)) s))"

lemma patterns_of_serves:
  "(\<exists>(m, p) \<in> set (patterns_of r). m = upper (rq_method q) \<and> matches p (rq_path q)) \<longleftrightarrow> serves r q"
  by (auto simp: patterns_of_def serves_def matches_iff_fills image_iff) (metis, metis)

text \<open>
  After the sweep, a request skips authentication exactly when some leaf of the route tree,
  at any depth, carries the public marker, lists the request's method, and its template filled
  in is the path; a route with no marker, a token-only route and a wrapper never open it. And
  what was registered before the sweep does not survive it.
\<close>

theorem public_exactly_marked:
  "(is_public (register_public_routes routes reg) q \<longleftrightarrow>
      (\<exists>r \<in> set (flatten routes). exempt is_public_marked r \<and> serves r q))
   \<and> (is_token_only (register_public_routes routes reg) q \<longleftrightarrow>
      (\<exists>r \<in> set (flatten routes).
         exempt (\<lambda>e. is_token_only_marked e \<and> \<not> is_public_marked e) r \<and> serves r q))"
proof -
  have "is_public (register_public_routes routes reg) q \<longleftrightarrow>
      (\<exists>r \<in> {r \<in> set (flatten routes). exempt is_public_marked r}.
        \<exists>(m, p) \<in> set (patterns_of r). m = upper (rq_method q) \<and> matches p (rq_path q))"
    by (simp add: is_public_def register_public_routes_def register_fold)
  moreover have "is_token_only (register_public_routes routes reg) q \<longleftrightarrow>
      (\<exists>r \<in> {r \<in> set (flatten routes). exempt (\<lambda>e. is_token_only_marked e \<and> \<not> is_public_marked e) r}.
        \<exists>(m, p) \<in> set (patterns_of r). m = upper (rq_method q) \<and> matches p (rq_path q))"
    by (simp add: is_token_only_def register_public_routes_def register_fold)
  ultimately show ?thesis unfolding patterns_of_serves by blast
qed

theorem public_exactly_marked_witness:
  "is_public (register_public_routes
      [Route \<lparr>lr_endpoint = None, lr_path = '''', lr_methods = []\<rparr>
        [Route \<lparr>lr_endpoint = Some \<lparr>is_public_marked = True, is_token_only_marked = False\<rparr>,
           lr_path = ''/x/{id}'', lr_methods = [''get'']\<rparr> []]]
      \<lparr>PUBLIC_PATTERNS = [], TOKEN_ONLY_PATTERNS = []\<rparr>)
     \<lparr>rq_method = ''GET'', rq_path = ''/x/42'', rq_headers = Map.empty\<rparr>"
proof -
  have u: "upper ''get'' = ''GET''" "upper ''GET'' = ''GET''" by code_simp+
  have "fills [Seg] ''42''" unfolding fills.simps
    by (rule exI [of _ "''42''"], rule exI [of _ "[]"]) simp
  then have f: "fills (compile ''/x/{id}'') ''/x/42''" by simp
  show ?thesis
    by (subst public_exactly_marked [THEN conjunct1]) (simp add: exempt_def serves_def u f del: compile.simps)
qed

end
