(* ===== verification/Gateway.thy ===== *)
theory Gateway
  imports Resolver Firebase Routes Security
begin

text \<open>
  The two doors. REST: \<^verbatim>\<open>app/platform/security/middleware.py\<close> and
  \<^verbatim>\<open>app/platform/logging/middleware.py\<close>. gRPC, unary calls:
  \<^verbatim>\<open>app/grpcapi/interceptors.py\<close>. A handler is a computation; a middleware wraps it. The
  streaming wrappers are in the theory Streams.
\<close>

text \<open>\<^verbatim>\<open>var.set(...)\<close> and, when the wrapped computation ends in any way, \<^verbatim>\<open>var.reset(token)\<close>.\<close>

definition with_auth :: "auth_context \<Rightarrow> ('w, 'a) io \<Rightarrow> ('w, 'a) io" where
  "with_auth ctx m = (\<lambda>s. try_finally m (\<lambda>s'. s'\<lparr>auth_ctx := auth_ctx s\<rparr>) (s\<lparr>auth_ctx := Some ctx\<rparr>))"

definition with_request :: "(string \<rightharpoonup> string) \<Rightarrow> ('w, 'a) io \<Rightarrow> ('w, 'a) io" where
  "with_request logged_fields m =
     (\<lambda>s. try_finally m (\<lambda>s'. s'\<lparr>request_ctx := request_ctx s\<rparr>) (s\<lparr>request_ctx := logged_fields\<rparr>))"

text \<open>\<^verbatim>\<open>headers.get(name, "")\<close>.\<close>

definition header :: "(string \<rightharpoonup> string) \<Rightarrow> string \<Rightarrow> string" where
  "header h name = (case h name of None \<Rightarrow> [] | Some v \<Rightarrow> v)"

definition context_of :: "principal \<Rightarrow> string \<Rightarrow> string \<Rightarrow> string \<times> string \<times> (string \<rightharpoonup> string) \<Rightarrow> auth_context" where
  "context_of p raw_token account_id who = (case who of (user_id, role, gr) \<Rightarrow>
     \<lparr>a_principal = p, a_raw_token = raw_token, a_user_id = user_id, a_account_id = account_id,
      a_role = role, a_grants = gr\<rparr>)"

section \<open>REST\<close>

text \<open>A response is the middleware's own JSON answer, or what the application answered.\<close>

definition UNAUTHENTICATED_PATHS :: "string list" where
  "UNAUTHENTICATED_PATHS = [''/healthz'', ''/docs'', ''/openapi.json'']"

definition json :: "int \<Rightarrow> string \<Rightarrow> json_response + 'r" where
  "json status detail = Inl \<lparr>jr_status = status, jr_detail = detail\<rparr>"

text \<open>
  The account resolution inside \<^verbatim>\<open>dispatch\<close>: the refusal to answer with, or the triple.
\<close>

definition rest_resolve :: "'w resolver option \<Rightarrow> bool \<Rightarrow> principal \<Rightarrow> string \<Rightarrow> string
    \<Rightarrow> ('w, json_response + string \<times> string \<times> (string \<rightharpoonup> string)) io" where
  "rest_resolve resolver token_only p account_id raw_token = (case resolver of
      None \<Rightarrow> ret (Inr ([], [], Map.empty))
    | Some resolve \<Rightarrow>
        if token_only then ret (Inr ([], [], Map.empty))
        else try_with (mapv Inr (resolve p account_id raw_token))
          (\<lambda>e. case e of
              HTTPException st d \<Rightarrow> ret (json st d)
            | _ \<Rightarrow> ret (json 503 ''Failed to resolve the account'')))"

definition auth_dispatch :: "'w fb_env \<Rightarrow> registry \<Rightarrow> 'w resolver option \<Rightarrow> request
    \<Rightarrow> ('w, 'r) io \<Rightarrow> ('w, json_response + 'r) io" where
  "auth_dispatch fe reg resolver rq call_next =
     (if is_public reg rq \<or> rq_path rq \<in> set UNAUTHENTICATED_PATHS then mapv Inr call_next
      else
        (let raw = header (rq_headers rq) ''authorization'';
             account_id = header (rq_headers rq) ''x-account-id''
         in if raw = [] then ret (json 401 ''Not authenticated'')
            else bnd (try_with (mapv Inr (verify fe raw))
                   (\<lambda>e. case e of InvalidToken msg \<Rightarrow> ret (json 401 msg) | _ \<Rightarrow> raise e))
              (\<lambda>v. case v of
                  Inl refused \<Rightarrow> ret (Inl refused)
                | Inr p \<Rightarrow>
                    bnd (rest_resolve resolver (is_token_only reg rq) p account_id (bearer raw))
                      (\<lambda>who. case who of
                          Inl refused \<Rightarrow> ret (Inl refused)
                        | Inr triple \<Rightarrow>
                            with_auth (context_of p (bearer raw) account_id triple) (mapv Inr call_next)))))"

text \<open>
  \<^verbatim>\<open>LoggingMiddleware.dispatch\<close>: the response goes out with the request's id in
  \<^verbatim>\<open>x-request-id\<close>. The durations it logs are left out.
\<close>

definition request_id_of :: "'w env \<Rightarrow> (string \<rightharpoonup> string) \<Rightarrow> ('w, string) io" where
  "request_id_of env h =
     (if header h ''x-request-id'' = [] then outside (uuid4_hex env) else ret (header h ''x-request-id''))"

definition request_fields :: "string \<Rightarrow> string \<Rightarrow> string \<Rightarrow> string \<Rightarrow> (string \<rightharpoonup> string)" where
  "request_fields rid path meth peer = [''request_id'' \<mapsto> rid, ''path'' \<mapsto> path, ''method'' \<mapsto> meth,
     ''client_ip'' \<mapsto> peer]"

definition log_dispatch :: "'w env \<Rightarrow> request \<Rightarrow> string option \<Rightarrow> ('w, 'r) io \<Rightarrow> ('w, 'r \<times> string) io" where
  "log_dispatch env rq client call_next =
     bnd (request_id_of env (rq_headers rq)) (\<lambda>rid.
       with_request (request_fields rid (rq_path rq) (rq_method rq) (case client of None \<Rightarrow> [] | Some h \<Rightarrow> h))
         (bnd (try_with call_next
                (\<lambda>e. bnd (emit (LogError ''the request failed'' e)) (\<lambda>_. raise e)))
            (\<lambda>resp. bnd (emit (LogInfo ''request'' (rq_path rq))) (\<lambda>_. ret (resp, rid)))))"

section \<open>gRPC\<close>

text \<open>\<^verbatim>\<open>_metadata(context)\<close>: a later pair with the same key wins.\<close>

definition metadata_dict :: "(string \<times> string) list option \<Rightarrow> (string \<rightharpoonup> string)" where
  "metadata_dict md = (case md of None \<Rightarrow> Map.empty | Some l \<Rightarrow> map_of (rev l))"

definition authenticate :: "'w fb_env \<Rightarrow> (string \<rightharpoonup> string) \<Rightarrow> ('w, principal \<times> string \<times> string) io" where
  "authenticate fe md =
     (let raw = header md ''authorization'' in
      if raw = [] then raise (HTTPException 401 ''Not authenticated'')
      else bnd (try_with (verify fe raw)
             (\<lambda>e. case e of InvalidToken msg \<Rightarrow> raise (HTTPException 401 msg) | _ \<Rightarrow> raise e))
        (\<lambda>p. ret (p, bearer raw, header md ''x-account-id'')))"

definition resolve_account :: "'w resolver option \<Rightarrow> principal \<Rightarrow> string \<Rightarrow> string
    \<Rightarrow> ('w, string \<times> string \<times> (string \<rightharpoonup> string)) io" where
  "resolve_account resolver p account_id raw_token = (case resolver of
      None \<Rightarrow> ret ([], [], Map.empty)
    | Some resolve \<Rightarrow> try_with (resolve p account_id raw_token)
        (\<lambda>e. case e of
            HTTPException st d \<Rightarrow> raise e
          | _ \<Rightarrow> raise (HTTPException 503 ''Failed to resolve the account'')))"

definition auth_wrap :: "'w fb_env \<Rightarrow> 'w resolver option \<Rightarrow> bool \<Rightarrow> (string \<rightharpoonup> string)
    \<Rightarrow> ('w, 'r) io \<Rightarrow> ('w, 'r) io" where
  "auth_wrap fe resolver is_public_method md inner =
     (if is_public_method then inner
      else bnd (authenticate fe md) (\<lambda>(p, raw_token, account_id).
        bnd (resolve_account resolver p account_id raw_token) (\<lambda>triple.
          with_auth (context_of p raw_token account_id triple) inner)))"

text \<open>
  \<^verbatim>\<open>ErrorInterceptor\<close>: the call ends with a response, or with \<^verbatim>\<open>context.abort(code, detail)\<close>.
\<close>

definition abort_with :: "exn \<Rightarrow> ('w, grpc_status \<times> string) io" where
  "abort_with e = (case e of
      AioRpcError code d \<Rightarrow> ret (as_grpc code d)
    | HTTPException st d \<Rightarrow> ret (as_grpc_from_http st d)
    | ValidationError msg \<Rightarrow> ret (INVALID_ARGUMENT, msg)
    | _ \<Rightarrow> bnd (emit (LogError ''unhandled error in the servicer'' e)) (\<lambda>_. ret (INTERNAL, ''internal error'')))"

definition error_wrap :: "('w, 'r) io \<Rightarrow> ('w, (grpc_status \<times> string) + 'r) io" where
  "error_wrap inner = try_with (mapv Inr inner) (\<lambda>e. mapv Inl (abort_with e))"

text \<open>
  \<^verbatim>\<open>LoggingInterceptor\<close>, outermost: it sees an aborted call as the exception \<^verbatim>\<open>abort\<close> raises.
\<close>

definition log_wrap :: "'w env \<Rightarrow> string \<Rightarrow> string \<Rightarrow> (string \<rightharpoonup> string)
    \<Rightarrow> ('w, (grpc_status \<times> string) + 'r) io \<Rightarrow> ('w, (grpc_status \<times> string) + 'r) io" where
  "log_wrap env meth peer md inner =
     bnd (request_id_of env md) (\<lambda>rid.
       with_request (request_fields rid meth ''grpc'' peer)
         (bnd (try_with inner (\<lambda>e. bnd (emit (LogError ''the request failed'' e)) (\<lambda>_. raise e)))
           (\<lambda>out. case out of
               Inl (code, detail) \<Rightarrow>
                 bnd (emit (LogError ''the request failed'' (AioRpcError code (Some detail)))) (\<lambda>_. ret out)
             | Inr resp \<Rightarrow> bnd (emit (LogInfo ''request'' meth)) (\<lambda>_. ret out))))"

definition grpc_unary :: "'w fb_env \<Rightarrow> 'w resolver option \<Rightarrow> string \<Rightarrow> string \<Rightarrow> bool
    \<Rightarrow> (string \<times> string) list option \<Rightarrow> ('w, 'r) io \<Rightarrow> ('w, (grpc_status \<times> string) + 'r) io" where
  "grpc_unary fe resolver meth peer is_public_method md servicer =
     log_wrap (f_env fe) meth peer (metadata_dict md)
       (error_wrap (auth_wrap fe resolver is_public_method (metadata_dict md) servicer))"

section \<open>Running the wrappers\<close>

lemma with_auth_run [io_simps]:
  "with_auth ctx m s = (case m (s\<lparr>auth_ctx := Some ctx\<rparr>) of (r, s') \<Rightarrow> (r, s'\<lparr>auth_ctx := auth_ctx s\<rparr>))"
  by (simp add: with_auth_def try_finally_run)

lemma with_request_run [io_simps]:
  "with_request f m s = (case m (s\<lparr>request_ctx := f\<rparr>) of (r, s') \<Rightarrow> (r, s'\<lparr>request_ctx := request_ctx s\<rparr>))"
  by (simp add: with_request_def try_finally_run)

lemma keeps_outside_exn [keeps]: "keeps_ctx (outside_exn g)"
  by (auto simp: keeps_ctx_def outside_exn_def split: prod.splits sum.splits)

lemma keeps_fetch [keeps]: "keeps_ctx (fetch_certificates fe)"
  unfolding fetch_certificates_def by (intro keeps)

lemma keeps_verify [keeps]: "keeps_ctx (verify fe raw)"
  unfolding verify_def emulator_claims_def verified_claims_def public_key_def Let_def
  by (intro keeps)

text \<open>A computation after which a component of the state is as it was.\<close>

definition restores :: "('w rt \<Rightarrow> 'v) \<Rightarrow> ('w, 'a) io \<Rightarrow> bool" where
  "restores g m \<longleftrightarrow> (\<forall>s. g (snd (m s)) = g s)"

lemma restoresD: "restores g m \<Longrightarrow> m s = (r, s') \<Longrightarrow> g s' = g s"
  by (metis restores_def snd_conv)

lemma restores_keeps: "keeps_ctx m \<Longrightarrow> restores auth_ctx m" "keeps_ctx m \<Longrightarrow> restores request_ctx m"
  unfolding keeps_ctx_def restores_def by (metis prod.collapse)+

named_theorems restore_rules \<open>computations that restore a context variable\<close>

lemma restores_library [restore_rules]:
  "restores auth_ctx (emit l)" "restores request_ctx (emit l)"
  "restores auth_ctx (outside f)" "restores request_ctx (outside f)"
  "restores auth_ctx (verify fe raw)" "restores auth_ctx (core_resolver env st p a tok)"
  by (intro restores_keeps keeps)+

lemma restores_scope [restore_rules]:
  "restores auth_ctx (with_auth ctx m)" "restores request_ctx (with_request f m)"
  "restores request_ctx m \<Longrightarrow> restores request_ctx (with_auth ctx m)"
  "restores auth_ctx m \<Longrightarrow> restores auth_ctx (with_request f m)"
  by (auto simp: restores_def with_auth_run with_request_run split: prod.splits) (metis snd_conv rt.select_convs rt.surjective rt.update_convs)+

lemma restores_bnd [restore_rules]: "restores g m \<Longrightarrow> (\<And>x. restores g (f x)) \<Longrightarrow> restores g (bnd m f)"
  unfolding restores_def bnd_run by (auto split: prod.splits sum.splits) (metis snd_conv)+

lemma restores_try [restore_rules]: "restores g m \<Longrightarrow> (\<And>x. restores g (h x)) \<Longrightarrow> restores g (try_with m h)"
  unfolding restores_def try_with_run by (auto split: prod.splits sum.splits) (metis snd_conv)+

lemma restores_mapv [restore_rules]: "restores g m \<Longrightarrow> restores g (mapv f m)"
  unfolding restores_def mapv_run by (auto split: prod.splits sum.splits) (metis snd_conv)+

lemma restores_ret [restore_rules]: "restores g (ret x)" "restores g (raise e)" "restores g (ask f)"
  by (simp_all add: restores_def)

lemma restores_cases [restore_rules]:
  "restores g m \<Longrightarrow> restores g m' \<Longrightarrow> restores g (if b then m else m')"
  "(\<And>x. restores g (k x)) \<Longrightarrow> (\<And>y. restores g (h y)) \<Longrightarrow> restores g (case z of Inl x \<Rightarrow> k x | Inr y \<Rightarrow> h y)"
  "(\<And>x y. restores g (j x y)) \<Longrightarrow> restores g (case pr of (x, y) \<Rightarrow> j x y)"
  by (auto split: sum.splits prod.splits)

text \<open>The part both doors share: the context of the caller named by a set of headers.\<close>

definition identity_of :: "'w fb_env \<Rightarrow> 'w resolver option \<Rightarrow> (string \<rightharpoonup> string) \<Rightarrow> ('w, auth_context) io" where
  "identity_of fe resolver md =
     bnd (authenticate fe md) (\<lambda>(p, raw_token, account_id).
       mapv (context_of p raw_token account_id) (resolve_account resolver p account_id raw_token))"

lemma auth_wrap_identity:
  "auth_wrap fe resolver False md inner = bnd (identity_of fe resolver md) (\<lambda>ctx. with_auth ctx inner)"
  by (simp add: auth_wrap_def identity_of_def mapv_def bnd_assoc case_prod_unfold)

text \<open>
  The library calls the verifier makes answer with exceptions of their own, never with the
  web framework's.
\<close>

definition raises_no_http :: "'w fb_env \<Rightarrow> bool" where
  "raises_no_http fe \<longleftrightarrow> (\<forall>w st d. fst (f_http_certs fe w) \<noteq> Inl (HTTPException st d))
     \<and> (\<forall>pem st d. f_pem_key fe pem \<noteq> Inl (HTTPException st d))"

definition no_http :: "('w, 'a) io \<Rightarrow> bool" where
  "no_http m \<longleftrightarrow> (\<forall>s st d. fst (m s) \<noteq> Inl (HTTPException st d))"

lemma no_http_intros:
  "no_http (ret x)" "no_http (ask f)" "no_http (outside g)"
  "(\<And>st d. e \<noteq> HTTPException st d) \<Longrightarrow> no_http (raise e)"
  "no_http m \<Longrightarrow> no_http m' \<Longrightarrow> no_http (if b then m else m')"
  "no_http m \<Longrightarrow> (\<And>x. no_http (k x)) \<Longrightarrow> no_http (case opt of None \<Rightarrow> m | Some x \<Rightarrow> k x)"
  "no_http m \<Longrightarrow> (\<And>x l. no_http (j x l)) \<Longrightarrow> no_http (case xs of [] \<Rightarrow> m | x # l \<Rightarrow> j x l)"
  "(\<And>x y. no_http (h x y)) \<Longrightarrow> no_http (case pr of (x, y) \<Rightarrow> h x y)"
  by (auto simp: no_http_def io_simps split: prod.splits option.splits list.splits)

lemma no_http_bnd: "no_http m \<Longrightarrow> (\<And>x. no_http (f x)) \<Longrightarrow> no_http (bnd m f)"
  unfolding no_http_def bnd_run by (auto split: prod.splits sum.splits) (metis fst_conv)+

lemma no_http_sum: "(\<And>e st d. z = Inl e \<Longrightarrow> e \<noteq> HTTPException st d) \<Longrightarrow> (\<And>y. no_http (k y))
    \<Longrightarrow> no_http (case z of Inl e \<Rightarrow> raise e | Inr y \<Rightarrow> k y)"
  by (cases z) (auto intro: no_http_intros)

lemma no_http_certs: "raises_no_http fe \<Longrightarrow> no_http (outside_exn (f_http_certs fe))"
  unfolding no_http_def raises_no_http_def outside_exn_def
  by (auto split: prod.splits sum.splits) (metis fst_conv)

lemma no_http_pem: "raises_no_http fe \<Longrightarrow> f_pem_key fe pem = Inl e \<Longrightarrow> e \<noteq> HTTPException st d"
  by (auto simp: raises_no_http_def)

lemma decode_payload_no_http: "decode_payload fe p = Inl e \<Longrightarrow> e \<noteq> HTTPException st d"
  by (auto simp: decode_payload_def split: option.splits)

lemma normalize_no_http: "normalize fe cl = Inl e \<Longrightarrow> e \<noteq> HTTPException st d"
  by (auto simp: normalize_def Let_def split: if_splits)

lemma no_http_public_key: "raises_no_http fe \<Longrightarrow> no_http (public_key fe token)"
  unfolding public_key_def fetch_certificates_def
  by (intro no_http_intros no_http_bnd no_http_sum no_http_certs no_http_pem exn.distinct) assumption+

lemma no_http_verify: "raises_no_http fe \<Longrightarrow> no_http (verify fe raw)"
  unfolding verify_def emulator_claims_def verified_claims_def Let_def
  by (intro no_http_intros no_http_bnd no_http_sum no_http_public_key decode_payload_no_http
      normalize_no_http exn.distinct) assumption+

lemma authenticate_no_token: "header md ''authorization'' = [] \<Longrightarrow>
    authenticate fe md = raise (HTTPException 401 ''Not authenticated'')"
  by (simp add: authenticate_def)

text \<open>The REST middleware, in terms of the shared part.\<close>

lemma auth_dispatch_identity:
  assumes "raises_no_http fe" and "\<not> is_public reg rq" and "rq_path rq \<notin> set UNAUTHENTICATED_PATHS"
    and "\<not> is_token_only reg rq"
  shows "auth_dispatch fe reg resolver rq m s =
    (case identity_of fe resolver (rq_headers rq) s of
       (Inl (HTTPException st d), s') \<Rightarrow> (Inr (json st d), s')
     | (Inl e, s') \<Rightarrow> (Inl e, s')
     | (Inr ctx, s') \<Rightarrow> with_auth ctx (mapv Inr m) s')"
proof -
  let ?raw = "header (rq_headers rq) ''authorization''"
  obtain v s1 where v: "verify fe ?raw s = (v, s1)" by fastforce
  have nh: "\<nexists>st d. v = Inl (HTTPException st d)"
    using no_http_verify [OF assms(1), of ?raw] v unfolding no_http_def by (metis fst_conv)
  show ?thesis
  proof (cases "?raw = []")
    case True
    with assms show ?thesis
      by (simp add: Let_def auth_dispatch_def identity_of_def authenticate_no_token json_def)
  next
    case False
    show ?thesis
    proof (cases v)
      case (Inl e)
      with v False nh assms show ?thesis
        by (cases e) (simp_all add: Let_def auth_dispatch_def identity_of_def authenticate_def json_def io_simps)
    next
      case (Inr p)
      with v False assms show ?thesis
        by (auto simp: Let_def auth_dispatch_def identity_of_def authenticate_def rest_resolve_def
            resolve_account_def json_def io_simps split: option.splits prod.splits sum.splits exn.splits)
    qed
  qed
qed

text \<open>
  C1. One identity behind two doors. For the same headers, a gRPC call and a REST request (to a
  route that asks for an account) are let in by the same answers of the verifier and the core,
  with the same context for the handler; refused, the REST client gets the refusal's HTTP status
  and text, the gRPC client the status of the table and the same text (a 5xx one aside), and in
  both cases the handler does not run.
\<close>

theorem one_identity_two_doors:
  assumes "raises_no_http fe" and "\<not> is_public reg rq" and "rq_path rq \<notin> set UNAUTHENTICATED_PATHS"
    and "\<not> is_token_only reg rq"
  shows "case auth_wrap fe resolver False (rq_headers rq) (ask auth_ctx) s of
      (Inl (HTTPException st d), s') \<Rightarrow>
        auth_dispatch fe reg resolver rq m s = (Inr (Inl \<lparr>jr_status = st, jr_detail = d\<rparr>), s')
        \<and> error_wrap (auth_wrap fe resolver False (rq_headers rq) m) s
            = (Inr (Inl (grpc_status_for_http st, if 500 \<le> st then ''internal error'' else d)), s')
    | (Inl e, s') \<Rightarrow> auth_dispatch fe reg resolver rq m s = (Inl e, s')
        \<and> auth_wrap fe resolver False (rq_headers rq) m s = (Inl e, s')
    | (Inr None, s') \<Rightarrow> False
    | (Inr (Some ctx), s') \<Rightarrow>
        auth_dispatch fe reg resolver rq m s = with_auth ctx (mapv Inr m) s'
        \<and> auth_wrap fe resolver False (rq_headers rq) m s = with_auth ctx m s'"
proof -
  obtain r s1 where i: "identity_of fe resolver (rq_headers rq) s = (r, s1)" by fastforce
  note d = auth_dispatch_identity [OF assms, of resolver m s]
  show ?thesis
  proof (cases r)
    case (Inl e)
    with i d show ?thesis
      by (cases e) (simp_all add: auth_wrap_identity error_wrap_def abort_with_def as_grpc_from_http_def
          json_def io_simps)
  next
    case (Inr ctx)
    with i d show ?thesis by (simp add: auth_wrap_identity io_simps)
  qed
qed

definition demo_headers :: "string \<rightharpoonup> string" where
  "demo_headers = [''authorization'' \<mapsto> ''Bearer a.b.c'', ''x-account-id'' \<mapsto> ''acc-1'']"

definition demo_request :: request where
  "demo_request = \<lparr>rq_method = ''GET'', rq_path = ''/v1/members'', rq_headers = demo_headers\<rparr>"

definition demo_registry :: registry where
  "demo_registry = \<lparr>PUBLIC_PATTERNS = [], TOKEN_ONLY_PATTERNS = []\<rparr>"

definition demo_fb_principal :: principal where
  "demo_fb_principal = \<lparr>p_subject = ''sub-1'', p_email = ''ana@dop.dev'', p_email_verified = True,
     p_name = [], p_avatar_url = [], p_providers = [''google.com'', ''google.com''],
     p_session_id = take 32 (''sub-1:'' @ str_int 7)\<rparr>"

lemma demo_verify: "verify demo_fb ''Bearer a.b.c'' s = (Inr demo_fb_principal, s)"
proof -
  have b: "bearer ''Bearer a.b.c'' = ''a.b.c''" by code_simp
  show ?thesis
    by (simp add: verify_def b using_emulator_def demo_fb_def verified_claims_def public_key_def
        bnd_run normalize_def demo_claims_def subject_of_def opt_str_def session_id_def
        auth_instant_def demo_fb_principal_def Let_def)
qed

lemma demo_core_resolver:
  "core_resolver demo_env demo_identity p ''acc-1'' tok (demo_rt None)
     = (Inr (''u-1'', ''developer'', Map.empty), demo_rt None\<lparr>ext := 3\<rparr>)"
proof -
  have role: "role_name 3 = ''developer''" by code_simp
  show ?thesis
    by (simp add: core_resolver_def ensure_user_def assert_membership_def role_in_account_def
        via_http_def io_simps demo_run idempotency_key_def demo_identity_def
        role grants_def demo_user_def demo_account_def demo_membership_def)
qed

lemma rt_unchanged [simp]: "auth_ctx s = c \<Longrightarrow> s\<lparr>auth_ctx := c\<rparr> = s"
  by auto

lemma demo_not_exempt: "\<not> is_public demo_registry rq" "\<not> is_token_only demo_registry rq"
  "rq_path demo_request \<notin> set UNAUTHENTICATED_PATHS"
  by (simp_all add: is_public_def is_token_only_def demo_registry_def demo_request_def
      UNAUTHENTICATED_PATHS_def)

lemma demo_raises_no_http: "raises_no_http demo_fb"
  by (simp add: raises_no_http_def demo_fb_def)

theorem one_identity_two_doors_witness:
  "\<exists>ctx. a_user_id ctx = ''u-1'' \<and> a_role ctx = ''developer''
     \<and> auth_dispatch demo_fb demo_registry (Some (core_resolver demo_env demo_identity)) demo_request
         (from_ctx a_user_id) (demo_rt None)
       = with_auth ctx (mapv Inr (from_ctx a_user_id)) (demo_rt None\<lparr>ext := 3\<rparr>)"
proof -
  let ?ctx = "context_of demo_fb_principal (bearer ''Bearer a.b.c'') ''acc-1''
    (''u-1'', ''developer'', Map.empty)"
  have "auth_wrap demo_fb (Some (core_resolver demo_env demo_identity)) False (rq_headers demo_request)
      (ask auth_ctx) (demo_rt None) = (Inr (Some ?ctx), demo_rt None\<lparr>ext := 3\<rparr>)"
    by (simp add: auth_wrap_def authenticate_def header_def demo_request_def demo_headers_def
        resolve_account_def io_simps demo_verify demo_core_resolver Let_def demo_run)
  with one_identity_two_doors [OF demo_raises_no_http demo_not_exempt(1) demo_not_exempt(3)
      demo_not_exempt(2), where resolver = "Some (core_resolver demo_env demo_identity)"
      and s = "demo_rt None" and m = "from_ctx a_user_id"]
  show ?thesis by (intro exI [of _ ?ctx]) (simp add: context_of_def)
qed

text \<open>
  No handler runs unidentified. On a REST route that is not exempt, either the middleware
  answers by itself and no handler whatever would have run, or the verifier accepted the
  \<^verbatim>\<open>authorization\<close> header and the handler runs once under that very principal and token, with the
  account of the header and what the resolver said (nothing, on a \<^verbatim>\<open>@token_only\<close> route).
\<close>

theorem handler_runs_identified:
  assumes "\<not> is_public reg rq" and "rq_path rq \<notin> set UNAUTHENTICATED_PATHS"
  shows "(\<exists>r s'. (\<forall>m. auth_dispatch fe reg resolver rq m s = (r, s')) \<and> (\<forall>x. r \<noteq> Inr (Inr x)))
    \<or> (\<exists>p s1 who s2. header (rq_headers rq) ''authorization'' \<noteq> []
        \<and> verify fe (header (rq_headers rq) ''authorization'') s = (Inr p, s1)
        \<and> (if resolver = None \<or> is_token_only reg rq then who = ([], [], Map.empty) \<and> s2 = s1
           else (the resolver) p (header (rq_headers rq) ''x-account-id'')
                  (bearer (header (rq_headers rq) ''authorization'')) s1 = (Inr who, s2))
        \<and> (\<forall>m. auth_dispatch fe reg resolver rq m s =
             with_auth (context_of p (bearer (header (rq_headers rq) ''authorization''))
               (header (rq_headers rq) ''x-account-id'') who) (mapv Inr m) s2))"
proof -
  let ?raw = "header (rq_headers rq) ''authorization''"
  let ?acc = "header (rq_headers rq) ''x-account-id''"
  obtain v s1 where v: "verify fe ?raw s = (v, s1)" by fastforce
  consider "?raw = []" | e where "?raw \<noteq> []" "v = Inl e" | p where "?raw \<noteq> []" "v = Inr p"
    by (cases v) auto
  then show ?thesis
  proof cases
    case 1
    with assms show ?thesis by (intro disjI1) (simp add: Let_def auth_dispatch_def json_def)
  next
    case (2 e)
    with v assms show ?thesis
      by (intro disjI1) (cases e; simp add: Let_def auth_dispatch_def json_def io_simps)
  next
    case (3 p)
    then have p: "v = Inr p" and raw: "?raw \<noteq> []" by simp_all
    show ?thesis
    proof (cases "resolver = None \<or> is_token_only reg rq")
      case True
      with v p raw assms show ?thesis
        by (intro disjI2) (auto simp: Let_def auth_dispatch_def rest_resolve_def io_simps split: option.splits)
    next
      case False
      then obtain res where res: "resolver = Some res" by auto
      obtain w s2 where w: "res p ?acc (bearer ?raw) s1 = (w, s2)" by fastforce
      show ?thesis
      proof (cases w)
        case (Inl e)
        with w v p raw res False assms show ?thesis
          by (intro disjI1) (cases e; auto simp: Let_def auth_dispatch_def rest_resolve_def json_def io_simps)
      next
        case (Inr who)
        with w v p raw res False assms show ?thesis
          by (intro disjI2 exI [of _ p] exI [of _ s1] exI [of _ who] exI [of _ s2])
             (auto simp: Let_def auth_dispatch_def rest_resolve_def io_simps)
      qed
    qed
  qed
qed

theorem handler_runs_identified_witness:
  "\<exists>p who s2. p_subject p = ''sub-1'' \<and> fst who = ''u-1''
     \<and> auth_dispatch demo_fb demo_registry (Some (core_resolver demo_env demo_identity)) demo_request
         (from_ctx a_user_id) (demo_rt None)
       = with_auth (context_of p (bearer ''Bearer a.b.c'') ''acc-1'' who) (mapv Inr (from_ctx a_user_id)) s2"
proof -
  have h: "header (rq_headers demo_request) ''authorization'' = ''Bearer a.b.c''"
    "header (rq_headers demo_request) ''x-account-id'' = ''acc-1''"
    by (simp_all add: header_def demo_request_def demo_headers_def)
  have run: "auth_dispatch demo_fb demo_registry (Some (core_resolver demo_env demo_identity)) demo_request
      (ret ''x'') (demo_rt None) = (Inr (Inr ''x''), demo_rt None\<lparr>ext := 3\<rparr>)"
    using demo_not_exempt
    by (simp add: auth_dispatch_def rest_resolve_def h demo_verify demo_core_resolver io_simps Let_def
        demo_run)
  from handler_runs_identified [OF demo_not_exempt(1) demo_not_exempt(3),
    where fe = demo_fb and resolver = "Some (core_resolver demo_env demo_identity)"
      and s = "demo_rt None"]
  show ?thesis
  proof (elim disjE exE conjE)
    fix r :: "exn + json_response + string" and s'
    assume "\<forall>m. auth_dispatch demo_fb demo_registry (Some (core_resolver demo_env demo_identity))
        demo_request m (demo_rt None) = (r, s')" and "\<forall>x. r \<noteq> Inr (Inr x)"
    with run show ?thesis by simp
  next
    fix p s1 who s2
    assume v: "verify demo_fb (header (rq_headers demo_request) ''authorization'') (demo_rt None) = (Inr p, s1)"
      and w: "if Some (core_resolver demo_env demo_identity) = None \<or> is_token_only demo_registry demo_request
           then who = ([], [], Map.empty) \<and> s2 = s1
           else (the (Some (core_resolver demo_env demo_identity))) p
                  (header (rq_headers demo_request) ''x-account-id'')
                  (bearer (header (rq_headers demo_request) ''authorization'')) s1 = (Inr who, s2)"
      and run': "\<forall>m :: (nat, string) io. auth_dispatch demo_fb demo_registry
            (Some (core_resolver demo_env demo_identity)) demo_request m (demo_rt None) =
             with_auth (context_of p (bearer (header (rq_headers demo_request) ''authorization''))
               (header (rq_headers demo_request) ''x-account-id'') who) (mapv Inr m) s2"
    from v have "p = demo_fb_principal" "s1 = demo_rt None" by (simp_all add: h demo_verify)
    with w run' show ?thesis
      by (intro exI [of _ p] exI [of _ who] exI [of _ s2])
         (auto simp: h demo_not_exempt demo_core_resolver demo_fb_principal_def)
  qed
qed

lemma restores_auth_dispatch:
  assumes "\<not> is_public reg rq" and "rq_path rq \<notin> set UNAUTHENTICATED_PATHS"
  shows "restores auth_ctx (auth_dispatch fe reg (Some (core_resolver env st)) rq m)"
proof -
  have n: "\<not> (is_public reg rq \<or> rq_path rq \<in> set UNAUTHENTICATED_PATHS)" using assms by simp
  have h: "restores auth_ctx (case e of InvalidToken msg \<Rightarrow> ret (json 401 msg) | _ \<Rightarrow> raise e)"
    "restores auth_ctx (case e of HTTPException st d \<Rightarrow> ret (json st d) | _ \<Rightarrow> ret (json 503 x))"
    for e x by (cases e; simp add: restores_def)+
  show ?thesis
    unfolding auth_dispatch_def rest_resolve_def Let_def if_not_P [OF n] option.case
    by (intro restore_rules h)
qed

lemma restores_outer:
  "restores request_ctx (log_dispatch env rq client m)"
  "restores auth_ctx m \<Longrightarrow> restores auth_ctx (log_dispatch env rq client m)"
  "restores request_ctx (log_wrap env meth peer md inner)"
  "restores auth_ctx inner \<Longrightarrow> restores auth_ctx (log_wrap env meth peer md inner)"
  unfolding log_dispatch_def log_wrap_def request_id_of_def
  by (intro restore_rules; assumption?)+

lemma restores_auth_wrap: "restores auth_ctx (auth_wrap fe (Some (core_resolver env st)) False md m)"
proof -
  have h: "restores auth_ctx (case e of InvalidToken msg \<Rightarrow> raise (HTTPException 401 msg) | _ \<Rightarrow> raise e)"
    "restores auth_ctx (case e of HTTPException st d \<Rightarrow> raise e | _ \<Rightarrow> raise (HTTPException 503 x))"
    for e x by (cases e; simp add: restores_def)+
  show ?thesis
    unfolding auth_wrap_def authenticate_def resolve_account_def Let_def option.case if_False
    by (intro restore_rules h)
qed

lemma restores_error_wrap: "restores auth_ctx m \<Longrightarrow> restores auth_ctx (error_wrap m)"
proof -
  have "restores auth_ctx (abort_with e)" for e
    by (cases e; simp add: abort_with_def restores_def io_simps)
  then show "restores auth_ctx m \<Longrightarrow> restores auth_ctx (error_wrap m)"
    unfolding error_wrap_def by (intro restore_rules)
qed

lemma abort_with_answers: "\<exists>a s'. abort_with e s = (Inr a, s')"
  by (cases e; simp add: abort_with_def io_simps)

lemma error_wrap_answers: "\<exists>out s'. error_wrap m s = (Inr out, s')"
proof (cases "m s")
  case (Pair r s1)
  show ?thesis
  proof (cases r)
    case (Inl e)
    obtain a s2 where "abort_with e s1 = (Inr a, s2)" using abort_with_answers by blast
    with Pair Inl show ?thesis by (simp add: error_wrap_def io_simps)
  qed (simp add: Pair error_wrap_def io_simps)
qed

lemma log_wrap_error_wrap:
  "\<exists>out s1 s'. error_wrap m s1 = (Inr out, s') \<and> request_ctx s1 \<noteq> Map.empty \<and> auth_ctx s1 = auth_ctx s
     \<and> fst (log_wrap env meth peer md (error_wrap m) s) = Inr out"
proof -
  have "\<exists>rid s1. request_id_of env md s = (Inr rid, s1) \<and> auth_ctx s1 = auth_ctx s"
    by (cases "uuid4_hex env (ext s)") (simp add: request_id_of_def io_simps)
  then obtain rid s1 where rid: "request_id_of env md s = (Inr rid, s1)" and a: "auth_ctx s1 = auth_ctx s"
    by blast
  let ?s = "s1\<lparr>request_ctx := request_fields rid meth ''grpc'' peer\<rparr>"
  obtain out s2 where o: "error_wrap m ?s = (Inr out, s2)" using error_wrap_answers by blast
  have "fst (log_wrap env meth peer md (error_wrap m) s) = Inr out"
    using rid o by (auto simp: log_wrap_def io_simps split: sum.splits)
  moreover have "request_ctx ?s \<noteq> Map.empty" by (simp add: request_fields_def)
  ultimately show ?thesis using o a by (intro exI [of _ out] exI [of _ ?s] exI [of _ s2]) simp
qed



end
