(* ===== verification/Streams.thy ===== *)
theory Streams
  imports Usecase Gateway
begin

text \<open>
  The live streams: \<^verbatim>\<open>app/usecases/stream.py\<close>, the SSE port \<^verbatim>\<open>app/routers/stream.py\<close>, the gRPC
  port \<^verbatim>\<open>app/grpcapi/stream.py\<close> and the streaming wrappers of \<^verbatim>\<open>app/grpcapi/interceptors.py\<close>.

  An asynchronous generator is a function of how many items its consumer takes before it goes
  away: it answers the items taken, and how it ended. A consumer that takes \<open>n\<close> items and then
  closes finds the generator suspended at its \<open>n\<close>-th \<^verbatim>\<open>yield\<close>, so its \<^verbatim>\<open>finally\<close> blocks run; one
  that takes none closes a generator that never started, and nothing of its body runs.
\<close>

section \<open>Generators\<close>

datatype ending = Exhausted | Failed exn | Closed

type_synonym ('w, 'a) gen = "nat \<Rightarrow> 'w rt \<Rightarrow> ('a list \<times> ending) \<times> 'w rt"

text \<open>
  A server-streaming method of the core: opening gives a call, each read an item, the end or an
  error, and the call can be cancelled.
\<close>

record ('w, 'q, 'r) stream_rpc =
  sr_open :: "'q \<Rightarrow> (string \<times> string) list \<Rightarrow> 'w \<Rightarrow> nat \<times> 'w"
  sr_next :: "nat \<Rightarrow> 'w \<Rightarrow> ((grpc_status \<times> string option) + 'r option) \<times> 'w"
  sr_cancel :: "nat \<Rightarrow> 'w \<Rightarrow> 'w"

text \<open>\<^verbatim>\<open>async for msg in call\<close>, for a consumer that takes \<open>n\<close> items.\<close>

fun read_call :: "('w, 'q, 'r) stream_rpc \<Rightarrow> nat \<Rightarrow> nat \<Rightarrow> 'w \<Rightarrow> ('r list \<times> ending) \<times> 'w" where
  "read_call rpc h 0 w = (([], Closed), w)"
| "read_call rpc h (Suc n) w = (case sr_next rpc h w of
      (Inl (code, detail), w') \<Rightarrow> (([], Failed (AioRpcError code detail)), w')
    | (Inr None, w') \<Rightarrow> (([], Exhausted), w')
    | (Inr (Some m), w') \<Rightarrow>
        (case read_call rpc h n w' of ((ms, e), w'') \<Rightarrow> ((m # ms, e), w'')))"

definition pump :: "('w, 'q, 'r) stream_rpc \<Rightarrow> nat \<Rightarrow> ('r \<Rightarrow> 'a) \<Rightarrow> string \<Rightarrow> ('w, 'a) gen" where
  "pump rpc h translate label n s =
     (if n = 0 then (([], Closed), s)
      else
        (let s0 = write_log (LogInfo ''stream opened'' label) s
         in case read_call rpc h n (ext s0) of ((ms, e), w) \<Rightarrow>
           ((map translate ms, e),
            write_log (LogInfo ''stream closed'' label) (s0\<lparr>ext := sr_cancel rpc h w\<rparr>))))"

section \<open>The models and the use cases\<close>

record stream_event =
  ev_id :: string
  ev_type :: string
  ev_aggregate :: string
  ev_aggregate_id :: string
  ev_payload :: "(string \<times> pyval) list"
  ev_occurred_at :: "timestamp option"

record stream_log_line =
  ll_source :: string
  ll_service :: string
  ll_line :: string
  ll_at :: "timestamp option"

text \<open>
  The core's messages; a message field that was not set is None, and a set payload is the
  dictionary \<^verbatim>\<open>MessageToDict\<close> makes of it.
\<close>

record event_envelope =
  ee_id :: string
  ee_type :: string
  ee_aggregate :: string
  ee_aggregate_id :: string
  ee_payload :: "(string \<times> pyval) list option"
  ee_occurred_at :: "timestamp option"

record core_demand_event =
  de_type :: string
  de_aggregate :: string
  de_payload :: "(string \<times> pyval) list option"
  de_at :: "timestamp option"

record watch_request =
  wr_aggregate :: "string list"
  wr_types :: "string list"
  wr_since_event_id :: string

record logs_request =
  lq_sandbox_id :: string
  lq_source :: string
  lq_service :: string
  lq_test_type :: string

record 'w stream_stubs =
  WatchEvents :: "('w, watch_request, event_envelope) stream_rpc"
  WatchDemand :: "('w, string, core_demand_event) stream_rpc"
  StreamLogs :: "('w, logs_request, stream_log_line) stream_rpc"

definition payload_of :: "(string \<times> pyval) list option \<Rightarrow> (string \<times> pyval) list" where
  "payload_of p = (case p of None \<Rightarrow> [] | Some d \<Rightarrow> d)"

text \<open>\<^verbatim>\<open>_when\<close>: an absent timestamp is None, and not 1970.\<close>

definition when_set :: "timestamp option \<Rightarrow> timestamp option" where
  "when_set t = map_option instant t"

definition event_of :: "event_envelope \<Rightarrow> stream_event" where
  "event_of e = \<lparr>ev_id = ee_id e, ev_type = ee_type e, ev_aggregate = ee_aggregate e,
     ev_aggregate_id = ee_aggregate_id e, ev_payload = payload_of (ee_payload e),
     ev_occurred_at = when_set (ee_occurred_at e)\<rparr>"

definition demand_event :: "string \<Rightarrow> core_demand_event \<Rightarrow> stream_event" where
  "demand_event demand_id e = \<lparr>ev_id = [], ev_type = de_type e,
     ev_aggregate = str_or (de_aggregate e) ''demand'', ev_aggregate_id = demand_id,
     ev_payload = payload_of (de_payload e), ev_occurred_at = when_set (de_at e)\<rparr>"

definition log_line_of :: "stream_log_line \<Rightarrow> stream_log_line" where
  "log_line_of l = \<lparr>ll_source = ll_source l, ll_service = ll_service l, ll_line = ll_line l,
     ll_at = when_set (ll_at l)\<rparr>"

text \<open>Opening the call: the stub, the metadata, no deadline; the reading is the generator's.\<close>

definition open_stream :: "'w env \<Rightarrow> ('w, 'q, 'r) stream_rpc \<Rightarrow> 'q \<Rightarrow> ('r \<Rightarrow> 'a) \<Rightarrow> string
    \<Rightarrow> ('w, ('w, 'a) gen) io" where
  "open_stream env rpc req translate label =
     bnd channel (\<lambda>_. bnd (core_metadata env) (\<lambda>md.
       bnd (outside (sr_open rpc req md)) (\<lambda>h. ret (pump rpc h translate label))))"

definition watch_account_events :: "'w env \<Rightarrow> 'w stream_stubs \<Rightarrow> string \<Rightarrow> string list option
    \<Rightarrow> string list option \<Rightarrow> ('w, ('w, stream_event) gen) io" where
  "watch_account_events env st since_event_id aggregate types = account_scoped
     (open_stream env (WatchEvents st)
       \<lparr>wr_aggregate = (case aggregate of None \<Rightarrow> [] | Some a \<Rightarrow> a),
        wr_types = (case types of None \<Rightarrow> [] | Some t \<Rightarrow> t), wr_since_event_id = since_event_id\<rparr>
       event_of ''account_events'')"

definition watch_demand :: "'w env \<Rightarrow> 'w stream_stubs \<Rightarrow> string \<Rightarrow> ('w, ('w, stream_event) gen) io" where
  "watch_demand env st demand_id = account_scoped
     (open_stream env (WatchDemand st) demand_id (demand_event demand_id) ''demand'')"

definition tail_sandbox_logs :: "'w env \<Rightarrow> 'w stream_stubs \<Rightarrow> logs_request
    \<Rightarrow> ('w, ('w, stream_log_line) gen) io" where
  "tail_sandbox_logs env st req = account_scoped
     (open_stream env (StreamLogs st) req log_line_of ''sandbox_logs'')"

section \<open>The SSE port\<close>

text \<open>The JSON of an error frame, and a frame: \<^verbatim>\<open>event\<close>, \<^verbatim>\<open>id\<close>, \<^verbatim>\<open>data\<close> and \<^verbatim>\<open>retry\<close>, each when present.\<close>

record stream_error =
  se_status :: int
  se_code :: grpc_status
  se_detail :: string
  se_retryable :: bool
  se_since_event_id :: string

record 'a sse =
  sse_event :: "string option"
  sse_id :: "string option"
  sse_data :: "(stream_error + 'a) option"
  sse_retry :: "int option"

definition RETRYABLE :: "grpc_status list" where
  "RETRYABLE = [UNAVAILABLE, DEADLINE_EXCEEDED, RESOURCE_EXHAUSTED, ABORTED]"

definition RECONNECT :: string where
  "RECONNECT = ''the connection was closed by the core; reconnect with since_event_id''"

definition opening_frame :: "'w env \<Rightarrow> 'a sse" where
  "opening_frame env = \<lparr>sse_event = None, sse_id = None, sse_data = None, sse_retry = Some (sse_retry_ms (cfg env))\<rparr>"

definition error_frame :: "stream_error \<Rightarrow> 'a sse" where
  "error_frame e = \<lparr>sse_event = Some ''error'', sse_id = None, sse_data = Some (Inl e), sse_retry = None\<rparr>"

definition core_error :: "grpc_status \<Rightarrow> string option \<Rightarrow> string \<Rightarrow> stream_error" where
  "core_error code d last_id =
     (let status = http_status_for code;
          retryable = (code \<in> set RETRYABLE);
          detail = (if retryable \<and> 500 \<le> status then RECONNECT else detail_for d status)
      in \<lparr>se_status = status, se_code = code, se_detail = detail, se_retryable = retryable,
          se_since_event_id = last_id\<rparr>)"

definition our_error :: "string \<Rightarrow> stream_error" where
  "our_error last_id = \<lparr>se_status = 500, se_code = INTERNAL, se_detail = ''internal error'',
     se_retryable = False, se_since_event_id = last_id\<rparr>"

text \<open>
  \<^verbatim>\<open>data.get("id") or None\<close>: \<open>id_of\<close> gives a model's id, the empty text where it has none.
\<close>

definition item_frame :: "('a \<Rightarrow> string) \<Rightarrow> string \<Rightarrow> 'a \<Rightarrow> 'a sse" where
  "item_frame id_of name x = \<lparr>sse_event = Some name,
     sse_id = (if id_of x = [] then None else Some (id_of x)), sse_data = Some (Inr x), sse_retry = None\<rparr>"

fun last_id :: "('a \<Rightarrow> string) \<Rightarrow> string \<Rightarrow> 'a list \<Rightarrow> string" where
  "last_id id_of acc [] = acc"
| "last_id id_of acc (x # xs) = last_id id_of (if id_of x = [] then acc else id_of x) xs"

definition sse_events :: "'w env \<Rightarrow> ('a \<Rightarrow> string) \<Rightarrow> string \<Rightarrow> ('w, 'a) gen \<Rightarrow> ('w, 'a sse) gen" where
  "sse_events env id_of name source n s = (case n of
      0 \<Rightarrow> (([], Closed), s)
    | Suc 0 \<Rightarrow> (([opening_frame env], Closed), s)
    | Suc k \<Rightarrow>
        (case source k s of ((xs, e), s') \<Rightarrow>
          (let frames = opening_frame env # map (item_frame id_of name) xs;
               last_seen = last_id id_of [] xs
           in case e of
                Closed \<Rightarrow> ((frames, Closed), s')
              | Exhausted \<Rightarrow> ((frames, Exhausted), s')
              | Failed exc \<Rightarrow>
                  (let (failure, line) = (case exc of
                          AioRpcError code d \<Rightarrow>
                            (core_error code d last_seen, LogWarning ''stream interrupted by the core'' name)
                        | _ \<Rightarrow> (our_error last_seen, LogError ''unhandled error in the stream'' exc))
                   in ((frames @ [error_frame failure],
                        if Suc (length xs) = k then Closed else Exhausted),
                       write_log line s')))))"

definition cursor :: "string \<Rightarrow> string \<Rightarrow> string" where
  "cursor last_event_id since_event_id = str_or last_event_id since_event_id"

definition stream_account_events :: "'w env \<Rightarrow> 'w stream_stubs \<Rightarrow> string list option \<Rightarrow> string list option
    \<Rightarrow> string \<Rightarrow> string \<Rightarrow> ('w, ('w, stream_event sse) gen) io" where
  "stream_account_events env st aggregate types since_event_id last_event_id =
     mapv (sse_events env ev_id ''event'')
       (watch_account_events env st (cursor last_event_id since_event_id)
         (Some (case aggregate of None \<Rightarrow> [] | Some a \<Rightarrow> a)) (Some (case types of None \<Rightarrow> [] | Some t \<Rightarrow> t)))"

definition stream_demand :: "'w env \<Rightarrow> 'w stream_stubs \<Rightarrow> string \<Rightarrow> ('w, ('w, stream_event sse) gen) io" where
  "stream_demand env st demand_id =
     mapv (sse_events env ev_id ''event'') (watch_demand env st demand_id)"

definition stream_sandbox_logs :: "'w env \<Rightarrow> 'w stream_stubs \<Rightarrow> logs_request
    \<Rightarrow> ('w, ('w, stream_log_line sse) gen) io" where
  "stream_sandbox_logs env st req =
     mapv (sse_events env (\<lambda>l. []) ''log'') (tail_sandbox_logs env st req)"

section \<open>The gRPC port\<close>

record bff_stream_event =
  be_id :: string
  be_type :: string
  be_aggregate :: string
  be_aggregate_id :: string
  be_payload :: "(string \<times> pyval) list option"
  be_occurred_at :: "timestamp option"

definition bff_event :: "stream_event \<Rightarrow> bff_stream_event" where
  "bff_event e = \<lparr>be_id = ev_id e, be_type = ev_type e, be_aggregate = ev_aggregate e,
     be_aggregate_id = ev_aggregate_id e,
     be_payload = (if ev_payload e = [] then None else Some (ev_payload e)),
     be_occurred_at = ev_occurred_at e\<rparr>"

text \<open>A servicer's method: the use case is called at the first pull, then each item is translated.\<close>

definition serve :: "('w, ('w, 'a) gen) io \<Rightarrow> ('a \<Rightarrow> 'b) \<Rightarrow> ('w, 'b) gen" where
  "serve use_case f n s =
     (if n = 0 then (([], Closed), s)
      else case use_case s of
          (Inl e, s') \<Rightarrow> (([], Failed e), s')
        | (Inr source, s') \<Rightarrow> (case source n s' of ((xs, e), s'') \<Rightarrow> ((map f xs, e), s'')))"

definition grpc_WatchEvents :: "'w env \<Rightarrow> 'w stream_stubs \<Rightarrow> watch_request \<Rightarrow> ('w, bff_stream_event) gen" where
  "grpc_WatchEvents env st rq = serve (watch_account_events env st (wr_since_event_id rq)
     (Some (wr_aggregate rq)) (Some (wr_types rq))) bff_event"

definition grpc_WatchDemand :: "'w env \<Rightarrow> 'w stream_stubs \<Rightarrow> string \<Rightarrow> ('w, bff_stream_event) gen" where
  "grpc_WatchDemand env st demand_id = serve (watch_demand env st demand_id) bff_event"

definition bff_log_line :: "stream_log_line \<Rightarrow> stream_log_line" where
  "bff_log_line l = \<lparr>ll_source = ll_source l, ll_service = ll_service l, ll_line = ll_line l, ll_at = ll_at l\<rparr>"

definition grpc_TailLogs :: "'w env \<Rightarrow> 'w stream_stubs \<Rightarrow> logs_request \<Rightarrow> ('w, stream_log_line) gen" where
  "grpc_TailLogs env st rq = serve (tail_sandbox_logs env st rq) bff_log_line"

text \<open>
  The streaming wrappers. On the wire a stream ends completed, aborted with a status in the
  trailers, or abandoned by the client.
\<close>

datatype wire_end = Completed | Aborted grpc_status string | Abandoned

definition auth_wrap_stream :: "'w fb_env \<Rightarrow> 'w resolver option \<Rightarrow> bool \<Rightarrow> (string \<rightharpoonup> string)
    \<Rightarrow> ('w, 'a) gen \<Rightarrow> ('w, 'a) gen" where
  "auth_wrap_stream fe resolver is_public_method md inner =
     (if is_public_method then inner
      else (\<lambda>n s. if n = 0 then (([], Closed), s)
        else case bnd (authenticate fe md) (\<lambda>(p, raw_token, account_id).
               mapv (context_of p raw_token account_id) (resolve_account resolver p account_id raw_token)) s of
            (Inl e, s') \<Rightarrow> (([], Failed e), s')
          | (Inr ctx, s') \<Rightarrow> (case inner n (s'\<lparr>auth_ctx := Some ctx\<rparr>) of
                (out, s'') \<Rightarrow> (out, s''\<lparr>auth_ctx := auth_ctx s'\<rparr>))))"

definition error_wrap_stream :: "('w, 'a) gen \<Rightarrow> nat \<Rightarrow> 'w rt \<Rightarrow> ('a list \<times> wire_end) \<times> 'w rt" where
  "error_wrap_stream inner n s = (case inner n s of
      ((xs, Exhausted), s') \<Rightarrow> ((xs, Completed), s')
    | ((xs, Closed), s') \<Rightarrow> ((xs, Abandoned), s')
    | ((xs, Failed e), s') \<Rightarrow> (case abort_with e s' of
          (Inr (code, detail), s'') \<Rightarrow> ((xs, Aborted code detail), s'')
        | (Inl e', s'') \<Rightarrow> ((xs, Aborted INTERNAL ''internal error''), s'')))"

definition log_wrap_stream :: "'w env \<Rightarrow> string \<Rightarrow> string \<Rightarrow> (string \<rightharpoonup> string)
    \<Rightarrow> (nat \<Rightarrow> 'w rt \<Rightarrow> ('a list \<times> wire_end) \<times> 'w rt) \<Rightarrow> nat \<Rightarrow> 'w rt \<Rightarrow> ('a list \<times> wire_end) \<times> 'w rt" where
  "log_wrap_stream env meth peer md inner n s =
     (if n = 0 then (([], Abandoned), s)
      else case request_id_of env md s of
          (Inl e, s0) \<Rightarrow> (([], Aborted INTERNAL ''internal error''), s0)
        | (Inr rid, s0) \<Rightarrow>
            (case inner n (write_log (LogInfo ''stream opened'' meth)
                    (s0\<lparr>request_ctx := request_fields rid meth ''grpc'' peer\<rparr>)) of
               ((xs, e), s1) \<Rightarrow>
                 (let s2 = (case e of
                        Completed \<Rightarrow> write_log (LogInfo ''stream'' meth) s1
                      | Aborted code detail \<Rightarrow>
                          write_log (LogError ''the stream failed'' (AioRpcError code (Some detail))) s1
                      | Abandoned \<Rightarrow> s1)
                  in ((xs, e), s2\<lparr>request_ctx := request_ctx s0\<rparr>))))"

definition grpc_stream :: "'w fb_env \<Rightarrow> 'w resolver option \<Rightarrow> string \<Rightarrow> string \<Rightarrow> bool
    \<Rightarrow> (string \<times> string) list option \<Rightarrow> ('w, 'a) gen \<Rightarrow> nat \<Rightarrow> 'w rt \<Rightarrow> ('a list \<times> wire_end) \<times> 'w rt" where
  "grpc_stream fe resolver meth peer is_public_method md servicer =
     log_wrap_stream (f_env fe) meth peer (metadata_dict md)
       (error_wrap_stream (auth_wrap_stream fe resolver is_public_method (metadata_dict md) servicer))"

section \<open>What a generator promises\<close>

text \<open>
  A consumer never gets more than it takes, is told it closed exactly when it took all it wanted,
  and one that takes nothing runs nothing.
\<close>

locale generator =
  fixes gen :: "('w, 'a) gen"
  assumes taken: "gen n s = ((xs, e), s') \<Longrightarrow> length xs \<le> n \<and> (e = Closed \<longleftrightarrow> length xs = n)"
    and unstarted: "gen 0 s = (([], Closed), s)"
begin

lemma not_closed_less: "gen n s = ((xs, e), s') \<Longrightarrow> e \<noteq> Closed \<Longrightarrow> length xs < n"
  using taken by (metis order_le_imp_less_or_eq)

lemma sse_taken:
  assumes "sse_events env id_of name gen n s = ((frames, e), s')"
  shows "length frames \<le> n \<and> (e = Closed \<longleftrightarrow> length frames = n) \<and> (\<forall>exc. e \<noteq> Failed exc)"
proof (cases n)
  case (Suc k)
  note n = Suc
  show ?thesis
  proof (cases k)
    case 0
    with n assms show ?thesis by (auto simp: sse_events_def)
  next
    case (Suc j)
    obtain xs e' s1 where g: "gen (Suc j) s = ((xs, e'), s1)" by (metis prod.collapse)
    with taken [OF g] not_closed_less [OF g] n Suc assms show ?thesis
      by (auto simp: sse_events_def Let_def split: ending.splits exn.splits if_splits)
  qed
qed (use assms in \<open>auto simp: sse_events_def\<close>)

lemma mapped_taken:
  "serve (ret gen) f n s = ((ys, e), s') \<Longrightarrow> length ys \<le> n \<and> (e = Closed \<longleftrightarrow> length ys = n)"
  using taken by (auto simp: serve_def split: if_splits prod.splits)

end

lemma read_call_taken:
  "read_call rpc h n w = ((ms, e), w') \<Longrightarrow> length ms \<le> n \<and> (e = Closed \<longleftrightarrow> length ms = n)"
  by (induction rpc h n w arbitrary: ms e w' rule: read_call.induct)
     (auto split: prod.splits sum.splits option.splits)

interpretation pumped: generator "pump rpc h translate label" for rpc h translate label
  by unfold_locales
     (auto simp: pump_def Let_def split: if_splits prod.splits dest: read_call_taken)

interpretation framed: generator "sse_events env id_of name (pump rpc h translate label)"
  for env id_of name rpc h translate label
  by unfold_locales (use pumped.sse_taken in \<open>blast\<close>, simp add: sse_events_def)

section \<open>Cancelling\<close>

lemma read_call_observes:
  assumes "\<And>h w. g (snd (sr_next rpc h w)) = g w"
  shows "g (snd (read_call rpc h n w)) = g w"
proof (induction n arbitrary: w)
  case (Suc n)
  obtain r w1 where r: "sr_next rpc h w = (r, w1)" by fastforce
  with assms [of h w] have w1: "g w1 = g w" by simp
  obtain out w2 where c: "read_call rpc h n w1 = (out, w2)" by fastforce
  with Suc [of w1] have "g w2 = g w1" by simp
  with r w1 c show ?case by (auto split: sum.splits option.splits prod.splits)
qed simp


text \<open>A core whose world counts the calls cancelled; its streams fail at once.\<close>

definition counting_rpc :: "(nat, watch_request, event_envelope) stream_rpc" where
  "counting_rpc = \<lparr>sr_open = (\<lambda>q md n. (0, n)), sr_next = (\<lambda>h n. (Inl (UNAVAILABLE, Some ''slow''), n)),
     sr_cancel = (\<lambda>h n. Suc n)\<rparr>"


section \<open>What an SSE client is told\<close>

lemma last_id_ids: "last_id id_of acc xs =
    (case filter (\<lambda>i. i \<noteq> []) (map id_of xs) of [] \<Rightarrow> acc | is \<Rightarrow> last is)"
  by (induction xs arbitrary: acc) (auto split: list.splits)

definition frame_items :: "'a sse list \<Rightarrow> 'a list" where
  "frame_items fs = concat (map (\<lambda>f. case sse_data f of Some (Inr x) \<Rightarrow> [x] | _ \<Rightarrow> []) fs)"

definition frame_errors :: "'a sse list \<Rightarrow> stream_error list" where
  "frame_errors fs = concat (map (\<lambda>f. case sse_data f of Some (Inl e) \<Rightarrow> [e] | _ \<Rightarrow> []) fs)"

definition frame_ids :: "'a sse list \<Rightarrow> string list" where
  "frame_ids fs = concat (map (\<lambda>f. case sse_id f of Some i \<Rightarrow> [i] | None \<Rightarrow> []) fs)"

lemma frame_simps [simp]:
  "frame_items (fs @ gs) = frame_items fs @ frame_items gs" "frame_items [] = []"
  "frame_items (opening_frame env # fs) = frame_items fs" "frame_items [error_frame er] = []"
  "frame_errors (fs @ gs) = frame_errors fs @ frame_errors gs" "frame_errors [] = []"
  "frame_errors (opening_frame env # fs) = frame_errors fs" "frame_errors [error_frame er] = [er]"
  "frame_ids (fs @ gs) = frame_ids fs @ frame_ids gs" "frame_ids [] = []"
  "frame_ids (opening_frame env # fs) = frame_ids fs" "frame_ids [error_frame er] = []"
  by (simp_all add: frame_items_def frame_errors_def frame_ids_def opening_frame_def error_frame_def)

lemma frame_map [simp]:
  "frame_items (map (item_frame id_of name) xs) = xs"
  "frame_errors (map (item_frame id_of name) xs) = []"
  "frame_ids (map (item_frame id_of name) xs) = filter (\<lambda>i. i \<noteq> []) (map id_of xs)"
  by (induction xs) (auto simp: frame_items_def frame_errors_def frame_ids_def item_frame_def)

definition failure_of :: "exn \<Rightarrow> string \<Rightarrow> stream_error" where
  "failure_of exc l = (case exc of AioRpcError code d \<Rightarrow> core_error code d l | _ \<Rightarrow> our_error l)"

lemma sse_frames:
  assumes "0 < k" and "source k s = ((xs, e), s1)"
    and "sse_events env id_of name source (Suc k) s = ((frames, e'), s')"
  shows "frames = opening_frame env # map (item_frame id_of name) xs
      @ (case e of Failed exc \<Rightarrow> [error_frame (failure_of exc (last_id id_of [] xs))] | _ \<Rightarrow> [])
    \<and> (\<forall>exc. e' \<noteq> Failed exc)"
proof -
  from assms(1) obtain j where k: "k = Suc j" by (cases k) auto
  show ?thesis
  proof (cases e)
    case (Failed exc)
    with assms k show ?thesis by (cases exc) (auto simp: sse_events_def failure_of_def Let_def split: if_splits)
  qed (use assms k in \<open>auto simp: sse_events_def Let_def\<close>)
qed

lemma core_error_fields:
  "se_code (core_error c d l) = c" "se_status (core_error c d l) = http_status_for c"
  "se_retryable (core_error c d l) \<longleftrightarrow> c \<in> set RETRYABLE" "se_since_event_id (core_error c d l) = l"
  "500 \<le> http_status_for c \<Longrightarrow> se_detail (core_error c d l) = (if c \<in> set RETRYABLE then RECONNECT else ''internal error'')"
  by (simp_all add: core_error_def Let_def detail_for_def)

text \<open>
  C36. Once the stream is open nothing is cut off in silence. For any source that a client pulls
  \<open>k\<close> times, the frames are the opening one, the source's items in order, and, exactly when the
  source failed, one error frame at the very end; no exception escapes. The ids are the items' own,
  none where an item has none. A core error is shown with its code, its HTTP status, whether to
  retry, and the last id sent in this connection (empty when none was, even on a resumed stream);
  a failure of ours as a bare 500; and past 499 nothing of the core's message is in it.
\<close>

theorem sse_tells_everything:
  assumes "0 < k" and "source k s = ((xs, e), s1)"
    and "sse_events env id_of name source (Suc k) s = ((frames, e'), s')"
  shows "(\<forall>exc. e' \<noteq> Failed exc) \<and> hd frames = opening_frame env
    \<and> frame_items frames = xs \<and> frame_ids frames = filter (\<lambda>i. i \<noteq> []) (map id_of xs)
    \<and> (case e of
         Failed (AioRpcError code d) \<Rightarrow>
           (\<exists>err. frame_errors frames = [err] \<and> last frames = error_frame err \<and> se_code err = code
              \<and> se_status err = http_status_for code \<and> (se_retryable err \<longleftrightarrow> code \<in> set RETRYABLE)
              \<and> se_since_event_id err = (if frame_ids frames = [] then [] else last (frame_ids frames))
              \<and> (500 \<le> se_status err \<longrightarrow> se_detail err = (if se_retryable err then RECONNECT else ''internal error'')))
       | Failed exc \<Rightarrow> (\<exists>err. frame_errors frames = [err] \<and> last frames = error_frame err
              \<and> se_status err = 500 \<and> se_detail err = ''internal error'' \<and> \<not> se_retryable err)
       | _ \<Rightarrow> frame_errors frames = [])"
proof -
  have lid: "last_id id_of [] xs = (let ids = filter (\<lambda>i. i \<noteq> []) (map id_of xs) in if ids = [] then [] else last ids)"
    by (simp add: last_id_ids Let_def split: list.splits)
  note f = sse_frames [OF assms]
  show ?thesis
  proof (cases e)
    case (Failed exc)
    with f lid show ?thesis
      by (cases exc) (simp_all add: failure_of_def core_error_fields our_error_def Let_def)
  qed (use f in simp_all)
qed

theorem sse_tells_everything_witness:
  "\<exists>frames e' s' err. sse_events demo_env ev_id ''event'' (pump counting_rpc 0 event_of ''account_events'') 3 (demo_rt None)
      = ((frames, e'), s') \<and> frame_errors frames = [err] \<and> se_code err = UNAVAILABLE \<and> se_retryable err
      \<and> se_detail err = RECONNECT"
proof -
  obtain frames e' s' where f: "sse_events demo_env ev_id ''event'' (pump counting_rpc 0 event_of ''account_events'') (Suc 2)
      (demo_rt None) = ((frames, e'), s')" by (metis prod.collapse)
  obtain xs e s1 where g: "pump counting_rpc 0 event_of ''account_events'' 2 (demo_rt None) = ((xs, e), s1)"
    by (metis prod.collapse)
  then have e: "e = Failed (AioRpcError UNAVAILABLE (Some ''slow''))"
    by (auto simp: pump_def counting_rpc_def numeral_2_eq_2 Let_def)
  from sse_tells_everything [OF _ g f] e f show ?thesis
    by (auto simp: RETRYABLE_def numeral_3_eq_3 numeral_2_eq_2)
qed

section \<open>Two ports, the same stream\<close>


definition demo_streams :: "nat stream_stubs" where
  "demo_streams = \<lparr>WatchEvents = counting_rpc,
     WatchDemand = \<lparr>sr_open = (\<lambda>q md n. (0, n)), sr_next = (\<lambda>h n. (Inr None, n)), sr_cancel = (\<lambda>h n. Suc n)\<rparr>,
     StreamLogs = \<lparr>sr_open = (\<lambda>q md n. (0, n)), sr_next = (\<lambda>h n. (Inr None, n)), sr_cancel = (\<lambda>h n. Suc n)\<rparr>\<rparr>"

lemma demo_watch: "watch_account_events demo_env demo_streams c agg tys (demo_rt (Some (demo_ctx ''acc-1'' ''viewer'')))
    = (Inr (pump counting_rpc 0 event_of ''account_events''), demo_rt (Some (demo_ctx ''acc-1'' ''viewer'')))"
  by (simp add: watch_account_events_def io_simps refusal_of_def account_check_def demo_run
      open_stream_def core_metadata_def demo_streams_def counting_rpc_def)


lemma abort_with_ctx: "abort_with e s = (r, s') \<Longrightarrow> auth_ctx s' = auth_ctx s \<and> request_ctx s' = request_ctx s"
  by (cases e) (auto simp: abort_with_def io_simps)

lemma identity_of_ctx: "identity_of fe (Some (core_resolver env st)) md s = (r, s') \<Longrightarrow> auth_ctx s' = auth_ctx s"
proof -
  have h: "restores auth_ctx (case e of InvalidToken msg \<Rightarrow> raise (HTTPException 401 msg) | _ \<Rightarrow> raise e)"
    "restores auth_ctx (case e of HTTPException st d \<Rightarrow> raise e | _ \<Rightarrow> raise (HTTPException 503 x))"
    for e x by (cases e; simp add: restores_def)+
  have "restores auth_ctx (identity_of fe (Some (core_resolver env st)) md)"
    unfolding identity_of_def authenticate_def resolve_account_def Let_def option.case
    by (intro restore_rules h)
  then show "identity_of fe (Some (core_resolver env st)) md s = (r, s') \<Longrightarrow> auth_ctx s' = auth_ctx s"
    by (rule restoresD)
qed

lemma auth_wrap_stream_identity:
  "auth_wrap_stream fe resolver False md inner n s =
     (if n = 0 then (([], Closed), s)
      else case identity_of fe resolver md s of
          (Inl e, s') \<Rightarrow> (([], Failed e), s')
        | (Inr ctx, s') \<Rightarrow> (case inner n (s'\<lparr>auth_ctx := Some ctx\<rparr>) of
              (out, s'') \<Rightarrow> (out, s''\<lparr>auth_ctx := auth_ctx s'\<rparr>)))"
  by (simp add: auth_wrap_stream_def identity_of_def)

lemma auth_wrap_stream_ctx:
  "auth_wrap_stream fe (Some (core_resolver env st)) False md inner n s = (out, s') \<Longrightarrow> auth_ctx s' = auth_ctx s"
  by (auto simp: auth_wrap_stream_identity split: if_splits prod.splits sum.splits dest: identity_of_ctx)

lemma error_wrap_stream_ctx:
  assumes "inner n s = ((xs, e), s1)" and "error_wrap_stream inner n s = (out, s')"
  shows "auth_ctx s' = auth_ctx s1"
  using assms by (auto simp: error_wrap_stream_def split: ending.splits prod.splits sum.splits dest: abort_with_ctx)

lemma request_id_of_run: "\<exists>rid s1. request_id_of env md s = (Inr rid, s1) \<and> auth_ctx s1 = auth_ctx s
    \<and> request_ctx s1 = request_ctx s"
  by (cases "uuid4_hex env (ext s)") (simp add: request_id_of_def io_simps)

text \<open>
  The streaming door closes behind the caller too: however many items a client takes and
  however the stream ends, \<^verbatim>\<open>auth_ctx\<close> and \<^verbatim>\<open>request_ctx\<close> are afterwards what they were, and a
  call with no token gets no item and, unless it was abandoned before it began, the status
  \<^verbatim>\<open>UNAUTHENTICATED\<close>.
\<close>

theorem streaming_door_closes:
  assumes "grpc_stream fe (Some (core_resolver env st)) meth peer False md servicer n s = ((ys, wire), s')"
  shows "auth_ctx s' = auth_ctx s \<and> request_ctx s' = request_ctx s
    \<and> (header (metadata_dict md) ''authorization'' = [] \<longrightarrow>
         ys = [] \<and> wire = (if n = 0 then Abandoned else Aborted UNAUTHENTICATED ''Not authenticated''))"
proof (cases "n = 0")
  case True
  with assms show ?thesis by (simp add: grpc_stream_def log_wrap_stream_def)
next
  case False
  let ?auth = "auth_wrap_stream fe (Some (core_resolver env st)) False (metadata_dict md) servicer"
  obtain rid s0 where rid: "request_id_of (f_env fe) (metadata_dict md) s = (Inr rid, s0)"
    "auth_ctx s0 = auth_ctx s" "request_ctx s0 = request_ctx s" using request_id_of_run by blast
  let ?s = "write_log (LogInfo ''stream opened'' meth)
      (s0\<lparr>request_ctx := request_fields rid meth ''grpc'' peer\<rparr>)"
  obtain xs e s1 where a: "?auth n ?s = ((xs, e), s1)" by (metis prod.collapse)
  obtain xs' w s2 where o: "error_wrap_stream ?auth n ?s = ((xs', w), s2)" by (metis prod.collapse)
  from auth_wrap_stream_ctx [OF a] error_wrap_stream_ctx [OF a o] rid
  have c: "auth_ctx s2 = auth_ctx s" by simp
  from assms False rid o have out: "ys = xs'" "wire = w"
    and s': "auth_ctx s' = auth_ctx s2" "request_ctx s' = request_ctx s"
    by (auto simp: grpc_stream_def log_wrap_stream_def Let_def split: wire_end.splits)
  have "header (metadata_dict md) ''authorization'' = [] \<Longrightarrow> xs' = [] \<and> w = Aborted UNAUTHENTICATED ''Not authenticated''"
    using o False by (auto simp: error_wrap_stream_def auth_wrap_stream_def authenticate_no_token
        abort_with_def as_grpc_from_http_def)
  with out s' c False show ?thesis by simp
qed

theorem streaming_door_closes_witness:
  "fst (grpc_stream demo_fb (Some (core_resolver demo_env demo_identity)) ''/watch'' ''ip'' False None
      (grpc_WatchEvents demo_env demo_streams \<lparr>wr_aggregate = [], wr_types = [], wr_since_event_id = []\<rparr>) 3
      (demo_rt None)) = ([], Aborted UNAUTHENTICATED ''Not authenticated'')"
proof -
  obtain ys wire s' where g: "grpc_stream demo_fb (Some (core_resolver demo_env demo_identity)) ''/watch'' ''ip''
      False None (grpc_WatchEvents demo_env demo_streams \<lparr>wr_aggregate = [], wr_types = [], wr_since_event_id = []\<rparr>) 3
      (demo_rt None) = ((ys, wire), s')" by (metis prod.collapse)
  from streaming_door_closes [OF g] g show ?thesis by (simp add: metadata_dict_def header_def)
qed

section \<open>Resuming\<close>

text \<open>
  The core's replay contract, which the edge relies on: opened with the id of an event of the
  account's log and no filter, the stream gives the events after it, in order, as far as it gets.
\<close>

definition after_cursor :: "event_envelope list \<Rightarrow> string \<Rightarrow> event_envelope list" where
  "after_cursor evs c = tl (dropWhile (\<lambda>e. ee_id e \<noteq> c) evs)"

definition replays :: "('w, watch_request, event_envelope) stream_rpc \<Rightarrow> event_envelope list \<Rightarrow> bool" where
  "replays rpc evs \<longleftrightarrow> (\<forall>c md w n. c \<in> ee_id ` set evs \<longrightarrow>
     (case sr_open rpc \<lparr>wr_aggregate = [], wr_types = [], wr_since_event_id = c\<rparr> md w of
        (h, w') \<Rightarrow> prefix (fst (fst (read_call rpc h n w'))) (after_cursor evs c)))"

lemma after_cursor_here:
  assumes "distinct (map ee_id (a @ x # b))"
  shows "after_cursor (a @ x # b) (ee_id x) = b"
proof -
  have "ee_id x \<notin> ee_id ` set a" using assms by simp
  then have "\<forall>e \<in> set a. ee_id e \<noteq> ee_id x" by (metis image_eqI)
  then have "dropWhile (\<lambda>e. ee_id e \<noteq> ee_id x) (a @ x # b) = x # b"
    by (simp add: dropWhile_append2)
  then show ?thesis by (simp add: after_cursor_def)
qed

lemma after_cursor_resume:
  assumes "distinct (map ee_id evs)" and "c \<in> ee_id ` set evs"
    and "after_cursor evs c = ms @ rest" and "ms \<noteq> []"
  shows "after_cursor evs (ee_id (last ms)) = rest \<and> ee_id (last ms) \<in> ee_id ` set evs"
proof -
  from assms(2) obtain a x b where evs: "evs = a @ x # b" and x: "ee_id x = c"
    by (metis imageE split_list)
  with assms(1,3) have b: "b = ms @ rest" using after_cursor_here [of a x b] by simp
  from assms(4) have ms: "ms = butlast ms @ [last ms]" by simp
  with evs b have split: "evs = (a @ x # butlast ms) @ last ms # rest" by (metis append.assoc append_Cons append_Nil)
  with assms(1) have "after_cursor evs (ee_id (last ms)) = rest"
    using after_cursor_here by metis
  with split show ?thesis by simp
qed

lemma outside_Inr: "outside f s = (Inr x, s') \<longleftrightarrow> (\<exists>w. f (ext s) = (x, w) \<and> s' = s\<lparr>ext := w\<rparr>)"
  by (auto simp: outside_run split: prod.splits)

lemma stream_account_events_opens:
  assumes "stream_account_events env st None None c l s = (Inr g, s1)"
  shows "\<exists>h md w. sr_open (WatchEvents st) \<lparr>wr_aggregate = [], wr_types = [], wr_since_event_id = cursor l c\<rparr> md w
      = (h, ext s1) \<and> g = sse_events env ev_id ''event'' (pump (WatchEvents st) h event_of ''account_events'')"
  using assms
  by (auto simp: stream_account_events_def watch_account_events_def open_stream_def mapv_Inr scoped_Inr
      bnd_Inr outside_Inr channel_Inr) blast

lemma replayed_items:
  assumes "replays (WatchEvents st) evs" and "cursor l c \<in> ee_id ` set evs"
    and "stream_account_events env st None None c l s = (Inr g, s1)" and "g n s1 = ((frames, e), s2)"
  shows "\<exists>ms. frame_items frames = map event_of ms \<and> prefix ms (after_cursor evs (cursor l c))
    \<and> frame_ids frames = filter (\<lambda>i. i \<noteq> []) (map ee_id ms)"
proof -
  from stream_account_events_opens [OF assms(3)] obtain h md w where
    o: "sr_open (WatchEvents st) \<lparr>wr_aggregate = [], wr_types = [], wr_since_event_id = cursor l c\<rparr> md w
      = (h, ext s1)"
    and g: "g = sse_events env ev_id ''event'' (pump (WatchEvents st) h event_of ''account_events'')" by blast
  show ?thesis
  proof (cases "n \<le> 1")
    case True
    then have "n = 0 \<or> n = Suc 0" by linarith
    with g assms(4) show ?thesis
      by (intro exI [of _ "[]"]) (auto simp: sse_events_def frame_items_def frame_ids_def opening_frame_def)
  next
    case False
    then have n: "n = Suc (n - 1)" "0 < n - 1" by simp_all
    obtain ms e1 w1 where r: "read_call (WatchEvents st) h (n - 1) (ext s1) = ((ms, e1), w1)"
      by (metis prod.collapse)
    obtain xs e2 s3 where p: "pump (WatchEvents st) h event_of ''account_events'' (n - 1) s1 = ((xs, e2), s3)"
      by (metis prod.collapse)
    with r n(2) have xs: "xs = map event_of ms" by (auto simp: pump_def Let_def)
    have pre: "prefix ms (after_cursor evs (cursor l c))"
      using assms(1) [unfolded replays_def, rule_format, OF assms(2), where md = md and w = w and n = "n - 1"] o r by simp
    from assms(4) have "sse_events env ev_id ''event'' (pump (WatchEvents st) h event_of ''account_events'')
        (Suc (n - 1)) s1 = ((frames, e), s2)" using g n(1) by simp
    from sse_frames [OF n(2) p this] have f: "frame_items frames = xs"
      "frame_ids frames = filter (\<lambda>i. i \<noteq> []) (map ev_id xs)"
      by (cases e2; simp)+
    have "ev_id \<circ> event_of = ee_id" by (simp add: fun_eq_iff event_of_def)
    with f xs pre show ?thesis by (intro exI [of _ ms]) simp
  qed
qed

text \<open>
  A browser that drops and comes back misses nothing and sees nothing twice. Under the core's
  replay contract, with a cursor the log knows, let a first connection deliver what it delivers
  before it breaks, and a second one be opened by the browser, with the same URL and the last id
  it saw in \<^verbatim>\<open>Last-Event-ID\<close> (no header when it saw none): the events of both, one after the other,
  are the evs's events after the first cursor, in order, without gap or repetition.
\<close>

theorem resume_without_gap:
  assumes "distinct (map ee_id evs)" and "[] \<notin> ee_id ` set evs" and "c \<in> ee_id ` set evs"
    and "replays (WatchEvents st) evs"
    and "stream_account_events env st None None c [] s = (Inr g, s1)"
    and "g n s1 = ((frames, e), s2)"
    and "stream_account_events env st None None c
           (if frame_ids frames = [] then [] else last (frame_ids frames)) s' = (Inr g', s1')"
    and "g' n' s1' = ((frames', e'), s2')"
  shows "prefix (frame_items frames @ frame_items frames') (map event_of (after_cursor evs c))"
proof -
  have c0: "cursor [] c = c" by (simp add: cursor_def)
  from replayed_items [OF assms(4) _ assms(5,6)] assms(3) obtain ms where
    ms: "frame_items frames = map event_of ms" "prefix ms (after_cursor evs c)"
      "frame_ids frames = filter (\<lambda>i. i \<noteq> []) (map ee_id ms)" by (auto simp: c0)
  from ms(2) obtain rest where rest: "after_cursor evs c = ms @ rest" by (auto simp: prefix_def)
  have "set (after_cursor evs c) \<subseteq> set evs"
    unfolding after_cursor_def
    by (rule set_mono_suffix [OF suffix_order.trans [OF suffix_tl suffix_dropWhile]])
  with rest assms(2) have ids: "frame_ids frames = map ee_id ms"
    using ms(3) by (force simp: filter_id_conv)
  let ?l = "if frame_ids frames = [] then [] else last (frame_ids frames)"
  have after: "after_cursor evs (cursor ?l c) = rest \<and> cursor ?l c \<in> ee_id ` set evs"
  proof (cases "ms = []")
    case True
    with ids rest assms(3) show ?thesis by (simp add: c0)
  next
    case False
    with after_cursor_resume [OF assms(1,3) rest False] assms(2) ids show ?thesis
      by (auto simp: cursor_def str_or_def last_map)
  qed
  from replayed_items [OF assms(4) _ assms(7,8)] after obtain ms' where
    "frame_items frames' = map event_of ms'" "prefix ms' rest" by auto
  with ms(1) rest show ?thesis by (simp add: map_mono_prefix flip: map_append)
qed

text \<open>A core that keeps the contract: its world is the position of the one open call in the log.\<close>

definition replay_rpc :: "event_envelope list \<Rightarrow> (nat, watch_request, event_envelope) stream_rpc" where
  "replay_rpc evs = \<lparr>sr_open = (\<lambda>q md w. (0, length evs - length (after_cursor evs (wr_since_event_id q)))),
     sr_next = (\<lambda>h w. if w < length evs then (Inr (Some (evs ! w)), Suc w) else (Inr None, w)),
     sr_cancel = (\<lambda>h w. w)\<rparr>"

lemma read_replay: "fst (fst (read_call (replay_rpc evs) h n w)) = take n (drop w evs)"
proof (induction n arbitrary: w)
  case (Suc n)
  show ?case
  proof (cases "w < length evs")
    case True
    obtain ms e w' where r: "read_call (replay_rpc evs) h n (Suc w) = ((ms, e), w')"
      by (metis prod.collapse)
    have "sr_next (replay_rpc evs) h w = (Inr (Some (evs ! w)), Suc w)"
      using True by (simp add: replay_rpc_def)
    with Suc [of "Suc w"] r True show ?thesis by (simp add: Cons_nth_drop_Suc [symmetric])
  qed (simp add: replay_rpc_def)
qed simp

lemma replay_rpc_replays: "replays (replay_rpc evs) evs"
proof -
  have "suffix (after_cursor evs c) evs" for c
    unfolding after_cursor_def by (rule suffix_order.trans [OF suffix_tl suffix_dropWhile])
  then have "drop (length evs - length (after_cursor evs c)) evs = after_cursor evs c" for c
    by (metis append_eq_conv_conj length_append add_diff_cancel_right' suffix_def)
  then show ?thesis
    by (simp add: replays_def read_replay take_is_prefix) (simp add: replay_rpc_def take_is_prefix read_replay [unfolded replay_rpc_def])
qed

definition demo_envelope :: "string \<Rightarrow> event_envelope" where
  "demo_envelope i = \<lparr>ee_id = i, ee_type = ''dop.demand.created'', ee_aggregate = ''demand'',
     ee_aggregate_id = ''d-1'', ee_payload = None, ee_occurred_at = None\<rparr>"

definition demo_log :: "event_envelope list" where
  "demo_log = map demo_envelope [''e1'', ''e2'', ''e3'']"

definition replay_streams :: "nat stream_stubs" where
  "replay_streams = demo_streams\<lparr>WatchEvents := replay_rpc demo_log\<rparr>"

lemma replay_opens: "\<exists>g s1. stream_account_events demo_env replay_streams None None c l
    (demo_rt (Some (demo_ctx ''acc-1'' ''viewer''))) = (Inr g, s1)"
  by (simp add: stream_account_events_def watch_account_events_def io_simps refusal_of_def account_check_def
      demo_run open_stream_def core_metadata_def replay_streams_def replay_rpc_def)

theorem resume_without_gap_witness:
  "\<exists>g g' s1 s1' frames e s2 frames' e' s2'.
     stream_account_events demo_env replay_streams None None ''e1'' []
       (demo_rt (Some (demo_ctx ''acc-1'' ''viewer''))) = (Inr g, s1)
     \<and> g 2 s1 = ((frames, e), s2)
     \<and> stream_account_events demo_env replay_streams None None ''e1''
         (if frame_ids frames = [] then [] else last (frame_ids frames))
         (demo_rt (Some (demo_ctx ''acc-1'' ''viewer''))) = (Inr g', s1')
     \<and> g' 5 s1' = ((frames', e'), s2')
     \<and> prefix (frame_items frames @ frame_items frames') (map event_of (map demo_envelope [''e2'', ''e3'']))"
proof -
  obtain g s1 where a: "stream_account_events demo_env replay_streams None None ''e1'' []
      (demo_rt (Some (demo_ctx ''acc-1'' ''viewer''))) = (Inr g, s1)" using replay_opens by blast
  obtain frames e s2 where b: "g 2 s1 = ((frames, e), s2)" by (metis prod.collapse)
  obtain g' s1' where c: "stream_account_events demo_env replay_streams None None ''e1''
      (if frame_ids frames = [] then [] else last (frame_ids frames))
      (demo_rt (Some (demo_ctx ''acc-1'' ''viewer''))) = (Inr g', s1')" using replay_opens by blast
  obtain frames' e' s2' where d: "g' 5 s1' = ((frames', e'), s2')" by (metis prod.collapse)
  have r: "replays (WatchEvents replay_streams) demo_log"
    by (simp add: replay_streams_def replay_rpc_replays)
  have l: "distinct (map ee_id demo_log)" "[] \<notin> ee_id ` set demo_log" "''e1'' \<in> ee_id ` set demo_log"
    "after_cursor demo_log ''e1'' = map demo_envelope [''e2'', ''e3'']"
    by (simp_all add: demo_log_def demo_envelope_def after_cursor_def)
  from resume_without_gap [OF l(1-3) r a b c d] a b c d l(4) show ?thesis by metis
qed

end
