(* ===== verification/Sessions.thy ===== *)
theory Sessions
  imports Streams
begin

text \<open>
  A browser on \<^verbatim>\<open>GET /api/v1/stream/events\<close> over time: connections that break and are opened again,
  any number of them, each with the URL's cursor and the last id seen in \<^verbatim>\<open>Last-Event-ID\<close>. The
  browser's two fields are EventSource's own: the last id it was given and what it has been given.
  The abstract machine of a reader is one number, how far in the log it has read.
\<close>

section \<open>The browser\<close>

record browser =
  br_last :: string
  br_seen :: "stream_event list"

definition fresh :: browser where
  "fresh = \<lparr>br_last = [], br_seen = []\<rparr>"

definition receive :: "stream_event sse list \<Rightarrow> browser \<Rightarrow> browser" where
  "receive frames b = \<lparr>br_last = (if frame_ids frames = [] then br_last b else last (frame_ids frames)),
     br_seen = br_seen b @ frame_items frames\<rparr>"

text \<open>
  A connection takes \<open>n\<close> frames before it breaks; whatever else the process did in between shows in
  the state it is opened in, which is any.
\<close>

inductive connection :: "'w env \<Rightarrow> 'w stream_stubs \<Rightarrow> string \<Rightarrow> nat \<Rightarrow> browser \<Rightarrow> browser \<Rightarrow> bool"
  for env st c where
  connects: "stream_account_events env st None None c (br_last b) s = (Inr g, s1) \<Longrightarrow>
     g n s1 = ((frames, e), s2) \<Longrightarrow> connection env st c n b (receive frames b)"

inductive browses :: "'w env \<Rightarrow> 'w stream_stubs \<Rightarrow> string \<Rightarrow> nat list \<Rightarrow> browser \<Rightarrow> bool"
  for env st c where
  arrives: "browses env st c [] fresh"
| returns: "browses env st c ns b \<Longrightarrow> connection env st c n b b' \<Longrightarrow> browses env st c (n # ns) b'"

inductive_cases connectionE: "connection env st c n b b'"

section \<open>The abstract reader\<close>

definition position :: "event_envelope list \<Rightarrow> nat \<Rightarrow> browser" where
  "position rest k = \<lparr>br_last = (if k = 0 then [] else ee_id (rest ! (k - 1))), br_seen = map event_of (take k rest)\<rparr>"

text \<open>The log as the theorems read it: ids are there, are different, and the first cursor is one.\<close>

definition known_log :: "event_envelope list \<Rightarrow> string \<Rightarrow> bool" where
  "known_log evs c \<longleftrightarrow> distinct (map ee_id evs) \<and> [] \<notin> ee_id ` set evs \<and> c \<in> ee_id ` set evs"

text \<open>A core that, when the cursor has events after it, has the first of them ready.\<close>

definition delivers :: "('w, watch_request, event_envelope) stream_rpc \<Rightarrow> event_envelope list \<Rightarrow> bool" where
  "delivers rpc evs \<longleftrightarrow> (\<forall>c md w. c \<in> ee_id ` set evs \<and> after_cursor evs c \<noteq> [] \<longrightarrow>
     (case sr_open rpc \<lparr>wr_aggregate = [], wr_types = [], wr_since_event_id = c\<rparr> md w of
        (h, w') \<Rightarrow> (case sr_next rpc h w' of (Inr (Some m), w'') \<Rightarrow> True | _ \<Rightarrow> False)))"

lemma after_cursor_sub: "set (after_cursor evs c) \<subseteq> set evs"
  unfolding after_cursor_def
  by (rule set_mono_suffix [OF suffix_order.trans [OF suffix_tl suffix_dropWhile]])

lemma position_cursor:
  assumes "known_log evs c" and "k \<le> length (after_cursor evs c)"
  shows "cursor (br_last (position (after_cursor evs c) k)) c \<in> ee_id ` set evs
    \<and> after_cursor evs (cursor (br_last (position (after_cursor evs c) k)) c) = drop k (after_cursor evs c)"
proof (cases "k = 0")
  case True
  with assms(1) show ?thesis by (simp add: position_def cursor_def known_log_def)
next
  case False
  let ?ms = "take k (after_cursor evs c)"
  from False assms(2) have ms: "?ms \<noteq> []" by auto
  then have last: "last ?ms = after_cursor evs c ! (k - 1)"
    using last_conv_nth [OF ms] assms(2) False by (simp add: min_absorb2)
  from assms(1) have "after_cursor evs (ee_id (last ?ms)) = drop k (after_cursor evs c)
      \<and> ee_id (last ?ms) \<in> ee_id ` set evs"
    using after_cursor_resume [of evs c ?ms "drop k (after_cursor evs c)"] ms by (simp add: known_log_def)
  moreover from this assms(1) have "ee_id (last ?ms) \<noteq> []" by (metis known_log_def)
  ultimately show ?thesis using False last by (simp add: position_def cursor_def str_or_def)
qed

lemma receive_position:
  assumes "frame_items frames = map event_of ms" and "frame_ids frames = map ee_id ms"
    and "prefix ms (drop k rest)" and "k \<le> length rest"
  shows "receive frames (position rest k) = position rest (k + length ms) \<and> k + length ms \<le> length rest"
proof -
  from assms(3) obtain zs where zs: "drop k rest = ms @ zs" by (auto simp: prefix_def)
  have l: "k + length ms \<le> length rest"
    using arg_cong [OF zs, of length] assms(4) by simp
  have t: "take (k + length ms) rest = take k rest @ ms" by (simp add: take_add zs)
  have "rest ! (k + length ms - 1) = last ms" if "ms \<noteq> []"
  proof -
    from that have j: "length ms - 1 < length ms" by (cases ms) auto
    have "rest ! (k + length ms - 1) = drop k rest ! (length ms - 1)"
      using that assms(4) by (cases ms) auto
    also have "\<dots> = last ms" using j that by (simp add: zs nth_append last_conv_nth)
    finally show ?thesis .
  qed
  with assms(1,2) l t show ?thesis by (auto simp: receive_def position_def last_map)
qed

text \<open>One connection moves the reader forward, by what the core delivered.\<close>

lemma connection_items:
  assumes "known_log evs c" and "replays (WatchEvents st) evs" and "k \<le> length (after_cursor evs c)"
    and "connection env st c n (position (after_cursor evs c) k) b"
  shows "\<exists>j. k \<le> j \<and> j \<le> length (after_cursor evs c) \<and> b = position (after_cursor evs c) j"
  using assms(4)
proof (rule connectionE)
  fix s g s1 frames e s2
  assume b: "b = receive frames (position (after_cursor evs c) k)"
    and o: "stream_account_events env st None None c (br_last (position (after_cursor evs c) k)) s = (Inr g, s1)"
    and g: "g n s1 = ((frames, e), s2)"
  from position_cursor [OF assms(1,3)] replayed_items [OF assms(2) _ o g] obtain ms where
    ms: "frame_items frames = map event_of ms" "prefix ms (drop k (after_cursor evs c))"
      "frame_ids frames = filter (\<lambda>i. i \<noteq> []) (map ee_id ms)" by auto
  have "set ms \<subseteq> set evs"
    using set_mono_prefix [OF ms(2)] set_drop_subset after_cursor_sub by (meson subset_trans)
  then have "ee_id ` set ms \<subseteq> ee_id ` set evs" by (rule image_mono)
  with assms(1) have "\<forall>i \<in> set (map ee_id ms). i \<noteq> []" unfolding known_log_def set_map by blast
  with ms(3) have "frame_ids frames = map ee_id ms" by (simp add: filter_id_conv)
  from receive_position [OF ms(1) this ms(2) assms(3)] b show ?thesis
    by (intro exI [of _ "k + length ms"]) simp
qed

text \<open>
  C2. Any number of reconnections refines one reader. Under the core's replay contract, a browser that
  came with a cursor the log knows and then dropped and came back any number of times, each time after
  any number of frames and into any state of the process, is at a position of the log: what it has
  seen is exactly the events after its first cursor, up to that position, each once and in order, and
  the id it would resume from is the last of them. A further connection only moves it forward.
\<close>

theorem sessions_refine_the_log:
  assumes "known_log evs c" and "replays (WatchEvents st) evs" and "browses env st c ns b"
  shows "\<exists>k \<le> length (after_cursor evs c). b = position (after_cursor evs c) k
    \<and> (\<forall>n b'. connection env st c n b b' \<longrightarrow>
        (\<exists>j. k \<le> j \<and> j \<le> length (after_cursor evs c) \<and> b' = position (after_cursor evs c) j))"
proof -
  from assms(3) have "\<exists>k \<le> length (after_cursor evs c). b = position (after_cursor evs c) k"
  proof (induction rule: browses.induct)
    case arrives
    then show ?case by (intro exI [of _ 0]) (simp add: fresh_def position_def)
  next
    case (returns ns b n b')
    then show ?case using connection_items [OF assms(1,2)] by blast
  qed
  then show ?thesis using connection_items [OF assms(1,2)] by blast
qed


lemma browses_demo:
  "\<exists>b. browses demo_env replay_streams ''e1'' [n, m] b"
proof -
  have step: "\<exists>b'. connection demo_env replay_streams ''e1'' n b b'" for n b
  proof -
    obtain g s1 where o: "stream_account_events demo_env replay_streams None None ''e1'' (br_last b)
        (demo_rt (Some (demo_ctx ''acc-1'' ''viewer''))) = (Inr g, s1)" using replay_opens by blast
    obtain frames e s2 where "g n s1 = ((frames, e), s2)" by (metis prod.collapse)
    from connects [OF o this] show ?thesis by blast
  qed
  from step [of m fresh] obtain b1 where b1: "connection demo_env replay_streams ''e1'' m fresh b1" by blast
  from step [of n b1] obtain b2 where "connection demo_env replay_streams ''e1'' n b1 b2" by blast
  from returns [OF returns [OF arrives b1] this] show ?thesis by blast
qed

lemma demo_log_known: "known_log demo_log ''e1''"
    "replays (WatchEvents replay_streams) demo_log"
    "after_cursor demo_log ''e1'' = map demo_envelope [''e2'', ''e3'']"
  by (simp_all add: known_log_def replay_streams_def replay_rpc_replays demo_log_def demo_envelope_def after_cursor_def)

theorem sessions_refine_the_log_witness:
  "\<exists>b k. browses demo_env replay_streams ''e1'' [5, 2] b \<and> k \<le> 2
     \<and> b = position (map demo_envelope [''e2'', ''e3'']) k"
proof -
  obtain b where b: "browses demo_env replay_streams ''e1'' [5, 2] b" using browses_demo by blast
  from sessions_refine_the_log [OF demo_log_known(1,2) b] obtain k where
    "k \<le> length (after_cursor demo_log ''e1'')" "b = position (after_cursor demo_log ''e1'') k" by blast
  with b show ?thesis by (intro exI [of _ b] exI [of _ k]) (simp add: demo_log_known(3))
qed

section \<open>Coming back is enough\<close>

lemma delivered_items:
  assumes "replays (WatchEvents st) evs" and "delivers (WatchEvents st) evs"
    and "cursor l c \<in> ee_id ` set evs" and "after_cursor evs (cursor l c) \<noteq> []"
    and "stream_account_events env st None None c l s = (Inr g, s1)" and "g n s1 = ((frames, e), s2)"
    and "2 \<le> n"
  shows "frame_items frames \<noteq> []"
proof -
  from stream_account_events_opens [OF assms(5)] obtain h md w where
    o: "sr_open (WatchEvents st) \<lparr>wr_aggregate = [], wr_types = [], wr_since_event_id = cursor l c\<rparr> md w
      = (h, ext s1)"
    and g: "g = sse_events env ev_id ''event'' (pump (WatchEvents st) h event_of ''account_events'')" by blast
  from assms(7) obtain k where n: "n = Suc (Suc k)" by (metis add_2_eq_Suc le_Suc_ex)
  from assms(2) [unfolded delivers_def, rule_format, of "cursor l c" md w] assms(3,4) o
  obtain m w1 where m: "sr_next (WatchEvents st) h (ext s1) = (Inr (Some m), w1)"
    by (auto split: prod.splits sum.splits option.splits)
  obtain xs e2 s3 where p: "pump (WatchEvents st) h event_of ''account_events'' (Suc k) s1 = ((xs, e2), s3)"
    by (metis prod.collapse)
  with m have "xs \<noteq> []" by (auto simp: pump_def Let_def split: prod.splits)
  moreover from assms(6) have "sse_events env ev_id ''event'' (pump (WatchEvents st) h event_of ''account_events'')
      (Suc (Suc k)) s1 = ((frames, e), s2)" using g n by simp
  from sse_frames [OF _ p this] have "frame_items frames = xs" by (cases e2; simp)
  ultimately show ?thesis by simp
qed

lemma connection_progress:
  assumes "known_log evs c" and "replays (WatchEvents st) evs" and "delivers (WatchEvents st) evs"
    and "k < length (after_cursor evs c)" and "2 \<le> n"
    and "connection env st c n (position (after_cursor evs c) k) b"
  shows "\<exists>j. k < j \<and> j \<le> length (after_cursor evs c) \<and> b = position (after_cursor evs c) j"
proof -
  from connection_items [OF assms(1,2) _ assms(6)] assms(4) obtain j where
    j: "k \<le> j" "j \<le> length (after_cursor evs c)" "b = position (after_cursor evs c) j" by auto
  from assms(6) have "length (br_seen (position (after_cursor evs c) k)) < length (br_seen b)"
  proof (rule connectionE)
    fix s g s1 frames e s2
    assume b: "b = receive frames (position (after_cursor evs c) k)"
      and o: "stream_account_events env st None None c (br_last (position (after_cursor evs c) k)) s = (Inr g, s1)"
      and g: "g n s1 = ((frames, e), s2)"
    from position_cursor [OF assms(1), of k] delivered_items [OF assms(2,3) _ _ o g assms(5)] assms(4)
    have "frame_items frames \<noteq> []" by simp
    with b show ?thesis by (simp add: receive_def)
  qed
  with j assms(4) have "k < j" by (simp add: position_def min_absorb2)
  with j show ?thesis by blast
qed

text \<open>
  C17. Whoever keeps coming back gets everything. If moreover the core, opened with a cursor that has
  events after it, always has the first of them ready, then after as many connections that took two
  frames or more as there are events after the first cursor, however each broke, the browser has been
  given every one of them, exactly once and in order.
\<close>

theorem coming_back_is_enough:
  assumes "known_log evs c" and "replays (WatchEvents st) evs" and "delivers (WatchEvents st) evs"
    and "browses env st c ns b" and "length (after_cursor evs c) \<le> length (filter (\<lambda>n. 2 \<le> n) ns)"
  shows "br_seen b = map event_of (after_cursor evs c)"
proof -
  let ?rest = "after_cursor evs c"
  from assms(4) have "\<exists>k. min (length ?rest) (length (filter (\<lambda>n. 2 \<le> n) ns)) \<le> k \<and> k \<le> length ?rest
      \<and> b = position ?rest k"
  proof (induction rule: browses.induct)
    case arrives
    then show ?case by (intro exI [of _ 0]) (simp add: fresh_def position_def)
  next
    case (returns ns b n b')
    then obtain k where k: "min (length ?rest) (length (filter (\<lambda>n. 2 \<le> n) ns)) \<le> k" "k \<le> length ?rest"
      "b = position ?rest k" by blast
    show ?case
    proof (cases "k < length ?rest \<and> 2 \<le> n")
      case True
      with connection_progress [OF assms(1-3)] k(3) returns.hyps(2) obtain j where
        "k < j" "j \<le> length ?rest" "b' = position ?rest j" by blast
      with k(1) show ?thesis by (intro exI [of _ j]) (simp add: True)
    next
      case False
      from connection_items [OF assms(1,2) k(2)] k(3) returns.hyps(2) obtain j where
        "k \<le> j" "j \<le> length ?rest" "b' = position ?rest j" by blast
      with k(1,2) False show ?thesis by (intro exI [of _ j]) auto
    qed
  qed
  then obtain k where k: "min (length ?rest) (length (filter (\<lambda>n. 2 \<le> n) ns)) \<le> k" "k \<le> length ?rest"
    "b = position ?rest k" by blast
  with assms(5) have "k = length ?rest" by (simp add: min_absorb1)
  with k(3) show ?thesis by (simp add: position_def)
qed

lemma replay_delivers: "delivers (replay_rpc evs) evs"
proof -
  have "length evs - length (after_cursor evs c) < length evs" if "after_cursor evs c \<noteq> []" for c
  proof -
    have "length (after_cursor evs c) \<le> length evs"
      using length_dropWhile_le [of "\<lambda>e. ee_id e \<noteq> c" evs] by (simp add: after_cursor_def)
    with that show ?thesis by (cases "after_cursor evs c") auto
  qed
  then show ?thesis by (simp add: delivers_def replay_rpc_def)
qed

theorem coming_back_is_enough_witness:
  "\<exists>b. browses demo_env replay_streams ''e1'' [2, 2] b \<and> map ev_id (br_seen b) = [''e2'', ''e3'']"
proof -
  obtain b where b: "browses demo_env replay_streams ''e1'' [2, 2] b" using browses_demo by blast
  have d: "delivers (WatchEvents replay_streams) demo_log" by (simp add: replay_streams_def replay_delivers)
  from coming_back_is_enough [OF demo_log_known(1,2) d b] b show ?thesis
    by (auto simp: demo_log_known(3) event_of_def demo_envelope_def)
qed

section \<open>The frames end when the core's stream ends\<close>

lemma read_call_enough:
  assumes "read_call rpc h N w = ((ms, e), w')" and "e \<noteq> Closed" and "length ms < n"
  shows "read_call rpc h n w = ((ms, e), w')"
  using assms
proof (induction N arbitrary: w ms n)
  case (Suc N)
  from Suc.prems(3) obtain k where n: "n = Suc k" by (cases n) auto
  show ?case
  proof (cases "\<exists>m w1. sr_next rpc h w = (Inr (Some m), w1)")
    case True
    then obtain m w1 where m: "sr_next rpc h w = (Inr (Some m), w1)" by blast
    with Suc.prems(1) obtain ms' where "read_call rpc h N w1 = ((ms', e), w')" "ms = m # ms'"
      by (auto split: prod.splits)
    with Suc.IH [OF _ Suc.prems(2), of w1 ms' k] Suc.prems(3) n m show ?thesis by simp
  next
    case False
    with Suc.prems(1) n show ?thesis by (auto split: prod.splits sum.splits option.splits)
  qed
qed simp

text \<open>The frames and the last line of the log, for a source that ended on its own.\<close>

definition ended_frames :: "'w env \<Rightarrow> ('a \<Rightarrow> string) \<Rightarrow> string \<Rightarrow> 'a list \<Rightarrow> ending \<Rightarrow> 'a sse list" where
  "ended_frames env id_of name xs e = opening_frame env # map (item_frame id_of name) xs
     @ (case e of Failed exc \<Rightarrow> [error_frame (failure_of exc (last_id id_of [] xs))] | _ \<Rightarrow> [])"

definition ended_state :: "string \<Rightarrow> ending \<Rightarrow> 'w rt \<Rightarrow> 'w rt" where
  "ended_state name e s = (case e of
      Failed (AioRpcError code d) \<Rightarrow> write_log (LogWarning ''stream interrupted by the core'' name) s
    | Failed exc \<Rightarrow> write_log (LogError ''unhandled error in the stream'' exc) s
    | _ \<Rightarrow> s)"

lemma ended_length: "e \<noteq> Closed \<Longrightarrow>
    length (ended_frames env id_of name xs e) = length xs + (if e = Exhausted then 1 else 2)"
  by (cases e) (simp_all add: ended_frames_def)

lemma ended_ext: "ext (ended_state name e s) = ext s"
  by (simp add: ended_state_def split: ending.splits exn.splits)

lemma sse_ended:
  assumes "source (Suc j) s = ((xs, e), s1)" and "e \<noteq> Closed" and "length xs < j"
  shows "sse_events env id_of name source (Suc (Suc j)) s
    = ((ended_frames env id_of name xs e, Exhausted), ended_state name e s1)"
proof (cases e)
  case (Failed exc)
  with assms show ?thesis
    by (cases exc) (simp_all add: sse_events_def Let_def ended_frames_def ended_state_def failure_of_def)
qed (use assms in \<open>simp_all add: sse_events_def Let_def ended_frames_def ended_state_def\<close>)

text \<open>
  C18. The frames of a stream end with it. If the core's call, as it stands, ends after some items, by
  itself or with an error, then the generator of frames terminates: every consumer that takes three
  frames more than the items, or any number above, finds it exhausted, with the same frames, one for
  the opening, one per item and one for the error if there was one, and the call cancelled in the
  state the last read left.
\<close>

theorem frames_end_with_the_stream:
  assumes "read_call rpc h N (ext s) = ((ms, e), w)" and "e \<noteq> Closed"
  shows "\<exists>frames s'. (\<forall>n \<ge> length ms + 3.
        sse_events env id_of name (pump rpc h translate label) n s = ((frames, Exhausted), s'))
    \<and> length frames = length ms + (if e = Exhausted then 1 else 2) \<and> ext s' = sr_cancel rpc h w"
proof -
  let ?s1 = "write_log (LogInfo ''stream closed'' label)
      (write_log (LogInfo ''stream opened'' label) s\<lparr>ext := sr_cancel rpc h w\<rparr>)"
  have p: "pump rpc h translate label (Suc j) s = ((map translate ms, e), ?s1)" if "length ms \<le> j" for j
    using read_call_enough [OF assms, of "Suc j"] that by (simp add: pump_def Let_def)
  have "sse_events env id_of name (pump rpc h translate label) n s
      = ((ended_frames env id_of name (map translate ms) e, Exhausted), ended_state name e ?s1)"
    if n: "length ms + 3 \<le> n" for n
  proof -
    from n have n2: "n = Suc (Suc (n - 2))" "length ms < n - 2" by linarith+
    have "pump rpc h translate label (Suc (n - 2)) s = ((map translate ms, e), ?s1)" using n2 by (intro p) simp
    from sse_ended [of "pump rpc h translate label", OF this assms(2)] n2 show ?thesis by simp
  qed
  then show ?thesis using assms(2) ended_length [OF assms(2), of env id_of name "map translate ms"]
    by (intro exI [of _ "ended_frames env id_of name (map translate ms) e"] exI [of _ "ended_state name e ?s1"])
       (simp add: ended_ext)
qed

lemma demo_next:
  "sr_next (replay_rpc demo_log) 0 0 = (Inr (Some (demo_envelope ''e1'')), 1)"
  "sr_next (replay_rpc demo_log) 0 1 = (Inr (Some (demo_envelope ''e2'')), 2)"
  "sr_next (replay_rpc demo_log) 0 2 = (Inr (Some (demo_envelope ''e3'')), 3)"
  "sr_next (replay_rpc demo_log) 0 3 = (Inr None, 3)"
  by (simp_all add: replay_rpc_def demo_log_def)

lemma demo_read: "read_call (replay_rpc demo_log) 0 (Suc (Suc (Suc (Suc 0)))) 0 = ((demo_log, Exhausted), 3)"
  by (simp only: read_call.simps demo_next prod.case sum.case option.case) (simp add: demo_log_def)

theorem frames_end_with_the_stream_witness:
  "\<exists>frames s'. sse_events demo_env ev_id ''event'' (pump (replay_rpc demo_log) 0 event_of ''account_events'') 9 (demo_rt None)
     = ((frames, Exhausted), s') \<and> length frames = 4"
proof -
  have r: "read_call (replay_rpc demo_log) 0 (Suc (Suc (Suc (Suc 0)))) (ext (demo_rt None)) = ((demo_log, Exhausted), 3)"
    by (simp only: demo_read demo_rt_def rt.simps)
  have l: "length demo_log = 3" by (simp add: demo_log_def)
  from frames_end_with_the_stream [OF r, of demo_env ev_id "''event''" event_of "''account_events''"] obtain frames s' where
    f: "\<forall>n \<ge> length demo_log + 3. sse_events demo_env ev_id ''event''
        (pump (replay_rpc demo_log) 0 event_of ''account_events'') n (demo_rt None) = ((frames, Exhausted), s')"
    and n: "length frames = length demo_log + (if Exhausted = Exhausted then 1 else 2)" by blast
  from f have "sse_events demo_env ev_id ''event'' (pump (replay_rpc demo_log) 0 event_of ''account_events'') 9
      (demo_rt None) = ((frames, Exhausted), s')" by (rule allE [of _ 9]) (simp add: l)
  with n l show ?thesis by (intro exI [of _ frames] exI [of _ s'] conjI) (assumption, simp)
qed

end
