(* ===== verification/Doors.thy ===== *)
theory Doors
  imports Gateway
begin

text \<open>
  What a handler's failure becomes. REST: Starlette's \<^verbatim>\<open>ExceptionMiddleware\<close>, under the edge's own two
  middlewares, with the handlers \<^verbatim>\<open>create_app\<close> leaves it with, and above everything its \<^verbatim>\<open>ServerErrorMiddleware\<close>.
  gRPC: the interceptor of errors. The two doors are compared with whatever handler between them.
\<close>

section \<open>The exception handlers of create_app\<close>

text \<open>
  The one registered, \<^verbatim>\<open>add_exception_handler(AioRpcError, grpc_exception_handler)\<close>, and FastAPI's own for its
  exception and for a request that does not validate (whose detail is a list of errors; here its text).
\<close>

definition exception_layer :: "('w, 'r) io \<Rightarrow> ('w, json_response + 'r) io" where
  "exception_layer endpoint = try_with (mapv Inr endpoint) (\<lambda>e. case e of
      AioRpcError code d \<Rightarrow> ret (Inl (grpc_exception_handler code d))
    | HTTPException st d \<Rightarrow> ret (json st d)
    | ValidationError msg \<Rightarrow> ret (json 422 msg)
    | _ \<Rightarrow> raise e)"

text \<open>The middleware's own answer, or the application's.\<close>

definition one_answer :: "json_response + (json_response + 'r) \<Rightarrow> json_response + 'r" where
  "one_answer r = (case r of Inl j \<Rightarrow> Inl j | Inr a \<Rightarrow> a)"

definition rest_door :: "'w fb_env \<Rightarrow> registry \<Rightarrow> 'w resolver option \<Rightarrow> request \<Rightarrow> ('w, 'r) io
    \<Rightarrow> ('w, json_response + 'r) io" where
  "rest_door fe reg resolver rq endpoint = mapv one_answer (auth_dispatch fe reg resolver rq (exception_layer endpoint))"

lemma exception_layer_Inr: "exception_layer m s = (Inr (Inr x), s') \<longleftrightarrow> m s = (Inr x, s')"
  by (auto simp: exception_layer_def json_def io_simps split: prod.splits sum.splits exn.splits)

lemma rest_door_Inr: "rest_door fe reg resolver rq m s = (Inr (Inr x), s') \<longleftrightarrow>
    auth_dispatch fe reg resolver rq (exception_layer m) s = (Inr (Inr (Inr x)), s')"
  by (auto simp: rest_door_def one_answer_def mapv_run split: prod.splits sum.splits)

section \<open>Two doors, one answer\<close>

text \<open>
  The same refusal on both ports: the status is the code's or the code the status', or it is a request that does not
  validate, and the text is the same unless it is the server's fault, which gRPC does not tell.
\<close>

definition alike :: "json_response \<Rightarrow> grpc_status \<times> string \<Rightarrow> bool" where
  "alike j = (\<lambda>(code, detail).
     (jr_status j = http_status_for code \<or> code = grpc_status_for_http (jr_status j)
       \<or> jr_status j = 422 \<and> code = INVALID_ARGUMENT)
     \<and> detail = (if 500 \<le> jr_status j then ''internal error'' else jr_detail j))"

lemma alike_core: "alike (grpc_exception_handler code d) (as_grpc code d)"
  by (simp add: alike_def grpc_exception_handler_def as_grpc_def detail_for_def Let_def)

lemma alike_http: "alike \<lparr>jr_status = st, jr_detail = d\<rparr> (as_grpc_from_http st d)"
  by (simp add: alike_def as_grpc_from_http_def)

lemma alike_invalid: "alike \<lparr>jr_status = 422, jr_detail = msg\<rparr> (INVALID_ARGUMENT, msg)"
  by (simp add: alike_def)

text \<open>What a handler's end becomes, once its caller is known.\<close>

lemma handler_alike:
  "case mapv one_answer (with_auth ctx (mapv Inr (exception_layer m))) s of
      (Inr (Inr x), s') \<Rightarrow> error_wrap (with_auth ctx m) s = (Inr (Inr x), s')
    | (Inr (Inl j), s') \<Rightarrow> \<exists>a. error_wrap (with_auth ctx m) s = (Inr (Inl a), s') \<and> alike j a
    | (Inl e, s') \<Rightarrow> error_wrap (with_auth ctx m) s = error_wrap (raise e) s'"
proof -
  obtain r s1 where m: "m (s\<lparr>auth_ctx := Some ctx\<rparr>) = (r, s1)" by (cases "m (s\<lparr>auth_ctx := Some ctx\<rparr>)")
  show ?thesis
  proof (cases r)
    case (Inr x)
    with m show ?thesis by (simp add: exception_layer_def one_answer_def error_wrap_def io_simps)
  next
    case (Inl e)
    with m show ?thesis
      by (cases e) (auto simp: exception_layer_def one_answer_def json_def error_wrap_def abort_with_def io_simps
          alike_core alike_http alike_invalid)
  qed
qed



end
