(* ===== verification/Surface.thy ===== *)
theory Surface
  imports Doors
begin

text \<open>
  The REST surface as \<^verbatim>\<open>create_app\<close> of \<^verbatim>\<open>app/main.py\<close> assembles it: the routers of \<^verbatim>\<open>app/routers/\<close>, one
  row for each decorated handler in the order of the file, the order they are included in, and the
  middleware around them. What the handlers do is in the theories of the components. FastAPI's own
  routes are a parameter, and so is the shape in which it keeps an included router.
\<close>

section \<open>Routers\<close>

record api_route =
  av_method :: string
  av_path :: string
  av_handler :: string
  av_endpoint :: endpoint

record api_router =
  ro_prefix :: string
  ro_routes :: "api_route list"

text \<open>\<^verbatim>\<open>@router.get(path)\<close> and its siblings on a handler without markers, and the two markers.\<close>

definition decorated :: "string \<Rightarrow> string \<Rightarrow> string \<Rightarrow> api_route" where
  "decorated m path handler = \<lparr>av_method = m, av_path = path, av_handler = handler,
     av_endpoint = \<lparr>is_public_marked = False, is_token_only_marked = False\<rparr>\<rparr>"

abbreviation GET :: "string \<Rightarrow> string \<Rightarrow> api_route" where "GET \<equiv> decorated ''GET''"
abbreviation POST :: "string \<Rightarrow> string \<Rightarrow> api_route" where "POST \<equiv> decorated ''POST''"
abbreviation PUT :: "string \<Rightarrow> string \<Rightarrow> api_route" where "PUT \<equiv> decorated ''PUT''"
abbreviation PATCH :: "string \<Rightarrow> string \<Rightarrow> api_route" where "PATCH \<equiv> decorated ''PATCH''"
abbreviation DELETE :: "string \<Rightarrow> string \<Rightarrow> api_route" where "DELETE \<equiv> decorated ''DELETE''"

definition public :: "api_route \<Rightarrow> api_route" where
  "public r = r\<lparr>av_endpoint := (av_endpoint r)\<lparr>is_public_marked := True\<rparr>\<rparr>"

definition token_only :: "api_route \<Rightarrow> api_route" where
  "token_only r = r\<lparr>av_endpoint := (av_endpoint r)\<lparr>is_token_only_marked := True\<rparr>\<rparr>"

definition health_router :: api_router where
  "health_router = \<lparr>ro_prefix = '''', ro_routes = [
     public (GET ''/healthz'' ''healthz'')]\<rparr>"

definition identity_router :: api_router where
  "identity_router = \<lparr>ro_prefix = ''/api/v1'', ro_routes = [
     GET ''/me'' ''me'',
     PATCH ''/me'' ''update_profile'',
     GET ''/me/onboarding'' ''onboarding'',
     POST ''/me/onboarding/steps/{step}'' ''record_step'',
     POST ''/me/onboarding/complete'' ''complete_onboarding'',
     GET ''/accounts/handles/{handle}/availability'' ''handle_availability'',
     PATCH ''/accounts/current'' ''update_personal_account'',
     PUT ''/accounts/current/plan'' ''set_plan'',
     token_only (POST ''/verification/email'' ''send_email_verification''),
     GET ''/accounts'' ''list_accounts'',
     POST ''/accounts'' ''create_account'',
     GET ''/accounts/current/members'' ''list_members'',
     POST ''/invites'' ''create_invite'',
     GET ''/invites'' ''list_invites'',
     GET ''/invites/{invite_id}'' ''get_invite'',
     POST ''/invites/{invite_id}/accept'' ''accept_invite'',
     DELETE ''/invites/{invite_id}'' ''revoke_invite'',
     PATCH ''/members/{membership_id}'' ''update_member'',
     DELETE ''/members/{membership_id}'' ''remove_member'']\<rparr>"

definition catalog_router :: api_router where
  "catalog_router = \<lparr>ro_prefix = ''/api/v1'', ro_routes = [
     GET ''/catalog/plans'' ''list_plans'',
     GET ''/catalog/providers'' ''list_providers'']\<rparr>"

definition secondfactor_router :: api_router where
  "secondfactor_router = \<lparr>ro_prefix = ''/api/v1'', ro_routes = [
     GET ''/me/second-factor'' ''second_factor_state'',
     GET ''/me/second-factor/factors'' ''list_second_factors'',
     POST ''/me/second-factor/factors'' ''enroll_second_factor'',
     POST ''/me/second-factor/factors/{factor_id}/confirm'' ''confirm_second_factor'',
     DELETE ''/me/second-factor/factors/{factor_id}'' ''revoke_second_factor'',
     POST ''/me/second-factor/challenge'' ''challenge_second_factor'',
     POST ''/me/second-factor/verify'' ''verify_second_factor'',
     POST ''/me/second-factor/recovery'' ''verify_recovery_code'',
     POST ''/me/second-factor/recovery-codes'' ''regenerate_recovery_codes'']\<rparr>"

definition hierarchy_router :: api_router where
  "hierarchy_router = \<lparr>ro_prefix = ''/api/v1'', ro_routes = [
     GET ''/tree'' ''get_tree'',
     GET ''/workspaces'' ''list_workspaces'',
     POST ''/workspaces'' ''create_workspace'',
     GET ''/projects'' ''list_projects'',
     POST ''/projects'' ''create_project'',
     GET ''/projects/{project_id}'' ''get_project'',
     PUT ''/projects/{project_id}/task-manager'' ''bind_task_manager'']\<rparr>"

definition resource_router :: api_router where
  "resource_router = \<lparr>ro_prefix = ''/api/v1'', ro_routes = [
     GET ''/resources'' ''list_resources'',
     POST ''/resources'' ''create_resource'',
     GET ''/resources/{resource_id}'' ''get_resource'',
     PUT ''/resources/{resource_id}/credential'' ''set_credential'',
     GET ''/members/{user_id}/grants'' ''list_member_grants'',
     POST ''/grants'' ''grant_resource'',
     DELETE ''/grants/{grant_id}'' ''revoke_grant'',
     POST ''/resources/{resource_id}/check'' ''check_resource'']\<rparr>"

definition workflow_router :: api_router where
  "workflow_router = \<lparr>ro_prefix = ''/api/v1'', ro_routes = [
     GET ''/flows'' ''list_flows'',
     POST ''/flows'' ''create_flow'',
     GET ''/flows/effective'' ''resolve_flow'',
     POST ''/flows/validate'' ''validate_flow'',
     GET ''/flows/{flow_id}'' ''get_flow'',
     PUT ''/flows/{flow_id}'' ''update_flow'',
     POST ''/flows/{flow_id}/promotion'' ''promote_flow'']\<rparr>"

definition demand_router :: api_router where
  "demand_router = \<lparr>ro_prefix = ''/api/v1'', ro_routes = [
     GET ''/demands'' ''list_demands'',
     POST ''/demands'' ''start_demand'',
     GET ''/demands/{demand_id}'' ''get_demand'',
     GET ''/demands/{demand_id}/cockpit'' ''get_cockpit'',
     POST ''/demands/{demand_id}/stages/{stage_key}/advance'' ''advance_stage'',
     POST ''/demands/{demand_id}/stages/{stage_key}/gate'' ''decide_gate'',
     GET ''/demands/{demand_id}/threads'' ''list_threads'',
     POST ''/demands/{demand_id}/threads'' ''create_thread'',
     POST ''/demands/{demand_id}/findings'' ''publish_finding'',
     POST ''/threads/{thread_id}/messages'' ''post_message'']\<rparr>"

definition delivery_router :: api_router where
  "delivery_router = \<lparr>ro_prefix = ''/api/v1'', ro_routes = [
     GET ''/delivery/board'' ''get_board'',
     GET ''/pull-requests'' ''list_pull_requests'',
     GET ''/repos/{repo_id}/merge-queue'' ''get_merge_queue'',
     POST ''/repos/{repo_id}/merge-queue'' ''enqueue_merge'',
     GET ''/directives'' ''list_directives'',
     POST ''/directives/{directive_id}/decision'' ''decide_directive'']\<rparr>"

definition knowledge_router :: api_router where
  "knowledge_router = \<lparr>ro_prefix = ''/api/v1'', ro_routes = [
     GET ''/demands/{demand_id}/context-package'' ''get_context_package'',
     GET ''/knowledge/rules'' ''list_rules'',
     GET ''/knowledge/memory'' ''search_memory'',
     GET ''/knowledge/index'' ''read_index'',
     POST ''/knowledge/artifacts'' ''put_artifact'']\<rparr>"

definition cost_router :: api_router where
  "cost_router = \<lparr>ro_prefix = ''/api/v1/cost'', ro_routes = [
     GET ''/routing'' ''route_model'',
     GET ''/budget'' ''get_budget'',
     PUT ''/budget'' ''set_budget'',
     POST ''/usage'' ''record_usage'',
     GET ''/summary'' ''summarize_cost'']\<rparr>"

definition execution_router :: api_router where
  "execution_router = \<lparr>ro_prefix = ''/api/v1'', ro_routes = [
     POST ''/sandboxes'' ''provision_sandbox'',
     GET ''/sandboxes/{sandbox_id}'' ''describe_sandbox'',
     POST ''/sandboxes/{sandbox_id}/suspend'' ''suspend_sandbox'',
     POST ''/sandboxes/{sandbox_id}/resume'' ''resume_sandbox'',
     DELETE ''/sandboxes/{sandbox_id}'' ''destroy_sandbox'']\<rparr>"

definition runtime_router :: api_router where
  "runtime_router = \<lparr>ro_prefix = ''/api/v1'', ro_routes = [
     POST ''/demands/{demand_id}/threads/{thread_id}/turns'' ''run_turn'']\<rparr>"

definition attention_router :: api_router where
  "attention_router = \<lparr>ro_prefix = ''/api/v1'', ro_routes = [
     GET ''/attention'' ''list_attention'',
     GET ''/stream/attention'' ''stream_attention'']\<rparr>"

definition stream_router :: api_router where
  "stream_router = \<lparr>ro_prefix = ''/api/v1/stream'', ro_routes = [
     GET ''/events'' ''stream_account_events'',
     GET ''/demands/{demand_id}'' ''stream_demand'',
     GET ''/sandboxes/{sandbox_id}/logs'' ''stream_sandbox_logs'']\<rparr>"

section \<open>The application\<close>

text \<open>\<^verbatim>\<open>include_router\<close>: the router's prefix goes before each path.\<close>

definition include_router :: "api_router \<Rightarrow> api_route list" where
  "include_router ro = map (\<lambda>r. r\<lparr>av_path := ro_prefix ro @ av_path r\<rparr>) (ro_routes ro)"

definition app_routes :: "api_route list" where
  "app_routes = concat (map include_router [health_router, identity_router, catalog_router,
     secondfactor_router, hierarchy_router, resource_router, workflow_router, demand_router,
     delivery_router, knowledge_router, cost_router, execution_router, runtime_router,
     attention_router, stream_router])"

definition leaf_of :: "api_route \<Rightarrow> leaf_route" where
  "leaf_of r = \<lparr>lr_endpoint = Some (av_endpoint r), lr_path = av_path r, lr_methods = [av_method r]\<rparr>"

text \<open>
  The stack around a handler, from the last middleware added, which is the outermost, to the first:
  logging, then authentication with the core's resolver, then the exception handlers. \<open>routes\<close> is the tree
  FastAPI built.
\<close>

definition rest_app :: "'w fb_env \<Rightarrow> 'w identity_stub \<Rightarrow> route list \<Rightarrow> request \<Rightarrow> string option
    \<Rightarrow> ('w, 'r) io \<Rightarrow> ('w, (json_response + 'r) \<times> string) io" where
  "rest_app fe st routes rq client endpoint =
     log_dispatch (f_env fe) rq client
       (rest_door fe (register_public_routes routes \<lparr>PUBLIC_PATTERNS = [], TOKEN_ONLY_PATTERNS = []\<rparr>)
         (Some (core_resolver (f_env fe) st)) rq endpoint)"

text \<open>FastAPI matches in registration order: the handler a request goes to.\<close>

definition dispatched :: "request \<Rightarrow> api_route option" where
  "dispatched q = List.find (\<lambda>r. serves (leaf_of r) q) app_routes"

section \<open>Which templates can fill the same path\<close>

text \<open>Two templates clash if some path could fill both; a parameter takes one whole segment.\<close>

definition next_segment :: "tok list \<Rightarrow> tok list" where
  "next_segment = dropWhile (\<lambda>t. t \<noteq> Lit CHR ''/'')"

function (sequential) clash :: "tok list \<Rightarrow> tok list \<Rightarrow> bool" where
  "clash [] [] = True"
| "clash (Lit a # s) (Lit b # t) = (if a = b then clash s t else False)"
| "clash (Seg # s) (Lit b # t) = (if b = CHR ''/'' then False else clash s (next_segment t))"
| "clash (Lit a # s) (Seg # t) = (if a = CHR ''/'' then False else clash (next_segment s) t)"
| "clash (Seg # s) (Seg # t) = clash s t"
| "clash _ _ = False"
  by pat_completeness auto
termination
  by (relation "measure (\<lambda>(s, t). length s + length t)")
     (auto simp: next_segment_def less_Suc_eq_le intro: le_trans [OF length_dropWhile_le])

fun whole_segments :: "tok list \<Rightarrow> bool" where
  "whole_segments [] = True"
| "whole_segments (Lit c # ts) = whole_segments ts"
| "whole_segments (Seg # ts) = ((ts = [] \<or> hd ts = Lit CHR ''/'') \<and> whole_segments ts)"

lemma fills_next: "fills t v \<Longrightarrow> fills (next_segment t) (dropWhile (\<lambda>x. x \<noteq> CHR ''/'') v)"
proof (induction t arbitrary: v)
  case (Cons x t)
  show ?case
  proof (cases x)
    case (Lit c)
    with Cons show ?thesis by (auto simp: next_segment_def)
  next
    case Seg
    with Cons.prems obtain w u where w: "v = w @ u" "CHR ''/'' \<notin> set w" "fills t u" by auto
    have "dropWhile (\<lambda>x. x \<noteq> CHR ''/'') v = dropWhile (\<lambda>x. x \<noteq> CHR ''/'') u"
      unfolding w(1) using w(2) by (induction w) auto
    with Cons.IH [OF w(3)] Seg show ?thesis by (simp add: next_segment_def)
  qed
qed (simp add: next_segment_def)

lemma fills_whole: "whole_segments (Seg # s) \<Longrightarrow> fills (Seg # s) x
    \<Longrightarrow> fills s (dropWhile (\<lambda>c. c \<noteq> CHR ''/'') x)"
proof -
  assume a: "whole_segments (Seg # s)" "fills (Seg # s) x"
  then obtain w u where w: "x = w @ u" "CHR ''/'' \<notin> set w" "fills s u" by auto
  have "dropWhile (\<lambda>c. c \<noteq> CHR ''/'') u = u" using a(1) w(3) by (cases s) auto
  moreover have "dropWhile (\<lambda>c. c \<noteq> CHR ''/'') x = dropWhile (\<lambda>c. c \<noteq> CHR ''/'') u"
    unfolding w(1) using w(2) by (induction w) auto
  ultimately show ?thesis using w(3) by simp
qed

lemma whole_next: "whole_segments t \<Longrightarrow> whole_segments (next_segment t)"
  by (induction t rule: whole_segments.induct) (auto simp: next_segment_def)

lemma fills_Nil: "\<not> fills (v # va) []"
  by (cases v) auto

lemma fills_clash: "whole_segments s \<Longrightarrow> whole_segments t \<Longrightarrow> fills s x \<Longrightarrow> fills t x \<Longrightarrow> clash s t"
proof (induction s t arbitrary: x rule: clash.induct)
  case (3 s b t)
  then obtain v where v: "x = b # v" "fills t v" by auto
  with 3 have b: "b \<noteq> CHR ''/''" by (auto simp: fills_Seg_Cons simp del: fills.simps(3))
  from fills_whole [OF 3(2,4)] b v have "fills s (dropWhile (\<lambda>c. c \<noteq> CHR ''/'') v)" by simp
  with 3 b v show ?case by (auto intro: fills_next whole_next)
next
  case (4 a s t)
  then obtain v where v: "x = a # v" "fills s v" by auto
  with 4 have b: "a \<noteq> CHR ''/''" by (auto simp: fills_Seg_Cons simp del: fills.simps(3))
  from fills_whole [OF 4(3,5)] b v have "fills t (dropWhile (\<lambda>c. c \<noteq> CHR ''/'') v)" by simp
  with 4 b v show ?case by (auto intro: fills_next whole_next)
next
  case (5 s t)
  from fills_whole [OF 5(2,4)] fills_whole [OF 5(3,5)] 5 show ?case by auto
qed (auto simp: fills_Nil)

type_synonym template = "string \<times> tok list \<times> string"

definition template_of :: "api_route \<Rightarrow> template" where
  "template_of r = (av_method r, compile (av_path r), av_handler r)"

fun apart :: "template \<Rightarrow> template \<Rightarrow> bool" where
  "apart (m, s, h) (m', t, h') \<longleftrightarrow> (if m = m' then if clash s t then h = ''resolve_flow'' \<and> h' = ''get_flow'' else True else True)"

text \<open>Templates of different methods are apart, so the pairs are checked method by method.\<close>

definition verb :: "template \<Rightarrow> nat" where
  "verb x = (case x of (m, _) \<Rightarrow> if m = ''GET'' then 0 else if m = ''POST'' then 1 else 2)"

lemma sorted_wrt_classes:
  assumes "\<And>x y. f x \<noteq> f y \<Longrightarrow> R x y" and "\<And>c. sorted_wrt R (filter (\<lambda>x. f x = c) xs)"
  shows "sorted_wrt R xs"
  using assms(2)
proof (induction xs)
  case (Cons x xs)
  have "sorted_wrt R (filter (\<lambda>y. f y = c) xs)" for c
    using Cons.prems [of c] by (simp split: if_splits)
  moreover have "R x y" if "y \<in> set xs" for y
    using Cons.prems [of "f x"] assms(1) that by (cases "f y = f x") (auto split: if_splits)
  ultimately show ?case using Cons.IH by simp
qed simp

lemma GET_apart: "sorted_wrt apart (filter (\<lambda>x. verb x = 0) (map template_of app_routes))"
  by code_simp

lemma POST_apart: "sorted_wrt apart (filter (\<lambda>x. verb x = 1) (map template_of app_routes))"
  by code_simp

lemma other_apart: "sorted_wrt apart (filter (\<lambda>x. verb x = 2) (map template_of app_routes))"
  by code_simp

lemma app_apart: "sorted_wrt apart (map template_of app_routes)"
proof (rule sorted_wrt_classes [where f = verb])
  show "apart x y" if "verb x \<noteq> verb y" for x y
    using that by (cases x; cases y) (auto simp: verb_def)
  show "sorted_wrt apart (filter (\<lambda>x. verb x = c) (map template_of app_routes))" for c
  proof (cases "c \<le> 2")
    case True
    then consider "c = 0" | "c = 1" | "c = 2" by linarith
    then show ?thesis by cases (simp_all only: GET_apart POST_apart other_apart)
  next
    case False
    then have "filter (\<lambda>x. verb x = c) (map template_of app_routes) = []"
      by (auto simp: filter_empty_conv verb_def split: prod.splits)
    then show ?thesis by simp
  qed
qed

lemma app_whole: "list_all (\<lambda>(m, s, h). whole_segments s \<and> upper m = m) (map template_of app_routes)"
  by code_simp

section \<open>Every route is reached\<close>

lemma first_found:
  assumes "sorted_wrt Q xs" and "x \<in> set xs" and "P x"
  shows "List.find P xs = Some x \<or> (\<exists>y \<in> set xs. List.find P xs = Some y \<and> P y \<and> Q y x)"
  using assms by (induction xs) auto

lemma fills_literal: "fills (map Lit p) s \<longleftrightarrow> s = p"
  by (induction p arbitrary: s) auto

lemma effective_literal: "compile ''/api/v1/flows/effective'' = map Lit ''/api/v1/flows/effective''"
  by code_simp

lemma effective_route:
  "r \<in> set app_routes \<Longrightarrow> av_handler r = ''resolve_flow'' \<Longrightarrow> av_path r = ''/api/v1/flows/effective''"
proof -
  have "list_all (\<lambda>r. av_handler r = ''resolve_flow'' \<longrightarrow> av_path r = ''/api/v1/flows/effective'') app_routes"
    by code_simp
  then show "r \<in> set app_routes \<Longrightarrow> av_handler r = ''resolve_flow'' \<Longrightarrow> av_path r = ''/api/v1/flows/effective''"
    by (auto simp: list_all_iff)
qed

lemma serves_leaf:
  assumes "r \<in> set app_routes" and "CHR 0x0A \<notin> set (rq_path q)"
  shows "serves (leaf_of r) q \<longleftrightarrow> av_method r = upper (rq_method q) \<and> fills (compile (av_path r)) (rq_path q)"
proof -
  have "upper (av_method r) = av_method r"
    using app_whole assms(1) by (auto simp: list_all_iff template_of_def)
  moreover have "\<not> (\<exists>s. rq_path q = s @ [CHR 0x0A] \<and> fills (compile (av_path r)) s)"
    using assms(2) by auto
  ultimately show ?thesis by (auto simp: serves_def leaf_of_def)
qed

lemma app_apart_routes: "sorted_wrt (\<lambda>r r'. apart (template_of r) (template_of r')) app_routes"
  using app_apart by (simp add: sorted_wrt_map)

text \<open>
  No route hides another. A request a route's method and template fit goes to that route's handler,
  whatever the order of the others, with one exception, for which the order was chosen: what
  \<^verbatim>\<open>GET /flows/{flow_id}\<close> would take as the flow named \<^verbatim>\<open>effective\<close> goes to the effective flow's.
\<close>

theorem no_route_hidden:
  assumes "r \<in> set app_routes" and "serves (leaf_of r) q" and "CHR 0x0A \<notin> set (rq_path q)"
  shows "dispatched q = Some r
    \<or> av_handler r = ''get_flow'' \<and> rq_path q = ''/api/v1/flows/effective''
      \<and> map_option av_handler (dispatched q) = Some ''resolve_flow''"
proof -
  from first_found [OF app_apart_routes assms(1), where P = "\<lambda>r. serves (leaf_of r) q", OF assms(2)] consider
      "dispatched q = Some r"
    | y where "y \<in> set app_routes" "dispatched q = Some y" "serves (leaf_of y) q" "apart (template_of y) (template_of r)"
    by (auto simp: dispatched_def)
  then show ?thesis
  proof cases
    case (2 y)
    note y = 2(3) [unfolded serves_leaf [OF 2(1) assms(3)]]
    note r = assms(2) [unfolded serves_leaf [OF assms(1,3)]]
    have "whole_segments (compile (av_path y))" "whole_segments (compile (av_path r))"
      using app_whole 2(1) assms(1) by (auto simp: list_all_iff template_of_def)
    with fills_clash y r have "clash (compile (av_path y)) (compile (av_path r))" by blast
    with 2(4) y r have h: "av_handler y = ''resolve_flow''" "av_handler r = ''get_flow''"
      by (simp_all add: template_of_def split: if_splits)
    with y effective_route [OF 2(1)] have "rq_path q = ''/api/v1/flows/effective''"
      by (simp add: effective_literal fills_literal del: compile.simps)
    with 2(2) h show ?thesis by simp
  qed simp
qed

theorem no_route_hidden_witness:
  "dispatched \<lparr>rq_method = ''get'', rq_path = ''/api/v1/flows/f-1'', rq_headers = Map.empty\<rparr>
     = Some (GET ''/api/v1/flows/{flow_id}'' ''get_flow'')"
proof -
  let ?get = "GET ''/api/v1/flows/{flow_id}'' ''get_flow''"
  let ?q = "\<lparr>rq_method = ''get'', rq_path = ''/api/v1/flows/f-1'', rq_headers = Map.empty\<rparr>"
  have mem: "?get \<in> set app_routes" by code_simp
  have m: "matches (compile ''/api/v1/flows/{flow_id}'') ''/api/v1/flows/f-1''"
      "upper ''get'' = ''GET''" "upper ''GET'' = ''GET''"
    by code_simp+
  then have "serves (leaf_of ?get) ?q"
    by (auto simp: serves_def leaf_of_def decorated_def matches_iff_fills simp del: compile.simps fills.simps)
  from no_route_hidden [OF mem this] show ?thesis by simp
qed

section \<open>What the application exempts\<close>

definition unmarked :: "leaf_route \<Rightarrow> bool" where
  "unmarked r \<longleftrightarrow> (\<forall>e. lr_endpoint r = Some e \<longrightarrow> \<not> is_public_marked e \<and> \<not> is_token_only_marked e)"

lemma app_marks:
  "filter (\<lambda>r. is_public_marked (av_endpoint r)) app_routes = [public (GET ''/healthz'' ''healthz'')]"
  "filter (\<lambda>r. is_token_only_marked (av_endpoint r) \<and> \<not> is_public_marked (av_endpoint r)) app_routes
     = [token_only (POST ''/api/v1/verification/email'' ''send_email_verification'')]"
  by code_simp+

lemma serves_literal:
  assumes "compile (av_path r) = map Lit (av_path r)" and "upper (av_method r) = av_method r"
  shows "serves (leaf_of r) q \<longleftrightarrow> av_method r = upper (rq_method q)
    \<and> (rq_path q = av_path r \<or> rq_path q = av_path r @ [CHR 0x0A])"
  using assms by (auto simp: serves_def leaf_of_def fills_literal)

lemma exempt_leaf:
  "exempt mark (leaf_of r) \<longleftrightarrow> mark (av_endpoint r) \<and> av_path r \<noteq> []"
  by (simp add: exempt_def leaf_of_def)

lemma exempt_serves:
  assumes "set (flatten routes) = set framework \<union> leaf_of ` set app_routes"
    and "\<forall>r \<in> set framework. \<not> exempt mark r"
  shows "(\<exists>r \<in> set (flatten routes). exempt mark r \<and> serves r q)
    \<longleftrightarrow> (\<exists>r \<in> set (filter (\<lambda>r. mark (av_endpoint r)) app_routes). av_path r \<noteq> [] \<and> serves (leaf_of r) q)"
  unfolding assms(1) bex_Un using assms(2) by (auto simp: exempt_leaf)

lemma dispatch_verified:
  assumes "auth_dispatch fe reg (Some resolve) rq m s = (Inr (Inr x), s')"
    and "\<not> is_public reg rq" and "rq_path rq \<notin> set UNAUTHENTICATED_PATHS"
  shows "header (rq_headers rq) ''authorization'' \<noteq> []
    \<and> (\<exists>p s1. verify fe (header (rq_headers rq) ''authorization'') s = (Inr p, s1)
       \<and> (\<not> is_token_only reg rq \<longrightarrow> (\<exists>who s2. resolve p (header (rq_headers rq) ''x-account-id'')
            (bearer (header (rq_headers rq) ''authorization'')) s1 = (Inr who, s2))))"
  using assms
  by (auto simp: auth_dispatch_def Let_def json_def rest_resolve_def io_simps split: if_splits prod.splits sum.splits exn.splits)


lemma log_dispatch_Inr:
  "log_dispatch env rq client m s = (Inr (x, rid), s') \<Longrightarrow> \<exists>s1 s2. m s1 = (Inr x, s2) \<and> auth_ctx s1 = auth_ctx s"
  by (auto simp: log_dispatch_def request_id_of_def io_simps split: if_splits prod.splits sum.splits)

lemma exempt_exactly:
  assumes "set (flatten routes) = set framework \<union> leaf_of ` set app_routes" and "\<forall>r \<in> set framework. unmarked r"
  shows "is_public (register_public_routes routes reg) q \<longleftrightarrow> upper (rq_method q) = ''GET''
        \<and> (rq_path q = ''/healthz'' \<or> rq_path q = ''/healthz'' @ [CHR 0x0A])"
    and "is_token_only (register_public_routes routes reg) q \<longleftrightarrow> upper (rq_method q) = ''POST''
        \<and> (rq_path q = ''/api/v1/verification/email'' \<or> rq_path q = ''/api/v1/verification/email'' @ [CHR 0x0A])"
proof -
  have lit: "compile ''/healthz'' = map Lit ''/healthz''" "upper ''GET'' = ''GET''" "upper ''POST'' = ''POST''"
      "compile ''/api/v1/verification/email'' = map Lit ''/api/v1/verification/email''"
    by code_simp+
  have un: "\<forall>r \<in> set framework. \<not> exempt is_public_marked r"
      "\<forall>r \<in> set framework. \<not> exempt (\<lambda>e. is_token_only_marked e \<and> \<not> is_public_marked e) r"
    using assms(2) by (auto simp: unmarked_def exempt_def)
  show "is_public (register_public_routes routes reg) q \<longleftrightarrow> upper (rq_method q) = ''GET''
        \<and> (rq_path q = ''/healthz'' \<or> rq_path q = ''/healthz'' @ [CHR 0x0A])"
    unfolding public_exactly_marked [THEN conjunct1] exempt_serves [OF assms(1) un(1)] app_marks
    using serves_literal [of "public (GET ''/healthz'' ''healthz'')" q]
    by (auto simp: lit public_def decorated_def simp del: compile.simps)
  show "is_token_only (register_public_routes routes reg) q \<longleftrightarrow> upper (rq_method q) = ''POST''
        \<and> (rq_path q = ''/api/v1/verification/email'' \<or> rq_path q = ''/api/v1/verification/email'' @ [CHR 0x0A])"
    unfolding public_exactly_marked [THEN conjunct2] exempt_serves [OF assms(1) un(2)] app_marks
    using serves_literal [of "token_only (POST ''/api/v1/verification/email'' ''send_email_verification'')" q]
    by (auto simp: lit token_only_def decorated_def simp del: compile.simps)
qed

text \<open>
  C29. The application lets past authentication exactly what it means to. Whatever shape FastAPI
  keeps the included routers in, and with whatever unmarked routes of its own beside them, the only
  requests that need no token are \<^verbatim>\<open>GET /healthz\<close> and those to the fixed paths, and the only ones that need
  a token and no account are \<^verbatim>\<open>POST /api/v1/verification/email\<close> (each also with a line end after
  it, as the pattern's end allows). For any other request, if a handler answered through the whole stack,
  there was an \<^verbatim>\<open>authorization\<close> header, the verifier accepted it, and the core said who the caller is.
\<close>

theorem exempt_surface:
  assumes "set (flatten routes) = set framework \<union> leaf_of ` set app_routes" and "\<forall>r \<in> set framework. unmarked r"
  shows "(is_public (register_public_routes routes reg) q \<longleftrightarrow> upper (rq_method q) = ''GET''
        \<and> (rq_path q = ''/healthz'' \<or> rq_path q = ''/healthz'' @ [CHR 0x0A]))
    \<and> (is_token_only (register_public_routes routes reg) q \<longleftrightarrow> upper (rq_method q) = ''POST''
        \<and> (rq_path q = ''/api/v1/verification/email'' \<or> rq_path q = ''/api/v1/verification/email'' @ [CHR 0x0A]))
    \<and> (rest_app fe st routes q client endpoint s = (Inr (Inr x, rid), s')
        \<and> rq_path q \<notin> {''/healthz'', ''/healthz'' @ [CHR 0x0A], ''/docs'', ''/openapi.json'',
            ''/api/v1/verification/email'', ''/api/v1/verification/email'' @ [CHR 0x0A]} \<longrightarrow>
        header (rq_headers q) ''authorization'' \<noteq> []
        \<and> (\<exists>p s1 who s2 s3. auth_ctx s1 = auth_ctx s
            \<and> verify fe (header (rq_headers q) ''authorization'') s1 = (Inr p, s2)
            \<and> core_resolver (f_env fe) st p (header (rq_headers q) ''x-account-id'')
                (bearer (header (rq_headers q) ''authorization'')) s2 = (Inr who, s3)))"
proof -
  note pub = exempt_exactly(1) [OF assms] and tok = exempt_exactly(2) [OF assms]
  show ?thesis
  proof (intro conjI impI pub tok; elim conjE)
    let ?reg = "register_public_routes routes \<lparr>PUBLIC_PATTERNS = [], TOKEN_ONLY_PATTERNS = []\<rparr>"
    assume run: "rest_app fe st routes q client endpoint s = (Inr (Inr x, rid), s')"
      and path: "rq_path q \<notin> {''/healthz'', ''/healthz'' @ [CHR 0x0A], ''/docs'', ''/openapi.json'',
            ''/api/v1/verification/email'', ''/api/v1/verification/email'' @ [CHR 0x0A]}"
    from log_dispatch_Inr [OF run [unfolded rest_app_def]] obtain s1 s2 where
      a: "auth_dispatch fe ?reg (Some (core_resolver (f_env fe) st)) q (exception_layer endpoint) s1 = (Inr (Inr (Inr x)), s2)"
        "auth_ctx s1 = auth_ctx s" unfolding rest_door_Inr by blast
    have n: "\<not> is_public ?reg q" "rq_path q \<notin> set UNAUTHENTICATED_PATHS" "\<not> is_token_only ?reg q"
      using path unfolding pub tok by (auto simp: UNAUTHENTICATED_PATHS_def)
    note d = dispatch_verified [OF a(1) n(1,2)]
    show "header (rq_headers q) ''authorization'' \<noteq> []" using d by blast
    show "\<exists>p s1 who s2 s3. auth_ctx s1 = auth_ctx s
            \<and> verify fe (header (rq_headers q) ''authorization'') s1 = (Inr p, s2)
            \<and> core_resolver (f_env fe) st p (header (rq_headers q) ''x-account-id'')
                (bearer (header (rq_headers q) ''authorization'')) s2 = (Inr who, s3)"
      using d n(3) a(2) by blast
  qed
qed


definition demo_framework :: "leaf_route list" where
  "demo_framework = [\<lparr>lr_endpoint = Some \<lparr>is_public_marked = False, is_token_only_marked = False\<rparr>,
     lr_path = ''/openapi.json'', lr_methods = [''GET'', ''HEAD'']\<rparr>]"

text \<open>FastAPI's own routes as they are, and each included router's behind one wrapper.\<close>

definition demo_routes :: "route list" where
  "demo_routes = map (\<lambda>r. Route r []) demo_framework
     @ [Route \<lparr>lr_endpoint = None, lr_path = [], lr_methods = []\<rparr> (map (\<lambda>r. Route (leaf_of r) []) app_routes)]"

definition demo_get :: "string \<Rightarrow> request" where
  "demo_get path = \<lparr>rq_method = ''GET'', rq_path = path, rq_headers = [''authorization'' \<mapsto> ''Bearer a.b.c'',
     ''x-account-id'' \<mapsto> ''acc-1'', ''x-request-id'' \<mapsto> ''r-1'']\<rparr>"

lemma flatten_leaves: "flatten (map (\<lambda>r. Route (f r) []) rs @ routes) = map f rs @ flatten routes"
  by (induction rs) auto

lemma demo_routes_flat: "set (flatten demo_routes) = set demo_framework \<union> leaf_of ` set app_routes"
proof -
  have "app_routes \<noteq> []" by code_simp
  with flatten_leaves [of leaf_of app_routes "[]"] show ?thesis
    by (simp add: demo_routes_def flatten_leaves)
qed

lemma demo_unmarked: "\<forall>r \<in> set demo_framework. unmarked r"
  by (simp add: demo_framework_def unmarked_def)

theorem exempt_surface_witness:
  "is_public (register_public_routes demo_routes demo_registry) (demo_get ''/healthz'')
   \<and> \<not> is_public (register_public_routes demo_routes demo_registry) (demo_get ''/api/v1/me'')
   \<and> (\<exists>x rid s'. rest_app demo_fb demo_identity demo_routes (demo_get ''/api/v1/me'') None (ret ''x'') (demo_rt None)
        = (Inr (Inr x, rid), s'))
   \<and> (\<exists>p s1 s2. auth_ctx s1 = None \<and> verify demo_fb ''Bearer a.b.c'' s1 = (Inr p, s2))"
proof -
  have g: "upper ''GET'' = ''GET''" by code_simp
  have role: "role_name 3 = ''developer''" by code_simp
  note surface = exempt_surface [OF demo_routes_flat demo_unmarked, where fe = demo_fb and st = demo_identity
      and client = None and endpoint = "ret ''x''" and s = "demo_rt None"]
  have p: "is_public (register_public_routes demo_routes demo_registry) (demo_get ''/healthz'')"
      "\<not> is_public (register_public_routes demo_routes reg) (demo_get ''/api/v1/me'')"
      "\<not> is_token_only (register_public_routes demo_routes reg) (demo_get ''/api/v1/me'')" for reg
    using surface [where q = "demo_get ''/healthz''" and reg = demo_registry]
      surface [where q = "demo_get ''/api/v1/me''" and reg = reg] by (auto simp: demo_get_def g)
  have h: "header (rq_headers (demo_get c)) ''authorization'' = ''Bearer a.b.c''"
      "header (rq_headers (demo_get c)) ''x-account-id'' = ''acc-1''"
      "header (rq_headers (demo_get c)) ''x-request-id'' = ''r-1''" "rq_path (demo_get c) = c" for c
    by (simp_all add: header_def demo_get_def)
  have e: "f_env demo_fb = demo_env" by (simp add: demo_fb_def)
  have "\<exists>x rid s'. rest_app demo_fb demo_identity demo_routes (demo_get ''/api/v1/me'') None (ret ''x'') (demo_rt None)
        = (Inr (Inr x, rid), s')"
    using p(2,3)
    by (simp add: rest_app_def rest_door_def one_answer_def exception_layer_def log_dispatch_def request_id_of_def auth_dispatch_def rest_resolve_def h e demo_verify
        UNAUTHENTICATED_PATHS_def Let_def core_resolver_def ensure_user_def assert_membership_def role_in_account_def
        via_http_def io_simps demo_run idempotency_key_def demo_identity_def
        role grants_def demo_user_def demo_account_def demo_membership_def current_request_id_def request_fields_def)
  moreover from this obtain x rid s' where "rest_app demo_fb demo_identity demo_routes (demo_get ''/api/v1/me'') None
      (ret ''x'') (demo_rt None) = (Inr (Inr x, rid), s')" by blast
  then have "\<exists>p s1 s2. auth_ctx s1 = None \<and> verify demo_fb ''Bearer a.b.c'' s1 = (Inr p, s2)"
    using surface [where q = "demo_get ''/api/v1/me''" and x = x and rid = rid and s' = s', THEN conjunct2, THEN conjunct2]
    by (auto simp: h demo_run)
  ultimately show ?thesis using p by blast
qed

end
