(* ===== verification/Contract.thy ===== *)
theory Contract
  imports Prelude
begin

text \<open>
  What protoc's gRPC plugin writes of a service, on both halves: the methods a stub opens on a channel, and
  the handlers registered with a server. The tables themselves are in \<open>Core_Stubs\<close> (the core's services, which
  the edge is a client of) and \<open>Grpc_Surface\<close> (the edge's own).
\<close>

datatype rpc_kind = UnaryUnary | UnaryStream | StreamUnary | StreamStream

text \<open>A method on the server's side: its name, its kind, the messages it reads and writes.\<close>

type_synonym rpc_method = "string \<times> rpc_kind \<times> string \<times> string"

record service =
  sv_name :: string
  sv_handlers :: "rpc_method list"

text \<open>A method on the client's side: the attribute, the path it calls, the kind, the messages it writes and reads.\<close>

type_synonym stub_method = "string \<times> string \<times> rpc_kind \<times> string \<times> string"

definition rpc_path :: "string \<Rightarrow> string \<Rightarrow> string" where
  "rpc_path svc meth = ''/'' @ svc @ ''/'' @ meth"

text \<open>The two halves agree: attribute by attribute, the path, the kind and the messages are the server's.\<close>

definition mirrors :: "stub_method list \<Rightarrow> service \<Rightarrow> bool" where
  "mirrors stub svc \<longleftrightarrow> stub = map (\<lambda>(meth, kind, q, r). (meth, rpc_path (sv_name svc) meth, kind, q, r)) (sv_handlers svc)"

lemma rpc_path_inject:
  assumes "CHR ''/'' \<notin> set a" and "CHR ''/'' \<notin> set b"
  shows "rpc_path a m = rpc_path b m' \<longleftrightarrow> a = b \<and> m = m'"
proof
  assume e: "rpc_path a m = rpc_path b m'"
  have "a = takeWhile (\<lambda>c. c \<noteq> CHR ''/'') (a @ ''/'' @ m)" "b = takeWhile (\<lambda>c. c \<noteq> CHR ''/'') (b @ ''/'' @ m')"
    using assms by (auto simp: takeWhile_append)
  with e show "a = b \<and> m = m'" by (auto simp: rpc_path_def)
qed simp

end
