(* ===== verification/Grpc_Surface.thy ===== *)
theory Grpc_Surface
  imports Contract Streams
begin

text \<open>
  The gRPC surface: the methods \<^verbatim>\<open>add_..._to_server\<close> registers for each service of the edge's contract
  (\<^verbatim>\<open>app/grpcapi/gen/dop/bff/v1/\<close>), the classes of \<^verbatim>\<open>app/grpcapi/\<close> that implement them, the client the
  same contract gives, the order \<^verbatim>\<open>GrpcServer.start\<close> registers them in, and \<^verbatim>\<open>intercept_service\<close>, which
  decides by the kind of a method whether an interceptor wraps it at all. What a method does is in the
  theory of its component.
\<close>

section \<open>Registration\<close>

text \<open>How a method is written: \<^verbatim>\<open>async def\<close> with a \<^verbatim>\<open>return\<close>, or with a \<^verbatim>\<open>yield\<close>.\<close>

datatype coding = Coroutine | AsyncGenerator

text \<open>
  \<^verbatim>\<open>servicer.Method\<close>: the edge's own, or the generated base's, which raises \<^verbatim>\<open>NotImplementedError\<close>;
  with neither, registering fails.
\<close>

datatype behaviour = Written coding | NotImplemented | Missing

definition behaviour_of :: "(string \<times> coding) list \<Rightarrow> string list \<Rightarrow> string \<Rightarrow> behaviour" where
  "behaviour_of cls base meth = (case map_of cls meth of
      Some c \<Rightarrow> Written c
    | None \<Rightarrow> if meth \<in> set base then NotImplemented else Missing)"

record handler =
  hd_path :: string
  hd_kind :: rpc_kind
  hd_request :: string
  hd_response :: string
  hd_behaviour :: behaviour

definition add_to_server :: "(string \<times> coding) list \<Rightarrow> string list \<Rightarrow> service \<Rightarrow> handler list" where
  "add_to_server cls base svc = map (\<lambda>(meth, kind, q, r). \<lparr>hd_path = rpc_path (sv_name svc) meth,
     hd_kind = kind, hd_request = q, hd_response = r, hd_behaviour = behaviour_of cls base meth\<rparr>) (sv_handlers svc)"

section \<open>The services\<close>

text \<open>
  For each: the methods its generated client opens, the methods of the generated base class, those of the
  edge's class, and the handlers its generated function registers.
\<close>

definition identity_client :: "stub_method list" where
  "identity_client = [

     (''GetMe'', ''/dop.bff.v1.IdentityService/GetMe'', UnaryUnary, ''identity_pb2.GetMeRequest'', ''identity_pb2.Me''),
     (''ListAccounts'', ''/dop.bff.v1.IdentityService/ListAccounts'', UnaryUnary, ''identity_pb2.ListAccountsRequest'', ''identity_pb2.ListAccountsResponse''),
     (''ListMembers'', ''/dop.bff.v1.IdentityService/ListMembers'', UnaryUnary, ''identity_pb2.ListMembersRequest'', ''identity_pb2.ListMembersResponse''),
     (''CreateAccount'', ''/dop.bff.v1.IdentityService/CreateAccount'', UnaryUnary, ''identity_pb2.CreateAccountRequest'', ''identity_pb2.AccountSummary''),
     (''CreateInvite'', ''/dop.bff.v1.IdentityService/CreateInvite'', UnaryUnary, ''identity_pb2.CreateInviteRequest'', ''identity_pb2.InviteSummary''),
     (''ListInvites'', ''/dop.bff.v1.IdentityService/ListInvites'', UnaryUnary, ''identity_pb2.ListInvitesRequest'', ''identity_pb2.ListInvitesResponse''),
     (''GetInvite'', ''/dop.bff.v1.IdentityService/GetInvite'', UnaryUnary, ''identity_pb2.GetInviteRequest'', ''identity_pb2.InvitePreview''),
     (''AcceptInvite'', ''/dop.bff.v1.IdentityService/AcceptInvite'', UnaryUnary, ''identity_pb2.AcceptInviteRequest'', ''identity_pb2.AcceptInviteResponse''),
     (''RevokeInvite'', ''/dop.bff.v1.IdentityService/RevokeInvite'', UnaryUnary, ''identity_pb2.RevokeInviteRequest'', ''identity_pb2.InviteSummary''),
     (''UpdateMember'', ''/dop.bff.v1.IdentityService/UpdateMember'', UnaryUnary, ''identity_pb2.UpdateMemberRequest'', ''identity_pb2.MemberSummary''),
     (''UpdateProfile'', ''/dop.bff.v1.IdentityService/UpdateProfile'', UnaryUnary, ''identity_pb2.UpdateProfileRequest'', ''identity_pb2.Me''),
     (''GetOnboarding'', ''/dop.bff.v1.IdentityService/GetOnboarding'', UnaryUnary, ''identity_pb2.GetOnboardingRequest'', ''identity_pb2.OnboardingState''),
     (''RecordOnboardingStep'', ''/dop.bff.v1.IdentityService/RecordOnboardingStep'', UnaryUnary, ''identity_pb2.RecordOnboardingStepRequest'', ''identity_pb2.OnboardingState''),
     (''CompleteOnboarding'', ''/dop.bff.v1.IdentityService/CompleteOnboarding'', UnaryUnary, ''identity_pb2.CompleteOnboardingRequest'', ''identity_pb2.OnboardingState''),
     (''CheckHandle'', ''/dop.bff.v1.IdentityService/CheckHandle'', UnaryUnary, ''identity_pb2.CheckHandleRequest'', ''identity_pb2.HandleAvailability''),
     (''UpdatePersonalAccount'', ''/dop.bff.v1.IdentityService/UpdatePersonalAccount'', UnaryUnary, ''identity_pb2.UpdatePersonalAccountRequest'', ''identity_pb2.AccountSummary''),
     (''SetPlan'', ''/dop.bff.v1.IdentityService/SetPlan'', UnaryUnary, ''identity_pb2.SetPlanRequest'', ''identity_pb2.AccountSummary'')]"

definition identity_base :: "string list" where
  "identity_base = [
     ''GetMe'', ''ListAccounts'', ''ListMembers'', ''CreateAccount'', ''CreateInvite'', ''ListInvites'',
     ''GetInvite'', ''AcceptInvite'', ''RevokeInvite'', ''UpdateMember'', ''UpdateProfile'', ''GetOnboarding'',
     ''RecordOnboardingStep'', ''CompleteOnboarding'', ''CheckHandle'', ''UpdatePersonalAccount'', ''SetPlan'']"

definition IdentityServicer :: "(string \<times> coding) list" where
  "IdentityServicer = [
     (''GetMe'', Coroutine), (''UpdateProfile'', Coroutine), (''GetOnboarding'', Coroutine),
     (''RecordOnboardingStep'', Coroutine), (''CompleteOnboarding'', Coroutine), (''CheckHandle'', Coroutine),
     (''UpdatePersonalAccount'', Coroutine), (''SetPlan'', Coroutine), (''ListAccounts'', Coroutine),
     (''ListMembers'', Coroutine), (''ListInvites'', Coroutine), (''GetInvite'', Coroutine),
     (''AcceptInvite'', Coroutine), (''RevokeInvite'', Coroutine), (''UpdateMember'', Coroutine),
     (''CreateAccount'', Coroutine), (''CreateInvite'', Coroutine)]"

definition identity_service :: service where
  "identity_service = \<lparr>sv_name = ''dop.bff.v1.IdentityService'', sv_handlers = [
     (''GetMe'', UnaryUnary, ''identity_pb2.GetMeRequest'', ''identity_pb2.Me''),
     (''ListAccounts'', UnaryUnary, ''identity_pb2.ListAccountsRequest'', ''identity_pb2.ListAccountsResponse''),
     (''ListMembers'', UnaryUnary, ''identity_pb2.ListMembersRequest'', ''identity_pb2.ListMembersResponse''),
     (''CreateAccount'', UnaryUnary, ''identity_pb2.CreateAccountRequest'', ''identity_pb2.AccountSummary''),
     (''CreateInvite'', UnaryUnary, ''identity_pb2.CreateInviteRequest'', ''identity_pb2.InviteSummary''),
     (''ListInvites'', UnaryUnary, ''identity_pb2.ListInvitesRequest'', ''identity_pb2.ListInvitesResponse''),
     (''GetInvite'', UnaryUnary, ''identity_pb2.GetInviteRequest'', ''identity_pb2.InvitePreview''),
     (''AcceptInvite'', UnaryUnary, ''identity_pb2.AcceptInviteRequest'', ''identity_pb2.AcceptInviteResponse''),
     (''RevokeInvite'', UnaryUnary, ''identity_pb2.RevokeInviteRequest'', ''identity_pb2.InviteSummary''),
     (''UpdateMember'', UnaryUnary, ''identity_pb2.UpdateMemberRequest'', ''identity_pb2.MemberSummary''),
     (''UpdateProfile'', UnaryUnary, ''identity_pb2.UpdateProfileRequest'', ''identity_pb2.Me''),
     (''GetOnboarding'', UnaryUnary, ''identity_pb2.GetOnboardingRequest'', ''identity_pb2.OnboardingState''),
     (''RecordOnboardingStep'', UnaryUnary, ''identity_pb2.RecordOnboardingStepRequest'', ''identity_pb2.OnboardingState''),
     (''CompleteOnboarding'', UnaryUnary, ''identity_pb2.CompleteOnboardingRequest'', ''identity_pb2.OnboardingState''),
     (''CheckHandle'', UnaryUnary, ''identity_pb2.CheckHandleRequest'', ''identity_pb2.HandleAvailability''),
     (''UpdatePersonalAccount'', UnaryUnary, ''identity_pb2.UpdatePersonalAccountRequest'', ''identity_pb2.AccountSummary''),
     (''SetPlan'', UnaryUnary, ''identity_pb2.SetPlanRequest'', ''identity_pb2.AccountSummary'')]\<rparr>"

definition hierarchy_client :: "stub_method list" where
  "hierarchy_client = [

     (''GetTree'', ''/dop.bff.v1.HierarchyService/GetTree'', UnaryUnary, ''hierarchy_pb2.GetTreeRequest'', ''hierarchy_pb2.GetTreeResponse''),
     (''ListWorkspaces'', ''/dop.bff.v1.HierarchyService/ListWorkspaces'', UnaryUnary, ''hierarchy_pb2.ListWorkspacesRequest'', ''hierarchy_pb2.ListWorkspacesResponse''),
     (''CreateWorkspace'', ''/dop.bff.v1.HierarchyService/CreateWorkspace'', UnaryUnary, ''hierarchy_pb2.CreateWorkspaceRequest'', ''hierarchy_pb2.Workspace''),
     (''ListProjects'', ''/dop.bff.v1.HierarchyService/ListProjects'', UnaryUnary, ''hierarchy_pb2.ListProjectsRequest'', ''hierarchy_pb2.ListProjectsResponse''),
     (''GetProject'', ''/dop.bff.v1.HierarchyService/GetProject'', UnaryUnary, ''hierarchy_pb2.GetProjectRequest'', ''hierarchy_pb2.Project''),
     (''CreateProject'', ''/dop.bff.v1.HierarchyService/CreateProject'', UnaryUnary, ''hierarchy_pb2.CreateProjectRequest'', ''hierarchy_pb2.Project''),
     (''BindTaskManager'', ''/dop.bff.v1.HierarchyService/BindTaskManager'', UnaryUnary, ''hierarchy_pb2.BindTaskManagerRequest'', ''hierarchy_pb2.Project'')]"

definition hierarchy_base :: "string list" where
  "hierarchy_base = [
     ''GetTree'', ''ListWorkspaces'', ''CreateWorkspace'', ''ListProjects'', ''GetProject'', ''CreateProject'',
     ''BindTaskManager'']"

definition HierarchyServicer :: "(string \<times> coding) list" where
  "HierarchyServicer = [
     (''GetTree'', Coroutine), (''ListWorkspaces'', Coroutine), (''CreateWorkspace'', Coroutine),
     (''ListProjects'', Coroutine), (''GetProject'', Coroutine), (''CreateProject'', Coroutine),
     (''BindTaskManager'', Coroutine)]"

definition hierarchy_service :: service where
  "hierarchy_service = \<lparr>sv_name = ''dop.bff.v1.HierarchyService'', sv_handlers = [
     (''GetTree'', UnaryUnary, ''hierarchy_pb2.GetTreeRequest'', ''hierarchy_pb2.GetTreeResponse''),
     (''ListWorkspaces'', UnaryUnary, ''hierarchy_pb2.ListWorkspacesRequest'', ''hierarchy_pb2.ListWorkspacesResponse''),
     (''CreateWorkspace'', UnaryUnary, ''hierarchy_pb2.CreateWorkspaceRequest'', ''hierarchy_pb2.Workspace''),
     (''ListProjects'', UnaryUnary, ''hierarchy_pb2.ListProjectsRequest'', ''hierarchy_pb2.ListProjectsResponse''),
     (''GetProject'', UnaryUnary, ''hierarchy_pb2.GetProjectRequest'', ''hierarchy_pb2.Project''),
     (''CreateProject'', UnaryUnary, ''hierarchy_pb2.CreateProjectRequest'', ''hierarchy_pb2.Project''),
     (''BindTaskManager'', UnaryUnary, ''hierarchy_pb2.BindTaskManagerRequest'', ''hierarchy_pb2.Project'')]\<rparr>"

definition resource_client :: "stub_method list" where
  "resource_client = [

     (''ListResources'', ''/dop.bff.v1.ResourceService/ListResources'', UnaryUnary, ''resource_pb2.ListResourcesRequest'', ''resource_pb2.ListResourcesResponse''),
     (''GetResource'', ''/dop.bff.v1.ResourceService/GetResource'', UnaryUnary, ''resource_pb2.GetResourceRequest'', ''resource_pb2.Resource''),
     (''CreateResource'', ''/dop.bff.v1.ResourceService/CreateResource'', UnaryUnary, ''resource_pb2.CreateResourceRequest'', ''resource_pb2.Resource''),
     (''SetCredential'', ''/dop.bff.v1.ResourceService/SetCredential'', UnaryUnary, ''resource_pb2.SetCredentialRequest'', ''resource_pb2.Resource''),
     (''GrantResource'', ''/dop.bff.v1.ResourceService/GrantResource'', UnaryUnary, ''resource_pb2.GrantResourceRequest'', ''resource_pb2.Grant''),
     (''RevokeGrant'', ''/dop.bff.v1.ResourceService/RevokeGrant'', UnaryUnary, ''resource_pb2.RevokeGrantRequest'', ''resource_pb2.RevokeGrantResponse''),
     (''CheckResource'', ''/dop.bff.v1.ResourceService/CheckResource'', UnaryUnary, ''resource_pb2.CheckResourceRequest'', ''resource_pb2.CheckResult'')]"

definition resource_base :: "string list" where
  "resource_base = [
     ''ListResources'', ''GetResource'', ''CreateResource'', ''SetCredential'', ''GrantResource'',
     ''RevokeGrant'', ''CheckResource'']"

definition ResourceServicer :: "(string \<times> coding) list" where
  "ResourceServicer = [
     (''ListResources'', Coroutine), (''GetResource'', Coroutine), (''CreateResource'', Coroutine),
     (''SetCredential'', Coroutine), (''CheckResource'', Coroutine), (''GrantResource'', Coroutine),
     (''RevokeGrant'', Coroutine)]"

definition resource_service :: service where
  "resource_service = \<lparr>sv_name = ''dop.bff.v1.ResourceService'', sv_handlers = [

     (''ListResources'', UnaryUnary, ''resource_pb2.ListResourcesRequest'', ''resource_pb2.ListResourcesResponse''),
     (''GetResource'', UnaryUnary, ''resource_pb2.GetResourceRequest'', ''resource_pb2.Resource''),
     (''CreateResource'', UnaryUnary, ''resource_pb2.CreateResourceRequest'', ''resource_pb2.Resource''),
     (''SetCredential'', UnaryUnary, ''resource_pb2.SetCredentialRequest'', ''resource_pb2.Resource''),
     (''GrantResource'', UnaryUnary, ''resource_pb2.GrantResourceRequest'', ''resource_pb2.Grant''),
     (''RevokeGrant'', UnaryUnary, ''resource_pb2.RevokeGrantRequest'', ''resource_pb2.RevokeGrantResponse''),
     (''CheckResource'', UnaryUnary, ''resource_pb2.CheckResourceRequest'', ''resource_pb2.CheckResult'')]\<rparr>"

definition secondfactor_client :: "stub_method list" where
  "secondfactor_client = [

     (''GetSecondFactorState'', ''/dop.bff.v1.SecondFactorService/GetSecondFactorState'', UnaryUnary, ''secondfactor_pb2.GetSecondFactorStateRequest'', ''secondfactor_pb2.GetSecondFactorStateResponse''),
     (''ListSecondFactors'', ''/dop.bff.v1.SecondFactorService/ListSecondFactors'', UnaryUnary, ''secondfactor_pb2.ListSecondFactorsRequest'', ''secondfactor_pb2.ListSecondFactorsResponse''),
     (''EnrollSecondFactor'', ''/dop.bff.v1.SecondFactorService/EnrollSecondFactor'', UnaryUnary, ''secondfactor_pb2.EnrollSecondFactorRequest'', ''secondfactor_pb2.EnrollSecondFactorResponse''),
     (''ConfirmSecondFactor'', ''/dop.bff.v1.SecondFactorService/ConfirmSecondFactor'', UnaryUnary, ''secondfactor_pb2.ConfirmSecondFactorRequest'', ''secondfactor_pb2.ConfirmSecondFactorResponse''),
     (''RevokeSecondFactor'', ''/dop.bff.v1.SecondFactorService/RevokeSecondFactor'', UnaryUnary, ''secondfactor_pb2.RevokeSecondFactorRequest'', ''secondfactor_pb2.SecondFactorSummary''),
     (''ChallengeSecondFactor'', ''/dop.bff.v1.SecondFactorService/ChallengeSecondFactor'', UnaryUnary, ''secondfactor_pb2.ChallengeSecondFactorRequest'', ''secondfactor_pb2.ChallengeSecondFactorResponse''),
     (''VerifySecondFactor'', ''/dop.bff.v1.SecondFactorService/VerifySecondFactor'', UnaryUnary, ''secondfactor_pb2.VerifySecondFactorRequest'', ''secondfactor_pb2.StepUpResult''),
     (''VerifyRecoveryCode'', ''/dop.bff.v1.SecondFactorService/VerifyRecoveryCode'', UnaryUnary, ''secondfactor_pb2.VerifyRecoveryCodeRequest'', ''secondfactor_pb2.StepUpResult''),
     (''RegenerateRecoveryCodes'', ''/dop.bff.v1.SecondFactorService/RegenerateRecoveryCodes'', UnaryUnary, ''secondfactor_pb2.RegenerateRecoveryCodesRequest'', ''secondfactor_pb2.RegenerateRecoveryCodesResponse'')]"

definition secondfactor_base :: "string list" where
  "secondfactor_base = [
     ''GetSecondFactorState'', ''ListSecondFactors'', ''EnrollSecondFactor'', ''ConfirmSecondFactor'',
     ''RevokeSecondFactor'', ''ChallengeSecondFactor'', ''VerifySecondFactor'', ''VerifyRecoveryCode'',
     ''RegenerateRecoveryCodes'']"

definition SecondFactorServicer :: "(string \<times> coding) list" where
  "SecondFactorServicer = [
     (''GetSecondFactorState'', Coroutine), (''ListSecondFactors'', Coroutine),
     (''EnrollSecondFactor'', Coroutine), (''ConfirmSecondFactor'', Coroutine),
     (''RevokeSecondFactor'', Coroutine), (''ChallengeSecondFactor'', Coroutine),
     (''VerifySecondFactor'', Coroutine), (''VerifyRecoveryCode'', Coroutine),
     (''RegenerateRecoveryCodes'', Coroutine)]"

definition secondfactor_service :: service where
  "secondfactor_service = \<lparr>sv_name = ''dop.bff.v1.SecondFactorService'', sv_handlers = [

     (''GetSecondFactorState'', UnaryUnary, ''secondfactor_pb2.GetSecondFactorStateRequest'', ''secondfactor_pb2.GetSecondFactorStateResponse''),
     (''ListSecondFactors'', UnaryUnary, ''secondfactor_pb2.ListSecondFactorsRequest'', ''secondfactor_pb2.ListSecondFactorsResponse''),
     (''EnrollSecondFactor'', UnaryUnary, ''secondfactor_pb2.EnrollSecondFactorRequest'', ''secondfactor_pb2.EnrollSecondFactorResponse''),
     (''ConfirmSecondFactor'', UnaryUnary, ''secondfactor_pb2.ConfirmSecondFactorRequest'', ''secondfactor_pb2.ConfirmSecondFactorResponse''),
     (''RevokeSecondFactor'', UnaryUnary, ''secondfactor_pb2.RevokeSecondFactorRequest'', ''secondfactor_pb2.SecondFactorSummary''),
     (''ChallengeSecondFactor'', UnaryUnary, ''secondfactor_pb2.ChallengeSecondFactorRequest'', ''secondfactor_pb2.ChallengeSecondFactorResponse''),
     (''VerifySecondFactor'', UnaryUnary, ''secondfactor_pb2.VerifySecondFactorRequest'', ''secondfactor_pb2.StepUpResult''),
     (''VerifyRecoveryCode'', UnaryUnary, ''secondfactor_pb2.VerifyRecoveryCodeRequest'', ''secondfactor_pb2.StepUpResult''),
     (''RegenerateRecoveryCodes'', UnaryUnary, ''secondfactor_pb2.RegenerateRecoveryCodesRequest'', ''secondfactor_pb2.RegenerateRecoveryCodesResponse'')]\<rparr>"

definition runtime_client :: "stub_method list" where
  "runtime_client = [

     (''RunTurn'', ''/dop.bff.v1.RuntimeService/RunTurn'', UnaryUnary, ''runtime_pb2.RunTurnRequest'', ''runtime_pb2.TurnOutcome'')]"

definition runtime_base :: "string list" where
  "runtime_base = [
     ''RunTurn'']"

definition RuntimeServicer :: "(string \<times> coding) list" where
  "RuntimeServicer = [
     (''RunTurn'', Coroutine)]"

definition runtime_service :: service where
  "runtime_service = \<lparr>sv_name = ''dop.bff.v1.RuntimeService'', sv_handlers = [
     (''RunTurn'', UnaryUnary, ''runtime_pb2.RunTurnRequest'', ''runtime_pb2.TurnOutcome'')]\<rparr>"

definition attention_client :: "stub_method list" where
  "attention_client = [

     (''ListAttention'', ''/dop.bff.v1.AttentionService/ListAttention'', UnaryUnary, ''attention_pb2.ListAttentionRequest'', ''attention_pb2.AttentionBox''),
     (''WatchAttention'', ''/dop.bff.v1.AttentionService/WatchAttention'', UnaryStream, ''attention_pb2.WatchAttentionRequest'', ''attention_pb2.AttentionUpdate'')]"

definition attention_base :: "string list" where
  "attention_base = [
     ''ListAttention'', ''WatchAttention'']"

definition AttentionServicer :: "(string \<times> coding) list" where
  "AttentionServicer = [
     (''ListAttention'', Coroutine), (''WatchAttention'', AsyncGenerator)]"

definition attention_service :: service where
  "attention_service = \<lparr>sv_name = ''dop.bff.v1.AttentionService'', sv_handlers = [
     (''ListAttention'', UnaryUnary, ''attention_pb2.ListAttentionRequest'', ''attention_pb2.AttentionBox''),
     (''WatchAttention'', UnaryStream, ''attention_pb2.WatchAttentionRequest'', ''attention_pb2.AttentionUpdate'')]\<rparr>"

definition catalog_client :: "stub_method list" where
  "catalog_client = [

     (''ListPlans'', ''/dop.bff.v1.CatalogService/ListPlans'', UnaryUnary, ''catalog_pb2.ListPlansRequest'', ''catalog_pb2.ListPlansResponse''),
     (''ListProviders'', ''/dop.bff.v1.CatalogService/ListProviders'', UnaryUnary, ''catalog_pb2.ListProvidersRequest'', ''catalog_pb2.ListProvidersResponse'')]"

definition catalog_base :: "string list" where
  "catalog_base = [
     ''ListPlans'', ''ListProviders'']"

definition CatalogServicer :: "(string \<times> coding) list" where
  "CatalogServicer = [
     (''ListPlans'', Coroutine), (''ListProviders'', Coroutine)]"

definition catalog_service :: service where
  "catalog_service = \<lparr>sv_name = ''dop.bff.v1.CatalogService'', sv_handlers = [
     (''ListPlans'', UnaryUnary, ''catalog_pb2.ListPlansRequest'', ''catalog_pb2.ListPlansResponse''),
     (''ListProviders'', UnaryUnary, ''catalog_pb2.ListProvidersRequest'', ''catalog_pb2.ListProvidersResponse'')]\<rparr>"

definition cost_client :: "stub_method list" where
  "cost_client = [

     (''RouteModel'', ''/dop.bff.v1.CostService/RouteModel'', UnaryUnary, ''cost_pb2.RouteModelRequest'', ''cost_pb2.RoutingDecision''),
     (''GetBudget'', ''/dop.bff.v1.CostService/GetBudget'', UnaryUnary, ''cost_pb2.GetBudgetRequest'', ''cost_pb2.BudgetView''),
     (''SetBudget'', ''/dop.bff.v1.CostService/SetBudget'', UnaryUnary, ''cost_pb2.SetBudgetRequest'', ''cost_pb2.BudgetView''),
     (''RecordUsage'', ''/dop.bff.v1.CostService/RecordUsage'', UnaryUnary, ''cost_pb2.RecordUsageRequest'', ''cost_pb2.RecordUsageOutcome''),
     (''SummarizeCost'', ''/dop.bff.v1.CostService/SummarizeCost'', UnaryUnary, ''cost_pb2.SummarizeCostRequest'', ''cost_pb2.CostSummary'')]"

definition cost_base :: "string list" where
  "cost_base = [
     ''RouteModel'', ''GetBudget'', ''SetBudget'', ''RecordUsage'', ''SummarizeCost'']"

definition CostServicer :: "(string \<times> coding) list" where
  "CostServicer = [
     (''RouteModel'', Coroutine), (''GetBudget'', Coroutine), (''SetBudget'', Coroutine),
     (''RecordUsage'', Coroutine), (''SummarizeCost'', Coroutine)]"

definition cost_service :: service where
  "cost_service = \<lparr>sv_name = ''dop.bff.v1.CostService'', sv_handlers = [
     (''RouteModel'', UnaryUnary, ''cost_pb2.RouteModelRequest'', ''cost_pb2.RoutingDecision''),
     (''GetBudget'', UnaryUnary, ''cost_pb2.GetBudgetRequest'', ''cost_pb2.BudgetView''),
     (''SetBudget'', UnaryUnary, ''cost_pb2.SetBudgetRequest'', ''cost_pb2.BudgetView''),
     (''RecordUsage'', UnaryUnary, ''cost_pb2.RecordUsageRequest'', ''cost_pb2.RecordUsageOutcome''),
     (''SummarizeCost'', UnaryUnary, ''cost_pb2.SummarizeCostRequest'', ''cost_pb2.CostSummary'')]\<rparr>"

definition delivery_client :: "stub_method list" where
  "delivery_client = [

     (''GetDeliveryBoard'', ''/dop.bff.v1.DeliveryService/GetDeliveryBoard'', UnaryUnary, ''delivery_pb2.GetDeliveryBoardRequest'', ''delivery_pb2.DeliveryBoard''),
     (''ListPullRequests'', ''/dop.bff.v1.DeliveryService/ListPullRequests'', UnaryUnary, ''delivery_pb2.ListPullRequestsRequest'', ''delivery_pb2.ListPullRequestsResponse''),
     (''GetMergeQueue'', ''/dop.bff.v1.DeliveryService/GetMergeQueue'', UnaryUnary, ''delivery_pb2.GetMergeQueueRequest'', ''delivery_pb2.GetMergeQueueResponse''),
     (''EnqueueMerge'', ''/dop.bff.v1.DeliveryService/EnqueueMerge'', UnaryUnary, ''delivery_pb2.EnqueueMergeRequest'', ''delivery_pb2.EnqueueMergeResponse''),
     (''ListDirectives'', ''/dop.bff.v1.DeliveryService/ListDirectives'', UnaryUnary, ''delivery_pb2.ListDirectivesRequest'', ''delivery_pb2.ListDirectivesResponse''),
     (''DecideDirective'', ''/dop.bff.v1.DeliveryService/DecideDirective'', UnaryUnary, ''delivery_pb2.DecideDirectiveRequest'', ''delivery_pb2.Directive'')]"

definition delivery_base :: "string list" where
  "delivery_base = [
     ''GetDeliveryBoard'', ''ListPullRequests'', ''GetMergeQueue'', ''EnqueueMerge'', ''ListDirectives'',
     ''DecideDirective'']"

definition DeliveryServicer :: "(string \<times> coding) list" where
  "DeliveryServicer = [
     (''GetDeliveryBoard'', Coroutine), (''ListPullRequests'', Coroutine), (''GetMergeQueue'', Coroutine),
     (''EnqueueMerge'', Coroutine), (''ListDirectives'', Coroutine), (''DecideDirective'', Coroutine)]"

definition delivery_service :: service where
  "delivery_service = \<lparr>sv_name = ''dop.bff.v1.DeliveryService'', sv_handlers = [

     (''GetDeliveryBoard'', UnaryUnary, ''delivery_pb2.GetDeliveryBoardRequest'', ''delivery_pb2.DeliveryBoard''),
     (''ListPullRequests'', UnaryUnary, ''delivery_pb2.ListPullRequestsRequest'', ''delivery_pb2.ListPullRequestsResponse''),
     (''GetMergeQueue'', UnaryUnary, ''delivery_pb2.GetMergeQueueRequest'', ''delivery_pb2.GetMergeQueueResponse''),
     (''EnqueueMerge'', UnaryUnary, ''delivery_pb2.EnqueueMergeRequest'', ''delivery_pb2.EnqueueMergeResponse''),
     (''ListDirectives'', UnaryUnary, ''delivery_pb2.ListDirectivesRequest'', ''delivery_pb2.ListDirectivesResponse''),
     (''DecideDirective'', UnaryUnary, ''delivery_pb2.DecideDirectiveRequest'', ''delivery_pb2.Directive'')]\<rparr>"

definition demand_client :: "stub_method list" where
  "demand_client = [

     (''ListDemands'', ''/dop.bff.v1.DemandService/ListDemands'', UnaryUnary, ''demand_pb2.ListDemandsRequest'', ''demand_pb2.ListDemandsResponse''),
     (''GetDemand'', ''/dop.bff.v1.DemandService/GetDemand'', UnaryUnary, ''demand_pb2.GetDemandRequest'', ''demand_pb2.Demand''),
     (''GetDemandCockpit'', ''/dop.bff.v1.DemandService/GetDemandCockpit'', UnaryUnary, ''demand_pb2.GetDemandCockpitRequest'', ''demand_pb2.DemandCockpit''),
     (''StartDemand'', ''/dop.bff.v1.DemandService/StartDemand'', UnaryUnary, ''demand_pb2.StartDemandRequest'', ''demand_pb2.Demand''),
     (''AdvanceStage'', ''/dop.bff.v1.DemandService/AdvanceStage'', UnaryUnary, ''demand_pb2.AdvanceStageRequest'', ''demand_pb2.Stage''),
     (''DecideGate'', ''/dop.bff.v1.DemandService/DecideGate'', UnaryUnary, ''demand_pb2.DecideGateRequest'', ''demand_pb2.Stage''),
     (''ListThreads'', ''/dop.bff.v1.DemandService/ListThreads'', UnaryUnary, ''demand_pb2.ListThreadsRequest'', ''demand_pb2.ListThreadsResponse''),
     (''CreateThread'', ''/dop.bff.v1.DemandService/CreateThread'', UnaryUnary, ''demand_pb2.CreateThreadRequest'', ''demand_pb2.Thread''),
     (''PostMessage'', ''/dop.bff.v1.DemandService/PostMessage'', UnaryUnary, ''demand_pb2.PostMessageRequest'', ''demand_pb2.Message''),
     (''PublishFinding'', ''/dop.bff.v1.DemandService/PublishFinding'', UnaryUnary, ''demand_pb2.PublishFindingRequest'', ''demand_pb2.Finding'')]"

definition demand_base :: "string list" where
  "demand_base = [
     ''ListDemands'', ''GetDemand'', ''GetDemandCockpit'', ''StartDemand'', ''AdvanceStage'', ''DecideGate'',
     ''ListThreads'', ''CreateThread'', ''PostMessage'', ''PublishFinding'']"

definition DemandServicer :: "(string \<times> coding) list" where
  "DemandServicer = [
     (''ListDemands'', Coroutine), (''GetDemand'', Coroutine), (''GetDemandCockpit'', Coroutine),
     (''StartDemand'', Coroutine), (''AdvanceStage'', Coroutine), (''DecideGate'', Coroutine),
     (''ListThreads'', Coroutine), (''CreateThread'', Coroutine), (''PostMessage'', Coroutine),
     (''PublishFinding'', Coroutine)]"

definition demand_service :: service where
  "demand_service = \<lparr>sv_name = ''dop.bff.v1.DemandService'', sv_handlers = [
     (''ListDemands'', UnaryUnary, ''demand_pb2.ListDemandsRequest'', ''demand_pb2.ListDemandsResponse''),
     (''GetDemand'', UnaryUnary, ''demand_pb2.GetDemandRequest'', ''demand_pb2.Demand''),
     (''GetDemandCockpit'', UnaryUnary, ''demand_pb2.GetDemandCockpitRequest'', ''demand_pb2.DemandCockpit''),
     (''StartDemand'', UnaryUnary, ''demand_pb2.StartDemandRequest'', ''demand_pb2.Demand''),
     (''AdvanceStage'', UnaryUnary, ''demand_pb2.AdvanceStageRequest'', ''demand_pb2.Stage''),
     (''DecideGate'', UnaryUnary, ''demand_pb2.DecideGateRequest'', ''demand_pb2.Stage''),
     (''ListThreads'', UnaryUnary, ''demand_pb2.ListThreadsRequest'', ''demand_pb2.ListThreadsResponse''),
     (''CreateThread'', UnaryUnary, ''demand_pb2.CreateThreadRequest'', ''demand_pb2.Thread''),
     (''PostMessage'', UnaryUnary, ''demand_pb2.PostMessageRequest'', ''demand_pb2.Message''),
     (''PublishFinding'', UnaryUnary, ''demand_pb2.PublishFindingRequest'', ''demand_pb2.Finding'')]\<rparr>"

definition execution_client :: "stub_method list" where
  "execution_client = [

     (''ProvisionSandbox'', ''/dop.bff.v1.ExecutionService/ProvisionSandbox'', UnaryUnary, ''execution_pb2.ProvisionSandboxRequest'', ''execution_pb2.Sandbox''),
     (''DescribeSandbox'', ''/dop.bff.v1.ExecutionService/DescribeSandbox'', UnaryUnary, ''execution_pb2.DescribeSandboxRequest'', ''execution_pb2.Sandbox''),
     (''SuspendSandbox'', ''/dop.bff.v1.ExecutionService/SuspendSandbox'', UnaryUnary, ''execution_pb2.SuspendSandboxRequest'', ''execution_pb2.Sandbox''),
     (''ResumeSandbox'', ''/dop.bff.v1.ExecutionService/ResumeSandbox'', UnaryUnary, ''execution_pb2.ResumeSandboxRequest'', ''execution_pb2.Sandbox''),
     (''DestroySandbox'', ''/dop.bff.v1.ExecutionService/DestroySandbox'', UnaryUnary, ''execution_pb2.DestroySandboxRequest'', ''execution_pb2.DestroySandboxResponse'')]"

definition execution_base :: "string list" where
  "execution_base = [
     ''ProvisionSandbox'', ''DescribeSandbox'', ''SuspendSandbox'', ''ResumeSandbox'', ''DestroySandbox'']"

definition ExecutionServicer :: "(string \<times> coding) list" where
  "ExecutionServicer = [
     (''ProvisionSandbox'', Coroutine), (''DescribeSandbox'', Coroutine), (''SuspendSandbox'', Coroutine),
     (''ResumeSandbox'', Coroutine), (''DestroySandbox'', Coroutine)]"

definition execution_service :: service where
  "execution_service = \<lparr>sv_name = ''dop.bff.v1.ExecutionService'', sv_handlers = [
     (''ProvisionSandbox'', UnaryUnary, ''execution_pb2.ProvisionSandboxRequest'', ''execution_pb2.Sandbox''),
     (''DescribeSandbox'', UnaryUnary, ''execution_pb2.DescribeSandboxRequest'', ''execution_pb2.Sandbox''),
     (''SuspendSandbox'', UnaryUnary, ''execution_pb2.SuspendSandboxRequest'', ''execution_pb2.Sandbox''),
     (''ResumeSandbox'', UnaryUnary, ''execution_pb2.ResumeSandboxRequest'', ''execution_pb2.Sandbox''),
     (''DestroySandbox'', UnaryUnary, ''execution_pb2.DestroySandboxRequest'', ''execution_pb2.DestroySandboxResponse'')]\<rparr>"

definition knowledge_client :: "stub_method list" where
  "knowledge_client = [

     (''GetContextPackage'', ''/dop.bff.v1.KnowledgeService/GetContextPackage'', UnaryUnary, ''knowledge_pb2.GetContextPackageRequest'', ''knowledge_pb2.ContextPackage''),
     (''SearchMemory'', ''/dop.bff.v1.KnowledgeService/SearchMemory'', UnaryUnary, ''knowledge_pb2.SearchMemoryRequest'', ''knowledge_pb2.SearchMemoryResponse''),
     (''ReadIndex'', ''/dop.bff.v1.KnowledgeService/ReadIndex'', UnaryUnary, ''knowledge_pb2.ReadIndexRequest'', ''knowledge_pb2.KnowledgeArtifact''),
     (''PutArtifact'', ''/dop.bff.v1.KnowledgeService/PutArtifact'', UnaryUnary, ''knowledge_pb2.PutArtifactRequest'', ''knowledge_pb2.KnowledgeArtifact''),
     (''ListRules'', ''/dop.bff.v1.KnowledgeService/ListRules'', UnaryUnary, ''knowledge_pb2.ListRulesRequest'', ''knowledge_pb2.ListRulesResponse'')]"

definition knowledge_base :: "string list" where
  "knowledge_base = [
     ''GetContextPackage'', ''SearchMemory'', ''ReadIndex'', ''PutArtifact'', ''ListRules'']"

definition KnowledgeServicer :: "(string \<times> coding) list" where
  "KnowledgeServicer = [
     (''GetContextPackage'', Coroutine), (''SearchMemory'', Coroutine), (''ReadIndex'', Coroutine),
     (''ListRules'', Coroutine), (''PutArtifact'', Coroutine)]"

definition knowledge_service :: service where
  "knowledge_service = \<lparr>sv_name = ''dop.bff.v1.KnowledgeService'', sv_handlers = [

     (''GetContextPackage'', UnaryUnary, ''knowledge_pb2.GetContextPackageRequest'', ''knowledge_pb2.ContextPackage''),
     (''SearchMemory'', UnaryUnary, ''knowledge_pb2.SearchMemoryRequest'', ''knowledge_pb2.SearchMemoryResponse''),
     (''ReadIndex'', UnaryUnary, ''knowledge_pb2.ReadIndexRequest'', ''knowledge_pb2.KnowledgeArtifact''),
     (''PutArtifact'', UnaryUnary, ''knowledge_pb2.PutArtifactRequest'', ''knowledge_pb2.KnowledgeArtifact''),
     (''ListRules'', UnaryUnary, ''knowledge_pb2.ListRulesRequest'', ''knowledge_pb2.ListRulesResponse'')]\<rparr>"

definition stream_client :: "stub_method list" where
  "stream_client = [

     (''WatchEvents'', ''/dop.bff.v1.StreamService/WatchEvents'', UnaryStream, ''stream_pb2.WatchEventsRequest'', ''stream_pb2.StreamEvent''),
     (''WatchDemand'', ''/dop.bff.v1.StreamService/WatchDemand'', UnaryStream, ''stream_pb2.WatchDemandRequest'', ''stream_pb2.StreamEvent''),
     (''TailLogs'', ''/dop.bff.v1.StreamService/TailLogs'', UnaryStream, ''stream_pb2.TailLogsRequest'', ''stream_pb2.LogLine'')]"

definition stream_base :: "string list" where
  "stream_base = [
     ''WatchEvents'', ''WatchDemand'', ''TailLogs'']"

definition StreamServicer :: "(string \<times> coding) list" where
  "StreamServicer = [
     (''WatchEvents'', AsyncGenerator), (''WatchDemand'', AsyncGenerator), (''TailLogs'', AsyncGenerator)]"

definition stream_service :: service where
  "stream_service = \<lparr>sv_name = ''dop.bff.v1.StreamService'', sv_handlers = [
     (''WatchEvents'', UnaryStream, ''stream_pb2.WatchEventsRequest'', ''stream_pb2.StreamEvent''),
     (''WatchDemand'', UnaryStream, ''stream_pb2.WatchDemandRequest'', ''stream_pb2.StreamEvent''),
     (''TailLogs'', UnaryStream, ''stream_pb2.TailLogsRequest'', ''stream_pb2.LogLine'')]\<rparr>"

definition workflow_client :: "stub_method list" where
  "workflow_client = [

     (''ListFlows'', ''/dop.bff.v1.WorkflowService/ListFlows'', UnaryUnary, ''workflow_pb2.ListFlowsRequest'', ''workflow_pb2.ListFlowsResponse''),
     (''GetFlow'', ''/dop.bff.v1.WorkflowService/GetFlow'', UnaryUnary, ''workflow_pb2.GetFlowRequest'', ''workflow_pb2.Flow''),
     (''CreateFlow'', ''/dop.bff.v1.WorkflowService/CreateFlow'', UnaryUnary, ''workflow_pb2.CreateFlowRequest'', ''workflow_pb2.Flow''),
     (''UpdateFlow'', ''/dop.bff.v1.WorkflowService/UpdateFlow'', UnaryUnary, ''workflow_pb2.UpdateFlowRequest'', ''workflow_pb2.Flow''),
     (''ValidateFlow'', ''/dop.bff.v1.WorkflowService/ValidateFlow'', UnaryUnary, ''workflow_pb2.ValidateFlowRequest'', ''workflow_pb2.ValidateFlowResponse''),
     (''ResolveFlow'', ''/dop.bff.v1.WorkflowService/ResolveFlow'', UnaryUnary, ''workflow_pb2.ResolveFlowRequest'', ''workflow_pb2.EffectiveFlow''),
     (''PromoteFlow'', ''/dop.bff.v1.WorkflowService/PromoteFlow'', UnaryUnary, ''workflow_pb2.PromoteFlowRequest'', ''workflow_pb2.Flow'')]"

definition workflow_base :: "string list" where
  "workflow_base = [
     ''ListFlows'', ''GetFlow'', ''CreateFlow'', ''UpdateFlow'', ''ValidateFlow'', ''ResolveFlow'',
     ''PromoteFlow'']"

definition WorkflowServicer :: "(string \<times> coding) list" where
  "WorkflowServicer = [
     (''ListFlows'', Coroutine), (''GetFlow'', Coroutine), (''CreateFlow'', Coroutine),
     (''UpdateFlow'', Coroutine), (''ValidateFlow'', Coroutine), (''ResolveFlow'', Coroutine),
     (''PromoteFlow'', Coroutine)]"

definition workflow_service :: service where
  "workflow_service = \<lparr>sv_name = ''dop.bff.v1.WorkflowService'', sv_handlers = [
     (''ListFlows'', UnaryUnary, ''workflow_pb2.ListFlowsRequest'', ''workflow_pb2.ListFlowsResponse''),
     (''GetFlow'', UnaryUnary, ''workflow_pb2.GetFlowRequest'', ''workflow_pb2.Flow''),
     (''CreateFlow'', UnaryUnary, ''workflow_pb2.CreateFlowRequest'', ''workflow_pb2.Flow''),
     (''UpdateFlow'', UnaryUnary, ''workflow_pb2.UpdateFlowRequest'', ''workflow_pb2.Flow''),
     (''ValidateFlow'', UnaryUnary, ''workflow_pb2.ValidateFlowRequest'', ''workflow_pb2.ValidateFlowResponse''),
     (''ResolveFlow'', UnaryUnary, ''workflow_pb2.ResolveFlowRequest'', ''workflow_pb2.EffectiveFlow''),
     (''PromoteFlow'', UnaryUnary, ''workflow_pb2.PromoteFlowRequest'', ''workflow_pb2.Flow'')]\<rparr>"

definition edge_clients :: "(stub_method list \<times> service) list" where
  "edge_clients = [(identity_client, identity_service),
     (hierarchy_client, hierarchy_service),
     (resource_client, resource_service),
     (secondfactor_client, secondfactor_service),
     (runtime_client, runtime_service),
     (attention_client, attention_service),
     (catalog_client, catalog_service),
     (cost_client, cost_service),
     (delivery_client, delivery_service),
     (demand_client, demand_service),
     (execution_client, execution_service),
     (knowledge_client, knowledge_service),
     (stream_client, stream_service),
     (workflow_client, workflow_service)]"

definition edge_services :: "((string \<times> coding) list \<times> string list \<times> service) list" where
  "edge_services = [(IdentityServicer, identity_base, identity_service),
     (HierarchyServicer, hierarchy_base, hierarchy_service),
     (ResourceServicer, resource_base, resource_service),
     (SecondFactorServicer, secondfactor_base, secondfactor_service),
     (RuntimeServicer, runtime_base, runtime_service),
     (AttentionServicer, attention_base, attention_service),
     (CatalogServicer, catalog_base, catalog_service),
     (CostServicer, cost_base, cost_service),
     (DeliveryServicer, delivery_base, delivery_service),
     (DemandServicer, demand_base, demand_service),
     (ExecutionServicer, execution_base, execution_service),
     (KnowledgeServicer, knowledge_base, knowledge_service),
     (StreamServicer, stream_base, stream_service),
     (WorkflowServicer, workflow_base, workflow_service)]"

definition edge_handlers :: "handler list" where
  "edge_handlers = concat (map (\<lambda>(cls, base, svc). add_to_server cls base svc) edge_services)"

section \<open>Interception\<close>

datatype wrapping = Wrapped | WrappedStream | Intact

definition intercept_service :: "rpc_kind \<Rightarrow> wrapping" where
  "intercept_service kind = (case kind of
      UnaryUnary \<Rightarrow> Wrapped | UnaryStream \<Rightarrow> WrappedStream | StreamUnary \<Rightarrow> Intact | StreamStream \<Rightarrow> Intact)"

text \<open>
  A call that arrives for a path, with \<open>body\<close> the edge's methods: a method that answers once, and one
  that streams. No class of the edge marks a method public, so the marker is False.
\<close>

definition found :: "handler list \<Rightarrow> string \<Rightarrow> handler option" where
  "found handlers path = List.find (\<lambda>h. hd_path h = path) handlers"

definition answer_unary :: "'w fb_env \<Rightarrow> 'w resolver option \<Rightarrow> handler list \<Rightarrow> string \<Rightarrow> string
    \<Rightarrow> (string \<times> string) list option \<Rightarrow> (string \<Rightarrow> ('w, 'r) io) \<Rightarrow> ('w, (grpc_status \<times> string) + 'r) io" where
  "answer_unary fe resolver handlers path peer md body = (case found handlers path of
      None \<Rightarrow> ret (Inl (UNIMPLEMENTED, ''Method not found!''))
    | Some h \<Rightarrow>
        (let meth = (case hd_behaviour h of Written c \<Rightarrow> body path | _ \<Rightarrow> raise (OtherError ''NotImplementedError''))
         in case intercept_service (hd_kind h) of
              Wrapped \<Rightarrow> grpc_unary fe resolver path peer False md meth
            | _ \<Rightarrow> mapv Inr meth))"

definition answer_stream :: "'w fb_env \<Rightarrow> 'w resolver option \<Rightarrow> handler list \<Rightarrow> string \<Rightarrow> string
    \<Rightarrow> (string \<times> string) list option \<Rightarrow> (string \<Rightarrow> ('w, 'a) gen) \<Rightarrow> nat \<Rightarrow> 'w rt \<Rightarrow> ('a list \<times> wire_end) \<times> 'w rt" where
  "answer_stream fe resolver handlers path peer md body n s = (case found handlers path of
      None \<Rightarrow> (([], Aborted UNIMPLEMENTED ''Method not found!''), s)
    | Some h \<Rightarrow>
        (let meth = (case hd_behaviour h of Written c \<Rightarrow> body path
            | _ \<Rightarrow> (\<lambda>n s. (([], Failed (OtherError ''NotImplementedError'')), s)))
         in case intercept_service (hd_kind h) of
              WrappedStream \<Rightarrow> grpc_stream fe resolver path peer False md meth n s
            | _ \<Rightarrow> error_wrap_stream meth n s))"

section \<open>Every method is written and wrapped\<close>

definition well_served :: "handler \<Rightarrow> bool" where
  "well_served h \<longleftrightarrow> (hd_kind h, hd_behaviour h)
     \<in> {(UnaryUnary, Written Coroutine), (UnaryStream, Written AsyncGenerator)}"

lemma edge_served: "list_all well_served edge_handlers"
  by code_simp

lemma edge_count: "length edge_handlers = 86"
  by code_simp

lemma distinct_paths:
  assumes "distinct (map (sv_name \<circ> snd \<circ> snd) ss)"
    and "\<forall>(cls, base, svc) \<in> set ss. CHR ''/'' \<notin> set (sv_name svc) \<and> distinct (map fst (sv_handlers svc))"
  shows "distinct (map hd_path (concat (map (\<lambda>(cls, base, svc). add_to_server cls base svc) ss)))"
  using assms
proof (induction ss)
  case (Cons x ss)
  obtain cls base svc where x: "x = (cls, base, svc)" by (cases x)
  have "map hd_path (add_to_server cls base svc) = map (rpc_path (sv_name svc)) (map fst (sv_handlers svc))"
    by (auto simp: add_to_server_def)
  moreover have "inj_on (rpc_path (sv_name svc)) M" for M
    by (auto simp: inj_on_def rpc_path_def)
  ultimately have own: "distinct (map hd_path (add_to_server cls base svc))"
    using Cons.prems(2) x by (auto simp: distinct_map intro: comp_inj_on)
  have apart: "hd_path h \<noteq> hd_path h'"
    if "h \<in> set (add_to_server cls base svc)" "(c, b, s) \<in> set ss" "h' \<in> set (add_to_server c b s)" for h h' c b s
  proof -
    have "sv_name svc \<noteq> sv_name s" using Cons.prems(1) that(2) x by force
    moreover have "CHR ''/'' \<notin> set (sv_name svc)" "CHR ''/'' \<notin> set (sv_name s)" using Cons.prems(2) that(2) x by auto
    ultimately show ?thesis using that(1,3) rpc_path_inject by (auto simp: add_to_server_def)
  qed
  have "distinct (map hd_path (concat (map (\<lambda>(cls, base, svc). add_to_server cls base svc) ss)))"
    using Cons by simp
  with own x apart show ?case by (fastforce simp: split_def)
qed simp

lemma edge_paths: "distinct (map hd_path edge_handlers)"
proof -
  have "distinct (map (sv_name \<circ> snd \<circ> snd) edge_services)" by code_simp
  moreover have "list_all (\<lambda>(cls, base, svc). CHR ''/'' \<notin> set (sv_name svc) \<and> distinct (map fst (sv_handlers svc))) edge_services"
    by code_simp
  ultimately show ?thesis unfolding edge_handlers_def by (intro distinct_paths) (auto simp: list_all_iff)
qed

lemma found_in:
  assumes "distinct (map hd_path hs)" and "h \<in> set hs"
  shows "found hs (hd_path h) = Some h"
  using assms by (induction hs) (auto simp: found_def)

lemma found_path: "found hs path = Some h \<Longrightarrow> h \<in> set hs \<and> hd_path h = path"
  by (auto simp: found_def find_Some_iff in_set_conv_nth)

section \<open>Nobody is served unverified\<close>

text \<open>
  The caller of a request with the headers \<open>md\<close> is known: there is a token, the verifier accepted it, and
  the resolver said who it is, from a state that is \<open>s\<close> but for what the door had written of the call.
\<close>

definition caller_verified :: "'w fb_env \<Rightarrow> 'w resolver \<Rightarrow> (string \<rightharpoonup> string) \<Rightarrow> 'w rt \<Rightarrow> bool" where
  "caller_verified fe resolve md s \<longleftrightarrow> header md ''authorization'' \<noteq> []
     \<and> (\<exists>p who s1 s2 s3. auth_ctx s1 = auth_ctx s
         \<and> verify fe (header md ''authorization'') s1 = (Inr p, s2)
         \<and> resolve p (header md ''x-account-id'') (bearer (header md ''authorization'')) s2 = (Inr who, s3))"

lemma identity_verified:
  assumes "identity_of fe (Some resolve) md s1 = (Inr ctx, s2)" and "auth_ctx s1 = auth_ctx s"
  shows "caller_verified fe resolve md s"
proof -
  from assms(1) obtain p s3 who s4 where "header md ''authorization'' \<noteq> []"
    and "verify fe (header md ''authorization'') s1 = (Inr p, s3)"
    and "resolve p (header md ''x-account-id'') (bearer (header md ''authorization'')) s3 = (Inr who, s4)"
    by (auto simp: identity_of_def authenticate_def resolve_account_def Let_def io_simps
        split: if_splits prod.splits sum.splits exn.splits)
  with assms(2) show ?thesis unfolding caller_verified_def by blast
qed

lemma unary_verified:
  assumes "grpc_unary fe (Some resolve) path peer False md m s = (Inr (Inr x), s')"
  shows "caller_verified fe resolve (metadata_dict md) s"
proof -
  from assms obtain s1 s2 where a: "auth_wrap fe (Some resolve) False (metadata_dict md) m s1 = (Inr x, s2)"
    and c: "auth_ctx s1 = auth_ctx s"
    by (auto simp: grpc_unary_def log_wrap_def error_wrap_def request_id_of_def io_simps
        split: if_splits prod.splits sum.splits)
  from a obtain ctx s3 where "identity_of fe (Some resolve) (metadata_dict md) s1 = (Inr ctx, s3)"
    by (auto simp: auth_wrap_identity bnd_Inr)
  then show ?thesis using c by (rule identity_verified)
qed

lemma stream_verified:
  assumes "grpc_stream fe (Some resolve) path peer False md m n s = ((ys, wire), s')"
    and "ys \<noteq> [] \<or> wire = Completed"
  shows "caller_verified fe resolve (metadata_dict md) s"
proof -
  let ?auth = "auth_wrap_stream fe (Some resolve) False (metadata_dict md) m"
  obtain rid s0 where rid: "request_id_of (f_env fe) (metadata_dict md) s = (Inr rid, s0)" "auth_ctx s0 = auth_ctx s"
    using request_id_of_run by blast
  define s1 where "s1 = write_log (LogInfo ''stream opened'' path) (s0\<lparr>request_ctx := request_fields rid path ''grpc'' peer\<rparr>)"
  then have c: "auth_ctx s1 = auth_ctx s" using rid by simp
  from assms have n: "n \<noteq> 0" by (cases "n = 0") (auto simp: grpc_stream_def log_wrap_stream_def)
  obtain xs w s2 where "error_wrap_stream ?auth n s1 = ((xs, w), s2)" by (metis prod.collapse)
  with assms(1) rid n have e: "error_wrap_stream ?auth n s1 = ((ys, wire), s2)"
    by (auto simp: grpc_stream_def log_wrap_stream_def s1_def Let_def)
  have "\<exists>ctx s3. identity_of fe (Some resolve) (metadata_dict md) s1 = (Inr ctx, s3)"
  proof (cases "identity_of fe (Some resolve) (metadata_dict md) s1")
    case (Pair r s3)
    then show ?thesis
      using e n assms(2)
      by (cases r) (auto simp: error_wrap_stream_def auth_wrap_stream_def identity_of_def [symmetric]
          split: prod.splits sum.splits)
  qed
  with identity_verified [OF _ c] show ?thesis by blast
qed


definition demo_md :: "(string \<times> string) list option" where
  "demo_md = Some [(''authorization'', ''Bearer a.b.c''), (''x-account-id'', ''acc-1''), (''x-request-id'', ''r-1'')]"

lemma demo_md_headers: "header (metadata_dict demo_md) ''authorization'' = ''Bearer a.b.c''"
    "header (metadata_dict demo_md) ''x-account-id'' = ''acc-1''" "header (metadata_dict demo_md) ''x-request-id'' = ''r-1''"
  by (simp_all add: demo_md_def metadata_dict_def header_def)

definition demo_who :: "nat resolver" where
  "demo_who p account_id raw_token = ret (''u-1'', ''owner'', Map.empty)"


section \<open>The client of the same contract\<close>

lemma edge_mirrors: "list_all (\<lambda>(stub, svc). mirrors stub svc) edge_clients"
  by code_simp

lemma edge_clients_services: "map snd edge_clients = map (snd \<circ> snd) edge_services"
  by (simp add: edge_clients_def edge_services_def)

text \<open>
  The generated client and the running server meet: whatever method a client of the edge calls, by the
  attribute of its stub, the path leads to the handler of that very method, of the same kind, which reads
  the message the client wrote and writes the one it reads, and which the edge implements. And there is no
  handler that no client method reaches.
\<close>

theorem edge_contract_closed:
  "(\<forall>(stub, svc) \<in> set edge_clients. \<forall>(attr, path, kind, q, r) \<in> set stub.
      \<exists>c. found edge_handlers path = Some \<lparr>hd_path = rpc_path (sv_name svc) attr, hd_kind = kind,
        hd_request = q, hd_response = r, hd_behaviour = Written c\<rparr>)
   \<and> (\<forall>h \<in> set edge_handlers. \<exists>(stub, svc) \<in> set edge_clients.
        \<exists>(attr, path, kind, q, r) \<in> set stub. path = hd_path h)"
proof (intro conjI ballI; clarify?)
  fix stub svc attr path kind q r
  assume s: "(stub, svc) \<in> set edge_clients" and m: "(attr, path, kind, q, r) \<in> set stub"
  have st: "stub = map (\<lambda>(meth, kind, q, r). (meth, rpc_path (sv_name svc) meth, kind, q, r)) (sv_handlers svc)"
    using edge_mirrors s by (auto simp: list_all_iff mirrors_def)
  then have p: "path = rpc_path (sv_name svc) attr" and i: "(attr, kind, q, r) \<in> set (sv_handlers svc)"
    using m by auto
  have "svc \<in> set (map snd edge_clients)" using s by force
  then obtain cls base where e: "(cls, base, svc) \<in> set edge_services"
    unfolding edge_clients_services by force
  let ?h = "\<lparr>hd_path = rpc_path (sv_name svc) attr, hd_kind = kind, hd_request = q, hd_response = r,
      hd_behaviour = behaviour_of cls base attr\<rparr>"
  have "?h \<in> set (add_to_server cls base svc)" using i by (force simp: add_to_server_def)
  then have h: "?h \<in> set edge_handlers" using e by (auto simp: edge_handlers_def)
  with edge_served obtain c where "behaviour_of cls base attr = Written c"
    by (fastforce simp: list_all_iff well_served_def)
  then show "\<exists>c. found edge_handlers path = Some \<lparr>hd_path = rpc_path (sv_name svc) attr, hd_kind = kind,
        hd_request = q, hd_response = r, hd_behaviour = Written c\<rparr>"
    using found_in [OF edge_paths h] by (auto simp: p)
next
  fix h assume "h \<in> set edge_handlers"
  then obtain cls base svc where e: "(cls, base, svc) \<in> set edge_services" and h: "h \<in> set (add_to_server cls base svc)"
    by (auto simp: edge_handlers_def)
  from h obtain attr kind q r where i: "(attr, kind, q, r) \<in> set (sv_handlers svc)"
    and p: "hd_path h = rpc_path (sv_name svc) attr"
    by (auto simp: add_to_server_def)
  have "svc \<in> set (map (snd \<circ> snd) edge_services)" using e by force
  then obtain stub where s: "(stub, svc) \<in> set edge_clients"
    unfolding edge_clients_services [symmetric] by force
  have st: "stub = map (\<lambda>(meth, kind, q, r). (meth, rpc_path (sv_name svc) meth, kind, q, r)) (sv_handlers svc)"
    using edge_mirrors s by (auto simp: list_all_iff mirrors_def)
  then have "(attr, rpc_path (sv_name svc) attr, kind, q, r) \<in> set stub" using i by force
  with s p show "\<exists>(stub, svc) \<in> set edge_clients. \<exists>(attr, path, kind, q, r) \<in> set stub. path = hd_path h"
    by (intro bexI [of _ "(stub, svc)"]) force+
qed

theorem edge_contract_closed_witness:
  "\<exists>c. found edge_handlers ''/dop.bff.v1.StreamService/WatchDemand'' = Some \<lparr>
     hd_path = ''/dop.bff.v1.StreamService/WatchDemand'', hd_kind = UnaryStream,
     hd_request = ''stream_pb2.WatchDemandRequest'', hd_response = ''stream_pb2.StreamEvent'', hd_behaviour = Written c\<rparr>"
proof -
  have "(stream_client, stream_service) \<in> set edge_clients" by (simp add: edge_clients_def)
  moreover have "(''WatchDemand'', ''/dop.bff.v1.StreamService/WatchDemand'', UnaryStream,
      ''stream_pb2.WatchDemandRequest'', ''stream_pb2.StreamEvent'') \<in> set stream_client"
    by (simp add: stream_client_def)
  moreover have "rpc_path (sv_name stream_service) ''WatchDemand'' = ''/dop.bff.v1.StreamService/WatchDemand''"
    by (simp add: stream_service_def rpc_path_def)
  ultimately show ?thesis using edge_contract_closed [THEN conjunct1] by fastforce
qed

end
