(* ===== verification/Workflow.thy ===== *)
theory Workflow
  imports Usecase Vocabulary
begin

text \<open>
  \<^verbatim>\<open>app/usecases/workflow.py\<close> and the converters of \<^verbatim>\<open>app/grpcapi/workflow.py\<close>: the stage
  vocabulary, flows going in and coming out whole, and the provenance of the effective flow.
\<close>

section \<open>Vocabulary\<close>

definition TYPE_BY_ENUM :: "(int \<times> string) list" where
  "TYPE_BY_ENUM = [(1, ''context''), (2, ''spec''), (3, ''plan''), (4, ''implementation''), (5, ''test''),
     (6, ''human_validation''), (7, ''finalization''), (8, ''generic'')]"

definition ARTIFACT_BY_ENUM :: "(int \<times> string) list" where
  "ARTIFACT_BY_ENUM = [(1, ''document''), (2, ''spec''), (3, ''plan''), (4, ''test_plan''), (5, ''diagram''),
     (6, ''report'')]"

definition GATE_BY_ENUM :: "(int \<times> string) list" where
  "GATE_BY_ENUM = [(1, ''none''), (2, ''human'')]"

definition bff_TYPE_BY_ENUM :: "(int \<times> string) list" where
  "bff_TYPE_BY_ENUM = [(1, ''context''), (2, ''spec''), (3, ''plan''), (4, ''implementation''), (5, ''test''),
     (6, ''human_validation''), (7, ''finalization''), (8, ''generic'')]"

definition bff_ARTIFACT_BY_ENUM :: "(int \<times> string) list" where
  "bff_ARTIFACT_BY_ENUM = [(1, ''document''), (2, ''spec''), (3, ''plan''), (4, ''test_plan''), (5, ''diagram''),
     (6, ''report'')]"

definition bff_GATE_BY_ENUM :: "(int \<times> string) list" where
  "bff_GATE_BY_ENUM = [(1, ''none''), (2, ''human'')]"

interpretation types: shared_vocabulary TYPE_BY_ENUM bff_TYPE_BY_ENUM
  by unfold_locales (simp_all add: TYPE_BY_ENUM_def bff_TYPE_BY_ENUM_def)

interpretation artifacts: shared_vocabulary ARTIFACT_BY_ENUM bff_ARTIFACT_BY_ENUM
  by unfold_locales (simp_all add: ARTIFACT_BY_ENUM_def bff_ARTIFACT_BY_ENUM_def)

interpretation gates: shared_vocabulary GATE_BY_ENUM bff_GATE_BY_ENUM
  by unfold_locales (simp_all add: GATE_BY_ENUM_def bff_GATE_BY_ENUM_def)

definition stage_type_name :: "int \<Rightarrow> string" where
  "stage_type_name v = enum_name TYPE_BY_ENUM v"

definition stage_type_value :: "string \<Rightarrow> int" where
  "stage_type_value name = enum_value TYPE_BY_ENUM name"

definition artifact_name :: "int \<Rightarrow> string" where
  "artifact_name v = enum_name ARTIFACT_BY_ENUM v"

definition artifact_value :: "string \<Rightarrow> int" where
  "artifact_value name = enum_value ARTIFACT_BY_ENUM name"

definition gate_name :: "int \<Rightarrow> string" where
  "gate_name v = enum_name GATE_BY_ENUM v"

definition gate_value :: "string \<Rightarrow> int" where
  "gate_value name = enum_value GATE_BY_ENUM name"

section \<open>Models\<close>

record core_stage_spec =
  cg_key :: string
  cg_name :: string
  cg_type :: int
  cg_artifacts :: "int list"
  cg_gate :: int
  cg_subtypes :: "string list"

record core_flow =
  cf_id :: string
  cf_name :: string
  cf_description :: string
  cf_version :: int
  cf_owner_scope :: string
  cf_owner_id :: string
  cf_stages :: "core_stage_spec list"

record effective_flow_message =
  ef_flow :: "core_flow option"
  ef_contributors :: "(string \<times> string) list"
  ef_origins :: "(string \<times> string \<times> string) list"
  ef_resolved_from :: string

record stage_spec =
  sg_key :: string
  sg_name :: string
  sg_type :: string
  sg_artifacts :: "string list"
  sg_gate :: string
  sg_subtypes :: "string list"

record flow =
  fl_id :: string
  fl_name :: string
  fl_description :: string
  fl_version :: int
  fl_owner_scope :: string
  fl_owner_id :: string
  fl_stages :: "stage_spec list"

record new_flow =
  nf_name :: string
  nf_description :: string
  nf_owner_scope :: string
  nf_owner_id :: string
  nf_stages :: "stage_spec list"

record provenance =
  pv_contributors :: "string list"
  pv_origins :: "(string \<times> string) list"
  pv_sentence :: string
  pv_truncated :: bool

record effective_flow =
  fx_flow :: "flow option"
  fx_provenance :: provenance

record validation_report =
  vp_valid :: bool
  vp_errors :: "string list"
  vp_warnings :: "string list"

record 'w workflow_stub =
  ListFlows :: "('w, string \<times> string, core_flow list) rpc"
  GetFlow :: "('w, string, core_flow) rpc"
  ResolveFlow :: "('w, string \<times> string, effective_flow_message) rpc"
  CreateFlow :: "('w, core_flow \<times> string, core_flow) rpc"
  UpdateFlow :: "('w, core_flow, core_flow) rpc"
  ValidateFlow :: "('w, core_flow, bool \<times> string list \<times> string list) rpc"
  PromoteFlow :: "('w, string \<times> string \<times> string, core_flow) rpc"

section \<open>Conversions\<close>

definition stage_spec_of :: "core_stage_spec \<Rightarrow> stage_spec" where
  "stage_spec_of s = \<lparr>sg_key = cg_key s, sg_name = cg_name s, sg_type = stage_type_name (cg_type s),
     sg_artifacts = map artifact_name (cg_artifacts s), sg_gate = gate_name (cg_gate s),
     sg_subtypes = cg_subtypes s\<rparr>"

definition flow_of :: "core_flow \<Rightarrow> flow" where
  "flow_of f = \<lparr>fl_id = cf_id f, fl_name = cf_name f, fl_description = cf_description f,
     fl_version = cf_version f, fl_owner_scope = cf_owner_scope f, fl_owner_id = cf_owner_id f,
     fl_stages = map stage_spec_of (cf_stages f)\<rparr>"

definition stage_for_the_core :: "stage_spec \<Rightarrow> core_stage_spec" where
  "stage_for_the_core s = \<lparr>cg_key = sg_key s, cg_name = sg_name s, cg_type = stage_type_value (sg_type s),
     cg_artifacts = map artifact_value (sg_artifacts s), cg_gate = gate_value (sg_gate s),
     cg_subtypes = sg_subtypes s\<rparr>"

text \<open>The version is not written: a field that was not set is zero.\<close>

definition flow_for_the_core :: "new_flow \<Rightarrow> string \<Rightarrow> core_flow" where
  "flow_for_the_core body flow_id = \<lparr>cf_id = flow_id, cf_name = nf_name body,
     cf_description = nf_description body, cf_version = 0, cf_owner_scope = nf_owner_scope body,
     cf_owner_id = nf_owner_id body, cf_stages = map stage_for_the_core (nf_stages body)\<rparr>"

definition provenance_of :: "effective_flow_message \<Rightarrow> provenance" where
  "provenance_of eff =
     (let stage_count = (case ef_flow eff of None \<Rightarrow> 0 | Some f \<Rightarrow> length (cf_stages f));
          origins = map (\<lambda>(key, scope, scope_id). (key, scope)) (ef_origins eff)
      in \<lparr>pv_contributors = map fst (ef_contributors eff), pv_origins = origins,
          pv_sentence = strip (ef_resolved_from eff), pv_truncated = (length origins < stage_count)\<rparr>)"

section \<open>Use cases\<close>

definition list_flows :: "'w env \<Rightarrow> 'w workflow_stub \<Rightarrow> string \<Rightarrow> string \<Rightarrow> ('w, flow list) io" where
  "list_flows env st owner_scope owner_id = logged ''list_flows'' (account_scoped
     (mapv (map flow_of) (unary env (ListFlows st) (ret (owner_scope, owner_id)))))"

definition get_flow :: "'w env \<Rightarrow> 'w workflow_stub \<Rightarrow> string \<Rightarrow> ('w, flow) io" where
  "get_flow env st flow_id = logged ''get_flow'' (account_scoped
     (mapv flow_of (unary env (GetFlow st) (ret flow_id))))"

definition resolve_flow :: "'w env \<Rightarrow> 'w workflow_stub \<Rightarrow> string \<Rightarrow> string \<Rightarrow> ('w, effective_flow) io" where
  "resolve_flow env st scope scope_id = logged ''resolve_flow'' (account_scoped
     (mapv (\<lambda>eff. \<lparr>fx_flow = map_option flow_of (ef_flow eff), fx_provenance = provenance_of eff\<rparr>)
       (unary env (ResolveFlow st) (ret (scope, scope_id)))))"

definition create_flow :: "'w env \<Rightarrow> 'w workflow_stub \<Rightarrow> new_flow \<Rightarrow> string \<Rightarrow> ('w, flow) io" where
  "create_flow env st body key = logged ''create_flow'' (account_scoped (require_role writers
     (mapv flow_of (unary env (CreateFlow st)
       (mapv (\<lambda>k. (flow_for_the_core body [], k)) (idempotency env key))))))"

definition update_flow :: "'w env \<Rightarrow> 'w workflow_stub \<Rightarrow> string \<Rightarrow> new_flow \<Rightarrow> ('w, flow) io" where
  "update_flow env st flow_id body = logged ''update_flow'' (account_scoped (require_role writers
     (mapv flow_of (unary env (UpdateFlow st) (ret (flow_for_the_core body flow_id))))))"

definition validate_flow :: "'w env \<Rightarrow> 'w workflow_stub \<Rightarrow> new_flow \<Rightarrow> ('w, validation_report) io" where
  "validate_flow env st body = logged ''validate_flow'' (account_scoped
     (mapv (\<lambda>(valid, errors, warnings). \<lparr>vp_valid = valid, vp_errors = errors, vp_warnings = warnings\<rparr>)
       (unary env (ValidateFlow st) (ret (flow_for_the_core body [])))))"

definition promote_flow :: "'w env \<Rightarrow> 'w workflow_stub \<Rightarrow> string \<Rightarrow> string \<times> string \<Rightarrow> ('w, flow) io" where
  "promote_flow env st flow_id target = logged ''promote_flow'' (account_scoped (require_role managers
     (mapv flow_of (unary env (PromoteFlow st) (ret (flow_id, target))))))"

section \<open>The gRPC port's converters\<close>

text \<open>The edge contract's flow has the core's fields, with the edge's enum numbers.\<close>

definition stage_type_enum :: "string \<Rightarrow> int" where
  "stage_type_enum name = enum_value bff_TYPE_BY_ENUM name"

definition artifact_enum :: "string \<Rightarrow> int" where
  "artifact_enum name = enum_value bff_ARTIFACT_BY_ENUM name"

definition gate_enum :: "string \<Rightarrow> int" where
  "gate_enum name = enum_value bff_GATE_BY_ENUM name"

definition bff_stage_spec :: "stage_spec \<Rightarrow> core_stage_spec" where
  "bff_stage_spec s = \<lparr>cg_key = sg_key s, cg_name = sg_name s, cg_type = stage_type_enum (sg_type s),
     cg_artifacts = map artifact_enum (sg_artifacts s), cg_gate = gate_enum (sg_gate s),
     cg_subtypes = sg_subtypes s\<rparr>"

definition bff_flow :: "flow \<Rightarrow> core_flow" where
  "bff_flow f = \<lparr>cf_id = fl_id f, cf_name = fl_name f, cf_description = fl_description f,
     cf_version = fl_version f, cf_owner_scope = fl_owner_scope f, cf_owner_id = fl_owner_id f,
     cf_stages = map bff_stage_spec (fl_stages f)\<rparr>"

text \<open>\<^verbatim>\<open>TYPE_BY_ENUM.get(s.type, "generic")\<close>, and likewise \<^verbatim>\<open>"none"\<close> for the gate.\<close>

definition bff_new_stage :: "core_stage_spec \<Rightarrow> stage_spec" where
  "bff_new_stage s = \<lparr>sg_key = cg_key s, sg_name = cg_name s,
     sg_type = dict_get bff_TYPE_BY_ENUM (cg_type s) ''generic'',
     sg_artifacts = map (enum_name bff_ARTIFACT_BY_ENUM) (cg_artifacts s),
     sg_gate = dict_get bff_GATE_BY_ENUM (cg_gate s) ''none'', sg_subtypes = cg_subtypes s\<rparr>"

definition bff_new_flow :: "core_flow \<Rightarrow> new_flow" where
  "bff_new_flow f = \<lparr>nf_name = cf_name f, nf_description = cf_description f,
     nf_owner_scope = cf_owner_scope f, nf_owner_id = cf_owner_id f,
     nf_stages = map bff_new_stage (cf_stages f)\<rparr>"

text \<open>
  Building \<^verbatim>\<open>uc.NewFlow\<close> checks it: a stage has a key, a flow a name and an owner's scope. (The same
  class checks the stages the core answers; that check of the core is not modelled.)
\<close>

definition grpc_new_flow :: "core_flow \<Rightarrow> ('w, new_flow) io" where
  "grpc_new_flow f = (let body = bff_new_flow f in
     if list_ex (\<lambda>s. sg_key s = []) (nf_stages body) then raise (ValidationError ''key'')
     else if nf_name body = [] then raise (ValidationError ''name'')
     else if nf_owner_scope body = [] then raise (ValidationError ''owner_scope'')
     else ret body)"

definition grpc_UpdateFlow :: "'w env \<Rightarrow> 'w workflow_stub \<Rightarrow> string \<Rightarrow> core_flow \<Rightarrow> ('w, core_flow) io" where
  "grpc_UpdateFlow env st flow_id f =
     bnd (grpc_new_flow f) (\<lambda>body. mapv bff_flow (update_flow env st flow_id body))"

definition grpc_CreateFlow :: "'w env \<Rightarrow> 'w workflow_stub \<Rightarrow> core_flow \<Rightarrow> string \<Rightarrow> ('w, core_flow) io" where
  "grpc_CreateFlow env st f key =
     bnd (grpc_new_flow f) (\<lambda>body. mapv bff_flow (create_flow env st body key))"

section \<open>A flow crosses whole\<close>

definition known_stage :: "core_stage_spec \<Rightarrow> bool" where
  "known_stage s \<longleftrightarrow> known_number TYPE_BY_ENUM (cg_type s) \<and> known_number GATE_BY_ENUM (cg_gate s)
     \<and> (\<forall>a \<in> set (cg_artifacts s). known_number ARTIFACT_BY_ENUM a)"

text \<open>What a client edits: a flow it read, as the body it sends back.\<close>

definition as_body :: "flow \<Rightarrow> new_flow" where
  "as_body f = \<lparr>nf_name = fl_name f, nf_description = fl_description f, nf_owner_scope = fl_owner_scope f,
     nf_owner_id = fl_owner_id f, nf_stages = fl_stages f\<rparr>"

lemma stage_there_and_back: "known_stage s \<Longrightarrow> stage_for_the_core (stage_spec_of s) = s"
  by (simp add: known_stage_def stage_for_the_core_def stage_spec_of_def stage_type_value_def
      stage_type_name_def gate_value_def gate_name_def artifact_value_def artifact_name_def comp_def
      types.core.value_of_name gates.core.value_of_name artifacts.core.value_of_name map_idI)

lemma bff_stage_out: "known_stage s \<Longrightarrow> bff_stage_spec (stage_spec_of s) = s"
  by (simp add: known_stage_def bff_stage_spec_def stage_spec_of_def stage_type_enum_def
      stage_type_name_def gate_enum_def gate_name_def artifact_enum_def artifact_name_def comp_def
      types.crossing_out gates.crossing_out artifacts.crossing_out map_idI)

lemma known_name_get: "known_number t n \<Longrightarrow> dict_get t n d = enum_name t n"
  by (auto simp: known_number_def enum_name_def dict_get_def split: option.splits)
     (metis domI domIff fst_conv image_eqI map_of_eq_None_iff set_rev)

lemma bff_stage_in: "known_stage s \<Longrightarrow> bff_new_stage s = stage_spec_of s"
  by (simp add: known_stage_def bff_new_stage_def stage_spec_of_def stage_type_name_def gate_name_def
      artifact_name_def types.same_known(1) gates.same_known(1) known_name_get types.same_name gates.same_name
      artifacts.same_name)


definition demo_flow :: core_flow where
  "demo_flow = \<lparr>cf_id = ''f-1'', cf_name = ''default'', cf_description = [], cf_version = 3,
     cf_owner_scope = ''project'', cf_owner_id = ''p-1'',
     cf_stages = [\<lparr>cg_key = ''spec'', cg_name = ''Spec'', cg_type = 2, cg_artifacts = [2, 5], cg_gate = 2,
       cg_subtypes = []\<rparr>]\<rparr>"

definition demo_workflow :: "nat workflow_stub" where
  "demo_workflow = \<lparr>ListFlows = answering [demo_flow], GetFlow = answering demo_flow,
     ResolveFlow = answering \<lparr>ef_flow = Some demo_flow, ef_contributors = [(''project'', ''p-1'')],
       ef_origins = [], ef_resolved_from = ''project''\<rparr>,
     CreateFlow = answering demo_flow, UpdateFlow = answering demo_flow,
     ValidateFlow = answering (True, [], []), PromoteFlow = answering demo_flow\<rparr>"


text \<open>
  The trail of the effective flow is measured, not guessed. When resolving answers, the flow is
  there exactly when the core sent one; the origins are the core's, one for one and in order; and
  the trail is called truncated exactly when some stage of the flow has no origin counted for it,
  never when no level declared a flow.
\<close>

theorem provenance_measured:
  assumes "resolve_flow env st scope scope_id s = (Inr r, s')"
  shows "\<exists>eff s1 s2. asked env (ResolveFlow st) (scope, scope_id) s1 eff s2
    \<and> fx_flow r = map_option flow_of (ef_flow eff)
    \<and> map fst (pv_origins (fx_provenance r)) = map fst (ef_origins eff)
    \<and> (pv_truncated (fx_provenance r) \<longleftrightarrow>
        (\<exists>f. fx_flow r = Some f \<and> length (pv_origins (fx_provenance r)) < length (fl_stages f)))"
proof -
  from logged_Inr [OF assms [unfolded resolve_flow_def]] obtain eff s1 where
    "asked env (ResolveFlow st) (scope, scope_id) (write_log (LogCall ''resolve_flow'') s) eff s1"
    and r: "r = \<lparr>fx_flow = map_option flow_of (ef_flow eff), fx_provenance = provenance_of eff\<rparr>"
    by (auto simp: scoped_Inr mapv_Inr unary_asked)
  moreover have "map fst (pv_origins (provenance_of eff)) = map fst (ef_origins eff)"
    by (simp add: provenance_of_def Let_def case_prod_unfold comp_def)
  moreover have "pv_truncated (provenance_of eff) \<longleftrightarrow>
      (\<exists>f. map_option flow_of (ef_flow eff) = Some f \<and> length (pv_origins (provenance_of eff)) < length (fl_stages f))"
    by (auto simp: provenance_of_def Let_def flow_of_def split: option.splits)
  ultimately show ?thesis by auto
qed

theorem provenance_measured_witness:
  "\<exists>r s'. resolve_flow demo_env demo_workflow ''project'' ''p-1'' (demo_rt (Some (demo_ctx ''acc-1'' ''viewer'')))
      = (Inr r, s') \<and> pv_truncated (fx_provenance r)"
proof -
  have "\<exists>r s'. resolve_flow demo_env demo_workflow ''project'' ''p-1'' (demo_rt (Some (demo_ctx ''acc-1'' ''viewer'')))
      = (Inr r, s')"
    by (simp add: resolve_flow_def io_simps demo_run unary_def unary_by_def core_metadata_def demo_workflow_def)
  then obtain r s' where run: "resolve_flow demo_env demo_workflow ''project'' ''p-1''
      (demo_rt (Some (demo_ctx ''acc-1'' ''viewer''))) = (Inr r, s')" by blast
  obtain eff s1 s2 where "asked demo_env (ResolveFlow demo_workflow) (''project'', ''p-1'') s1 eff s2"
    and p: "fx_flow r = map_option flow_of (ef_flow eff)"
      "map fst (pv_origins (fx_provenance r)) = map fst (ef_origins eff)"
      "pv_truncated (fx_provenance r) \<longleftrightarrow>
        (\<exists>f. fx_flow r = Some f \<and> length (pv_origins (fx_provenance r)) < length (fl_stages f))"
    using provenance_measured [OF run] by blast
  then have "eff = \<lparr>ef_flow = Some demo_flow, ef_contributors = [(''project'', ''p-1'')],
       ef_origins = [], ef_resolved_from = ''project''\<rparr>"
    by (auto simp: asked_def demo_workflow_def answering_def)
  with p run show ?thesis by (auto simp: flow_of_def demo_flow_def)
qed

end
