(* ===== verification/Demand.thy ===== *)
theory Demand
  imports Workflow
begin

text \<open>
  \<^verbatim>\<open>app/usecases/demand.py\<close> and the converters and handlers of \<^verbatim>\<open>app/grpcapi/demand.py\<close>: the
  demand with its derived fields, the cockpit of three reads at once, the stage's transitions, the
  gate, the threads with their messages, and the findings. A finding's payload is the pairs of its Struct.
\<close>

section \<open>Vocabulary\<close>

definition STATUS_BY_ENUM :: "(int \<times> string) list" where
  "STATUS_BY_ENUM = [(1, ''new''), (2, ''doing''), (3, ''done''), (4, ''delivered'')]"

definition STAGE_BY_ENUM :: "(int \<times> string) list" where
  "STAGE_BY_ENUM = [(1, ''pending''), (2, ''running''), (3, ''blocked''), (4, ''done'')]"

definition ACTOR_BY_ENUM :: "(int \<times> string) list" where
  "ACTOR_BY_ENUM = [(1, ''user''), (2, ''agent''), (3, ''subagent''), (4, ''system'')]"

definition OPEN_STAGES :: "int list" where
  "OPEN_STAGES = [2, 3]"

definition stage_status_value :: "string \<Rightarrow> int" where
  "stage_status_value name = enum_value STAGE_BY_ENUM name"

definition bff_STATUS_BY_ENUM :: "(int \<times> string) list" where
  "bff_STATUS_BY_ENUM = [(1, ''new''), (2, ''doing''), (3, ''done''), (4, ''delivered'')]"

definition bff_STAGE_BY_ENUM :: "(int \<times> string) list" where
  "bff_STAGE_BY_ENUM = [(1, ''pending''), (2, ''running''), (3, ''blocked''), (4, ''done'')]"

interpretation situations: shared_vocabulary STATUS_BY_ENUM bff_STATUS_BY_ENUM
  by unfold_locales (simp_all add: STATUS_BY_ENUM_def bff_STATUS_BY_ENUM_def)

interpretation stage_statuses: shared_vocabulary STAGE_BY_ENUM bff_STAGE_BY_ENUM
  by unfold_locales (simp_all add: STAGE_BY_ENUM_def bff_STAGE_BY_ENUM_def)

interpretation actors: vocabulary ACTOR_BY_ENUM
  by unfold_locales (simp_all add: ACTOR_BY_ENUM_def)

section \<open>Models\<close>

record core_artifact =
  cx_id :: string
  cx_kind :: int
  cx_name :: string
  cx_object_ref :: string
  cx_version :: int

record core_stage =
  ck_key :: string
  ck_name :: string
  ck_type :: int
  ck_status :: int
  ck_gate :: int
  ck_artifacts :: "core_artifact list"
  ck_started_at :: "timestamp option"
  ck_finished_at :: "timestamp option"

record core_demand =
  cw_id :: string
  cw_project :: string
  cw_external_key :: string
  cw_title :: string
  cw_card_type :: string
  cw_provider_status :: string
  cw_dop_status :: int
  cw_flow_id :: string
  cw_flow_version :: int
  cw_stages :: "core_stage list"

record agent_card =
  ag_purpose :: string
  ag_tools :: "string list"
  ag_model :: string
  ag_effort :: string
  ag_budget_micros :: int

text \<open>A thread has the same fields in the core, in the edge's model and on the gRPC port.\<close>

record thread =
  th_id :: string
  th_key :: string
  th_blocked :: bool
  th_card :: "agent_card option"

record core_message =
  cm_id :: string
  cm_thread_id :: string
  cm_author_kind :: int
  cm_author_id :: string
  cm_author_name :: string
  cm_text :: string
  cm_at :: "timestamp option"

record core_finding =
  cv_id :: string
  cv_thread_id :: string
  cv_title :: string
  cv_payload :: "(string \<times> pyval) list option"

record artifact =
  ax_id :: string
  ax_kind :: string
  ax_name :: string
  ax_object_ref :: string
  ax_version :: int

record stage =
  sk_key :: string
  sk_name :: string
  sk_type :: string
  sk_status :: string
  sk_gate :: string
  sk_artifacts :: "artifact list"
  sk_started_at :: "timestamp option"
  sk_finished_at :: "timestamp option"
  sk_awaiting_decision :: bool

record demand =
  dm_id :: string
  dm_project_id :: string
  dm_external_key :: string
  dm_title :: string
  dm_card_type :: string
  dm_provider_status :: string
  dm_dop_status :: string
  dm_flow_id :: string
  dm_flow_version :: int
  dm_stages :: "stage list"
  dm_current_stage_key :: string
  dm_blocked :: bool
  dm_awaiting_decision :: bool

record message =
  mg_id :: string
  mg_thread_id :: string
  mg_author_kind :: string
  mg_author_id :: string
  mg_author_name :: string
  mg_text :: string
  mg_at :: "timestamp option"

record finding =
  fd_id :: string
  fd_thread_id :: string
  fd_title :: string
  fd_payload :: "(string \<times> pyval) list"

record cockpit =
  kp_demand :: demand
  kp_threads :: "thread list"
  kp_findings :: "finding list"

text \<open>Requests and the service, the parameter of every use case.\<close>

record list_demands_request =
  ld_page_size :: int
  ld_page_token :: string
  ld_project :: "string option"

record start_demand_request =
  sd_project :: string
  sd_external_key :: string
  sd_idempotency_key :: string

record advance_stage_request =
  av_demand_id :: string
  av_stage_key :: string
  av_status :: int
  av_idempotency_key :: string

record decide_gate_request =
  dg_demand_id :: string
  dg_stage_key :: string
  dg_approved :: bool
  dg_comment :: string
  dg_idempotency_key :: string

record create_thread_request =
  tr_demand_id :: string
  tr_key :: string
  tr_card :: "agent_card option"
  tr_idempotency_key :: string

record post_message_request =
  pm_thread_id :: string
  pm_text :: string
  pm_idempotency_key :: string

record publish_finding_request =
  pf_demand_id :: string
  pf_thread_id :: string
  pf_title :: string
  pf_payload :: "(string \<times> pyval) list"
  pf_idempotency_key :: string

record 'w demand_stub =
  ListDemands :: "('w, list_demands_request, core_demand list \<times> string) rpc"
  GetDemand :: "('w, string, core_demand) rpc"
  ListThreads :: "('w, string, thread list) rpc"
  ListFindings :: "('w, string \<times> string, core_finding list) rpc"
  StartDemand :: "('w, start_demand_request, core_demand) rpc"
  AdvanceStage :: "('w, advance_stage_request, core_stage) rpc"
  DecideGate :: "('w, decide_gate_request, core_stage) rpc"
  CreateThread :: "('w, create_thread_request, thread) rpc"
  PostMessage :: "('w, post_message_request, core_message) rpc"
  PublishFinding :: "('w, publish_finding_request, core_finding) rpc"

section \<open>Conversions\<close>

definition artifact_of :: "core_artifact \<Rightarrow> artifact" where
  "artifact_of a = \<lparr>ax_id = cx_id a, ax_kind = artifact_name (cx_kind a), ax_name = cx_name a,
     ax_object_ref = cx_object_ref a, ax_version = cx_version a\<rparr>"

text \<open>\<^verbatim>\<open>_instant(msg, field)\<close>: None when the field is not set.\<close>

definition py_instant :: "timestamp option \<Rightarrow> timestamp option" where
  "py_instant t = map_option instant t"

definition awaits_decision :: "core_stage \<Rightarrow> bool" where
  "awaits_decision s \<longleftrightarrow> ck_gate s = 2 \<and> ck_status s \<in> set OPEN_STAGES"

definition stage_of :: "core_stage \<Rightarrow> stage" where
  "stage_of s = \<lparr>sk_key = ck_key s, sk_name = ck_name s, sk_type = stage_type_name (ck_type s),
     sk_status = enum_name STAGE_BY_ENUM (ck_status s), sk_gate = gate_name (ck_gate s),
     sk_artifacts = map artifact_of (ck_artifacts s), sk_started_at = py_instant (ck_started_at s),
     sk_finished_at = py_instant (ck_finished_at s), sk_awaiting_decision = awaits_decision s\<rparr>"

definition demand_of :: "core_demand \<Rightarrow> demand" where
  "demand_of d = (let stages = map stage_of (cw_stages d);
       current = List.find (\<lambda>e. sk_status e \<noteq> ''done'') stages
     in \<lparr>dm_id = cw_id d, dm_project_id = cw_project d, dm_external_key = cw_external_key d,
         dm_title = cw_title d, dm_card_type = cw_card_type d, dm_provider_status = cw_provider_status d,
         dm_dop_status = enum_name STATUS_BY_ENUM (cw_dop_status d), dm_flow_id = cw_flow_id d,
         dm_flow_version = cw_flow_version d, dm_stages = stages,
         dm_current_stage_key = (case current of None \<Rightarrow> [] | Some e \<Rightarrow> sk_key e),
         dm_blocked = list_ex (\<lambda>e. sk_status e = ''blocked'') stages,
         dm_awaiting_decision = list_ex sk_awaiting_decision stages\<rparr>)"

definition thread_of :: "thread \<Rightarrow> thread" where
  "thread_of t = \<lparr>th_id = th_id t, th_key = th_key t, th_blocked = th_blocked t,
     th_card = (case th_card t of None \<Rightarrow> None | Some c \<Rightarrow>
       Some \<lparr>ag_purpose = ag_purpose c, ag_tools = ag_tools c, ag_model = ag_model c,
         ag_effort = ag_effort c, ag_budget_micros = ag_budget_micros c\<rparr>)\<rparr>"

definition message_of :: "core_message \<Rightarrow> message" where
  "message_of m = \<lparr>mg_id = cm_id m, mg_thread_id = cm_thread_id m,
     mg_author_kind = enum_name ACTOR_BY_ENUM (cm_author_kind m), mg_author_id = cm_author_id m,
     mg_author_name = cm_author_name m, mg_text = cm_text m, mg_at = py_instant (cm_at m)\<rparr>"

definition finding_of :: "core_finding \<Rightarrow> finding" where
  "finding_of f = \<lparr>fd_id = cv_id f, fd_thread_id = cv_thread_id f, fd_title = cv_title f,
     fd_payload = (case cv_payload f of None \<Rightarrow> [] | Some p \<Rightarrow> p)\<rparr>"

text \<open>The edge's body of a transition: a closed vocabulary, checked where it is built.\<close>

definition StageTransition :: "string \<Rightarrow> ('w, string) io" where
  "StageTransition status =
     (if status \<in> set [''pending'', ''running'', ''blocked'', ''done''] then ret status
      else raise (ValidationError ''status''))"

section \<open>Three reads at once\<close>

text \<open>
  \<^verbatim>\<open>await asyncio.gather(a, b, c)\<close>: the three run in the order the scheduler chooses (here of whole
  calls, which share nothing but the core), none is stopped by another's failure, and the first
  exception in that order is the answer.
\<close>

datatype task = FirstTask | SecondTask | ThirdTask

definition keep_first :: "exn option \<Rightarrow> exn \<Rightarrow> exn option" where
  "keep_first e f = (case e of None \<Rightarrow> Some f | Some g \<Rightarrow> Some g)"

fun gather_step :: "('w, 'a) io \<Rightarrow> ('w, 'b) io \<Rightarrow> ('w, 'c) io \<Rightarrow> task
    \<Rightarrow> ('a option \<times> 'b option \<times> 'c option) \<times> exn option \<times> 'w rt
    \<Rightarrow> ('a option \<times> 'b option \<times> 'c option) \<times> exn option \<times> 'w rt" where
  "gather_step a b c FirstTask ((x, y, z), e, s) = (case a s of
       (Inr v, s') \<Rightarrow> ((Some v, y, z), e, s') | (Inl f, s') \<Rightarrow> ((x, y, z), keep_first e f, s'))"
| "gather_step a b c SecondTask ((x, y, z), e, s) = (case b s of
       (Inr v, s') \<Rightarrow> ((x, Some v, z), e, s') | (Inl f, s') \<Rightarrow> ((x, y, z), keep_first e f, s'))"
| "gather_step a b c ThirdTask ((x, y, z), e, s) = (case c s of
       (Inr v, s') \<Rightarrow> ((x, y, Some v), e, s') | (Inl f, s') \<Rightarrow> ((x, y, z), keep_first e f, s'))"

text \<open>A task that was never run leaves the gathering without an answer: no order of all three does.\<close>

definition gather3 :: "task list \<Rightarrow> ('w, 'a) io \<Rightarrow> ('w, 'b) io \<Rightarrow> ('w, 'c) io \<Rightarrow> ('w, 'a \<times> 'b \<times> 'c) io" where
  "gather3 order a b c s = (case fold (gather_step a b c) order ((None, None, None), None, s) of
       (_, Some f, s') \<Rightarrow> (Inl f, s')
     | ((Some x, Some y, Some z), None, s') \<Rightarrow> (Inr (x, y, z), s')
     | (_, None, s') \<Rightarrow> (Inl (OtherError ''pending''), s'))"

section \<open>Use cases\<close>

definition list_demands :: "'w env \<Rightarrow> 'w demand_stub \<Rightarrow> string \<Rightarrow> int \<Rightarrow> string \<Rightarrow> ('w, demand list \<times> string) io" where
  "list_demands env st project_id page_size page_token = logged ''list_demands'' (account_scoped
     (mapv (\<lambda>(ds, token). (map demand_of ds, token)) (unary env (ListDemands st)
       (ret \<lparr>ld_page_size = page_size, ld_page_token = page_token,
          ld_project = (if project_id = [] then None else Some project_id)\<rparr>))))"

definition get_demand :: "'w env \<Rightarrow> 'w demand_stub \<Rightarrow> string \<Rightarrow> ('w, demand) io" where
  "get_demand env st demand_id = logged ''get_demand'' (account_scoped
     (mapv demand_of (unary env (GetDemand st) (ret demand_id))))"

definition list_threads :: "'w env \<Rightarrow> 'w demand_stub \<Rightarrow> string \<Rightarrow> ('w, thread list) io" where
  "list_threads env st demand_id = logged ''list_threads'' (account_scoped
     (mapv (map thread_of) (unary env (ListThreads st) (ret demand_id))))"

definition list_findings :: "'w env \<Rightarrow> 'w demand_stub \<Rightarrow> string \<Rightarrow> string \<Rightarrow> ('w, finding list) io" where
  "list_findings env st demand_id thread_id = logged ''list_findings'' (account_scoped
     (mapv (map finding_of) (unary env (ListFindings st) (ret (demand_id, thread_id)))))"

definition get_cockpit :: "task list \<Rightarrow> 'w env \<Rightarrow> 'w demand_stub \<Rightarrow> string \<Rightarrow> ('w, cockpit) io" where
  "get_cockpit order env st demand_id = logged ''get_cockpit'' (account_scoped
     (mapv (\<lambda>(d, ts, fs). \<lparr>kp_demand = d, kp_threads = ts, kp_findings = fs\<rparr>)
       (gather3 order (get_demand env st demand_id) (list_threads env st demand_id)
         (list_findings env st demand_id []))))"

definition start_demand :: "'w env \<Rightarrow> 'w demand_stub \<Rightarrow> string \<Rightarrow> string \<Rightarrow> string \<Rightarrow> ('w, demand) io" where
  "start_demand env st project_id external_key key = logged ''start_demand''
     (account_scoped (require_role writers (mapv demand_of (unary env (StartDemand st) (mapv (\<lambda>k.
        \<lparr>sd_project = project_id, sd_external_key = external_key, sd_idempotency_key = k\<rparr>)
        (idempotency env key))))))"

definition advance_stage :: "'w env \<Rightarrow> 'w demand_stub \<Rightarrow> string \<Rightarrow> string \<Rightarrow> string \<Rightarrow> string \<Rightarrow> ('w, stage) io" where
  "advance_stage env st demand_id stage_key status key = logged ''advance_stage''
     (account_scoped (require_role writers (mapv stage_of (unary env (AdvanceStage st) (mapv (\<lambda>k.
        \<lparr>av_demand_id = demand_id, av_stage_key = stage_key, av_status = stage_status_value status,
         av_idempotency_key = k\<rparr>)
        (idempotency env key))))))"

definition decide_gate :: "'w env \<Rightarrow> 'w demand_stub \<Rightarrow> string \<Rightarrow> string \<Rightarrow> bool \<Rightarrow> string \<Rightarrow> string
    \<Rightarrow> ('w, stage) io" where
  "decide_gate env st demand_id stage_key approved comment key = logged ''decide_gate''
     (account_scoped (require_role writers (mapv stage_of (unary env (DecideGate st) (mapv (\<lambda>k.
        \<lparr>dg_demand_id = demand_id, dg_stage_key = stage_key, dg_approved = approved, dg_comment = comment,
         dg_idempotency_key = k\<rparr>)
        (idempotency env key))))))"

text \<open>The key is drawn while the request is built, before the stub is asked for.\<close>

definition create_thread :: "'w env \<Rightarrow> 'w demand_stub \<Rightarrow> string \<Rightarrow> string \<Rightarrow> agent_card option \<Rightarrow> string
    \<Rightarrow> ('w, thread) io" where
  "create_thread env st demand_id thread_key brief key = logged ''create_thread''
     (account_scoped (require_role writers (bnd (idempotency env key) (\<lambda>k.
        mapv thread_of (unary env (CreateThread st)
          (ret \<lparr>tr_demand_id = demand_id, tr_key = thread_key, tr_card = brief, tr_idempotency_key = k\<rparr>))))))"

text \<open>The one write whose metadata is built by hand: its arguments leave the proof and the session out.\<close>

definition author_args :: "auth_context \<Rightarrow> string \<Rightarrow> md_args" where
  "author_args ctx actor_kind = no_args\<lparr>m_user_id := a_user_id ctx, m_account_id := a_account_id ctx,
     m_actor_name := actor_name (a_principal ctx), m_actor_kind := actor_kind\<rparr>"

definition post_message :: "'w env \<Rightarrow> 'w demand_stub \<Rightarrow> string \<Rightarrow> string \<Rightarrow> string \<Rightarrow> string
    \<Rightarrow> ('w, message) io" where
  "post_message env st thread_id body key actor_kind = logged ''post_message''
     (account_scoped (require_role writers (bnd (from_ctx id) (\<lambda>ctx. bnd channel (\<lambda>_.
        bnd (mapv (\<lambda>k. \<lparr>pm_thread_id = thread_id, pm_text = body, pm_idempotency_key = k\<rparr>)
          (idempotency env key)) (\<lambda>req.
        bnd (metadata_for env (author_args ctx actor_kind)) (\<lambda>md.
        mapv message_of (call (PostMessage st) req (opts_of env md)))))))))"

definition publish_finding :: "'w env \<Rightarrow> 'w demand_stub \<Rightarrow> string \<Rightarrow> string \<Rightarrow> string
    \<Rightarrow> (string \<times> pyval) list \<Rightarrow> string \<Rightarrow> ('w, finding) io" where
  "publish_finding env st demand_id thread_id title payload key = logged ''publish_finding''
     (account_scoped (require_role writers (mapv finding_of (unary env (PublishFinding st) (mapv (\<lambda>k.
        \<lparr>pf_demand_id = demand_id, pf_thread_id = thread_id, pf_title = title, pf_payload = payload,
         pf_idempotency_key = k\<rparr>)
        (idempotency env key))))))"

section \<open>The gRPC port\<close>

record bff_stage = core_stage +
  bs_awaiting_decision :: bool

record bff_demand =
  bd_id :: string
  bd_project_id :: string
  bd_external_key :: string
  bd_title :: string
  bd_card_type :: string
  bd_provider_status :: string
  bd_dop_status :: int
  bd_flow_id :: string
  bd_flow_version :: int
  bd_stages :: "bff_stage list"
  bd_current_stage_key :: string
  bd_blocked :: bool
  bd_awaiting_decision :: bool

definition bff_artifact_of :: "artifact \<Rightarrow> core_artifact" where
  "bff_artifact_of a = \<lparr>cx_id = ax_id a, cx_kind = artifact_enum (ax_kind a), cx_name = ax_name a,
     cx_object_ref = ax_object_ref a, cx_version = ax_version a\<rparr>"

definition bff_stage_of :: "stage \<Rightarrow> bff_stage" where
  "bff_stage_of s = \<lparr>ck_key = sk_key s, ck_name = sk_name s, ck_type = stage_type_enum (sk_type s),
     ck_status = enum_value bff_STAGE_BY_ENUM (sk_status s), ck_gate = gate_enum (sk_gate s),
     ck_artifacts = map bff_artifact_of (sk_artifacts s), ck_started_at = sk_started_at s,
     ck_finished_at = sk_finished_at s, bs_awaiting_decision = sk_awaiting_decision s\<rparr>"

definition bff_demand_of :: "demand \<Rightarrow> bff_demand" where
  "bff_demand_of d = \<lparr>bd_id = dm_id d, bd_project_id = dm_project_id d, bd_external_key = dm_external_key d,
     bd_title = dm_title d, bd_card_type = dm_card_type d, bd_provider_status = dm_provider_status d,
     bd_dop_status = enum_value bff_STATUS_BY_ENUM (dm_dop_status d), bd_flow_id = dm_flow_id d,
     bd_flow_version = dm_flow_version d, bd_stages = map bff_stage_of (dm_stages d),
     bd_current_stage_key = dm_current_stage_key d, bd_blocked = dm_blocked d,
     bd_awaiting_decision = dm_awaiting_decision d\<rparr>"

definition grpc_GetDemand :: "'w env \<Rightarrow> 'w demand_stub \<Rightarrow> string \<Rightarrow> ('w, bff_demand) io" where
  "grpc_GetDemand env st demand_id = mapv bff_demand_of (get_demand env st demand_id)"

definition grpc_StartDemand :: "'w env \<Rightarrow> 'w demand_stub \<Rightarrow> string \<Rightarrow> string \<Rightarrow> string \<Rightarrow> ('w, bff_demand) io" where
  "grpc_StartDemand env st project_id external_key key =
     mapv bff_demand_of (bnd (if project_id = [] then raise (ValidationError ''project_id'') else ret ()) (\<lambda>_.
       bnd (if external_key = [] then raise (ValidationError ''external_key'') else ret ()) (\<lambda>_.
       start_demand env st project_id external_key key)))"

definition grpc_AdvanceStage :: "'w env \<Rightarrow> 'w demand_stub \<Rightarrow> string \<Rightarrow> string \<Rightarrow> int \<Rightarrow> string
    \<Rightarrow> ('w, bff_stage) io" where
  "grpc_AdvanceStage env st demand_id stage_key status key =
     bnd (StageTransition (enum_name bff_STAGE_BY_ENUM status)) (\<lambda>body.
       mapv bff_stage_of (advance_stage env st demand_id stage_key body key))"

definition grpc_DecideGate :: "'w env \<Rightarrow> 'w demand_stub \<Rightarrow> string \<Rightarrow> string \<Rightarrow> bool \<Rightarrow> string \<Rightarrow> string
    \<Rightarrow> ('w, bff_stage) io" where
  "grpc_DecideGate env st demand_id stage_key approved comment key =
     mapv bff_stage_of (decide_gate env st demand_id stage_key approved comment key)"

text \<open>The REST route of a transition: the body is checked before the handler runs.\<close>

definition rest_advance_stage :: "'w env \<Rightarrow> 'w demand_stub \<Rightarrow> string \<Rightarrow> string \<Rightarrow> string \<Rightarrow> string
    \<Rightarrow> ('w, stage) io" where
  "rest_advance_stage env st demand_id stage_key status key =
     bnd (StageTransition status) (\<lambda>body. advance_stage env st demand_id stage_key body key)"

section \<open>Where the demand is\<close>

lemma stage_status_done [simp]:
  "enum_name STAGE_BY_ENUM n = ''done'' \<longleftrightarrow> n = 4" "enum_name STAGE_BY_ENUM n = ''blocked'' \<longleftrightarrow> n = 3"
  by (simp_all add: enum_name_def dict_get_def STAGE_BY_ENUM_def)

lemma stage_of_simps [simp]:
  "sk_key (stage_of s) = ck_key s" "sk_status (stage_of s) = enum_name STAGE_BY_ENUM (ck_status s)"
  "sk_awaiting_decision (stage_of s) = awaits_decision s"
  by (simp_all add: stage_of_def)

lemma find_first: "\<forall>x \<in> set pre. \<not> P x \<Longrightarrow> P s \<Longrightarrow> List.find P (pre @ s # post) = Some s"
  by (induction pre) auto

lemma find_none: "\<forall>x \<in> set xs. \<not> P x \<Longrightarrow> List.find P xs = None"
  by (induction xs) auto

lemma awaits_iff: "awaits_decision s \<longleftrightarrow> ck_gate s = 2 \<and> (ck_status s = 2 \<or> ck_status s = 3)"
  by (simp add: awaits_decision_def OPEN_STAGES_def)

lemma list_ex_stages: "list_ex P (map stage_of ss) \<longleftrightarrow> (\<exists>s \<in> set ss. P (stage_of s))"
  by (auto simp: list_ex_iff)

text \<open>
  Every client reads the same place in the flow. In the flow's order, the first stage that is
  not done names the current stage, and there is none exactly when all are done; the demand is
  blocked exactly when some stage is; it awaits a decision exactly when some stage has a human gate
  and is running or blocked, the condition the core puts on deciding, and then it is not finished.
  The gRPC port carries these three as they are, and each stage's own flag with it.
\<close>

theorem where_the_demand_is:
  shows "(\<forall>pre s post. cw_stages c = pre @ s # post \<and> (\<forall>x \<in> set pre. ck_status x = 4) \<and> ck_status s \<noteq> 4
        \<longrightarrow> dm_current_stage_key (demand_of c) = ck_key s)
    \<and> ((\<forall>x \<in> set (cw_stages c). ck_status x = 4) \<longrightarrow> dm_current_stage_key (demand_of c) = [])
    \<and> (dm_blocked (demand_of c) \<longleftrightarrow> (\<exists>x \<in> set (cw_stages c). ck_status x = 3))
    \<and> (dm_awaiting_decision (demand_of c) \<longleftrightarrow>
        (\<exists>x \<in> set (cw_stages c). ck_gate x = 2 \<and> (ck_status x = 2 \<or> ck_status x = 3)))
    \<and> (dm_awaiting_decision (demand_of c) \<longrightarrow> \<not> (\<forall>x \<in> set (cw_stages c). ck_status x = 4))
    \<and> bd_current_stage_key (bff_demand_of (demand_of c)) = dm_current_stage_key (demand_of c)
    \<and> bd_blocked (bff_demand_of (demand_of c)) = dm_blocked (demand_of c)
    \<and> bd_awaiting_decision (bff_demand_of (demand_of c)) = dm_awaiting_decision (demand_of c)
    \<and> map bs_awaiting_decision (bd_stages (bff_demand_of (demand_of c))) = map awaits_decision (cw_stages c)"
proof -
  have first: "dm_current_stage_key (demand_of c) = ck_key s"
    if "cw_stages c = pre @ s # post" "\<forall>x \<in> set pre. ck_status x = 4" "ck_status s \<noteq> 4" for pre s post
    using that find_first [of "map stage_of pre" "\<lambda>e. sk_status e \<noteq> ''done''" "stage_of s" "map stage_of post"]
    by (simp add: demand_of_def Let_def)
  have none: "dm_current_stage_key (demand_of c) = []" if "\<forall>x \<in> set (cw_stages c). ck_status x = 4"
    using that find_none [of "map stage_of (cw_stages c)" "\<lambda>e. sk_status e \<noteq> ''done''"]
    by (simp add: demand_of_def Let_def)
  have waits: "dm_awaiting_decision (demand_of c) \<longleftrightarrow>
      (\<exists>x \<in> set (cw_stages c). ck_gate x = 2 \<and> (ck_status x = 2 \<or> ck_status x = 3))"
    by (simp add: demand_of_def Let_def list_ex_stages awaits_iff)
  have "dm_blocked (demand_of c) \<longleftrightarrow> (\<exists>x \<in> set (cw_stages c). ck_status x = 3)"
    by (simp add: demand_of_def Let_def list_ex_stages)
  moreover have "map bs_awaiting_decision (bd_stages (bff_demand_of (demand_of c))) = map awaits_decision (cw_stages c)"
    by (simp add: bff_demand_of_def demand_of_def Let_def bff_stage_of_def comp_def)
  moreover have "dm_awaiting_decision (demand_of c) \<longrightarrow> \<not> (\<forall>x \<in> set (cw_stages c). ck_status x = 4)"
    using waits by force
  ultimately show ?thesis using first none waits by (simp add: bff_demand_of_def)
qed

definition demo_stage :: "string \<Rightarrow> int \<Rightarrow> core_stage" where
  "demo_stage k n = \<lparr>ck_key = k, ck_name = k, ck_type = 2, ck_status = n, ck_gate = 2, ck_artifacts = [],
     ck_started_at = None, ck_finished_at = None\<rparr>"

definition demo_demand :: core_demand where
  "demo_demand = \<lparr>cw_id = ''d-1'', cw_project = ''p-1'', cw_external_key = ''SUOPT-1'', cw_title = [],
     cw_card_type = [], cw_provider_status = [], cw_dop_status = 2, cw_flow_id = ''f-1'', cw_flow_version = 3,
     cw_stages = [demo_stage ''spec'' 4, demo_stage ''plan'' 2, demo_stage ''test'' 1]\<rparr>"

theorem where_the_demand_is_witness:
  "dm_current_stage_key (demand_of demo_demand) = ''plan'' \<and> dm_awaiting_decision (demand_of demo_demand)"
  using where_the_demand_is [of demo_demand, THEN conjunct1, rule_format,
      of "[demo_stage ''spec'' 4]" "demo_stage ''plan'' 2" "[demo_stage ''test'' 1]"]
    where_the_demand_is [of demo_demand]
  by (simp add: demo_demand_def demo_stage_def)

section \<open>The cockpit, whole or not at all\<close>

definition same_ctx :: "'w rt \<Rightarrow> ('w, 'a) io \<Rightarrow> bool" where
  "same_ctx s0 m \<longleftrightarrow> (\<forall>s. auth_ctx s = auth_ctx s0 \<longrightarrow> auth_ctx (snd (m s)) = auth_ctx s0)"

text \<open>Some task of the gathering, run with the caller's context, ended this way.\<close>

definition ran :: "'w rt \<Rightarrow> ('w, 'a) io \<Rightarrow> exn + 'a \<Rightarrow> bool" where
  "ran s0 m r \<longleftrightarrow> (\<exists>s s'. auth_ctx s = auth_ctx s0 \<and> m s = (r, s'))"

definition gathered :: "'w rt \<Rightarrow> ('w, 'a) io \<Rightarrow> ('w, 'b) io \<Rightarrow> ('w, 'c) io
    \<Rightarrow> ('a option \<times> 'b option \<times> 'c option) \<times> exn option \<times> 'w rt \<Rightarrow> bool" where
  "gathered s0 a b c = (\<lambda>((x, y, z), e, s). auth_ctx s = auth_ctx s0
     \<and> (\<forall>v. x = Some v \<longrightarrow> ran s0 a (Inr v)) \<and> (\<forall>v. y = Some v \<longrightarrow> ran s0 b (Inr v))
     \<and> (\<forall>v. z = Some v \<longrightarrow> ran s0 c (Inr v))
     \<and> (\<forall>f. e = Some f \<longrightarrow> ran s0 a (Inl f) \<or> ran s0 b (Inl f) \<or> ran s0 c (Inl f)))"

lemma ran_step: "same_ctx s0 m \<Longrightarrow> auth_ctx s = auth_ctx s0 \<Longrightarrow> m s = (r, s') \<Longrightarrow>
    ran s0 m r \<and> auth_ctx s' = auth_ctx s0"
  unfolding same_ctx_def ran_def by (metis snd_conv)

lemma gather_step_gathered:
  assumes "same_ctx s0 a" "same_ctx s0 b" "same_ctx s0 c" "gathered s0 a b c st"
  shows "gathered s0 a b c (gather_step a b c t st)"
proof -
  obtain x y z e s where st: "st = ((x, y, z), e, s)" by (cases st) auto
  with assms(4) have s: "auth_ctx s = auth_ctx s0" by (simp add: gathered_def)
  obtain ra sa where a: "a s = (ra, sa)" by fastforce
  obtain rb sb where b: "b s = (rb, sb)" by fastforce
  obtain rc sc where c: "c s = (rc, sc)" by fastforce
  from ran_step [OF assms(1) s a] ran_step [OF assms(2) s b] ran_step [OF assms(3) s c]
  have steps: "ran s0 a ra" "auth_ctx sa = auth_ctx s0" "ran s0 b rb" "auth_ctx sb = auth_ctx s0"
    "ran s0 c rc" "auth_ctx sc = auth_ctx s0" by simp_all
  from assms(4) steps a b c show ?thesis unfolding st
    by (cases t; cases ra; cases rb; cases rc; cases e) (simp_all add: gathered_def keep_first_def)
qed

lemma gather_fold_gathered:
  "same_ctx s0 a \<Longrightarrow> same_ctx s0 b \<Longrightarrow> same_ctx s0 c \<Longrightarrow> gathered s0 a b c st \<Longrightarrow>
   gathered s0 a b c (fold (gather_step a b c) order st)"
  by (induction order arbitrary: st) (simp_all add: gather_step_gathered)

text \<open>A task that was run left an answer or an exception behind, and neither is ever lost.\<close>

definition settled :: "('a option \<times> 'b option \<times> 'c option) \<times> exn option \<times> 'w rt \<Rightarrow> task \<Rightarrow> bool" where
  "settled = (\<lambda>((x, y, z), e, s) t. e \<noteq> None \<or>
     (case t of FirstTask \<Rightarrow> x \<noteq> None | SecondTask \<Rightarrow> y \<noteq> None | ThirdTask \<Rightarrow> z \<noteq> None))"

lemma settled_step: "settled st u \<or> u = t \<Longrightarrow> settled (gather_step a b c t st) u"
  by (cases st, cases t; cases u)
     (auto simp: settled_def keep_first_def split: prod.splits sum.splits option.splits)

lemma settled_fold: "settled st u \<or> u \<in> set order \<Longrightarrow> settled (fold (gather_step a b c) order st) u"
proof (induction order arbitrary: st)
  case Nil
  then show ?case by simp
next
  case (Cons t order)
  have "settled (gather_step a b c t st) u \<or> u \<in> set order"
    using Cons.prems settled_step [of st u t a b c] by (metis set_ConsD)
  from Cons.IH [OF this] show ?case by simp
qed

lemma gather3_Inr:
  assumes "same_ctx s a" "same_ctx s b" "same_ctx s c" and "gather3 order a b c s = (Inr (x, y, z), s')"
  shows "ran s a (Inr x) \<and> ran s b (Inr y) \<and> ran s c (Inr z)"
proof -
  have "gathered s a b c (fold (gather_step a b c) order ((None, None, None), None, s))"
    by (rule gather_fold_gathered [OF assms(1-3)]) (simp add: gathered_def)
  with assms(4) show ?thesis
    by (auto simp: gather3_def gathered_def split: prod.splits option.splits)
qed

lemma gather3_Inl:
  assumes "same_ctx s a" "same_ctx s b" "same_ctx s c" and "set order = {FirstTask, SecondTask, ThirdTask}"
    and "gather3 order a b c s = (Inl f, s')"
  shows "ran s a (Inl f) \<or> ran s b (Inl f) \<or> ran s c (Inl f)"
proof -
  let ?st = "fold (gather_step a b c) order ((None, None, None), None, s)"
  have g: "gathered s a b c ?st"
    by (rule gather_fold_gathered [OF assms(1-3)]) (simp add: gathered_def)
  have "settled ?st FirstTask" "settled ?st SecondTask" "settled ?st ThirdTask"
    by (rule settled_fold, simp add: assms(4))+
  with g assms(5) show ?thesis
    by (auto simp: gather3_def gathered_def settled_def split: prod.splits option.splits)
qed

lemma same_ctx_read:
  "same_ctx s0 (logged n (account_scoped (mapv f (unary env rpc (ret req)))))"
proof (unfold same_ctx_def, intro allI impI)
  fix s :: "'a rt" assume "auth_ctx s = auth_ctx s0"
  then show "auth_ctx (snd (logged n (account_scoped (mapv f (unary env rpc (ret req)))) s)) = auth_ctx s0"
    by (auto simp: unary_def unary_by_def io_simps split: prod.splits sum.splits option.splits
        dest: core_metadata_state)
qed

lemma ran_read_Inr:
  "ran s0 (logged n (account_scoped (mapv f (unary env rpc (ret req))))) (Inr x) \<Longrightarrow>
   \<exists>resp s1 s2. asked env rpc req s1 resp s2 \<and> auth_ctx s1 = auth_ctx s0 \<and> x = f resp"
  unfolding ran_def by (elim exE conjE, drule read_Inr) simp

lemma ran_read_Inl:
  "ran s0 (logged n (account_scoped (mapv f (unary env rpc (ret req))))) (Inl (AioRpcError c d)) \<Longrightarrow>
   \<exists>s1 s2. turned_down env rpc req s1 c d s2 \<and> auth_ctx s1 = auth_ctx s0"
  unfolding ran_def by (elim exE conjE, drule read_Inl) simp

text \<open>
  C23. The cockpit is whole or it is not there. In whatever order the three reads run: an answer
  holds the demand, the threads and the findings the core gave to this demand's three requests,
  each asked under the caller's own context, so an empty list of findings means the core said
  there are none; and a status of the core that reaches the caller is the one with which the core
  turned one of the three down.
\<close>

theorem cockpit_whole:
  assumes "set order = {FirstTask, SecondTask, ThirdTask}"
    and "get_cockpit order env st demand_id s = (r, s')"
  shows "case r of
      Inr c \<Rightarrow> (\<exists>d ts fs s1 s1' s2 s2' s3 s3'.
          asked env (GetDemand st) demand_id s1 d s1' \<and> auth_ctx s1 = auth_ctx s
        \<and> asked env (ListThreads st) demand_id s2 ts s2' \<and> auth_ctx s2 = auth_ctx s
        \<and> asked env (ListFindings st) (demand_id, []) s3 fs s3' \<and> auth_ctx s3 = auth_ctx s
        \<and> c = \<lparr>kp_demand = demand_of d, kp_threads = map thread_of ts, kp_findings = map finding_of fs\<rparr>)
    | Inl e \<Rightarrow> (\<forall>code d. e = AioRpcError code d \<longrightarrow> (\<exists>s1 s2. auth_ctx s1 = auth_ctx s
        \<and> (turned_down env (GetDemand st) demand_id s1 code d s2
         \<or> turned_down env (ListThreads st) demand_id s1 code d s2
         \<or> turned_down env (ListFindings st) (demand_id, []) s1 code d s2)))"
proof -
  let ?s = "write_log (LogCall ''get_cockpit'') s"
  let ?a = "get_demand env st demand_id" and ?b = "list_threads env st demand_id"
    and ?c = "list_findings env st demand_id []"
  have same: "same_ctx ?s ?a" "same_ctx ?s ?b" "same_ctx ?s ?c"
    by (simp_all add: get_demand_def list_threads_def list_findings_def same_ctx_read)
  show ?thesis
  proof (cases r)
    case (Inr c)
    from logged_Inr [OF assms(2) [unfolded get_cockpit_def Inr]] obtain x y z s1 where
      "gather3 order ?a ?b ?c ?s = (Inr (x, y, z), s1)" and c: "c = \<lparr>kp_demand = x, kp_threads = y, kp_findings = z\<rparr>"
      by (auto simp: scoped_Inr mapv_Inr)
    from gather3_Inr [OF same this(1)] have "ran ?s ?a (Inr x)" "ran ?s ?b (Inr y)" "ran ?s ?c (Inr z)" by simp_all
    from this [unfolded get_demand_def list_threads_def list_findings_def, THEN ran_read_Inr]
    show ?thesis unfolding Inr c by (simp, blast)
  next
    case (Inl e)
    have "\<exists>s1 s2. auth_ctx s1 = auth_ctx s
        \<and> (turned_down env (GetDemand st) demand_id s1 code d s2
         \<or> turned_down env (ListThreads st) demand_id s1 code d s2
         \<or> turned_down env (ListFindings st) (demand_id, []) s1 code d s2)" if e: "e = AioRpcError code d" for code d
    proof -
      from logged_Inl [OF assms(2) [unfolded get_cockpit_def Inl e]] obtain s1 where
        "gather3 order ?a ?b ?c ?s = (Inl (AioRpcError code d), s1)"
        by (auto dest!: scoped_Inl simp: mapv_Inl)
      from gather3_Inl [OF same assms(1) this]
      show ?thesis unfolding get_demand_def list_threads_def list_findings_def
        by - (elim disjE; drule ran_read_Inl; simp; blast)
    qed
    then show ?thesis by (simp add: Inl)
  qed
qed

definition demo_demands :: "nat demand_stub" where
  "demo_demands = \<lparr>ListDemands = answering ([demo_demand], []), GetDemand = answering demo_demand,
     ListThreads = answering [], ListFindings = failing NOT_FOUND ''no such demand'',
     StartDemand = answering demo_demand, AdvanceStage = answering (demo_stage ''plan'' 4),
     DecideGate = answering (demo_stage ''plan'' 4),
     CreateThread = answering \<lparr>th_id = ''t-1'', th_key = ''k'', th_blocked = False, th_card = None\<rparr>,
     PostMessage = answering \<lparr>cm_id = ''m-1'', cm_thread_id = ''t-1'', cm_author_kind = 1, cm_author_id = ''u-1'',
       cm_author_name = [], cm_text = ''hi'', cm_at = None\<rparr>,
     PublishFinding = failing NOT_FOUND ''no such demand''\<rparr>"

theorem cockpit_whole_witness:
  "\<exists>s'. get_cockpit [ThirdTask, FirstTask, SecondTask] demo_env demo_demands ''d-1''
       (demo_rt (Some (demo_ctx ''acc-1'' ''viewer''))) = (Inl (AioRpcError NOT_FOUND (Some ''no such demand'')), s')
     \<and> (\<exists>s1 s2. turned_down demo_env (ListFindings demo_demands) (''d-1'', []) s1 NOT_FOUND (Some ''no such demand'') s2)"
proof -
  let ?o = "[ThirdTask, FirstTask, SecondTask]"
  have "\<exists>s'. get_cockpit ?o demo_env demo_demands ''d-1'' (demo_rt (Some (demo_ctx ''acc-1'' ''viewer'')))
      = (Inl (AioRpcError NOT_FOUND (Some ''no such demand'')), s')"
    by (simp add: get_cockpit_def get_demand_def list_threads_def list_findings_def gather3_def keep_first_def
        refusal_of_def account_check_def io_simps demo_run unary_def unary_by_def core_metadata_def demo_demands_def)
  then obtain s' where run: "get_cockpit ?o demo_env demo_demands ''d-1'' (demo_rt (Some (demo_ctx ''acc-1'' ''viewer'')))
      = (Inl (AioRpcError NOT_FOUND (Some ''no such demand'')), s')" by blast
  have "set ?o = {FirstTask, SecondTask, ThirdTask}" by auto
  from cockpit_whole [OF this run] run show ?thesis
    by (auto simp: turned_down_def demo_demands_def answering_def)
qed

section \<open>A closed vocabulary of transitions\<close>

lemma StageTransition_run [io_simps]: "StageTransition status s =
    (if known_name STAGE_BY_ENUM status then Inr status else Inl (ValidationError ''status''), s)"
  by (auto simp: StageTransition_def known_name_def STAGE_BY_ENUM_def)

lemma transition_known: "known_name STAGE_BY_ENUM (enum_name bff_STAGE_BY_ENUM n) \<longleftrightarrow> known_number bff_STAGE_BY_ENUM n"
proof (cases "known_number bff_STAGE_BY_ENUM n")
  case True
  then show ?thesis using stage_statuses.edge.known_enum_name by (simp add: stage_statuses.same_known(2))
next
  case False
  then show ?thesis using stage_statuses.core.empty_absent
    by (simp add: stage_statuses.edge.name_unknown known_name_def)
qed

lemma advance_Inr: "advance_stage env st d k status key s = (Inr r, s') \<Longrightarrow>
    \<exists>ctx key' resp s1 s2. auth_ctx s = Some ctx \<and> may_call writers ctx \<and> keyed env key s key'
      \<and> asked env (AdvanceStage st) \<lparr>av_demand_id = d, av_stage_key = k, av_status = stage_status_value status,
           av_idempotency_key = key'\<rparr> s1 resp s2 \<and> r = stage_of resp"
  unfolding advance_stage_def by (drule write_Inr) blast

text \<open>
  A stage moves only to a status of the closed vocabulary. On either port a status outside it is
  a validation error (a 422, an \<^verbatim>\<open>INVALID_ARGUMENT\<close>) before anything of the outside world is touched;
  and an answer means somebody who may write asked the core to move that stage of that demand, under
  the write's key, to the very status the client named: its number on gRPC, its name on REST.
\<close>

theorem transitions_closed:
  shows "(\<not> known_number bff_STAGE_BY_ENUM n \<longrightarrow>
        refuses (grpc_AdvanceStage env st d k n key) s (ValidationError ''status''))
    \<and> (status \<notin> {''pending'', ''running'', ''blocked'', ''done''} \<longrightarrow>
        refuses (rest_advance_stage env st d k status key) s (ValidationError ''status''))
    \<and> (\<forall>b s'. grpc_AdvanceStage env st d k n key s = (Inr b, s') \<longrightarrow>
        (\<exists>ctx key' resp s1 s2. auth_ctx s = Some ctx \<and> may_call writers ctx \<and> keyed env key s key'
          \<and> asked env (AdvanceStage st)
              \<lparr>av_demand_id = d, av_stage_key = k, av_status = n, av_idempotency_key = key'\<rparr> s1 resp s2
          \<and> b = bff_stage_of (stage_of resp)))
    \<and> (\<forall>r s'. rest_advance_stage env st d k status key s = (Inr r, s') \<longrightarrow>
        (\<exists>ctx key' resp m s1 s2. auth_ctx s = Some ctx \<and> may_call writers ctx \<and> keyed env key s key'
          \<and> asked env (AdvanceStage st)
              \<lparr>av_demand_id = d, av_stage_key = k, av_status = m, av_idempotency_key = key'\<rparr> s1 resp s2
          \<and> (m, status) \<in> set STAGE_BY_ENUM \<and> r = stage_of resp))"
proof (intro conjI impI allI)
  assume "\<not> known_number bff_STAGE_BY_ENUM n"
  then show "refuses (grpc_AdvanceStage env st d k n key) s (ValidationError ''status'')"
    by (intro refusesI) (simp_all add: grpc_AdvanceStage_def StageTransition_run bnd_run transition_known)
next
  assume "status \<notin> {''pending'', ''running'', ''blocked'', ''done''}"
  then have "\<not> known_name STAGE_BY_ENUM status" by (auto simp: known_name_def STAGE_BY_ENUM_def)
  then show "refuses (rest_advance_stage env st d k status key) s (ValidationError ''status'')"
    by (intro refusesI) (simp_all add: rest_advance_stage_def StageTransition_run bnd_run)
next
  fix b s' assume a: "grpc_AdvanceStage env st d k n key s = (Inr b, s')"
  then have n: "known_number bff_STAGE_BY_ENUM n"
    by (auto simp: grpc_AdvanceStage_def StageTransition_run bnd_run transition_known split: if_splits)
  then have "stage_status_value (enum_name bff_STAGE_BY_ENUM n) = n"
    by (simp add: stage_status_value_def stage_statuses.crossing_in)
  moreover from a n obtain r where "advance_stage env st d k (enum_name bff_STAGE_BY_ENUM n) key s = (Inr r, s')"
    "b = bff_stage_of r"
    by (auto simp: grpc_AdvanceStage_def StageTransition_run bnd_run transition_known mapv_Inr)
  ultimately show "\<exists>ctx key' resp s1 s2. auth_ctx s = Some ctx \<and> may_call writers ctx \<and> keyed env key s key'
          \<and> asked env (AdvanceStage st)
              \<lparr>av_demand_id = d, av_stage_key = k, av_status = n, av_idempotency_key = key'\<rparr> s1 resp s2
          \<and> b = bff_stage_of (stage_of resp)"
    using advance_Inr by fastforce
next
  fix r s' assume a: "rest_advance_stage env st d k status key s = (Inr r, s')"
  then have n: "known_name STAGE_BY_ENUM status" and r: "advance_stage env st d k status key s = (Inr r, s')"
    by (auto simp: rest_advance_stage_def StageTransition_run bnd_run split: if_splits)
  then obtain m where m: "(m, status) \<in> set STAGE_BY_ENUM" by (auto simp: known_name_def)
  then have v: "stage_status_value status = m"
    by (simp add: stage_status_value_def stage_statuses.core.value_in)
  with m advance_Inr [OF r, unfolded v] show "\<exists>ctx key' resp m s1 s2. auth_ctx s = Some ctx \<and> may_call writers ctx
          \<and> keyed env key s key' \<and> asked env (AdvanceStage st)
              \<lparr>av_demand_id = d, av_stage_key = k, av_status = m, av_idempotency_key = key'\<rparr> s1 resp s2
          \<and> (m, status) \<in> set STAGE_BY_ENUM \<and> r = stage_of resp" by blast
qed

theorem transitions_closed_witness:
  "refuses (grpc_AdvanceStage demo_env demo_demands ''d-1'' ''plan'' 9 ''k'') (demo_rt None) (ValidationError ''status'')"
  using transitions_closed [of 9 demo_env demo_demands "''d-1''" "''plan''" "''k''" "demo_rt None"]
  by (simp add: known_number_def bff_STAGE_BY_ENUM_def)

section \<open>Who said it\<close>

text \<open>
  A message is recorded as said by whoever said it. An answer to posting means somebody who may
  write, in an account, had the core take that text on that thread, under the write's key, in a call
  whose headers name the caller as the actor, the account as the account, and as the actor's kind
  the one the use case was told, the signed assertion saying the same whenever there is a key to
  sign with. That call carries neither the caller's own token nor a session.
\<close>

theorem message_says_who_spoke:
  assumes "post_message env st thread body key kind s = (Inr m, s')"
  shows "\<exists>ctx k md resp w w'. auth_ctx s = Some ctx \<and> may_call writers ctx \<and> keyed env key s k
    \<and> PostMessage st \<lparr>pm_thread_id = thread, pm_text = body, pm_idempotency_key = k\<rparr> (opts_of env md) w = (Inr resp, w')
    \<and> m = message_of resp
    \<and> map_of md ''x-actor-id'' = Some (a_user_id ctx) \<and> map_of md ''x-account-id'' = Some (a_account_id ctx)
    \<and> map_of md ''x-actor-kind'' = Some kind
    \<and> map_of md ''authorization'' = None \<and> map_of md ''x-session-id'' = Some []
    \<and> (\<forall>t. map_of md ''x-dop-assertion'' = Some t \<longrightarrow> (\<exists>expires mac.
        read_assertion t = Some ([''bff'', a_user_id ctx, kind, a_account_id ctx, [], expires], mac)))
    \<and> (map_of md ''x-dop-assertion'' = None \<longleftrightarrow> call_auth_key (cfg env) = [])"
proof -
  from logged_Inr [OF assms [unfolded post_message_def]] obtain ctx k s1 md s2 resp w' where
    ctx: "auth_ctx s = Some ctx" "may_call writers ctx"
    and k: "idempotency env key (write_log (LogCall ''post_message'') s) = (Inr k, s1)"
    and md: "metadata_for env (author_args ctx kind) s1 = (Inr md, s2)"
    and r: "PostMessage st \<lparr>pm_thread_id = thread, pm_text = body, pm_idempotency_key = k\<rparr> (opts_of env md) (ext s2) = (Inr resp, w')"
    and m: "m = message_of resp"
    by (auto simp: managed_Inr bnd_Inr mapv_Inr call_iff_Inr channel_Inr from_ctx_run split: option.splits)
  from k have "keyed env key s k" by (auto simp: idempotency_Inr keyed_def split: if_splits)
  moreover have "has_actor (author_args ctx kind)"
    using ctx(2) by (simp add: has_actor_def author_args_def may_call_def)
  moreover note metadata_for_says [OF md]
  moreover have "m_user_id (author_args ctx kind) = a_user_id ctx" "m_account_id (author_args ctx kind) = a_account_id ctx"
    "m_actor_kind (author_args ctx kind) = kind" "m_session_id (author_args ctx kind) = []"
    "m_raw_token (author_args ctx kind) = []"
    by (simp_all add: author_args_def no_args_def)
  ultimately have "keyed env key s k"
    "map_of md ''x-actor-id'' = Some (a_user_id ctx)" "map_of md ''x-account-id'' = Some (a_account_id ctx)"
    "map_of md ''x-actor-kind'' = Some kind" "map_of md ''authorization'' = None" "map_of md ''x-session-id'' = Some []"
    "\<forall>t. map_of md ''x-dop-assertion'' = Some t \<longrightarrow> (\<exists>expires mac.
        read_assertion t = Some ([''bff'', a_user_id ctx, kind, a_account_id ctx, [], expires], mac))"
    "map_of md ''x-dop-assertion'' = None \<longleftrightarrow> call_auth_key (cfg env) = []"
    by simp_all
  with ctx r m show ?thesis by - (intro exI conjI, assumption+)
qed

theorem message_says_who_spoke_witness:
  "\<exists>md w w' resp. PostMessage demo_demands \<lparr>pm_thread_id = ''t-1'', pm_text = ''hi'', pm_idempotency_key = ''k''\<rparr>
       (opts_of demo_env md) w = (Inr resp, w') \<and> map_of md ''x-actor-kind'' = Some ''agent''"
proof -
  have "\<exists>m s'. post_message demo_env demo_demands ''t-1'' ''hi'' ''k'' ''agent''
      (demo_rt (Some (demo_ctx ''acc-1'' ''developer''))) = (Inr m, s')"
    by (simp add: post_message_def io_simps writers_def demo_run author_args_def no_args_def demo_demands_def)
  then obtain m s' where "post_message demo_env demo_demands ''t-1'' ''hi'' ''k'' ''agent''
      (demo_rt (Some (demo_ctx ''acc-1'' ''developer''))) = (Inr m, s')" by blast
  from message_says_who_spoke [OF this] show ?thesis by (auto simp: keyed_def)
qed

end
