(* ===== verification/EndToEnd.thy ===== *)
theory EndToEnd
  imports Surface Grpc_Surface Demand
begin

text \<open>
  A request through the whole edge: the door it came by (Gateway, Surface, Grpc_Surface), the core's answer on
  who the caller is (Resolver), the decorators and the use case (Demand), and the call of the core it ends
  in (CoreClient).
\<close>

section \<open>Through a door\<close>

lemma dispatch_runs:
  assumes "auth_dispatch fe reg (Some resolve) rq m s = (Inr (Inr x), s')"
    and "\<not> is_public reg rq" and "rq_path rq \<notin> set UNAUTHENTICATED_PATHS" and "\<not> is_token_only reg rq"
  shows "\<exists>p who s1 s2 s3. header (rq_headers rq) ''authorization'' \<noteq> []
    \<and> verify fe (header (rq_headers rq) ''authorization'') s = (Inr p, s1)
    \<and> resolve p (header (rq_headers rq) ''x-account-id'') (bearer (header (rq_headers rq) ''authorization'')) s1 = (Inr who, s2)
    \<and> m (s2\<lparr>auth_ctx := Some (context_of p (bearer (header (rq_headers rq) ''authorization''))
           (header (rq_headers rq) ''x-account-id'') who)\<rparr>) = (Inr x, s3)"
  using assms
  by (auto simp: auth_dispatch_def Let_def json_def rest_resolve_def io_simps split: if_splits prod.splits sum.splits exn.splits)

lemma wrap_runs:
  assumes "auth_wrap fe (Some resolve) False md m s = (Inr x, s')"
  shows "\<exists>p who s1 s2 s3. header md ''authorization'' \<noteq> []
    \<and> verify fe (header md ''authorization'') s = (Inr p, s1)
    \<and> resolve p (header md ''x-account-id'') (bearer (header md ''authorization'')) s1 = (Inr who, s2)
    \<and> m (s2\<lparr>auth_ctx := Some (context_of p (bearer (header md ''authorization''))
           (header md ''x-account-id'') who)\<rparr>) = (Inr x, s3)"
  using assms
  by (auto simp: auth_wrap_def authenticate_def resolve_account_def Let_def io_simps
      split: if_splits prod.splits sum.splits exn.splits)

lemma unary_wrap:
  assumes "grpc_unary fe resolver path peer False md m s = (Inr (Inr x), s')"
  obtains s1 s2 where "auth_wrap fe resolver False (metadata_dict md) m s1 = (Inr x, s2)" and "auth_ctx s1 = auth_ctx s"
  using assms that
  by (auto simp: grpc_unary_def log_wrap_def error_wrap_def request_id_of_def io_simps split: if_splits prod.splits sum.splits)

section \<open>To the core\<close>

text \<open>
  The metadata of a call made as the user \<open>user_id\<close> of the account \<open>account_id\<close> in the session of \<open>p\<close>, with
  the token \<open>raw_token\<close>; with a key configured, signed as just that.
\<close>

definition speaks_for :: "'w env \<Rightarrow> principal \<Rightarrow> string \<Rightarrow> string \<Rightarrow> string \<Rightarrow> (string \<times> string) list \<Rightarrow> bool" where
  "speaks_for env p raw_token account_id user_id md \<longleftrightarrow>
     map_of md ''authorization'' = (if raw_token = [] then None else Some (''Bearer '' @ raw_token))
     \<and> map_of md ''x-account-id'' = Some account_id \<and> map_of md ''x-actor-id'' = Some user_id
     \<and> map_of md ''x-actor-kind'' = Some ''user'' \<and> map_of md ''x-session-id'' = Some (p_session_id p)
     \<and> (call_auth_key (cfg env) \<noteq> [] \<longrightarrow> (\<exists>a expires mac. map_of md ''x-dop-assertion'' = Some a
         \<and> read_assertion a = Some ([''bff'', user_id, ''user'', account_id, p_session_id p, expires], mac)))"

lemma asked_speaks:
  assumes "asked env rpc req s resp s'" and "auth_ctx s = Some (context_of p raw_token account_id who)" and "account_id \<noteq> []"
  shows "\<exists>opts w w'. rpc req opts w = (Inr resp, w') \<and> co_timeout opts = Some (core_deadline_s (cfg env))
    \<and> speaks_for env p raw_token account_id (fst who) (co_metadata opts)"
proof -
  from assms(1) obtain md s1 w where md: "core_metadata env s = (Inr md, s1)"
    and c: "rpc req (opts_of env md) (ext s1) = (Inr resp, w)" by (auto simp: asked_def)
  obtain user_id role gr where who: "who = (user_id, role, gr)" by (cases who)
  let ?a = "ctx_args (Some (context_of p raw_token account_id who))"
  from md assms(2) have "metadata_for env ?a s = (Inr md, s1)" by (simp add: core_metadata_def io_simps)
  from metadata_for_says [OF this] assms(3)
  have "speaks_for env p raw_token account_id user_id md"
    by (auto simp: speaks_for_def ctx_args_def context_of_def who has_actor_def no_args_def)
  with c who show ?thesis by (intro exI [of _ "opts_of env md"] exI [of _ "ext s1"] exI [of _ w]) (simp add: opts_of_def)
qed

text \<open>
  A read of a demand that answered, seen from its caller's headers: somebody the verifier accepted, whom the
  core named, asked for exactly that demand; and the core was asked for it in their name.
\<close>

definition asked_as_caller :: "'w fb_env \<Rightarrow> 'w identity_stub \<Rightarrow> 'w demand_stub \<Rightarrow> (string \<rightharpoonup> string) \<Rightarrow> 'w rt \<Rightarrow> string
    \<Rightarrow> core_demand \<Rightarrow> bool" where
  "asked_as_caller fe st dst h s demand_id resp \<longleftrightarrow> header h ''authorization'' \<noteq> [] \<and> header h ''x-account-id'' \<noteq> []
     \<and> (\<exists>p who s1 s2 s3 opts w w'. auth_ctx s1 = auth_ctx s
         \<and> verify fe (header h ''authorization'') s1 = (Inr p, s2)
         \<and> core_resolver (f_env fe) st p (header h ''x-account-id'') (bearer (header h ''authorization'')) s2 = (Inr who, s3)
         \<and> GetDemand dst demand_id opts w = (Inr resp, w')
         \<and> co_timeout opts = Some (core_deadline_s (cfg (f_env fe)))
         \<and> speaks_for (f_env fe) p (bearer (header h ''authorization'')) (header h ''x-account-id'') (fst who) (co_metadata opts))"

lemma demand_asked_as:
  assumes "get_demand env dst demand_id (s\<lparr>auth_ctx := Some (context_of p raw_token account_id who)\<rparr>) = (Inr x, s')"
  shows "account_id \<noteq> [] \<and> (\<exists>resp opts w w'. x = demand_of resp \<and> GetDemand dst demand_id opts w = (Inr resp, w')
    \<and> co_timeout opts = Some (core_deadline_s (cfg env)) \<and> speaks_for env p raw_token account_id (fst who) (co_metadata opts))"
proof -
  let ?ctx = "context_of p raw_token account_id who"
  let ?s = "write_log (LogCall ''get_demand'') (s\<lparr>auth_ctx := Some ?ctx\<rparr>)"
  from logged_Inr [OF assms [unfolded get_demand_def]] obtain resp s1 where acc: "a_account_id ?ctx \<noteq> []"
    and a: "asked env (GetDemand dst) demand_id ?s resp s1" "x = demand_of resp"
    by (auto simp: scoped_Inr mapv_Inr unary_asked)
  from acc have acc: "account_id \<noteq> []" by (simp add: context_of_def split: prod.splits)
  with asked_speaks [OF a(1) _ this] a(2) show ?thesis by simp blast
qed

section \<open>Whole\<close>

lemma caller_asked:
  assumes "auth_ctx s1 = auth_ctx s" and "header h ''authorization'' \<noteq> []"
    and "verify fe (header h ''authorization'') s1 = (Inr p, s2)"
    and "core_resolver (f_env fe) st p (header h ''x-account-id'') (bearer (header h ''authorization'')) s2 = (Inr who, s3)"
    and "get_demand (f_env fe) dst demand_id (s3\<lparr>auth_ctx := Some (context_of p (bearer (header h ''authorization''))
           (header h ''x-account-id'') who)\<rparr>) = (Inr x, s4)"
  shows "\<exists>resp. x = demand_of resp \<and> asked_as_caller fe st dst h s demand_id resp"
proof -
  from demand_asked_as [OF assms(5)] obtain resp opts w w' where "header h ''x-account-id'' \<noteq> []"
    "x = demand_of resp" "GetDemand dst demand_id opts w = (Inr resp, w')"
    "co_timeout opts = Some (core_deadline_s (cfg (f_env fe)))"
    "speaks_for (f_env fe) p (bearer (header h ''authorization'')) (header h ''x-account-id'') (fst who) (co_metadata opts)"
    by blast
  with assms(1-4) show ?thesis unfolding asked_as_caller_def by blast
qed

text \<open>
  C3. One request, end to end. Whatever port a client reads a demand by, if it is given one then: it sent a
  token and an account; the verifier accepted the token; the core said which of its users that is; and what
  it was given is the core's answer to one question about that very demand, asked within the deadline in that
  user's name and no other's: the account is the header's, the user the one the core had named for this
  token, the session the token's, the token forwarded whole, and the assertion signs exactly these.
\<close>

theorem asked_in_the_callers_name:
  assumes "set (flatten routes) = set framework \<union> leaf_of ` set app_routes" and "\<forall>r \<in> set framework. unmarked r"
  shows "(rest_app fe st routes q client (get_demand (f_env fe) dst demand_id) s = (Inr (Inr x, rid), s')
        \<and> rq_path q = ''/api/v1/demands/'' @ demand_id \<longrightarrow>
        (\<exists>resp. x = demand_of resp \<and> asked_as_caller fe st dst (rq_headers q) s demand_id resp))
    \<and> (answer_unary fe (Some (core_resolver (f_env fe) st)) edge_handlers ''/dop.bff.v1.DemandService/GetDemand'' peer md
          (\<lambda>_. grpc_GetDemand (f_env fe) dst demand_id) s = (Inr (Inr y), s') \<longrightarrow>
        (\<exists>resp. y = bff_demand_of (demand_of resp) \<and> asked_as_caller fe st dst (metadata_dict md) s demand_id resp))"
proof (intro conjI impI; (elim conjE)?)
  let ?reg = "register_public_routes routes \<lparr>PUBLIC_PATTERNS = [], TOKEN_ONLY_PATTERNS = []\<rparr>"
  assume run: "rest_app fe st routes q client (get_demand (f_env fe) dst demand_id) s = (Inr (Inr x, rid), s')"
    and path: "rq_path q = ''/api/v1/demands/'' @ demand_id"
  from log_dispatch_Inr [OF run [unfolded rest_app_def]] obtain s1 s2 where
    a: "auth_dispatch fe ?reg (Some (core_resolver (f_env fe) st)) q (exception_layer (get_demand (f_env fe) dst demand_id)) s1
      = (Inr (Inr (Inr x)), s2)"
    and c: "auth_ctx s1 = auth_ctx s" unfolding rest_door_Inr by blast
  have "\<not> is_public ?reg q" "\<not> is_token_only ?reg q" "rq_path q \<notin> set UNAUTHENTICATED_PATHS"
    by (simp_all add: exempt_exactly [OF assms] path UNAUTHENTICATED_PATHS_def)
  from dispatch_runs [OF a this(1,3,2), unfolded exception_layer_Inr] caller_asked [OF c]
  show "\<exists>resp. x = demand_of resp \<and> asked_as_caller fe st dst (rq_headers q) s demand_id resp" by blast
next
  let ?path = "''/dop.bff.v1.DemandService/GetDemand''" and ?m = "grpc_GetDemand (f_env fe) dst demand_id"
  assume run: "answer_unary fe (Some (core_resolver (f_env fe) st)) edge_handlers ?path peer md (\<lambda>_. ?m) s = (Inr (Inr y), s')"
  have "found edge_handlers ?path = Some \<lparr>hd_path = ?path, hd_kind = UnaryUnary,
      hd_request = ''demand_pb2.GetDemandRequest'', hd_response = ''demand_pb2.Demand'', hd_behaviour = Written Coroutine\<rparr>"
    by code_simp
  with run have "grpc_unary fe (Some (core_resolver (f_env fe) st)) ?path peer False md ?m s = (Inr (Inr y), s')"
    by (auto simp: answer_unary_def intercept_service_def)
  then obtain s1 s2 where w: "auth_wrap fe (Some (core_resolver (f_env fe) st)) False (metadata_dict md) ?m s1 = (Inr y, s2)"
    and c: "auth_ctx s1 = auth_ctx s"
    by (rule unary_wrap)
  from wrap_runs [OF w] caller_asked [OF c, of "metadata_dict md" fe]
  show "\<exists>resp. y = bff_demand_of (demand_of resp) \<and> asked_as_caller fe st dst (metadata_dict md) s demand_id resp"
    by (fastforce simp: grpc_GetDemand_def mapv_Inr)
qed

theorem asked_in_the_callers_name_witness:
  "\<exists>x rid s'. rest_app demo_fb demo_identity demo_routes (demo_get ''/api/v1/demands/d-1'') None
      (get_demand demo_env demo_demands ''d-1'') (demo_rt None) = (Inr (Inr x, rid), s')
    \<and> (\<exists>resp. x = demand_of resp
        \<and> asked_as_caller demo_fb demo_identity demo_demands (rq_headers (demo_get ''/api/v1/demands/d-1'')) (demo_rt None) ''d-1'' resp)"
proof -
  have g: "upper ''GET'' = ''GET''" by code_simp
  have role: "role_name 3 = ''developer''" by code_simp
  have h: "header (rq_headers (demo_get c)) ''authorization'' = ''Bearer a.b.c''"
      "header (rq_headers (demo_get c)) ''x-account-id'' = ''acc-1''"
      "header (rq_headers (demo_get c)) ''x-request-id'' = ''r-1''" "rq_path (demo_get c) = c" for c
    by (simp_all add: header_def demo_get_def)
  have e: "f_env demo_fb = demo_env" by (simp add: demo_fb_def)
  have p: "\<not> is_public (register_public_routes demo_routes reg) (demo_get ''/api/v1/demands/d-1'')"
      "\<not> is_token_only (register_public_routes demo_routes reg) (demo_get ''/api/v1/demands/d-1'')" for reg
    by (simp_all add: exempt_exactly [OF demo_routes_flat demo_unmarked] h)
  have "\<exists>x rid s'. rest_app demo_fb demo_identity demo_routes (demo_get ''/api/v1/demands/d-1'') None
      (get_demand demo_env demo_demands ''d-1'') (demo_rt None) = (Inr (Inr x, rid), s')"
    using p
    by (simp add: rest_app_def rest_door_def one_answer_def exception_layer_def log_dispatch_def request_id_of_def auth_dispatch_def rest_resolve_def h e demo_verify
        UNAUTHENTICATED_PATHS_def Let_def core_resolver_def ensure_user_def assert_membership_def role_in_account_def
        via_http_def io_simps demo_run idempotency_key_def demo_identity_def get_demand_def unary_def unary_by_def
        core_metadata_def demo_demands_def refusal_of_def account_check_def context_of_def
        role grants_def demo_user_def demo_account_def demo_membership_def current_request_id_def request_fields_def)
  then obtain x rid s' where run: "rest_app demo_fb demo_identity demo_routes (demo_get ''/api/v1/demands/d-1'') None
      (get_demand demo_env demo_demands ''d-1'') (demo_rt None) = (Inr (Inr x, rid), s')" by blast
  have "\<exists>resp. x = demand_of resp
      \<and> asked_as_caller demo_fb demo_identity demo_demands (rq_headers (demo_get ''/api/v1/demands/d-1'')) (demo_rt None) ''d-1'' resp"
    using asked_in_the_callers_name [OF demo_routes_flat demo_unmarked, THEN conjunct1, rule_format, of demo_fb] run h(4) e
    by (fastforce simp: e)
  with run show ?thesis by blast
qed

end
