(* ===== verification/Links.thy ===== *)
theory Links
  imports CoreClient
begin

text \<open>
  \<^verbatim>\<open>app/platform/security/firebase_admin.py\<close>: minting a verification link, and moving it to our
  own host. The two functions of \<^verbatim>\<open>urllib.parse\<close> it uses are written out for the text they
  get here: \<^verbatim>\<open>urlsplit\<close> without its refusal of malformed brackets and of hosts whose Unicode
  normal form hides a separator, both of which raise before a link is built.
\<close>

section \<open>URLs\<close>

record url =
  u_scheme :: string
  u_netloc :: string
  u_path :: string
  u_query :: string
  u_fragment :: string

definition code :: "char \<Rightarrow> nat" where
  "code c = of_char c"

definition is_alpha :: "char \<Rightarrow> bool" where
  "is_alpha c \<longleftrightarrow> (65 \<le> code c \<and> code c \<le> 90) \<or> (97 \<le> code c \<and> code c \<le> 122)"

definition scheme_char :: "char \<Rightarrow> bool" where
  "scheme_char c \<longleftrightarrow> is_alpha c \<or> (48 \<le> code c \<and> code c \<le> 57) \<or> c \<in> set ''+-.''"

text \<open>Leading control characters and spaces go; tabs and line ends go everywhere.\<close>

definition cleaned :: "string \<Rightarrow> string" where
  "cleaned s = filter (\<lambda>c. code c \<notin> {9, 10, 13}) (dropWhile (\<lambda>c. code c \<le> 32) s)"

text \<open>\<^verbatim>\<open>s.partition(c)\<close> for one character: what comes before, and what comes after if it is there.\<close>

definition before :: "char \<Rightarrow> string \<Rightarrow> string" where
  "before c s = takeWhile (\<lambda>x. x \<noteq> c) s"

definition after_char :: "char \<Rightarrow> string \<Rightarrow> string" where
  "after_char c s = drop 1 (dropWhile (\<lambda>x. x \<noteq> c) s)"

definition split_scheme :: "string \<Rightarrow> string \<times> string" where
  "split_scheme s =
     (if CHR '':'' \<in> set s \<and> before CHR '':'' s \<noteq> [] \<and> is_alpha (hd s)
         \<and> (\<forall>c \<in> set (before CHR '':'' s). scheme_char c)
      then (lower (before CHR '':'' s), after_char CHR '':'' s) else ([], s))"

definition split_netloc :: "string \<Rightarrow> string \<times> string" where
  "split_netloc s = (if startswith ''//'' s
     then (takeWhile (\<lambda>c. c \<notin> set ''/?#'') (drop 2 s), dropWhile (\<lambda>c. c \<notin> set ''/?#'') (drop 2 s))
     else ([], s))"

definition urlsplit :: "string \<Rightarrow> url" where
  "urlsplit link = (case split_scheme (cleaned link) of (scheme, rest) \<Rightarrow>
     (case split_netloc rest of (netloc, rest') \<Rightarrow>
       (let body = before CHR ''#'' rest'
        in \<lparr>u_scheme = scheme, u_netloc = netloc, u_path = before CHR ''?'' body,
            u_query = after_char CHR ''?'' body, u_fragment = after_char CHR ''#'' rest'\<rparr>)))"

text \<open>\<^verbatim>\<open>urlunsplit\<close> of parts with a host, the only ones that reach it.\<close>

definition urlunsplit :: "url \<Rightarrow> string" where
  "urlunsplit u =
     (let path = (if u_path u \<noteq> [] \<and> hd (u_path u) \<noteq> CHR ''/'' then CHR ''/'' # u_path u else u_path u)
      in (if u_scheme u = [] then [] else u_scheme u @ '':'') @ ''//'' @ u_netloc u @ path
         @ (if u_query u = [] then [] else CHR ''?'' # u_query u)
         @ (if u_fragment u = [] then [] else CHR ''#'' # u_fragment u))"

text \<open>\<^verbatim>\<open>.hostname\<close>: no credentials, no port, in lower case; None is the empty text.\<close>

definition after_last :: "char \<Rightarrow> string \<Rightarrow> string" where
  "after_last c s = rev (takeWhile (\<lambda>x. x \<noteq> c) (rev s))"

definition hostname :: "string \<Rightarrow> string" where
  "hostname netloc =
     (let info = after_last CHR ''@'' netloc;
          host = (if CHR ''['' \<in> set info then before CHR '']'' (after_char CHR ''['' info)
                  else before CHR '':'' info)
      in lower (before (CHR 0x25) host) @ dropWhile (\<lambda>c. c \<noteq> CHR 0x25) host)"

definition on_our_domain :: "string \<Rightarrow> string \<Rightarrow> string" where
  "on_our_domain link auth_domain =
     (if auth_domain = [] then link
      else let parts = urlsplit link in
        if hostname (u_netloc parts) = [] \<or> \<not> endswith ''.firebaseapp.com'' (hostname (u_netloc parts))
        then link
        else urlunsplit (parts\<lparr>u_netloc := auth_domain\<rparr>))"

section \<open>Minting\<close>

text \<open>
  What the client takes from outside: its token cache in the world, the metadata server's answer
  to a request for a token (the token and its seconds of life), and Identity Platform's answer to
  \<^verbatim>\<open>sendOobCode\<close> (status, text, and the \<^verbatim>\<open>oobLink\<close> of the body).
\<close>

record link_request =
  lr_url :: string
  lr_email :: string
  lr_return_link :: bool
  lr_authorization :: "string option"

record 'w admin_env =
  ad_project :: string
  ad_emulator :: string
  ad_cache :: "'w \<Rightarrow> token_cache"
  ad_put_cache :: "token_cache \<Rightarrow> 'w \<Rightarrow> 'w"
  ad_http_token :: "'w \<Rightarrow> (exn + string \<times> real) \<times> 'w"
  ad_http_link :: "link_request \<Rightarrow> 'w \<Rightarrow> (exn + int \<times> string \<times> string) \<times> 'w"

definition lift_exn :: "('w \<Rightarrow> (exn + 'a) \<times> 'w) \<Rightarrow> ('w, 'a) io" where
  "lift_exn f = bnd (outside f) (\<lambda>r. case r of Inl e \<Rightarrow> raise e | Inr x \<Rightarrow> ret x)"

definition base_url :: "'w admin_env \<Rightarrow> string" where
  "base_url ad = (if ad_emulator ad = [] then ''https://identitytoolkit.googleapis.com/v1''
     else ''http://'' @ ad_emulator ad @ ''/identitytoolkit.googleapis.com/v1'')"

definition access_token :: "'w env \<Rightarrow> 'w admin_env \<Rightarrow> ('w, string) io" where
  "access_token env ad =
     (if ad_emulator ad \<noteq> [] then ret []
      else bnd (outside (time_now env)) (\<lambda>now.
        bnd (ask (\<lambda>s. ad_cache ad (ext s))) (\<lambda>c.
        if tc_token c \<noteq> [] \<and> now < tc_expires_at c - SKEW then ret (tc_token c)
        else bnd (lift_exn (ad_http_token ad)) (\<lambda>(token, expires_in).
          bnd (outside (\<lambda>w. ((), ad_put_cache ad \<lparr>tc_token = token, tc_expires_at = now + expires_in\<rparr> w))) (\<lambda>_.
          ret token)))))"

definition verification_link :: "'w env \<Rightarrow> 'w admin_env \<Rightarrow> string \<Rightarrow> ('w, string) io" where
  "verification_link env ad email =
     bnd (access_token env ad) (\<lambda>token.
     bnd (lift_exn (ad_http_link ad \<lparr>lr_url = base_url ad @ ''/projects/'' @ ad_project ad @ ''/accounts:sendOobCode'',
            lr_email = email, lr_return_link = True,
            lr_authorization = (if token = [] then None else Some (''Bearer '' @ token))\<rparr>))
       (\<lambda>(status, text, link).
         if status \<noteq> 200 then raise (LinkNotGenerated (''HTTP '' @ str_int status @ '': '' @ take 300 text))
         else if link = [] then raise (LinkNotGenerated ''Identity Platform answered 200 with no oobLink'')
         else ret link))"

end
