(* ===== verification/Identity.thy ===== *)
theory Identity
  imports Resolver Links Usecase
begin

text \<open>
  \<^verbatim>\<open>app/usecases/identity.py\<close>: profile, onboarding journey, accounts, members and invites. Each
  use case is the whole function: its decorators, its request, its call and the model it answers.
\<close>

section \<open>The edge's models\<close>

record me_response =
  me_subject :: string
  me_user_id :: string
  me_email :: string
  me_name :: string
  me_providers :: "string list"
  me_account_id :: string
  me_role :: string
  me_avatar_url :: string
  me_locale :: string
  me_timezone :: string
  me_phone :: string
  me_phone_verified :: bool
  me_email_verified :: bool
  me_birth_date :: string
  me_onboarded :: bool
  me_phone_whatsapp :: bool

record account_summary =
  as_id :: string
  as_handle :: string
  as_display_name :: string
  as_kind :: string
  as_role :: string
  as_plan_key :: string

record profile_patch =
  pp_name :: "string option"
  pp_birth_date :: "string option"
  pp_locale :: "string option"
  pp_timezone :: "string option"
  pp_phone :: "string option"
  pp_phone_whatsapp :: "bool option"

record onboarding_state =
  os_steps :: "(string \<times> string) list"
  os_current :: string
  os_complete :: bool
  os_email_verified :: bool
  os_phone :: string
  os_phone_verified :: bool
  os_code_connections :: int
  os_task_connections :: int
  os_plan_key :: string
  os_personal_account_id :: string

record handle_availability =
  ha_handle :: string
  ha_available :: bool
  ha_suggestion :: string

record member_summary =
  ms_id :: string
  ms_user_id :: string
  ms_role :: string

record grant_spec =
  gs_resource_id :: string
  gs_level :: string

record new_account =
  na_handle :: string
  na_display_name :: string
  na_legal_id :: string

record new_invite =
  ni_email :: string
  ni_role :: string
  ni_grants :: "grant_spec list"

record invite_summary =
  is_id :: string
  is_email :: string
  is_role :: string
  is_status :: string
  is_expires_at :: "string option"

record invite_preview =
  ip_id :: string
  ip_account_name :: string
  ip_role :: string
  ip_status :: string
  ip_expires_at :: "string option"
  ip_usable :: bool

record accepted_invite =
  ai_account_id :: string
  ai_account_name :: string
  ai_role :: string

section \<open>Conversions\<close>

definition user_summary :: "core_user \<Rightarrow> auth_context \<Rightarrow> me_response" where
  "user_summary u ctx = \<lparr>me_subject = p_subject (a_principal ctx), me_user_id = a_user_id ctx,
     me_email = p_email (a_principal ctx), me_name = str_or (cu_name u) (p_name (a_principal ctx)),
     me_providers = p_providers (a_principal ctx), me_account_id = a_account_id ctx,
     me_role = a_role ctx, me_avatar_url = cu_avatar_url u, me_locale = cu_locale u,
     me_timezone = cu_timezone u, me_phone = cu_phone u, me_phone_verified = cu_phone_verified u,
     me_email_verified = cu_email_verified u, me_birth_date = cu_birth_date u,
     me_onboarded = cu_onboarded u, me_phone_whatsapp = cu_phone_whatsapp u\<rparr>"

definition onboarding_of :: "core_onboarding \<Rightarrow> onboarding_state" where
  "onboarding_of st = \<lparr>os_steps = co_steps st, os_current = co_current st, os_complete = co_complete st,
     os_email_verified = co_email_verified st, os_phone = co_phone st,
     os_phone_verified = co_phone_verified st, os_code_connections = co_code_connections st,
     os_task_connections = co_task_connections st, os_plan_key = co_plan_key st,
     os_personal_account_id = co_personal_account_id st\<rparr>"

definition account_summary_of :: "core_account \<Rightarrow> string \<Rightarrow> account_summary" where
  "account_summary_of a role = \<lparr>as_id = ca_id a, as_handle = ca_handle a,
     as_display_name = ca_display_name a, as_kind = account_kind_name (ca_kind a), as_role = role,
     as_plan_key = ca_plan_key a\<rparr>"

definition invite_of :: "core_invite \<Rightarrow> invite_summary" where
  "invite_of i = \<lparr>is_id = ci_id i, is_email = ci_email i, is_role = role_name (ci_role i),
     is_status = invite_status_name (ci_status i), is_expires_at = ts_text (ci_expires_at i)\<rparr>"

definition member_of :: "membership \<Rightarrow> member_summary" where
  "member_of m = \<lparr>ms_id = mb_id m, ms_user_id = mb_user_id m, ms_role = role_name (mb_role m)\<rparr>"

section \<open>Profile and onboarding\<close>

definition me :: "'w env \<Rightarrow> 'w identity_stub \<Rightarrow> ('w, me_response) io" where
  "me env st = logged ''me''
     (with_ctx (\<lambda>ctx u. user_summary u ctx) (unary env (GetUser st) (from_ctx a_user_id)))"

definition profile_request :: "profile_patch \<Rightarrow> update_profile_request" where
  "profile_request b = \<lparr>up_name = pp_name b, up_birth_date = pp_birth_date b, up_locale = pp_locale b,
     up_timezone = pp_timezone b, up_phone = pp_phone b, up_phone_whatsapp = pp_phone_whatsapp b\<rparr>"

definition update_profile :: "'w env \<Rightarrow> 'w identity_stub \<Rightarrow> profile_patch \<Rightarrow> ('w, me_response) io" where
  "update_profile env st body = logged ''update_profile''
     (with_ctx (\<lambda>ctx u. user_summary u ctx) (unary env (UpdateProfile st) (ret (profile_request body))))"

definition onboarding :: "'w env \<Rightarrow> 'w identity_stub \<Rightarrow> ('w, onboarding_state) io" where
  "onboarding env st = logged ''onboarding''
     (mapv onboarding_of (unary env (GetOnboarding st) (ret ())))"

definition record_step :: "'w env \<Rightarrow> 'w identity_stub \<Rightarrow> string \<Rightarrow> string \<Rightarrow> ('w, onboarding_state) io" where
  "record_step env st step status = logged ''record_step''
     (mapv onboarding_of (unary env (RecordOnboardingStep st) (ret (step, status))))"

definition complete_onboarding :: "'w env \<Rightarrow> 'w identity_stub \<Rightarrow> ('w, onboarding_state) io" where
  "complete_onboarding env st = logged ''complete_onboarding''
     (mapv onboarding_of (unary env (CompleteOnboarding st) (ret ())))"

definition handle_availability :: "'w env \<Rightarrow> 'w identity_stub \<Rightarrow> string \<Rightarrow> ('w, handle_availability) io" where
  "handle_availability env st handle = logged ''handle_availability''
     (mapv (\<lambda>h. \<lparr>ha_handle = ch_handle h, ha_available = ch_available h, ha_suggestion = ch_suggestion h\<rparr>)
       (unary env (CheckHandle st) (ret handle)))"

definition update_personal_account :: "'w env \<Rightarrow> 'w identity_stub \<Rightarrow> string \<times> string \<Rightarrow> ('w, account_summary) io" where
  "update_personal_account env st body = logged ''update_personal_account''
     (mapv (\<lambda>a. account_summary_of a ''owner'') (unary env (UpdatePersonalAccount st) (ret body)))"

definition set_plan :: "'w env \<Rightarrow> 'w identity_stub \<Rightarrow> string \<Rightarrow> ('w, account_summary) io" where
  "set_plan env st plan_key = logged ''set_plan''
     (mapv (\<lambda>a. account_summary_of a ''owner'') (unary env (SetPlan st) (ret plan_key)))"

section \<open>Accounts and members\<close>

definition list_accounts :: "'w env \<Rightarrow> 'w identity_stub \<Rightarrow> ('w, account_summary list) io" where
  "list_accounts env st = logged ''list_accounts''
     (mapv (\<lambda>resp. map (\<lambda>(a, role). account_summary_of a (role_name role)) (al_items resp))
       (unary env (ListAccounts st) (from_ctx a_user_id)))"

definition KIND_ORGANIZATION :: int where
  "KIND_ORGANIZATION = 2"

definition create_account :: "'w env \<Rightarrow> 'w identity_stub \<Rightarrow> new_account \<Rightarrow> string \<Rightarrow> ('w, account_summary) io" where
  "create_account env st body key = logged ''create_account'' (account_scoped
     (mapv (\<lambda>a. (account_summary_of a ''owner'')\<lparr>as_plan_key := []\<rparr>)
       (unary env (CreateAccount st) (mapv (\<lambda>k.
          \<lparr>cr_kind = KIND_ORGANIZATION, cr_handle = na_handle body, cr_display_name = na_display_name body,
           cr_legal_id = na_legal_id body, cr_idempotency_key = k\<rparr>) (idempotency env key)))))"

definition list_members :: "'w env \<Rightarrow> 'w identity_stub \<Rightarrow> ('w, member_summary list) io" where
  "list_members env st = logged ''list_members'' (account_scoped (require_role managers
     (mapv (map member_of) (unary env (ListMemberships st) (from_ctx a_account_id)))))"

definition update_member :: "'w env \<Rightarrow> 'w identity_stub \<Rightarrow> string \<Rightarrow> string \<Rightarrow> ('w, member_summary) io" where
  "update_member env st membership_id role = logged ''update_member'' (account_scoped (require_role managers
     (mapv member_of (unary env (UpdateMembership st) (ret (membership_id, role_value role))))))"

text \<open>The one use case of the module that carries no decorator.\<close>

definition remove_member :: "'w env \<Rightarrow> 'w identity_stub \<Rightarrow> string \<Rightarrow> ('w, bool) io" where
  "remove_member env st membership_id = mapv (\<lambda>_. True) (unary env (RemoveMembership st) (ret membership_id))"

section \<open>Invites\<close>

definition create_invite :: "'w env \<Rightarrow> 'w identity_stub \<Rightarrow> new_invite \<Rightarrow> string \<Rightarrow> ('w, invite_summary) io" where
  "create_invite env st body key = logged ''create_invite'' (account_scoped (require_role managers
     (mapv invite_of (unary env (CreateInvite st) (mapv (\<lambda>k.
        \<lparr>iv_email = ni_email body, iv_role = role_value (ni_role body),
         iv_grants = map (\<lambda>g. (gs_resource_id g, gs_level g)) (ni_grants body),
         iv_idempotency_key = k\<rparr>) (idempotency env key))))))"

definition list_invites :: "'w env \<Rightarrow> 'w identity_stub \<Rightarrow> ('w, invite_summary list) io" where
  "list_invites env st = logged ''list_invites'' (account_scoped (require_role managers
     (mapv (map invite_of) (unary env (ListInvites st) (ret ())))))"

definition get_invite :: "'w env \<Rightarrow> 'w identity_stub \<Rightarrow> string \<Rightarrow> ('w, invite_preview) io" where
  "get_invite env st invite_id = logged ''get_invite''
     (mapv (\<lambda>p. \<lparr>ip_id = cp_id p, ip_account_name = cp_account_name p, ip_role = role_name (cp_role p),
         ip_status = invite_status_name (cp_status p), ip_expires_at = ts_text (cp_expires_at p),
         ip_usable = cp_usable p\<rparr>)
       (unary env (GetInvite st) (ret invite_id)))"

text \<open>
  Accepting: the second call reads the account that was just joined, with the metadata of that
  account rather than of the one in the context.
\<close>

definition accept_invite :: "'w env \<Rightarrow> 'w identity_stub \<Rightarrow> string \<Rightarrow> string \<Rightarrow> ('w, accepted_invite) io" where
  "accept_invite env st invite_id key = logged ''accept_invite''
     (bnd (ask auth_ctx) (\<lambda>c.
      bnd (unary env (AcceptInvite st) (mapv (\<lambda>k. (invite_id, k)) (idempotency env key))) (\<lambda>m.
      bnd channel (\<lambda>_.
      case c of
        None \<Rightarrow> raise (OtherError ''AttributeError'')
      | Some ctx \<Rightarrow>
          bnd (metadata_for env (no_args\<lparr>m_user_id := a_user_id ctx, m_account_id := mb_account_id m\<rparr>)) (\<lambda>md.
          bnd (call (GetAccount st) (mb_account_id m) (opts_of env md)) (\<lambda>a.
          ret \<lparr>ai_account_id = ca_id a, ai_account_name = ca_display_name a,
               ai_role = role_name (mb_role m)\<rparr>))))))"

definition revoke_invite :: "'w env \<Rightarrow> 'w identity_stub \<Rightarrow> string \<Rightarrow> ('w, invite_summary) io" where
  "revoke_invite env st invite_id = logged ''revoke_invite'' (account_scoped (require_role managers
     (mapv invite_of (unary env (RevokeInvite st) (ret invite_id)))))"

section \<open>The address\<close>

definition send_email_verification :: "'w env \<Rightarrow> 'w admin_env \<Rightarrow> 'w identity_stub \<Rightarrow> ('w, string) io" where
  "send_email_verification env ad st = logged ''send_email_verification''
     (bnd (from_ctx (\<lambda>ctx. ctx)) (\<lambda>ctx.
        let email = strip (p_email (a_principal ctx)) in
        if email = [] then raise (HTTPException 400 ''this credential carries no e-mail'')
        else if p_email_verified (a_principal ctx) then ret email
        else bnd (try_with
               (mapv (\<lambda>l. on_our_domain l (firebase_auth_domain (cfg env))) (verification_link env ad email))
               (\<lambda>e. case e of
                   LinkNotGenerated msg \<Rightarrow> bnd (emit (LogWarning ''verification link not generated'' msg))
                     (\<lambda>_. raise (HTTPException 503 ''could not generate the verification link''))
                 | _ \<Rightarrow> raise e)) (\<lambda>link.
             mapv (\<lambda>_. email) (unary env (SendEmailVerification st)
               (ret \<lparr>vr_email = email, vr_subject = p_subject (a_principal ctx), vr_link = link,
                     vr_display_name = p_name (a_principal ctx)\<rparr>)))))"

section \<open>Who may manage an account\<close>

text \<open>
  Managing people takes the role. For somebody who is neither owner nor admin of the active
  account, listing members or invites, inviting, revoking and changing a role all end in 403 and
  nothing leaves the process. Taking somebody out is the exception: \<^verbatim>\<open>remove_member\<close> carries no
  decorator, and for any role, and even with no account selected, the request goes to the core,
  which is the only one that refuses it.
\<close>

theorem managing_takes_the_role:
  assumes "auth_ctx s = Some ctx" and "a_account_id ctx \<noteq> []" and "a_role ctx \<notin> {''owner'', ''admin''}"
  shows "refuses (list_members env st) s (HTTPException 403 ''Insufficient permission'')
    \<and> refuses (create_invite env st body key) s (HTTPException 403 ''Insufficient permission'')
    \<and> refuses (list_invites env st) s (HTTPException 403 ''Insufficient permission'')
    \<and> refuses (revoke_invite env st iid) s (HTTPException 403 ''Insufficient permission'')
    \<and> refuses (update_member env st mid role) s (HTTPException 403 ''Insufficient permission'')
    \<and> (remove_member env st mid s' = (Inr b, s'')
         \<longleftrightarrow> b \<and> asked env (RemoveMembership st) mid s' () s'')"
proof -
  have "a_role ctx \<notin> set managers" using assms(3) by (simp add: managers_def)
  note refused = not_manager_refused [OF assms(1,2) this]
  show ?thesis
    by (simp add: list_members_def create_invite_def list_invites_def revoke_invite_def
        update_member_def remove_member_def refused mapv_Inr unary_asked conj_commute)
qed

theorem managing_takes_the_role_witness:
  "refuses (update_member demo_env demo_identity ''m-2'' ''owner'')
      (demo_rt (Some (demo_ctx ''acc-1'' ''viewer''))) (HTTPException 403 ''Insufficient permission'')
   \<and> remove_member demo_env demo_identity ''m-2'' (demo_rt (Some (demo_ctx ''acc-1'' ''viewer'')))
      = (Inr True, demo_rt (Some (demo_ctx ''acc-1'' ''viewer''))\<lparr>ext := 1\<rparr>)"
proof -
  have "RemoveMembership demo_identity = answering ()" by (simp add: demo_identity_def)
  then show ?thesis
    using managing_takes_the_role [where s = "demo_rt (Some (demo_ctx ''acc-1'' ''viewer''))"
      and ctx = "demo_ctx ''acc-1'' ''viewer''" and env = demo_env and st = demo_identity
      and s' = "demo_rt (Some (demo_ctx ''acc-1'' ''viewer''))" and mid = "''m-2''" and role = "''owner''"
      and b = True and s'' = "demo_rt (Some (demo_ctx ''acc-1'' ''viewer''))\<lparr>ext := 1\<rparr>"]
    by (simp add: demo_run demo_asked [simplified])
qed

section \<open>What a write carries\<close>

text \<open>
  Repeating a write does not repeat its effect. A successful creation of an organization, and
  a successful invite, made one call under the client's key when it gave one and under a key drawn
  for this call otherwise; the account created is an organization with the client's names, the
  invite carries the address, the named role and each grant as given; creating takes an active
  account, inviting takes the role on top.
\<close>

theorem writes_are_keyed:
  "(create_account env st body key s = (Inr a, s') \<longrightarrow>
      (\<exists>ctx k r s1 s2. auth_ctx s = Some ctx \<and> a_account_id ctx \<noteq> [] \<and> keyed env key s k
        \<and> asked env (CreateAccount st) \<lparr>cr_kind = 2, cr_handle = na_handle body,
            cr_display_name = na_display_name body, cr_legal_id = na_legal_id body,
            cr_idempotency_key = k\<rparr> s1 r s2
        \<and> as_id a = ca_id r \<and> as_role a = ''owner''))
   \<and> (create_invite env st body' key s = (Inr i, s') \<longrightarrow>
      (\<exists>ctx k r s1 s2. auth_ctx s = Some ctx \<and> may_call managers ctx \<and> keyed env key s k
        \<and> asked env (CreateInvite st) \<lparr>iv_email = ni_email body', iv_role = role_value (ni_role body'),
            iv_grants = map (\<lambda>g. (gs_resource_id g, gs_level g)) (ni_grants body'),
            iv_idempotency_key = k\<rparr> s1 r s2
        \<and> i = invite_of r))"
proof (intro conjI impI)
  assume "create_account env st body key s = (Inr a, s')"
  from logged_Inr [OF this [unfolded create_account_def]] obtain r s2 ctx where
    "auth_ctx s = Some ctx" "a_account_id ctx \<noteq> []"
    and u: "unary env (CreateAccount st) (mapv (\<lambda>k.
          \<lparr>cr_kind = KIND_ORGANIZATION, cr_handle = na_handle body, cr_display_name = na_display_name body,
           cr_legal_id = na_legal_id body, cr_idempotency_key = k\<rparr>) (idempotency env key))
        (write_log (LogCall ''create_account'') s) = (Inr r, s2)"
    and a: "as_id a = ca_id r" "as_role a = ''owner''"
    by (auto simp: scoped_Inr mapv_Inr account_summary_of_def)
  with unary_keyed [OF u, unfolded keyed_log KIND_ORGANIZATION_def] show "\<exists>ctx k r s1 s2. auth_ctx s = Some ctx \<and> a_account_id ctx \<noteq> []
        \<and> keyed env key s k
        \<and> asked env (CreateAccount st) \<lparr>cr_kind = 2, cr_handle = na_handle body,
            cr_display_name = na_display_name body, cr_legal_id = na_legal_id body,
            cr_idempotency_key = k\<rparr> s1 r s2
        \<and> as_id a = ca_id r \<and> as_role a = ''owner''"
    by blast
next
  assume "create_invite env st body' key s = (Inr i, s')"
  from logged_Inr [OF this [unfolded create_invite_def]] obtain r s2 ctx where
    "auth_ctx s = Some ctx" "may_call managers ctx"
    and u: "unary env (CreateInvite st) (mapv (\<lambda>k.
        \<lparr>iv_email = ni_email body', iv_role = role_value (ni_role body'),
         iv_grants = map (\<lambda>g. (gs_resource_id g, gs_level g)) (ni_grants body'),
         iv_idempotency_key = k\<rparr>) (idempotency env key))
        (write_log (LogCall ''create_invite'') s) = (Inr r, s2)"
    and "i = invite_of r"
    by (auto simp: managed_Inr mapv_Inr)
  with unary_keyed [OF u, unfolded keyed_log] show "\<exists>ctx k r s1 s2. auth_ctx s = Some ctx \<and> may_call managers ctx
        \<and> keyed env key s k
        \<and> asked env (CreateInvite st) \<lparr>iv_email = ni_email body', iv_role = role_value (ni_role body'),
            iv_grants = map (\<lambda>g. (gs_resource_id g, gs_level g)) (ni_grants body'),
            iv_idempotency_key = k\<rparr> s1 r s2
        \<and> i = invite_of r"
    by blast
qed

definition demo_new_account :: new_account where
  "demo_new_account = \<lparr>na_handle = ''dop'', na_display_name = ''DOP'', na_legal_id = []\<rparr>"

theorem writes_are_keyed_witness:
  "\<exists>s1 r s2. asked demo_env (CreateAccount demo_identity) \<lparr>cr_kind = 2, cr_handle = ''dop'',
      cr_display_name = ''DOP'', cr_legal_id = [], cr_idempotency_key = ''0f''\<rparr> s1 r s2"
proof -
  let ?s = "demo_rt (Some (demo_ctx ''acc-1'' ''viewer''))"
  have "\<exists>a s'. create_account demo_env demo_identity demo_new_account [] ?s = (Inr a, s')"
    by (simp add: create_account_def io_simps refusal_of_def account_check_def demo_run unary_def
        unary_by_def core_metadata_def idempotency_def idempotency_key_def demo_identity_def)
  then obtain a s' where run: "create_account demo_env demo_identity demo_new_account [] ?s = (Inr a, s')"
    by blast
  from run writes_are_keyed [of demo_env demo_identity demo_new_account "[]" ?s a s']
  have "\<exists>k r s1 s2. keyed demo_env [] ?s k \<and> asked demo_env (CreateAccount demo_identity)
      \<lparr>cr_kind = 2, cr_handle = ''dop'', cr_display_name = ''DOP'', cr_legal_id = [],
       cr_idempotency_key = k\<rparr> s1 r s2"
    by (simp add: demo_new_account_def) blast
  then show ?thesis by (simp add: keyed_def demo_run) blast
qed

section \<open>Proving an address\<close>

lemma lift_exn_Inr: "lift_exn f s = (Inr x, s') \<longleftrightarrow> (\<exists>w. f (ext s) = (Inr x, w) \<and> s' = s\<lparr>ext := w\<rparr>)"
  by (auto simp: lift_exn_def io_simps split: prod.splits sum.splits)

lemma verification_link_Inr: "verification_link env ad email s = (Inr link, s') \<Longrightarrow>
    link \<noteq> [] \<and> (\<exists>q w text w'. lr_email q = email \<and> lr_return_link q
      \<and> ad_http_link ad q w = (Inr (200, text, link), w'))"
proof -
  assume "verification_link env ad email s = (Inr link, s')"
  from bnd_Inr [THEN iffD1, OF this [unfolded verification_link_def]] obtain token s1 where "bnd (lift_exn (ad_http_link ad
        \<lparr>lr_url = base_url ad @ ''/projects/'' @ ad_project ad @ ''/accounts:sendOobCode'',
         lr_email = email, lr_return_link = True,
         lr_authorization = (if token = [] then None else Some (''Bearer '' @ token))\<rparr>))
       (\<lambda>(status, text, link).
         if status \<noteq> 200 then raise (LinkNotGenerated (''HTTP '' @ str_int status @ '': '' @ take 300 text))
         else if link = [] then raise (LinkNotGenerated ''Identity Platform answered 200 with no oobLink'')
         else ret link) s1 = (Inr link, s')" (is "bnd (lift_exn (ad_http_link ad ?q)) ?f s1 = _")
    by blast
  then obtain r s2 where "lift_exn (ad_http_link ad ?q) s1 = (Inr r, s2)" "?f r s2 = (Inr link, s')"
    unfolding bnd_Inr by blast
  then obtain b w where "ad_http_link ad ?q (ext s1) = (Inr (200, b, link), w)" "link \<noteq> []"
    by (cases r) (auto simp: lift_exn_Inr split: if_splits)
  then show ?thesis by (intro conjI exI [of _ ?q] exI [of _ "ext s1"] exI [of _ b] exI [of _ w]) simp_all
qed

lemma link_or_503:
  "try_with (mapv f m) (\<lambda>e. case e of
       LinkNotGenerated msg \<Rightarrow> bnd (emit (LogWarning w msg)) (\<lambda>_. raise (HTTPException 503 d))
     | _ \<Rightarrow> raise e) s = (Inr l, s') \<Longrightarrow> \<exists>link. m s = (Inr link, s') \<and> l = f link"
  by (auto simp: try_with_run mapv_run bnd_run split: prod.splits sum.splits exn.splits)


definition demo_admin :: "nat admin_env" where
  "demo_admin = \<lparr>ad_project = ''dop-local'', ad_emulator = ''localhost'', ad_cache = (\<lambda>n. no_token),
     ad_put_cache = (\<lambda>c n. n), ad_http_token = (\<lambda>n. (Inr (''t'', 3600), n)),
     ad_http_link = (\<lambda>q n. (Inr (200, [], ''http://localhost/a''), Suc n))\<rparr>"

definition unproven_ctx :: auth_context where
  "unproven_ctx = (demo_ctx [] [])\<lparr>a_principal := demo_principal\<lparr>p_email_verified := False\<rparr>\<rparr>"


end
