(* ===== verification/Hierarchy.thy ===== *)
theory Hierarchy
  imports Usecase
begin

text \<open>
  \<^verbatim>\<open>app/usecases/hierarchy.py\<close> and \<^verbatim>\<open>app/grpcapi/hierarchy.py\<close>: workspaces, projects, and the binding
  to the task provider's board, a read followed by a write of the whole project.
\<close>

section \<open>Models\<close>

text \<open>A workspace has the same fields the edge uses on every side.\<close>

record workspace =
  wk_id :: string
  wk_name :: string
  wk_key :: string
  wk_description :: string
  wk_tags :: "string list"

record task_manager =
  tk_integration_id :: string
  tk_external_space_id :: string
  tk_external_project_id :: string
  tk_card_types :: "string list"

text \<open>
  The core's project, every field of its message: the edge shows some, and must not lose the others.
\<close>

record project_repo =
  po_id :: string
  po_integration :: string
  po_external_id :: string
  po_name :: string
  po_default_branch :: string
  po_pr_targets :: "string list"

record audit_stamp =
  au_created_at :: "timestamp option"
  au_updated_at :: "timestamp option"
  au_created_by :: "(int \<times> string \<times> string) option"

record core_project =
  cj_id :: string
  cj_workspace :: string
  cj_name :: string
  cj_description :: string
  cj_repos :: "project_repo list"
  cj_task_manager :: "task_manager option"
  cj_resources :: "string list"
  cj_rules :: "string list"
  cj_audit :: "audit_stamp option"

record project =
  pj_id :: string
  pj_workspace_id :: string
  pj_name :: string
  pj_description :: string
  pj_rules :: "string list"
  pj_task_manager :: "task_manager option"

record tree_node =
  nd_workspace :: workspace
  nd_projects :: "project list"

record create_workspace_request =
  wq_name :: string
  wq_key :: string
  wq_description :: string
  wq_tags :: "string list"
  wq_idempotency_key :: string

record create_project_request =
  jq_workspace :: string
  jq_name :: string
  jq_description :: string
  jq_idempotency_key :: string

record 'w hierarchy_stub =
  GetTree :: "('w, unit, (workspace \<times> core_project list) list) rpc"
  ListWorkspaces :: "('w, unit, workspace list) rpc"
  CreateWorkspace :: "('w, create_workspace_request, workspace) rpc"
  ListProjects :: "('w, string option, core_project list) rpc"
  GetProject :: "('w, string, core_project) rpc"
  CreateProject :: "('w, create_project_request, core_project) rpc"
  UpdateProject :: "('w, core_project, core_project) rpc"

section \<open>Conversions\<close>

definition workspace_of :: "workspace \<Rightarrow> workspace" where
  "workspace_of w = \<lparr>wk_id = wk_id w, wk_name = wk_name w, wk_key = wk_key w,
     wk_description = wk_description w, wk_tags = wk_tags w\<rparr>"

definition task_manager_of :: "task_manager \<Rightarrow> task_manager" where
  "task_manager_of tm = \<lparr>tk_integration_id = tk_integration_id tm, tk_external_space_id = tk_external_space_id tm,
     tk_external_project_id = tk_external_project_id tm, tk_card_types = tk_card_types tm\<rparr>"

definition project_of :: "core_project \<Rightarrow> project" where
  "project_of p = \<lparr>pj_id = cj_id p, pj_workspace_id = cj_workspace p, pj_name = cj_name p,
     pj_description = cj_description p, pj_rules = cj_rules p,
     pj_task_manager = (case cj_task_manager p of None \<Rightarrow> None | Some tm \<Rightarrow> Some (task_manager_of tm))\<rparr>"

section \<open>Use cases\<close>

definition get_tree :: "'w env \<Rightarrow> 'w hierarchy_stub \<Rightarrow> ('w, tree_node list) io" where
  "get_tree env st = logged ''get_tree'' (account_scoped
     (mapv (map (\<lambda>(w, ps). \<lparr>nd_workspace = workspace_of w, nd_projects = map project_of ps\<rparr>))
       (unary env (GetTree st) (ret ()))))"

definition list_workspaces :: "'w env \<Rightarrow> 'w hierarchy_stub \<Rightarrow> ('w, workspace list) io" where
  "list_workspaces env st = logged ''list_workspaces'' (account_scoped
     (mapv (map workspace_of) (unary env (ListWorkspaces st) (ret ()))))"

definition create_workspace :: "'w env \<Rightarrow> 'w hierarchy_stub \<Rightarrow> string \<Rightarrow> string \<Rightarrow> string \<Rightarrow> string list \<Rightarrow> string
    \<Rightarrow> ('w, workspace) io" where
  "create_workspace env st name wkey description tags key = logged ''create_workspace''
     (account_scoped (require_role managers (mapv workspace_of (unary env (CreateWorkspace st) (mapv (\<lambda>k.
        \<lparr>wq_name = name, wq_key = wkey, wq_description = description, wq_tags = tags, wq_idempotency_key = k\<rparr>)
        (idempotency env key))))))"

definition list_projects :: "'w env \<Rightarrow> 'w hierarchy_stub \<Rightarrow> string \<Rightarrow> ('w, project list) io" where
  "list_projects env st workspace_id = logged ''list_projects'' (account_scoped
     (mapv (map project_of) (unary env (ListProjects st)
       (ret (if workspace_id = [] then None else Some workspace_id)))))"

definition get_project :: "'w env \<Rightarrow> 'w hierarchy_stub \<Rightarrow> string \<Rightarrow> ('w, project) io" where
  "get_project env st project_id = logged ''get_project'' (account_scoped
     (mapv project_of (unary env (GetProject st) (ret project_id))))"

definition create_project :: "'w env \<Rightarrow> 'w hierarchy_stub \<Rightarrow> string \<Rightarrow> string \<Rightarrow> string \<Rightarrow> string
    \<Rightarrow> ('w, project) io" where
  "create_project env st workspace_id name description key = logged ''create_project''
     (account_scoped (require_role managers (mapv project_of (unary env (CreateProject st) (mapv (\<lambda>k.
        \<lparr>jq_workspace = workspace_id, jq_name = name, jq_description = description, jq_idempotency_key = k\<rparr>)
        (idempotency env key))))))"

definition bind_task_manager :: "'w env \<Rightarrow> 'w hierarchy_stub \<Rightarrow> string \<Rightarrow> task_manager \<Rightarrow> ('w, project) io" where
  "bind_task_manager env st project_id body = logged ''bind_task_manager'' (account_scoped (require_role managers
     (bnd (unary env (GetProject st) (ret project_id)) (\<lambda>current.
        mapv project_of (on_stub env (UpdateProject st)
          (current\<lparr>cj_task_manager := Some (task_manager_of body)\<rparr>))))))"

section \<open>The gRPC port\<close>

definition bff_project :: "project \<Rightarrow> project" where
  "bff_project p = \<lparr>pj_id = pj_id p, pj_workspace_id = pj_workspace_id p, pj_name = pj_name p,
     pj_description = pj_description p, pj_rules = pj_rules p,
     pj_task_manager = (case pj_task_manager p of None \<Rightarrow> None | Some tm \<Rightarrow> Some (task_manager_of tm))\<rparr>"

definition grpc_BindTaskManager :: "'w env \<Rightarrow> 'w hierarchy_stub \<Rightarrow> string \<Rightarrow> task_manager \<Rightarrow> ('w, project) io" where
  "grpc_BindTaskManager env st project_id binding =
     mapv bff_project (bind_task_manager env st project_id (task_manager_of binding))"

section \<open>A binding loses nothing\<close>

lemma task_manager_of_id [simp]: "task_manager_of tm = tm"
  by (simp add: task_manager_of_def)

lemma bff_project_id [simp]: "bff_project p = p"
  by (simp add: bff_project_def split: option.splits)

text \<open>
  Binding a board loses nothing of the project. When binding answers, on either port, the caller
  may manage the account, the core gave the project as it was, and was then sent that very project
  with the new binding and every other field untouched (the repositories, the resources and the
  audit the edge never shows included), both under the caller's context; the answer is the project
  the core returned for it. When the project cannot be read, nothing is written.
\<close>

theorem binding_loses_nothing:
  shows "grpc_BindTaskManager env st pid tm = bind_task_manager env st pid tm
    \<and> (\<forall>p s'. bind_task_manager env st pid tm s = (Inr p, s') \<longrightarrow>
        (\<exists>ctx before after s1 s2 s3. auth_ctx s = Some ctx \<and> may_call managers ctx
          \<and> asked env (GetProject st) pid s1 before s2 \<and> auth_ctx s1 = Some ctx
          \<and> asked env (UpdateProject st) (before\<lparr>cj_task_manager := Some tm\<rparr>) s2 after s3 \<and> auth_ctx s2 = Some ctx
          \<and> p = project_of after))
    \<and> (\<forall>c d w. auth_ctx s = Some ctx \<and> may_call managers ctx
          \<and> turned_down env (GetProject st) pid (write_log (LogCall ''bind_task_manager'') s) c d w \<longrightarrow>
        (\<exists>s'. bind_task_manager env st pid tm s = (Inl (AioRpcError c d), s') \<and> ext s' = ext w))"
proof (intro conjI allI impI)
  show "grpc_BindTaskManager env st pid tm = bind_task_manager env st pid tm"
    by (auto simp: grpc_BindTaskManager_def fun_eq_iff mapv_run split: prod.splits sum.splits)
next
  fix p s' assume "bind_task_manager env st pid tm s = (Inr p, s')"
  from logged_Inr [OF this [unfolded bind_task_manager_def]] obtain ctx before s2 s3 where
    ctx: "auth_ctx s = Some ctx" "may_call managers ctx"
    and get: "asked env (GetProject st) pid (write_log (LogCall ''bind_task_manager'') s) before s2"
    and upd: "mapv project_of (on_stub env (UpdateProject st) (before\<lparr>cj_task_manager := Some tm\<rparr>)) s2 = (Inr p, s3)"
    by (auto simp: managed_Inr bnd_Inr unary_asked)
  from asked_ctx [OF get] ctx(1) have c2: "auth_ctx s2 = Some ctx" by simp
  from upd asked_open [OF get] obtain after where
    "asked env (UpdateProject st) (before\<lparr>cj_task_manager := Some tm\<rparr>) s2 after s3" "p = project_of after"
    by (auto simp: mapv_Inr on_stub_open unary_asked)
  with ctx get c2 show "\<exists>ctx before after s1 s2 s3. auth_ctx s = Some ctx \<and> may_call managers ctx
          \<and> asked env (GetProject st) pid s1 before s2 \<and> auth_ctx s1 = Some ctx
          \<and> asked env (UpdateProject st) (before\<lparr>cj_task_manager := Some tm\<rparr>) s2 after s3 \<and> auth_ctx s2 = Some ctx
          \<and> p = project_of after"
    using write_log_simps(1) [of "LogCall ''bind_task_manager''" s] by metis
next
  fix c d w assume a: "auth_ctx s = Some ctx \<and> may_call managers ctx
    \<and> turned_down env (GetProject st) pid (write_log (LogCall ''bind_task_manager'') s) c d w"
  then have "refusal_of (role_check managers) (write_log (LogCall ''bind_task_manager'') s) = None"
    by (auto simp: refusal_role_iff)
  moreover from a have "unary env (GetProject st) (ret pid) (write_log (LogCall ''bind_task_manager'') s)
      = (Inl (AioRpcError c d), w)"
    by (simp add: unary_error)
  ultimately show "\<exists>s'. bind_task_manager env st pid tm s = (Inl (AioRpcError c d), s') \<and> ext s' = ext w"
    by (simp add: bind_task_manager_def logged_run scoped_roled_run)
qed

definition demo_project :: core_project where
  "demo_project = \<lparr>cj_id = ''p-1'', cj_workspace = ''w-1'', cj_name = ''Payments'', cj_description = [], cj_repos = [],
     cj_task_manager = None, cj_resources = [''r-1''], cj_rules = [''rule''], cj_audit = None\<rparr>"

definition demo_hierarchy :: "nat hierarchy_stub" where
  "demo_hierarchy = \<lparr>GetTree = answering [], ListWorkspaces = answering [],
     CreateWorkspace = answering \<lparr>wk_id = ''w-1'', wk_name = ''W'', wk_key = ''W'', wk_description = [], wk_tags = []\<rparr>,
     ListProjects = answering [demo_project], GetProject = answering demo_project,
     CreateProject = answering demo_project, UpdateProject = (\<lambda>p opts n. (Inr p, Suc n))\<rparr>"

definition demo_board :: task_manager where
  "demo_board = \<lparr>tk_integration_id = ''i-1'', tk_external_space_id = ''SP'', tk_external_project_id = ''10'', tk_card_types = []\<rparr>"

theorem binding_loses_nothing_witness:
  "\<exists>p s'. bind_task_manager demo_env demo_hierarchy ''p-1'' demo_board (demo_rt (Some (demo_ctx ''acc-1'' ''admin'')))
      = (Inr p, s') \<and> pj_rules p = [''rule''] \<and> pj_task_manager p = Some demo_board"
proof -
  let ?s = "demo_rt (Some (demo_ctx ''acc-1'' ''admin''))"
  have "\<exists>p s'. bind_task_manager demo_env demo_hierarchy ''p-1'' demo_board ?s = (Inr p, s')"
    by (simp add: bind_task_manager_def on_stub_def io_simps managers_def demo_run unary_def unary_by_def
        core_metadata_def demo_hierarchy_def)
  then obtain p s' where run: "bind_task_manager demo_env demo_hierarchy ''p-1'' demo_board ?s = (Inr p, s')" by blast
  with binding_loses_nothing [of demo_env demo_hierarchy "''p-1''" demo_board ?s "demo_ctx ''acc-1'' ''admin''"] show ?thesis
    by (fastforce simp: asked_def demo_hierarchy_def answering_def demo_project_def project_of_def)
qed

end
