(* ===== verification/Delivery.thy ===== *)
theory Delivery
  imports Usecase Vocabulary
begin

text \<open>
  \<^verbatim>\<open>app/usecases/delivery.py\<close> and its REST port: pull requests, the merge queue with its refusal
  taken apart, the techlead's directives and the delivery board.
\<close>

section \<open>Vocabulary\<close>

definition STATE_BY_ENUM :: "(int \<times> string) list" where
  "STATE_BY_ENUM = [(1, ''queued''), (2, ''rebasing''), (3, ''verifying''), (4, ''merged''), (5, ''conflict'')]"

definition DIRECTIVE_BY_ENUM :: "(int \<times> string) list" where
  "DIRECTIVE_BY_ENUM = [(1, ''cherry_pick''), (2, ''merge_order''), (3, ''file_partition''), (4, ''cross_verify'')]"

definition REASON_SEP :: string where "REASON_SEP = '': ''"
definition ITEM_SEP :: string where "ITEM_SEP = ''; ''"
definition PENDING_REVIEW :: string where "PENDING_REVIEW = ''pending''"

interpretation merge_states: vocabulary STATE_BY_ENUM
  by unfold_locales (simp_all add: STATE_BY_ENUM_def)

interpretation directive_kinds: vocabulary DIRECTIVE_BY_ENUM
  by unfold_locales (simp_all add: DIRECTIVE_BY_ENUM_def)

section \<open>Models\<close>

record reviewer =
  rv_name :: string
  rv_initials :: string
  rv_status :: string

record core_pull_request =
  cq_id :: string
  cq_demand :: string
  cq_repo :: string
  cq_source_branch :: string
  cq_target_branch :: string
  cq_url :: string
  cq_merged :: bool
  cq_has_conflict :: bool
  cq_reviewers :: "reviewer list"

record pull_request =
  pr_id :: string
  pr_demand_id :: string
  pr_repo :: string
  pr_source_branch :: string
  pr_target_branch :: string
  pr_url :: string
  pr_merged :: bool
  pr_has_conflict :: bool
  pr_reviewers :: "reviewer list"
  pr_pending_reviews :: int

record core_queue_entry =
  cn_id :: string
  cn_repo_id :: string
  cn_demand :: string
  cn_position :: int
  cn_state :: int
  cn_overlapping_files :: "string list"

record merge_queue_entry =
  qe_id :: string
  qe_repo_id :: string
  qe_demand_id :: string
  qe_position :: int
  qe_state :: string
  qe_overlapping_files :: "string list"

record core_directive =
  cd_id :: string
  cd_project :: string
  cd_kind :: int
  cd_payload :: "(string \<times> pyval) list option"
  cd_decided_by_id :: string
  cd_decided_by_name :: string

record directive =
  di_id :: string
  di_project_id :: string
  di_kind :: string
  di_payload :: "(string \<times> pyval) list"
  di_decided_by_id :: string
  di_decided_by_name :: string

record merge_refusal =
  mr_reason :: string
  mr_missing :: "string list"

record merge_attempt =
  mt_entry :: "merge_queue_entry option"
  mt_refusal :: "merge_refusal option"

record delivery_board =
  db_pull_requests :: "pull_request list"
  db_directives :: "directive list"

text \<open>Requests: the project of \<^verbatim>\<open>ListPullRequestsRequest\<close> is a message, set only when there is one.\<close>

record list_prs_request =
  lp_demand_id :: string
  lp_project :: "string option"

record enqueue_request =
  en_repo_id :: string
  en_demand_id :: string
  en_idempotency_key :: string

record decide_request =
  dd_directive_id :: string
  dd_decision :: "(string \<times> pyval) list"
  dd_idempotency_key :: string

record 'w delivery_stub =
  ListPullRequests :: "('w, list_prs_request, core_pull_request list) rpc"
  ListDirectives :: "('w, string, core_directive list) rpc"
  GetMergeQueue :: "('w, string, core_queue_entry list) rpc"
  EnqueueMerge :: "('w, enqueue_request, core_queue_entry) rpc"
  DecideDirective :: "('w, decide_request, core_directive) rpc"

section \<open>Conversions\<close>

definition pull_request_of :: "core_pull_request \<Rightarrow> pull_request" where
  "pull_request_of q = \<lparr>pr_id = cq_id q, pr_demand_id = cq_demand q, pr_repo = cq_repo q,
     pr_source_branch = cq_source_branch q, pr_target_branch = cq_target_branch q, pr_url = cq_url q,
     pr_merged = cq_merged q, pr_has_conflict = cq_has_conflict q, pr_reviewers = cq_reviewers q,
     pr_pending_reviews = (\<Sum>r \<leftarrow> cq_reviewers q. if rv_status r = PENDING_REVIEW then 1 else 0)\<rparr>"

definition entry_of :: "core_queue_entry \<Rightarrow> merge_queue_entry" where
  "entry_of e = \<lparr>qe_id = cn_id e, qe_repo_id = cn_repo_id e, qe_demand_id = cn_demand e,
     qe_position = cn_position e, qe_state = enum_name STATE_BY_ENUM (cn_state e),
     qe_overlapping_files = cn_overlapping_files e\<rparr>"

definition directive_of :: "core_directive \<Rightarrow> directive" where
  "directive_of d = \<lparr>di_id = cd_id d, di_project_id = cd_project d,
     di_kind = enum_name DIRECTIVE_BY_ENUM (cd_kind d),
     di_payload = (case cd_payload d of None \<Rightarrow> [] | Some p \<Rightarrow> p),
     di_decided_by_id = cd_decided_by_id d, di_decided_by_name = cd_decided_by_name d\<rparr>"

definition refusal_parts :: "string \<Rightarrow> merge_refusal" where
  "refusal_parts detail = (case split_first REASON_SEP (strip detail) of
      None \<Rightarrow> \<lparr>mr_reason = strip detail, mr_missing = []\<rparr>
    | Some (reason, tail) \<Rightarrow>
        \<lparr>mr_reason = strip reason,
         mr_missing = map strip (filter (\<lambda>i. strip i \<noteq> []) (py_split ITEM_SEP tail))\<rparr>)"

section \<open>Use cases\<close>

definition list_pull_requests :: "'w env \<Rightarrow> 'w delivery_stub \<Rightarrow> string \<Rightarrow> string \<Rightarrow> ('w, pull_request list) io" where
  "list_pull_requests env st demand_id project_id = logged ''list_pull_requests'' (account_scoped
     (mapv (map pull_request_of) (unary env (ListPullRequests st)
       (ret \<lparr>lp_demand_id = demand_id, lp_project = (if project_id = [] then None else Some project_id)\<rparr>))))"

definition list_directives :: "'w env \<Rightarrow> 'w delivery_stub \<Rightarrow> string \<Rightarrow> ('w, directive list) io" where
  "list_directives env st project_id = logged ''list_directives'' (account_scoped
     (mapv (map directive_of) (unary env (ListDirectives st) (ret project_id))))"

definition get_board :: "bool \<Rightarrow> 'w env \<Rightarrow> 'w delivery_stub \<Rightarrow> string \<Rightarrow> ('w, delivery_board) io" where
  "get_board left_first env st project_id = logged ''get_board'' (account_scoped
     (mapv (\<lambda>(prs, ds). \<lparr>db_pull_requests = prs, db_directives = ds\<rparr>)
       (gather left_first (list_pull_requests env st [] project_id) (list_directives env st project_id))))"

definition get_merge_queue :: "'w env \<Rightarrow> 'w delivery_stub \<Rightarrow> string \<Rightarrow> ('w, merge_queue_entry list) io" where
  "get_merge_queue env st repo_id = logged ''get_merge_queue'' (account_scoped
     (mapv (map entry_of) (unary env (GetMergeQueue st) (ret repo_id))))"

definition enqueue_merge :: "'w env \<Rightarrow> 'w delivery_stub \<Rightarrow> string \<Rightarrow> string \<Rightarrow> string \<Rightarrow> ('w, merge_attempt) io" where
  "enqueue_merge env st repo_id demand_id key = logged ''enqueue_merge'' (account_scoped (require_role writers
     (try_with
       (mapv (\<lambda>e. \<lparr>mt_entry = Some (entry_of e), mt_refusal = None\<rparr>)
         (unary env (EnqueueMerge st) (mapv (\<lambda>k.
            \<lparr>en_repo_id = repo_id, en_demand_id = demand_id, en_idempotency_key = k\<rparr>) (idempotency env key))))
       (\<lambda>e. case e of
           AioRpcError code d \<Rightarrow>
             if code \<noteq> FAILED_PRECONDITION then raise e
             else ret \<lparr>mt_entry = None, mt_refusal = Some (refusal_parts (details_or d []))\<rparr>
         | _ \<Rightarrow> raise e))))"

definition decide_directive :: "'w env \<Rightarrow> 'w delivery_stub \<Rightarrow> string \<Rightarrow> (string \<times> pyval) list \<Rightarrow> string
    \<Rightarrow> ('w, directive) io" where
  "decide_directive env st directive_id decision key = logged ''decide_directive''
     (account_scoped (require_role writers
       (mapv directive_of (unary env (DecideDirective st) (mapv (\<lambda>k.
          \<lparr>dd_directive_id = directive_id, dd_decision = decision, dd_idempotency_key = k\<rparr>)
          (idempotency env key))))))"

text \<open>The REST route of the queue: the answer's status and body.\<close>

definition rest_enqueue_merge :: "'w env \<Rightarrow> 'w delivery_stub \<Rightarrow> string \<Rightarrow> string \<Rightarrow> string
    \<Rightarrow> ('w, int \<times> (merge_refusal + merge_queue_entry)) io" where
  "rest_enqueue_merge env st repo_id demand_id key =
     bnd (enqueue_merge env st repo_id demand_id key) (\<lambda>attempt.
       case mt_refusal attempt of
         Some r \<Rightarrow> ret (412, Inl r)
       | None \<Rightarrow> (case mt_entry attempt of
             Some e \<Rightarrow> ret (201, Inr e)
           | None \<Rightarrow> raise (OtherError ''AttributeError'')))"

section \<open>The refusal, taken apart\<close>

lemma join_last: "items \<noteq> [] \<Longrightarrow> \<forall>i \<in> set items. i \<noteq> [] \<Longrightarrow>
    join sep items \<noteq> [] \<and> last (join sep items) = last (last items)"
  by (induction sep items rule: join.induct) auto

text \<open>
  The list of what is missing survives. A refusal the core built from a reason and a list of
  items, joined by its separators, is taken apart into exactly that reason and those items, in
  order, as long as no item has a semicolon, no reason a colon, and none is empty or begins or ends
  with white space; a sentence with no list is all reason.
\<close>

theorem refusal_round_trip:
  assumes "CHR '':'' \<notin> set reason" and "strip reason = reason" and "reason \<noteq> []"
    and "\<forall>i \<in> set items. CHR '';'' \<notin> set i \<and> strip i = i \<and> i \<noteq> []" and "items \<noteq> []"
  shows "refusal_parts (reason @ '': '' @ join ''; '' items) = \<lparr>mr_reason = reason, mr_missing = items\<rparr>
    \<and> refusal_parts reason = \<lparr>mr_reason = reason, mr_missing = []\<rparr>"
proof
  let ?d = "reason @ '': '' @ join ''; '' items"
  from join_last [OF assms(5), of "''; ''"] assms(4) have l: "join ''; '' items \<noteq> []"
    "last (join ''; '' items) = last (last items)" by auto
  have "strip (last items) = last items" "last items \<noteq> []" using assms(4,5) by auto
  then have "\<not> py_space (last (last items))" by (simp add: strip_eq_iff)
  with l assms(2,3) have s: "strip ?d = ?d" by (simp add: strip_eq_iff)
  have f: "split_first REASON_SEP ?d = Some (reason, join ''; '' items)"
    using split_first_fresh [of "'': ''" reason] assms(1) by (simp add: REASON_SEP_def)
  have p: "py_split ITEM_SEP (join ''; '' items) = items"
    using assms(4,5) py_split_join [of "''; ''" items] by (simp add: ITEM_SEP_def)
  show "refusal_parts ?d = \<lparr>mr_reason = reason, mr_missing = items\<rparr>"
    unfolding refusal_parts_def s f using assms(2,4) by (simp add: p map_idI filter_id_conv)
  show "refusal_parts reason = \<lparr>mr_reason = reason, mr_missing = []\<rparr>"
    using split_first_none [of "'': ''" reason] assms(1,2) by (simp add: refusal_parts_def REASON_SEP_def)
qed

theorem refusal_round_trip_witness:
  "refusal_parts ''not green: no acceptance run; the verdict is missing''
     = \<lparr>mr_reason = ''not green'', mr_missing = [''no acceptance run'', ''the verdict is missing'']\<rparr>"
proof -
  have "strip ''not green'' = ''not green''" "strip ''no acceptance run'' = ''no acceptance run''"
    "strip ''the verdict is missing'' = ''the verdict is missing''" by code_simp+
  with refusal_round_trip [of "''not green''" "[''no acceptance run'', ''the verdict is missing'']"]
  show ?thesis by simp
qed

section \<open>In the queue, or not and why\<close>

text \<open>The use case admitted: the one call of the core under the request's key, or its refusal.\<close>

lemma enqueue_admitted:
  assumes "enqueue_merge env st repo demand key s = (r, s')" and "may_call writers ctx" and "auth_ctx s = Some ctx"
  shows "\<exists>k s1 s2. keyed env key s k \<and>
    (let q = \<lparr>en_repo_id = repo, en_demand_id = demand, en_idempotency_key = k\<rparr> in
       (\<exists>e. asked env (EnqueueMerge st) q s1 e s2 \<and> r = Inr \<lparr>mt_entry = Some (entry_of e), mt_refusal = None\<rparr>)
     \<or> (\<exists>d. turned_down env (EnqueueMerge st) q s1 FAILED_PRECONDITION d s2
          \<and> r = Inr \<lparr>mt_entry = None, mt_refusal = Some (refusal_parts (details_or d []))\<rparr>))
    \<or> (\<exists>e. r = Inl e \<and> (\<forall>d. e \<noteq> AioRpcError FAILED_PRECONDITION d))"
proof -
  let ?q = "\<lambda>k. \<lparr>en_repo_id = repo, en_demand_id = demand, en_idempotency_key = k\<rparr>"
  let ?u = "unary env (EnqueueMerge st) (mapv ?q (idempotency env key))"
  let ?s = "write_log (LogCall ''enqueue_merge'') s"
  from assms(2,3) have None: "refusal_of (role_check writers) ?s = None" by (simp add: refusal_role_iff)
  obtain ur s1 where u: "?u ?s = (ur, s1)" by fastforce
  with None assms(1) have r: "r = (case ur of Inr e \<Rightarrow> Inr \<lparr>mt_entry = Some (entry_of e), mt_refusal = None\<rparr>
    | Inl (AioRpcError FAILED_PRECONDITION d) \<Rightarrow>
        Inr \<lparr>mt_entry = None, mt_refusal = Some (refusal_parts (details_or d []))\<rparr>
    | Inl x \<Rightarrow> Inl x)"
    by (auto simp: enqueue_merge_def logged_run scoped_roled_run try_with_run mapv_run
        split: sum.splits exn.splits grpc_status.splits)
  consider e where "ur = Inr e" | d where "ur = Inl (AioRpcError FAILED_PRECONDITION d)"
    | x where "ur = Inl x" "\<forall>d. x \<noteq> AioRpcError FAILED_PRECONDITION d" by (cases ur) blast+
  then show ?thesis
  proof cases
    case (1 e)
    from unary_keyed [OF u [unfolded 1]] obtain k s0 where
      "keyed env key s k" "asked env (EnqueueMerge st) (?q k) s0 e s1" by auto
    with r 1 show ?thesis by auto
  next
    case (2 d)
    from unary_keyed_error [OF u [unfolded 2]] obtain k s0 where
      "keyed env key s k" "turned_down env (EnqueueMerge st) (?q k) s0 FAILED_PRECONDITION d s1" by auto
    with r 2 show ?thesis by auto
  next
    case (3 x)
    with r have "r = Inl x" by (auto split: exn.splits grpc_status.splits)
    with 3 show ?thesis by simp
  qed
qed

text \<open>
  C21. Asking to enter the queue ends in exactly one of three ways. In the queue: the core accepted
  that demand for that repository, and REST answers 201 with the entry. Not yet: the core answered
  \<^verbatim>\<open>FAILED_PRECONDITION\<close>, and the answer is its sentence taken apart, with no entry; REST answers
  412. Or an error; and no \<^verbatim>\<open>FAILED_PRECONDITION\<close> of the core is ever among the errors, nor any
  other status among the refusals.
\<close>

theorem enqueue_outcomes:
  assumes "enqueue_merge env st repo demand key s = (r, s')"
  shows "case r of
      Inr a \<Rightarrow> (\<exists>ctx k s1 s2. auth_ctx s = Some ctx \<and> may_call writers ctx \<and> keyed env key s k
        \<and> ((\<exists>e. asked env (EnqueueMerge st) \<lparr>en_repo_id = repo, en_demand_id = demand, en_idempotency_key = k\<rparr> s1 e s2
              \<and> a = \<lparr>mt_entry = Some (entry_of e), mt_refusal = None\<rparr>
              \<and> fst (rest_enqueue_merge env st repo demand key s) = Inr (201, Inr (entry_of e)))
          \<or> (\<exists>d. turned_down env (EnqueueMerge st) \<lparr>en_repo_id = repo, en_demand_id = demand, en_idempotency_key = k\<rparr>
                  s1 FAILED_PRECONDITION d s2
              \<and> a = \<lparr>mt_entry = None, mt_refusal = Some (refusal_parts (details_or d []))\<rparr>
              \<and> fst (rest_enqueue_merge env st repo demand key s)
                  = Inr (412, Inl (refusal_parts (details_or d []))))))
    | Inl e \<Rightarrow> fst (rest_enqueue_merge env st repo demand key s) = Inl e
        \<and> (\<forall>d. e \<noteq> AioRpcError FAILED_PRECONDITION d)"
proof -
  have rest: "fst (rest_enqueue_merge env st repo demand key s) =
      fst ((case r of Inl e \<Rightarrow> raise e | Inr a \<Rightarrow> (case mt_refusal a of Some x \<Rightarrow> ret (412, Inl x)
        | None \<Rightarrow> (case mt_entry a of Some e \<Rightarrow> ret (201, Inr e) | None \<Rightarrow> raise (OtherError ''AttributeError'')))) s')"
    using assms by (simp add: rest_enqueue_merge_def bnd_run split: sum.splits)
  show ?thesis
  proof (cases "refusal_of (role_check writers) (write_log (LogCall ''enqueue_merge'') s)")
    case (Some e)
    then have "\<forall>c d. e \<noteq> AioRpcError c d"
      by (auto simp: refusal_of_def role_check_def no_account_def split: option.splits if_splits)
    moreover from Some assms have "r = Inl e"
      by (simp add: enqueue_merge_def logged_run scoped_roled_run)
    ultimately show ?thesis using rest by simp
  next
    case None
    then obtain ctx where ctx: "auth_ctx s = Some ctx" "may_call writers ctx"
      by (auto simp: refusal_role_iff)
    from enqueue_admitted [OF assms ctx(2,1)] ctx rest show ?thesis by (auto simp: Let_def) blast+
  qed
qed

definition demo_delivery :: "nat delivery_stub" where
  "demo_delivery = \<lparr>ListPullRequests = answering [], ListDirectives = answering [], GetMergeQueue = answering [],
     EnqueueMerge = failing FAILED_PRECONDITION ''not green: no acceptance run'',
     DecideDirective = failing NOT_FOUND ''no such directive''\<rparr>"

theorem enqueue_outcomes_witness:
  "fst (rest_enqueue_merge demo_env demo_delivery ''repo-1'' ''d-1'' ''key-1''
      (demo_rt (Some (demo_ctx ''acc-1'' ''developer''))))
   = Inr (412, Inl \<lparr>mr_reason = ''not green'', mr_missing = [''no acceptance run'']\<rparr>)"
proof -
  let ?s = "demo_rt (Some (demo_ctx ''acc-1'' ''developer''))"
  let ?a = "\<lparr>mt_entry = None, mt_refusal = Some (refusal_parts ''not green: no acceptance run'')\<rparr>"
  have run: "enqueue_merge demo_env demo_delivery ''repo-1'' ''d-1'' ''key-1'' ?s
      = (Inr ?a, snd (enqueue_merge demo_env demo_delivery ''repo-1'' ''d-1'' ''key-1'' ?s))"
    by (simp add: enqueue_merge_def io_simps writers_def demo_run
        unary_def unary_by_def core_metadata_def demo_delivery_def details_or_def)
  have "refusal_parts ''not green: no acceptance run''
      = \<lparr>mr_reason = ''not green'', mr_missing = [''no acceptance run'']\<rparr>" by code_simp
  with enqueue_outcomes [OF run] show ?thesis by auto
qed

end
