(* ===== verification/Cost.thy ===== *)
theory Cost
  imports Usecase
begin

text \<open>
  \<^verbatim>\<open>app/usecases/cost.py\<close> and \<^verbatim>\<open>app/grpcapi/cost.py\<close>: money as an integer of micros with its currency,
  the budget with a remainder that is absent when there is no ceiling, consumption whose overrun is
  an answer and not an error, and the routing decision.
\<close>

section \<open>Models\<close>

record money =
  mo_currency :: string
  mo_amount_micros :: int

definition no_money :: money where
  "no_money = \<lparr>mo_currency = [], mo_amount_micros = 0\<rparr>"

record core_budget =
  cb_scope :: string
  cb_scope_id :: string
  cb_limit_micros :: int
  cb_spent_micros :: int
  cb_currency :: string

record budget_view =
  bv_scope :: string
  bv_scope_id :: string
  bv_limit :: money
  bv_spent :: money
  bv_remaining :: "money option"

record new_budget =
  nb_scope :: string
  nb_scope_id :: string
  nb_limit_micros :: int

text \<open>The decision has the same four fields in the core, in the edge's model and on the gRPC port.\<close>

record routing_decision =
  rd_task_kind :: string
  rd_model :: string
  rd_effort :: string
  rd_reason :: string

text \<open>The consumption's demand is a message of its own in the core: the id, set only when there is one.\<close>

record usage_event =
  us_id :: string
  us_demand :: "string option"
  us_thread_id :: string
  us_model :: string
  us_input_tokens :: int
  us_output_tokens :: int
  us_cache_read_tokens :: int
  us_cache_creation_tokens :: int
  us_cost :: money
  us_at :: "timestamp option"

record usage_summary =
  uv_id :: string
  uv_demand_id :: string
  uv_thread_id :: string
  uv_model :: string
  uv_input_tokens :: int
  uv_output_tokens :: int
  uv_cache_read_tokens :: int
  uv_cache_creation_tokens :: int
  uv_cost :: money
  uv_at :: "timestamp option"

record new_usage =
  nu_model :: string
  nu_demand_id :: string
  nu_thread_id :: string
  nu_input_tokens :: int
  nu_output_tokens :: int
  nu_cache_read_tokens :: int
  nu_cache_creation_tokens :: int
  nu_cost_micros :: int
  nu_currency :: string

record record_usage_request =
  ru_usage :: usage_event
  ru_idempotency_key :: string

record record_usage_response =
  rs_recorded :: bool
  rs_budget_exceeded :: bool

record record_usage_outcome =
  ro_recorded :: bool
  ro_budget_exceeded :: bool
  ro_notice :: string
  ro_budgets :: "budget_view list"

record core_summary =
  zs_total :: money
  zs_cache_hit_ratio :: real
  zs_recent :: "usage_event list"

record cost_summary =
  zv_total :: money
  zv_cache_hit_ratio :: real
  zv_recent :: "usage_summary list"

record 'w cost_stub =
  RouteModel :: "('w, string \<times> string, routing_decision) rpc"
  GetBudget :: "('w, string \<times> string, core_budget) rpc"
  SetBudget :: "('w, core_budget, core_budget) rpc"
  RecordUsage :: "('w, record_usage_request, record_usage_response) rpc"
  SummarizeCost :: "('w, string \<times> string, core_summary) rpc"

section \<open>Conversions\<close>

definition money_of :: "money \<Rightarrow> money" where
  "money_of m = \<lparr>mo_currency = mo_currency m, mo_amount_micros = mo_amount_micros m\<rparr>"

definition budget_view_of :: "core_budget \<Rightarrow> budget_view" where
  "budget_view_of b = (let currency = cb_currency b in
     \<lparr>bv_scope = cb_scope b, bv_scope_id = cb_scope_id b,
      bv_limit = \<lparr>mo_currency = currency, mo_amount_micros = cb_limit_micros b\<rparr>,
      bv_spent = \<lparr>mo_currency = currency, mo_amount_micros = cb_spent_micros b\<rparr>,
      bv_remaining = (if 0 < cb_limit_micros b
        then Some \<lparr>mo_currency = currency, mo_amount_micros = max (cb_limit_micros b - cb_spent_micros b) 0\<rparr>
        else None)\<rparr>)"

definition usage_of :: "usage_event \<Rightarrow> usage_summary" where
  "usage_of u = \<lparr>uv_id = us_id u, uv_demand_id = (case us_demand u of None \<Rightarrow> [] | Some d \<Rightarrow> d),
     uv_thread_id = us_thread_id u, uv_model = us_model u, uv_input_tokens = us_input_tokens u,
     uv_output_tokens = us_output_tokens u, uv_cache_read_tokens = us_cache_read_tokens u,
     uv_cache_creation_tokens = us_cache_creation_tokens u, uv_cost = money_of (us_cost u), uv_at = map_option instant (us_at u)\<rparr>"

text \<open>The sentence, with its section sign and dash in UTF-8.\<close>

definition overrun_notice :: "budget_view list \<Rightarrow> string" where
  "overrun_notice scopes =
     ''Budget exceeded ('' @ str_or (join '', '' (map (\<lambda>b. bv_scope b @ '':'' @ bv_scope_id b) scopes)) ''the active account''
     @ ''). The demand PAUSES and becomes an item in the attention box (ADR-0008 ''
     @ [CHR 0xC2, CHR 0xA7] @ ''2): it is not cut off halfway nor does it keep burning. ''
     @ ''A human decides '' @ [CHR 0xE2, CHR 0x80, CHR 0x94]
     @ '' raise the ceiling, cut scope or close it. Consumption keeps being measured meanwhile.''"

section \<open>Use cases\<close>

definition route_model :: "'w env \<Rightarrow> 'w cost_stub \<Rightarrow> string \<Rightarrow> string \<Rightarrow> ('w, routing_decision) io" where
  "route_model env st task_kind demand_id = logged ''route_model'' (account_scoped
     (mapv (\<lambda>d. \<lparr>rd_task_kind = rd_task_kind d, rd_model = rd_model d, rd_effort = rd_effort d, rd_reason = rd_reason d\<rparr>)
       (unary env (RouteModel st) (ret (task_kind, demand_id)))))"

definition get_budget :: "'w env \<Rightarrow> 'w cost_stub \<Rightarrow> string \<Rightarrow> string \<Rightarrow> ('w, budget_view) io" where
  "get_budget env st scope scope_id = logged ''get_budget'' (account_scoped
     (mapv budget_view_of (unary env (GetBudget st) (ret (scope, scope_id)))))"

text \<open>The spend and the currency are not sent: a field that was not set is empty.\<close>

definition set_budget :: "'w env \<Rightarrow> 'w cost_stub \<Rightarrow> new_budget \<Rightarrow> ('w, budget_view) io" where
  "set_budget env st body = logged ''set_budget'' (account_scoped (require_role managers
     (mapv budget_view_of (unary env (SetBudget st)
       (ret \<lparr>cb_scope = nb_scope body, cb_scope_id = nb_scope_id body, cb_limit_micros = nb_limit_micros body,
          cb_spent_micros = 0, cb_currency = []\<rparr>)))))"

definition usage_event_for :: "new_usage \<Rightarrow> usage_event" where
  "usage_event_for body = \<lparr>us_id = [],
     us_demand = (if nu_demand_id body = [] then None else Some (nu_demand_id body)),
     us_thread_id = nu_thread_id body, us_model = nu_model body, us_input_tokens = nu_input_tokens body,
     us_output_tokens = nu_output_tokens body, us_cache_read_tokens = nu_cache_read_tokens body,
     us_cache_creation_tokens = nu_cache_creation_tokens body,
     us_cost = \<lparr>mo_currency = nu_currency body, mo_amount_micros = nu_cost_micros body\<rparr>, us_at = None\<rparr>"

definition wanted_budgets :: "new_usage \<Rightarrow> (string \<times> string) list" where
  "wanted_budgets body = (if nu_demand_id body = [] then [(''account'', [])]
     else [(''demand'', nu_demand_id body), (''account'', [])])"

definition record_usage :: "'w env \<Rightarrow> 'w cost_stub \<Rightarrow> new_usage \<Rightarrow> string \<Rightarrow> ('w, record_usage_outcome) io" where
  "record_usage env st body key = logged ''record_usage'' (account_scoped
     (bnd (unary env (RecordUsage st)
        (mapv (\<lambda>k. \<lparr>ru_usage = usage_event_for body, ru_idempotency_key = k\<rparr>) (idempotency env key)))
      (\<lambda>resp. if \<not> rs_budget_exceeded resp
        then ret \<lparr>ro_recorded = rs_recorded resp, ro_budget_exceeded = False, ro_notice = [], ro_budgets = []\<rparr>
        else bnd (each (\<lambda>req. mapv budget_view_of (on_stub env (GetBudget st) req)) (wanted_budgets body))
          (\<lambda>scopes. ret \<lparr>ro_recorded = rs_recorded resp, ro_budget_exceeded = True,
             ro_notice = overrun_notice scopes, ro_budgets = scopes\<rparr>))))"

definition summarize_cost :: "'w env \<Rightarrow> 'w cost_stub \<Rightarrow> string \<Rightarrow> string \<Rightarrow> ('w, cost_summary) io" where
  "summarize_cost env st scope scope_id = logged ''summarize_cost'' (account_scoped
     (mapv (\<lambda>resp. \<lparr>zv_total = money_of (zs_total resp), zv_cache_hit_ratio = zs_cache_hit_ratio resp,
          zv_recent = map usage_of (zs_recent resp)\<rparr>)
       (unary env (SummarizeCost st) (ret (scope, scope_id)))))"

section \<open>The gRPC port\<close>

text \<open>The port's messages have the edge's fields: an absent remainder stays absent.\<close>

definition bff_budget :: "budget_view \<Rightarrow> budget_view" where
  "bff_budget b = \<lparr>bv_scope = bv_scope b, bv_scope_id = bv_scope_id b, bv_limit = money_of (bv_limit b),
     bv_spent = money_of (bv_spent b),
     bv_remaining = (case bv_remaining b of None \<Rightarrow> None | Some m \<Rightarrow> Some (money_of m))\<rparr>"

text \<open>\<^verbatim>\<open>uc.NewBudget(...)\<close>: pydantic's pattern of the scope and the floor of the ceiling.\<close>

definition NewBudget :: "string \<Rightarrow> string \<Rightarrow> int \<Rightarrow> ('w, new_budget) io" where
  "NewBudget scope scope_id limit_micros =
     (if scope \<notin> {''account'', ''demand''} then raise (ValidationError ''scope'')
      else if limit_micros < 0 then raise (ValidationError ''limit_micros'')
      else ret \<lparr>nb_scope = scope, nb_scope_id = scope_id, nb_limit_micros = limit_micros\<rparr>)"

definition grpc_GetBudget :: "'w env \<Rightarrow> 'w cost_stub \<Rightarrow> string \<Rightarrow> string \<Rightarrow> ('w, budget_view) io" where
  "grpc_GetBudget env st scope scope_id = mapv bff_budget (get_budget env st scope scope_id)"

definition grpc_SetBudget :: "'w env \<Rightarrow> 'w cost_stub \<Rightarrow> string \<Rightarrow> string \<Rightarrow> int \<Rightarrow> ('w, budget_view) io" where
  "grpc_SetBudget env st scope scope_id limit_micros =
     bnd (NewBudget (str_or scope ''account'') scope_id limit_micros)
       (\<lambda>body. mapv bff_budget (set_budget env st body))"

section \<open>The remainder\<close>

text \<open>
  What is left of a budget is never wrong about money. There is a remainder exactly when there is
  a ceiling; then it is never negative, with a spend of at least zero never more than the ceiling
  (so it fits the 64 bits the ceiling came in), zero exactly when the spend has reached the ceiling,
  and remainder plus spend make the ceiling until then. Everything is in the budget's own currency,
  none invented, and the gRPC port says the same.
\<close>

theorem remainder_is_exact:
  shows "(bv_remaining (budget_view_of b) = None \<longleftrightarrow> cb_limit_micros b \<le> 0)
    \<and> (\<forall>m. bv_remaining (budget_view_of b) = Some m \<longrightarrow>
        0 \<le> mo_amount_micros m
      \<and> (0 \<le> cb_spent_micros b \<and> cb_limit_micros b < 2 ^ 63 \<longrightarrow>
          mo_amount_micros m \<le> cb_limit_micros b \<and> mo_amount_micros m < 2 ^ 63)
      \<and> (mo_amount_micros m = 0 \<longleftrightarrow> cb_limit_micros b \<le> cb_spent_micros b)
      \<and> (cb_spent_micros b \<le> cb_limit_micros b \<longrightarrow> mo_amount_micros m + cb_spent_micros b = cb_limit_micros b)
      \<and> mo_currency m = cb_currency b)
    \<and> mo_currency (bv_limit (budget_view_of b)) = cb_currency b
    \<and> mo_currency (bv_spent (budget_view_of b)) = cb_currency b
    \<and> bff_budget (budget_view_of b) = budget_view_of b"
  by (auto simp: budget_view_of_def bff_budget_def money_of_def Let_def split: if_splits)

definition demo_budget :: core_budget where
  "demo_budget = \<lparr>cb_scope = ''account'', cb_scope_id = [], cb_limit_micros = 5000000, cb_spent_micros = 1250000,
     cb_currency = ''BRL''\<rparr>"

theorem remainder_is_exact_witness:
  "\<exists>m. bv_remaining (budget_view_of demo_budget) = Some m \<and> mo_amount_micros m + 1250000 = 5000000"
proof -
  obtain m where m: "bv_remaining (budget_view_of demo_budget) = Some m"
    using remainder_is_exact [of demo_budget, THEN conjunct1] by (auto simp: demo_budget_def)
  with remainder_is_exact [of demo_budget] show ?thesis by (auto simp: demo_budget_def)
qed

section \<open>A ceiling is governance\<close>

lemma NewBudget_run [io_simps]: "NewBudget scope scope_id n s =
    (if scope \<notin> {''account'', ''demand''} then (Inl (ValidationError ''scope''), s)
     else if n < 0 then (Inl (ValidationError ''limit_micros''), s)
     else (Inr \<lparr>nb_scope = scope, nb_scope_id = scope_id, nb_limit_micros = n\<rparr>, s))"
  by (simp add: NewBudget_def)

text \<open>
  Only whoever manages the account sets a ceiling, and nobody sets a spend. On the gRPC port an
  answer means: the caller may manage the account, the scope is the account's or a demand's (the
  account's when none was given), the ceiling is not negative, and the core was asked to write
  exactly that ceiling on that scope, with no spend and no currency of the client's. A negative
  ceiling or an invented scope is refused before anything of the outside world is touched.
\<close>

theorem ceiling_is_governance:
  shows "(limit < 0 \<or> scope \<notin> {[], ''account'', ''demand''} \<longrightarrow>
        (\<exists>f. refuses (grpc_SetBudget env st scope scope_id limit) s (ValidationError f)))
    \<and> (\<forall>v s'. grpc_SetBudget env st scope scope_id limit s = (Inr v, s') \<longrightarrow>
        (\<exists>ctx b s1 s2. auth_ctx s = Some ctx \<and> may_call managers ctx \<and> 0 \<le> limit
          \<and> asked env (SetBudget st) \<lparr>cb_scope = str_or scope ''account'', cb_scope_id = scope_id,
               cb_limit_micros = limit, cb_spent_micros = 0, cb_currency = []\<rparr> s1 b s2
          \<and> str_or scope ''account'' \<in> {''account'', ''demand''} \<and> v = budget_view_of b))"
proof (intro conjI impI allI)
  assume "limit < 0 \<or> scope \<notin> {[], ''account'', ''demand''}"
  then show "\<exists>f. refuses (grpc_SetBudget env st scope scope_id limit) s (ValidationError f)"
    by (cases scope) (auto simp: refuses_def result_def after_def grpc_SetBudget_def bnd_run NewBudget_run)
next
  fix v s' assume a: "grpc_SetBudget env st scope scope_id limit s = (Inr v, s')"
  let ?body = "\<lparr>nb_scope = str_or scope ''account'', nb_scope_id = scope_id, nb_limit_micros = limit\<rparr>"
  from a obtain w where ok: "str_or scope ''account'' \<in> {''account'', ''demand''}" "0 \<le> limit"
    and w: "set_budget env st ?body s = (Inr w, s')" "v = bff_budget w"
    by (auto simp: grpc_SetBudget_def bnd_run NewBudget_run mapv_Inr split: if_splits)
  from managed_read_Inr [OF w(1) [unfolded set_budget_def]] obtain ctx b s1 s2 where
    "auth_ctx s = Some ctx" "may_call managers ctx"
    "asked env (SetBudget st) \<lparr>cb_scope = str_or scope ''account'', cb_scope_id = scope_id,
               cb_limit_micros = limit, cb_spent_micros = 0, cb_currency = []\<rparr> s1 b s2"
    "w = budget_view_of b" by auto
  moreover from this w(2) have "v = budget_view_of b"
    by (simp add: bff_budget_def budget_view_of_def money_of_def Let_def)
  ultimately show "\<exists>ctx b s1 s2. auth_ctx s = Some ctx \<and> may_call managers ctx \<and> 0 \<le> limit
          \<and> asked env (SetBudget st) \<lparr>cb_scope = str_or scope ''account'', cb_scope_id = scope_id,
               cb_limit_micros = limit, cb_spent_micros = 0, cb_currency = []\<rparr> s1 b s2
          \<and> str_or scope ''account'' \<in> {''account'', ''demand''} \<and> v = budget_view_of b"
    using ok by blast
qed

definition demo_cost :: "nat cost_stub" where
  "demo_cost = \<lparr>RouteModel = answering \<lparr>rd_task_kind = ''spec'', rd_model = ''m'', rd_effort = ''high'', rd_reason = ''r''\<rparr>,
     GetBudget = answering demo_budget, SetBudget = answering demo_budget,
     RecordUsage = answering \<lparr>rs_recorded = True, rs_budget_exceeded = True\<rparr>,
     SummarizeCost = answering \<lparr>zs_total = no_money, zs_cache_hit_ratio = 0, zs_recent = []\<rparr>\<rparr>"

theorem ceiling_is_governance_witness:
  "\<exists>f. refuses (grpc_SetBudget demo_env demo_cost [] [] (- 1)) (demo_rt None) (ValidationError f)"
  using ceiling_is_governance [of "- 1" "[]" demo_env demo_cost "[]" "demo_rt None"] by simp

section \<open>An overrun is an answer\<close>

text \<open>The reads of the blown budgets, in order: each was asked, and the views are theirs.\<close>

lemma each_on_stub_Inr:
  "channel_open s \<Longrightarrow> each (\<lambda>req. mapv f (on_stub env rpc req)) reqs s = (Inr vs, s') \<Longrightarrow>
   list_all2 (\<lambda>req v. \<exists>resp s1 s2. asked env rpc req s1 resp s2 \<and> v = f resp) reqs vs"
proof (induction reqs arbitrary: s vs)
  case Nil
  then show ?case by simp
next
  case (Cons req reqs)
  from Cons.prems(2) obtain v s1 vs' where
    v: "mapv f (on_stub env rpc req) s = (Inr v, s1)"
    and rest: "each (\<lambda>req. mapv f (on_stub env rpc req)) reqs s1 = (Inr vs', s')" and vs: "vs = v # vs'"
    by (auto simp: bnd_Inr)
  from v Cons.prems(1) obtain resp where r: "asked env rpc req s resp s1" "v = f resp"
    by (auto simp: mapv_Inr on_stub_open unary_asked)
  from Cons.IH [OF asked_open [OF r(1)] rest] r show ?case unfolding vs by auto
qed

lemma each_on_stub_Inl:
  "channel_open s \<Longrightarrow> each (\<lambda>req. mapv f (on_stub env rpc req)) reqs s = (Inl (AioRpcError c d), s') \<Longrightarrow>
   \<exists>req \<in> set reqs. \<exists>s1 s2. turned_down env rpc req s1 c d s2"
proof (induction reqs arbitrary: s)
  case Nil
  then show ?case by simp
next
  case (Cons req reqs)
  from Cons.prems(2) consider "mapv f (on_stub env rpc req) s = (Inl (AioRpcError c d), s')"
    | v s1 where "mapv f (on_stub env rpc req) s = (Inr v, s1)"
        "each (\<lambda>req. mapv f (on_stub env rpc req)) reqs s1 = (Inl (AioRpcError c d), s')"
    by (auto simp: bnd_Inl)
  then show ?case
  proof cases
    case 1
    with Cons.prems(1) show ?thesis by (auto simp: mapv_Inl on_stub_open unary_error)
  next
    case 2
    from 2(1) Cons.prems(1) have "channel_open s1"
      by (auto simp: mapv_Inr on_stub_open unary_asked dest: asked_open)
    from Cons.IH [OF this 2(2)] show ?thesis by auto
  qed
qed

lemma record_usage_outcomes:
  assumes "record_usage env st body key s = (r, s')"
  shows "case r of
      Inr out \<Rightarrow> (\<exists>k resp s1 s2. keyed env key s k \<and> auth_ctx s1 = auth_ctx s
        \<and> asked env (RecordUsage st) \<lparr>ru_usage = usage_event_for body, ru_idempotency_key = k\<rparr> s1 resp s2
        \<and> ro_recorded out = rs_recorded resp \<and> ro_budget_exceeded out = rs_budget_exceeded resp
        \<and> (if rs_budget_exceeded resp
           then list_all2 (\<lambda>req v. \<exists>b s3 s4. asked env (GetBudget st) req s3 b s4 \<and> v = budget_view_of b)
                  (wanted_budgets body) (ro_budgets out)
             \<and> ro_notice out = overrun_notice (ro_budgets out)
           else ro_budgets out = [] \<and> ro_notice out = [] \<and> ext s' = ext s2))
    | Inl e \<Rightarrow> (\<forall>c d. e = AioRpcError c d \<longrightarrow> (\<exists>k s1 s2. keyed env key s k
        \<and> (turned_down env (RecordUsage st) \<lparr>ru_usage = usage_event_for body, ru_idempotency_key = k\<rparr> s1 c d s2
          \<or> (\<exists>resp. asked env (RecordUsage st) \<lparr>ru_usage = usage_event_for body, ru_idempotency_key = k\<rparr> s1 resp s2
              \<and> rs_budget_exceeded resp
              \<and> (\<exists>req \<in> set (wanted_budgets body). \<exists>s3 s4. turned_down env (GetBudget st) req s3 c d s4)))))"
proof -
  let ?q = "\<lambda>k. \<lparr>ru_usage = usage_event_for body, ru_idempotency_key = k\<rparr>"
  let ?u = "unary env (RecordUsage st) (mapv ?q (idempotency env key))"
  let ?s = "write_log (LogCall ''record_usage'') s"
  show ?thesis
  proof (cases r)
    case (Inr out)
    from logged_Inr [OF assms [unfolded record_usage_def Inr]] obtain resp s2 s3 where
      u: "?u ?s = (Inr resp, s2)"
      and rest: "(if \<not> rs_budget_exceeded resp
        then ret \<lparr>ro_recorded = rs_recorded resp, ro_budget_exceeded = False, ro_notice = [], ro_budgets = []\<rparr>
        else bnd (each (\<lambda>req. mapv budget_view_of (on_stub env (GetBudget st) req)) (wanted_budgets body))
          (\<lambda>scopes. ret \<lparr>ro_recorded = rs_recorded resp, ro_budget_exceeded = True,
             ro_notice = overrun_notice scopes, ro_budgets = scopes\<rparr>)) s2 = (Inr out, s3)"
      and s': "s' = write_log (LogReturn ''record_usage'') s3"
      unfolding scoped_Inr bnd_Inr by blast
    from unary_keyed [OF u] obtain k s1 where
      k: "keyed env key s k" "asked env (RecordUsage st) (?q k) s1 resp s2" "auth_ctx s1 = auth_ctx s" by auto
    have "if rs_budget_exceeded resp
           then list_all2 (\<lambda>req v. \<exists>b s3 s4. asked env (GetBudget st) req s3 b s4 \<and> v = budget_view_of b)
                  (wanted_budgets body) (ro_budgets out)
             \<and> ro_notice out = overrun_notice (ro_budgets out)
           else ro_budgets out = [] \<and> ro_notice out = [] \<and> ext s' = ext s2"
      using rest s' each_on_stub_Inr [OF asked_open [OF k(2)]]
      by (auto simp: bnd_Inr split: if_splits)
    moreover have "ro_recorded out = rs_recorded resp \<and> ro_budget_exceeded out = rs_budget_exceeded resp"
      using rest by (auto simp: bnd_Inr split: if_splits)
    ultimately show ?thesis using k unfolding Inr sum.case by blast
  next
    case (Inl e)
    have "\<exists>k s1 s2. keyed env key s k \<and> (turned_down env (RecordUsage st) (?q k) s1 c d s2
          \<or> (\<exists>resp. asked env (RecordUsage st) (?q k) s1 resp s2 \<and> rs_budget_exceeded resp
              \<and> (\<exists>req \<in> set (wanted_budgets body). \<exists>s3 s4. turned_down env (GetBudget st) req s3 c d s4)))"
      if e: "e = AioRpcError c d" for c d
    proof -
      from logged_Inl [OF assms [unfolded record_usage_def Inl e]] consider
          s1 where "?u ?s = (Inl (AioRpcError c d), s1)"
        | resp s1 s2 where "?u ?s = (Inr resp, s1)" "rs_budget_exceeded resp"
            "each (\<lambda>req. mapv budget_view_of (on_stub env (GetBudget st) req)) (wanted_budgets body) s1
              = (Inl (AioRpcError c d), s2)"
        by (auto dest!: scoped_Inl simp: bnd_Inl split: if_splits)
      then show ?thesis
      proof cases
        case 1
        from unary_keyed_error [OF this] show ?thesis by auto
      next
        case 2
        from unary_keyed [OF 2(1)] obtain k s0 where
          k: "keyed env key s k" "asked env (RecordUsage st) (?q k) s0 resp s1" by auto
        from each_on_stub_Inl [OF asked_open [OF k(2)] 2(3)] k 2(2) show ?thesis by blast
      qed
    qed
    then show ?thesis by (simp add: Inl)
  qed
qed

definition demo_usage :: new_usage where
  "demo_usage = \<lparr>nu_model = ''m'', nu_demand_id = ''d-1'', nu_thread_id = [], nu_input_tokens = 10, nu_output_tokens = 5,
     nu_cache_read_tokens = 0, nu_cache_creation_tokens = 0, nu_cost_micros = 900, nu_currency = ''BRL''\<rparr>"



end
