(* ===== verification/TurnRuntime.thy ===== *)
theory TurnRuntime
  imports Cost
begin

text \<open>
  \<^verbatim>\<open>app/usecases/runtime.py\<close> with both its ports: one turn of an agent, run by the core under a
  deadline of its own and under the client's key, which the edge never replaces.
\<close>

section \<open>Models\<close>

record run_turn_body =
  rb_text :: string
  rb_task_kind :: string
  rb_resource_id :: string
  rb_operator_note :: string
  rb_max_output_tokens :: int

record run_turn_request =
  rr_demand_id :: string
  rr_thread_id :: string
  rr_text :: string
  rr_task_kind :: string
  rr_resource_id :: string
  rr_operator_note :: string
  rr_max_output_tokens :: int
  rr_idempotency_key :: string

text \<open>Consumption, routing and the finding have the same fields on every side.\<close>

record turn_usage =
  tn_input_tokens :: int
  tn_output_tokens :: int
  tn_cache_read_tokens :: int
  tn_cache_creation_tokens :: int
  tn_cost :: money
  tn_cache_creation_known :: bool
  tn_cost_known :: bool

record routing_view =
  rw_task_kind :: string
  rw_model :: string
  rw_effort :: string
  rw_effort_applied :: string
  rw_reason :: string
  rw_from_agent_card :: bool

record finding_ref =
  fr_id :: string
  fr_title :: string

record turn_outcome =
  to_demand_id :: string
  to_thread_id :: string
  to_provider :: string
  to_routing :: routing_view
  to_reply :: string
  to_message_ids :: "string list"
  to_concluded :: bool
  to_finding :: "finding_ref option"
  to_usage :: turn_usage
  to_context_truncated :: bool
  to_paused :: bool
  to_notice :: string

record 'w agent_stub =
  core_RunTurn :: "('w, run_turn_request, turn_outcome) rpc"

text \<open>\<^verbatim>\<open>RunTurn(...)\<close>: what pydantic accepts, field by field in the order of the class.\<close>

definition RunTurn :: "string \<Rightarrow> string \<Rightarrow> string \<Rightarrow> string \<Rightarrow> int \<Rightarrow> ('w, run_turn_body) io" where
  "RunTurn body_text task_kind resource_id operator_note max_output_tokens =
     (if body_text = [] then raise (ValidationError ''text'')
      else if task_kind = [] then raise (ValidationError ''task_kind'')
      else if max_output_tokens < 256 \<or> 64000 < max_output_tokens then raise (ValidationError ''max_output_tokens'')
      else ret \<lparr>rb_text = body_text, rb_task_kind = task_kind, rb_resource_id = resource_id,
        rb_operator_note = operator_note, rb_max_output_tokens = max_output_tokens\<rparr>)"

definition outcome_of :: "turn_outcome \<Rightarrow> turn_outcome" where
  "outcome_of p = \<lparr>to_demand_id = to_demand_id p, to_thread_id = to_thread_id p, to_provider = to_provider p,
     to_routing = \<lparr>rw_task_kind = rw_task_kind (to_routing p), rw_model = rw_model (to_routing p),
       rw_effort = rw_effort (to_routing p), rw_effort_applied = rw_effort_applied (to_routing p),
       rw_reason = rw_reason (to_routing p), rw_from_agent_card = rw_from_agent_card (to_routing p)\<rparr>,
     to_reply = to_reply p, to_message_ids = to_message_ids p, to_concluded = to_concluded p,
     to_finding = (case to_finding p of None \<Rightarrow> None | Some f \<Rightarrow> Some \<lparr>fr_id = fr_id f, fr_title = fr_title f\<rparr>),
     to_usage = \<lparr>tn_input_tokens = tn_input_tokens (to_usage p), tn_output_tokens = tn_output_tokens (to_usage p),
       tn_cache_read_tokens = tn_cache_read_tokens (to_usage p),
       tn_cache_creation_tokens = tn_cache_creation_tokens (to_usage p),
       tn_cost = money_of (tn_cost (to_usage p)),
       tn_cache_creation_known = tn_cache_creation_known (to_usage p),
       tn_cost_known = tn_cost_known (to_usage p)\<rparr>,
     to_context_truncated = to_context_truncated p, to_paused = to_paused p, to_notice = to_notice p\<rparr>"

definition run_turn :: "'w env \<Rightarrow> 'w agent_stub \<Rightarrow> string \<Rightarrow> string \<Rightarrow> run_turn_body \<Rightarrow> string
    \<Rightarrow> ('w, turn_outcome) io" where
  "run_turn env st demand_id thread_id body key = logged ''run_turn'' (account_scoped (require_role writers
     (mapv outcome_of (unary_by (agent_turn_deadline_s (cfg env)) env (core_RunTurn st)
       (ret \<lparr>rr_demand_id = demand_id, rr_thread_id = thread_id, rr_text = rb_text body,
          rr_task_kind = rb_task_kind body, rr_resource_id = rb_resource_id body,
          rr_operator_note = rb_operator_note body, rr_max_output_tokens = rb_max_output_tokens body,
          rr_idempotency_key = key\<rparr>)))))"

section \<open>The gRPC port\<close>

text \<open>The port's message has a cost, and the converter does not fill it in: it stays empty.\<close>

definition bff_outcome :: "turn_outcome \<Rightarrow> turn_outcome" where
  "bff_outcome p = \<lparr>to_demand_id = to_demand_id p, to_thread_id = to_thread_id p, to_provider = to_provider p,
     to_routing = \<lparr>rw_task_kind = rw_task_kind (to_routing p), rw_model = rw_model (to_routing p),
       rw_effort = rw_effort (to_routing p), rw_effort_applied = rw_effort_applied (to_routing p),
       rw_reason = rw_reason (to_routing p), rw_from_agent_card = rw_from_agent_card (to_routing p)\<rparr>,
     to_reply = to_reply p, to_message_ids = to_message_ids p, to_concluded = to_concluded p,
     to_finding = (case to_finding p of None \<Rightarrow> None | Some f \<Rightarrow> Some \<lparr>fr_id = fr_id f, fr_title = fr_title f\<rparr>),
     to_usage = \<lparr>tn_input_tokens = tn_input_tokens (to_usage p), tn_output_tokens = tn_output_tokens (to_usage p),
       tn_cache_read_tokens = tn_cache_read_tokens (to_usage p),
       tn_cache_creation_tokens = tn_cache_creation_tokens (to_usage p),
       tn_cost = no_money,
       tn_cache_creation_known = tn_cache_creation_known (to_usage p),
       tn_cost_known = tn_cost_known (to_usage p)\<rparr>,
     to_context_truncated = to_context_truncated p, to_paused = to_paused p, to_notice = to_notice p\<rparr>"

definition grpc_RunTurn :: "'w env \<Rightarrow> 'w agent_stub \<Rightarrow> string \<Rightarrow> string \<Rightarrow> run_turn_body \<Rightarrow> string
    \<Rightarrow> ('w, turn_outcome) io" where
  "grpc_RunTurn env st demand_id thread_id request key =
     bnd (RunTurn (rb_text request) (str_or (rb_task_kind request) ''implementation'') (rb_resource_id request)
        (rb_operator_note request)
        (if rb_max_output_tokens request = 0 then 8192 else rb_max_output_tokens request))
       (\<lambda>body. mapv bff_outcome (run_turn env st demand_id thread_id body key))"

text \<open>The REST route: the body is checked with the same class before the handler runs.\<close>

definition rest_run_turn :: "'w env \<Rightarrow> 'w agent_stub \<Rightarrow> string \<Rightarrow> string \<Rightarrow> run_turn_body \<Rightarrow> string
    \<Rightarrow> ('w, turn_outcome) io" where
  "rest_run_turn env st demand_id thread_id request key =
     bnd (RunTurn (rb_text request) (rb_task_kind request) (rb_resource_id request) (rb_operator_note request)
        (rb_max_output_tokens request))
       (\<lambda>body. run_turn env st demand_id thread_id body key)"

section \<open>One turn, paid once\<close>

lemma RunTurn_run [io_simps]: "RunTurn t k r n m s =
    (if t = [] then Inl (ValidationError ''text'')
     else if k = [] then Inl (ValidationError ''task_kind'')
     else if m < 256 \<or> 64000 < m then Inl (ValidationError ''max_output_tokens'')
     else Inr \<lparr>rb_text = t, rb_task_kind = k, rb_resource_id = r, rb_operator_note = n, rb_max_output_tokens = m\<rparr>, s)"
  by (simp add: RunTurn_def)

definition turn_request :: "string \<Rightarrow> string \<Rightarrow> run_turn_body \<Rightarrow> string \<Rightarrow> run_turn_request" where
  "turn_request d t b key = \<lparr>rr_demand_id = d, rr_thread_id = t, rr_text = rb_text b,
     rr_task_kind = rb_task_kind b, rr_resource_id = rb_resource_id b, rr_operator_note = rb_operator_note b,
     rr_max_output_tokens = rb_max_output_tokens b, rr_idempotency_key = key\<rparr>"

lemma unary_by_Inr: "unary_by t env rpc (ret req) s = (Inr resp, s') \<longleftrightarrow>
    channel_open s \<and> (\<exists>md s1 w. core_metadata env s = (Inr md, s1)
      \<and> rpc req \<lparr>co_metadata = md, co_timeout = Some t\<rparr> (ext s1) = (Inr resp, w) \<and> s' = s1\<lparr>ext := w\<rparr>)"
  by (auto simp: unary_by_def bnd_Inr call_iff_Inr)

lemma outcome_of_id [simp]: "outcome_of p = p"
  by (cases p) (simp add: outcome_of_def money_of_def split: option.splits)

lemma run_turn_Inr:
  assumes "run_turn env st d t b key s = (Inr p, s')"
  shows "\<exists>ctx md w w'. auth_ctx s = Some ctx \<and> may_call writers ctx
    \<and> core_RunTurn st (turn_request d t b key)
        \<lparr>co_metadata = md, co_timeout = Some (agent_turn_deadline_s (cfg env))\<rparr> w = (Inr p, w')"
  using logged_Inr [OF assms [unfolded run_turn_def]]
  by (auto simp: managed_Inr mapv_Inr unary_by_Inr turn_request_def)


definition demo_outcome :: turn_outcome where
  "demo_outcome = \<lparr>to_demand_id = ''d-1'', to_thread_id = ''t-1'', to_provider = ''p'',
     to_routing = \<lparr>rw_task_kind = ''spec'', rw_model = ''m'', rw_effort = ''high'', rw_effort_applied = ''high'',
       rw_reason = ''r'', rw_from_agent_card = False\<rparr>,
     to_reply = ''done'', to_message_ids = [''m-1''], to_concluded = False, to_finding = None,
     to_usage = \<lparr>tn_input_tokens = 10, tn_output_tokens = 5, tn_cache_read_tokens = 0, tn_cache_creation_tokens = 0,
       tn_cost = \<lparr>mo_currency = ''BRL'', mo_amount_micros = 900\<rparr>, tn_cache_creation_known = True, tn_cost_known = True\<rparr>,
     to_context_truncated = False, to_paused = False, to_notice = []\<rparr>"

definition demo_turn :: run_turn_body where
  "demo_turn = \<lparr>rb_text = ''go'', rb_task_kind = [], rb_resource_id = [], rb_operator_note = [], rb_max_output_tokens = 0\<rparr>"


end
