(* ===== verification/Execution.thy ===== *)
theory Execution
  imports Usecase Vocabulary
begin

text \<open>
  \<^verbatim>\<open>app/usecases/execution.py\<close> with both its ports: the demand's sandbox, whose isolation tier is
  always the one the client declared.
\<close>

section \<open>Vocabulary\<close>

definition NAME_BY_TIER :: "(int \<times> string) list" where
  "NAME_BY_TIER = [(1, ''hardware''), (2, ''kernel_emulated''), (3, ''namespace'')]"

definition STATE_BY_ENUM :: "(int \<times> string) list" where
  "STATE_BY_ENUM = [(1, ''provisioning''), (2, ''active''), (3, ''suspended''), (4, ''destroyed'')]"

definition bff_NAME_BY_TIER :: "(int \<times> string) list" where
  "bff_NAME_BY_TIER = [(1, ''hardware''), (2, ''kernel_emulated''), (3, ''namespace'')]"

definition STATE_BY_NAME :: "(string \<times> int) list" where
  "STATE_BY_NAME = [(''provisioning'', 1), (''active'', 2), (''suspended'', 3), (''destroyed'', 4)]"

interpretation tiers: shared_vocabulary NAME_BY_TIER bff_NAME_BY_TIER
  by unfold_locales (simp_all add: NAME_BY_TIER_def bff_NAME_BY_TIER_def)

interpretation sandbox_states: crossing STATE_BY_ENUM STATE_BY_NAME
  by unfold_locales (simp_all add: STATE_BY_ENUM_def STATE_BY_NAME_def dict_invert_def)

section \<open>Models\<close>

record endpoint =
  ep_name :: string
  ep_url :: string
  ep_port :: int
  ep_state :: string

record core_sandbox =
  sx_id :: string
  sx_demand :: string
  sx_state :: int
  sx_tier :: int
  sx_namespace :: string
  sx_endpoints :: "endpoint list"
  sx_last_active_at :: "timestamp option"

record sandbox =
  sb_id :: string
  sb_demand_id :: string
  sb_state :: string
  sb_tier :: string
  sb_namespace :: string
  sb_endpoints :: "endpoint list"
  sb_last_active_at :: "timestamp option"

record new_sandbox =
  ns_demand_id :: string
  ns_min_tier :: string

record provision_request =
  pq_demand_id :: string
  pq_min_tier :: int
  pq_idempotency_key :: string

record 'w execution_stub =
  ProvisionSandbox :: "('w, provision_request, core_sandbox) rpc"
  DescribeSandbox :: "('w, string, core_sandbox) rpc"
  SuspendSandbox :: "('w, string, core_sandbox) rpc"
  ResumeSandbox :: "('w, string, core_sandbox) rpc"
  DestroySandbox :: "('w, string, bool) rpc"

text \<open>\<^verbatim>\<open>NewSandbox(...)\<close>: no tier is not a tier.\<close>

definition NewSandbox :: "string \<Rightarrow> string \<Rightarrow> ('w, new_sandbox) io" where
  "NewSandbox demand_id min_tier =
     (if demand_id = [] then raise (ValidationError ''demand_id'')
      else if min_tier \<notin> {''hardware'', ''kernel_emulated'', ''namespace''} then raise (ValidationError ''min_tier'')
      else ret \<lparr>ns_demand_id = demand_id, ns_min_tier = min_tier\<rparr>)"

definition sandbox_of :: "core_sandbox \<Rightarrow> sandbox" where
  "sandbox_of s = \<lparr>sb_id = sx_id s, sb_demand_id = sx_demand s, sb_state = enum_name STATE_BY_ENUM (sx_state s),
     sb_tier = enum_name NAME_BY_TIER (sx_tier s), sb_namespace = sx_namespace s,
     sb_endpoints = map (\<lambda>e. \<lparr>ep_name = ep_name e, ep_url = ep_url e, ep_port = ep_port e, ep_state = ep_state e\<rparr>)
       (sx_endpoints s),
     sb_last_active_at = map_option instant (sx_last_active_at s)\<rparr>"

section \<open>Use cases\<close>

text \<open>\<^verbatim>\<open>_TIER_BY_NAME[body.min_tier]\<close>: a name outside the table is a KeyError.\<close>

definition tier_value :: "string \<Rightarrow> ('w, int) io" where
  "tier_value name = (case map_of (dict_invert NAME_BY_TIER) name of
      None \<Rightarrow> raise (KeyError name) | Some n \<Rightarrow> ret n)"

definition provision_sandbox :: "'w env \<Rightarrow> 'w execution_stub \<Rightarrow> new_sandbox \<Rightarrow> string \<Rightarrow> ('w, sandbox) io" where
  "provision_sandbox env st body key = logged ''provision_sandbox'' (account_scoped (require_role writers
     (mapv sandbox_of (unary env (ProvisionSandbox st) (bnd (tier_value (ns_min_tier body)) (\<lambda>tier.
        mapv (\<lambda>k. \<lparr>pq_demand_id = ns_demand_id body, pq_min_tier = tier, pq_idempotency_key = k\<rparr>)
          (idempotency env key)))))))"

definition describe_sandbox :: "'w env \<Rightarrow> 'w execution_stub \<Rightarrow> string \<Rightarrow> ('w, sandbox) io" where
  "describe_sandbox env st sandbox_id = logged ''describe_sandbox'' (account_scoped
     (mapv sandbox_of (unary env (DescribeSandbox st) (ret sandbox_id))))"

definition suspend_sandbox :: "'w env \<Rightarrow> 'w execution_stub \<Rightarrow> string \<Rightarrow> ('w, sandbox) io" where
  "suspend_sandbox env st sandbox_id = logged ''suspend_sandbox'' (account_scoped (require_role writers
     (mapv sandbox_of (unary env (SuspendSandbox st) (ret sandbox_id)))))"

definition resume_sandbox :: "'w env \<Rightarrow> 'w execution_stub \<Rightarrow> string \<Rightarrow> ('w, sandbox) io" where
  "resume_sandbox env st sandbox_id = logged ''resume_sandbox'' (account_scoped (require_role writers
     (mapv sandbox_of (unary env (ResumeSandbox st) (ret sandbox_id)))))"

definition destroy_sandbox :: "'w env \<Rightarrow> 'w execution_stub \<Rightarrow> string \<Rightarrow> ('w, bool) io" where
  "destroy_sandbox env st sandbox_id = logged ''destroy_sandbox'' (account_scoped (require_role writers
     (mapv id (unary env (DestroySandbox st) (ret sandbox_id)))))"

section \<open>The ports\<close>

definition bff_sandbox :: "sandbox \<Rightarrow> core_sandbox" where
  "bff_sandbox s = \<lparr>sx_id = sb_id s, sx_demand = sb_demand_id s, sx_state = dict_get STATE_BY_NAME (sb_state s) 0,
     sx_tier = enum_value bff_NAME_BY_TIER (sb_tier s), sx_namespace = sb_namespace s,
     sx_endpoints = map (\<lambda>e. \<lparr>ep_name = ep_name e, ep_url = ep_url e, ep_port = ep_port e, ep_state = ep_state e\<rparr>)
       (sb_endpoints s),
     sx_last_active_at = sb_last_active_at s\<rparr>"

definition grpc_ProvisionSandbox :: "'w env \<Rightarrow> 'w execution_stub \<Rightarrow> string \<Rightarrow> int \<Rightarrow> string
    \<Rightarrow> ('w, core_sandbox) io" where
  "grpc_ProvisionSandbox env st demand_id min_tier key =
     bnd (NewSandbox demand_id (enum_name bff_NAME_BY_TIER min_tier))
       (\<lambda>body. mapv bff_sandbox (provision_sandbox env st body key))"

definition grpc_SuspendSandbox :: "'w env \<Rightarrow> 'w execution_stub \<Rightarrow> string \<Rightarrow> ('w, core_sandbox) io" where
  "grpc_SuspendSandbox env st sandbox_id = mapv bff_sandbox (suspend_sandbox env st sandbox_id)"

definition rest_provision_sandbox :: "'w env \<Rightarrow> 'w execution_stub \<Rightarrow> string \<Rightarrow> string \<Rightarrow> string
    \<Rightarrow> ('w, sandbox) io" where
  "rest_provision_sandbox env st demand_id min_tier key =
     bnd (NewSandbox demand_id min_tier) (\<lambda>body. provision_sandbox env st body key)"

section \<open>The tier is declared\<close>

lemma NewSandbox_run [io_simps]: "NewSandbox d t s =
    (if d = [] then Inl (ValidationError ''demand_id'')
     else if \<not> known_name NAME_BY_TIER t then Inl (ValidationError ''min_tier'')
     else Inr \<lparr>ns_demand_id = d, ns_min_tier = t\<rparr>, s)"
  by (auto simp: NewSandbox_def known_name_def NAME_BY_TIER_def)

lemma tier_value_known: "known_name NAME_BY_TIER t \<Longrightarrow> tier_value t = ret (enum_value NAME_BY_TIER t)"
  by (auto simp: tier_value_def known_name_def NAME_BY_TIER_def enum_value_def dict_get_def dict_invert_def)

lemma provision_Inr:
  assumes "known_name NAME_BY_TIER (ns_min_tier b)" and "provision_sandbox env st b key s = (Inr x, s')"
  shows "\<exists>ctx k resp s1 s2. auth_ctx s = Some ctx \<and> may_call writers ctx \<and> keyed env key s k
    \<and> asked env (ProvisionSandbox st) \<lparr>pq_demand_id = ns_demand_id b,
        pq_min_tier = enum_value NAME_BY_TIER (ns_min_tier b), pq_idempotency_key = k\<rparr> s1 resp s2
    \<and> x = sandbox_of resp"
  using write_Inr [OF assms(2) [unfolded provision_sandbox_def tier_value_known [OF assms(1)] bnd_ret]] by blast

lemma tier_known: "known_name NAME_BY_TIER (enum_name bff_NAME_BY_TIER n) \<longleftrightarrow> known_number bff_NAME_BY_TIER n"
proof (cases "known_number bff_NAME_BY_TIER n")
  case True
  then show ?thesis using tiers.edge.known_enum_name by (simp add: tiers.same_known(2))
next
  case False
  then show ?thesis using tiers.core.empty_absent by (simp add: tiers.edge.name_unknown known_name_def)
qed

text \<open>
  The isolation of a sandbox is the client's word. On either port a request with no tier, or one
  outside the vocabulary, is a validation error before anything of the outside world is touched; and
  an answer means somebody who may write had the core provision a sandbox for that demand, under the
  write's key, with the very tier declared: the number sent on gRPC, the number of the name on REST,
  never another and never zero. The tier shown is the one the core says it delivered.
\<close>

theorem tier_is_declared:
  shows "(\<not> known_number bff_NAME_BY_TIER n \<longrightarrow>
        (\<exists>f. refuses (grpc_ProvisionSandbox env st d n key) s (ValidationError f)))
    \<and> (\<not> known_name NAME_BY_TIER t \<longrightarrow>
        (\<exists>f. refuses (rest_provision_sandbox env st d t key) s (ValidationError f)))
    \<and> (\<forall>b s'. grpc_ProvisionSandbox env st d n key s = (Inr b, s') \<longrightarrow>
        (\<exists>ctx k resp s1 s2. auth_ctx s = Some ctx \<and> may_call writers ctx \<and> keyed env key s k
          \<and> asked env (ProvisionSandbox st) \<lparr>pq_demand_id = d, pq_min_tier = n, pq_idempotency_key = k\<rparr> s1 resp s2
          \<and> n \<noteq> 0 \<and> sx_tier b = (if known_number NAME_BY_TIER (sx_tier resp) then sx_tier resp else 0)))
    \<and> (\<forall>r s'. rest_provision_sandbox env st d t key s = (Inr r, s') \<longrightarrow>
        (\<exists>ctx k resp m s1 s2. auth_ctx s = Some ctx \<and> may_call writers ctx \<and> keyed env key s k
          \<and> asked env (ProvisionSandbox st) \<lparr>pq_demand_id = d, pq_min_tier = m, pq_idempotency_key = k\<rparr> s1 resp s2
          \<and> (m, t) \<in> set NAME_BY_TIER \<and> r = sandbox_of resp))"
proof (intro conjI impI allI)
  assume "\<not> known_number bff_NAME_BY_TIER n"
  then show "\<exists>f. refuses (grpc_ProvisionSandbox env st d n key) s (ValidationError f)"
    by (auto simp: refuses_def result_def after_def grpc_ProvisionSandbox_def bnd_run NewSandbox_run tier_known)
next
  assume "\<not> known_name NAME_BY_TIER t"
  then show "\<exists>f. refuses (rest_provision_sandbox env st d t key) s (ValidationError f)"
    by (auto simp: refuses_def result_def after_def rest_provision_sandbox_def bnd_run NewSandbox_run)
next
  fix b s' assume a: "grpc_ProvisionSandbox env st d n key s = (Inr b, s')"
  let ?b = "\<lparr>ns_demand_id = d, ns_min_tier = enum_name bff_NAME_BY_TIER n\<rparr>"
  from a have n: "known_number bff_NAME_BY_TIER n"
    by (auto simp: grpc_ProvisionSandbox_def NewSandbox_run bnd_run tier_known split: if_splits)
  with a obtain r where r: "provision_sandbox env st ?b key s = (Inr r, s')" and b: "b = bff_sandbox r"
    by (auto simp: grpc_ProvisionSandbox_def NewSandbox_run bnd_run tier_known mapv_Inr split: if_splits)
  from n have v: "enum_value NAME_BY_TIER (enum_name bff_NAME_BY_TIER n) = n" by (simp add: tiers.crossing_in)
  from provision_Inr [OF _ r] n v obtain ctx k resp s1 s2 where
    p: "auth_ctx s = Some ctx" "may_call writers ctx" "keyed env key s k"
    "asked env (ProvisionSandbox st) \<lparr>pq_demand_id = d, pq_min_tier = n, pq_idempotency_key = k\<rparr> s1 resp s2"
    and x: "r = sandbox_of resp" by (auto simp: tier_known)
  have "n \<noteq> 0" using n tiers.edge.unspecified_absent by (auto simp: known_number_def)
  moreover have "sx_tier b = (if known_number NAME_BY_TIER (sx_tier resp) then sx_tier resp else 0)"
    by (simp add: b x bff_sandbox_def sandbox_of_def tiers.crossing_out)
  ultimately show "\<exists>ctx k resp s1 s2. auth_ctx s = Some ctx \<and> may_call writers ctx \<and> keyed env key s k
          \<and> asked env (ProvisionSandbox st) \<lparr>pq_demand_id = d, pq_min_tier = n, pq_idempotency_key = k\<rparr> s1 resp s2
          \<and> n \<noteq> 0 \<and> sx_tier b = (if known_number NAME_BY_TIER (sx_tier resp) then sx_tier resp else 0)"
    using p by blast
next
  fix r s' assume a: "rest_provision_sandbox env st d t key s = (Inr r, s')"
  then have t: "known_name NAME_BY_TIER t"
    and r: "provision_sandbox env st \<lparr>ns_demand_id = d, ns_min_tier = t\<rparr> key s = (Inr r, s')"
    by (auto simp: rest_provision_sandbox_def NewSandbox_run bnd_run split: if_splits)
  from t obtain m where m: "(m, t) \<in> set NAME_BY_TIER" by (auto simp: known_name_def)
  then have "enum_value NAME_BY_TIER t = m" by (rule tiers.core.value_in)
  with provision_Inr [OF _ r] t obtain ctx k resp s1 s2 where "auth_ctx s = Some ctx" "may_call writers ctx"
    "keyed env key s k" "asked env (ProvisionSandbox st) \<lparr>pq_demand_id = d, pq_min_tier = m, pq_idempotency_key = k\<rparr> s1 resp s2"
    "r = sandbox_of resp" by auto
  with m show "\<exists>ctx k resp m s1 s2. auth_ctx s = Some ctx \<and> may_call writers ctx
          \<and> keyed env key s k
          \<and> asked env (ProvisionSandbox st) \<lparr>pq_demand_id = d, pq_min_tier = m, pq_idempotency_key = k\<rparr> s1 resp s2
          \<and> (m, t) \<in> set NAME_BY_TIER \<and> r = sandbox_of resp" by blast
qed

definition demo_sandbox :: core_sandbox where
  "demo_sandbox = \<lparr>sx_id = ''s-1'', sx_demand = ''d-1'', sx_state = 2, sx_tier = 1, sx_namespace = ''ns'', sx_endpoints = [],
     sx_last_active_at = None\<rparr>"

definition demo_execution :: "nat execution_stub" where
  "demo_execution = \<lparr>ProvisionSandbox = answering demo_sandbox, DescribeSandbox = answering demo_sandbox,
     SuspendSandbox = answering demo_sandbox, ResumeSandbox = answering demo_sandbox, DestroySandbox = answering True\<rparr>"

theorem tier_is_declared_witness:
  "\<exists>f. refuses (grpc_ProvisionSandbox demo_env demo_execution ''d-1'' 0 []) (demo_rt None) (ValidationError f)"
  using tier_is_declared [of 0 demo_env demo_execution "''d-1''" "[]" "demo_rt None" "[]"]
  by (simp add: known_number_def bff_NAME_BY_TIER_def)

end
