(* ===== verification/Attention.thy ===== *)
theory Attention
  imports Streams
begin

text \<open>
  \<^verbatim>\<open>app/usecases/attention.py\<close> with its two ports, \<^verbatim>\<open>app/routers/attention.py\<close> and
  \<^verbatim>\<open>app/grpcapi/attention.py\<close>: the queue of what waits for a human decision, grouped by demand
  without being reordered, and its live stream.
\<close>

section \<open>Vocabulary\<close>

definition KIND_BY_ENUM :: "(int \<times> string) list" where
  "KIND_BY_ENUM = [(1, ''thread_blocked''), (2, ''gate_pending''), (3, ''pr_review''),
     (4, ''merge_conflict''), (5, ''directive''), (6, ''budget_exceeded''),
     (7, ''integration_broken''), (8, ''contact_phone_unverified'')]"

definition CHANGE_BY_ENUM :: "(int \<times> string) list" where
  "CHANGE_BY_ENUM = [(1, ''opened''), (2, ''resolved'')]"

definition ENUM_BY_KIND :: "(string \<times> int) list" where
  "ENUM_BY_KIND = [(''thread_blocked'', 1), (''gate_pending'', 2), (''pr_review'', 3),
     (''merge_conflict'', 4), (''directive'', 5), (''budget_exceeded'', 6),
     (''integration_broken'', 7), (''contact_phone_unverified'', 8)]"

definition ENUM_BY_CHANGE :: "(string \<times> int) list" where
  "ENUM_BY_CHANGE = [(''opened'', 1), (''resolved'', 2)]"

definition kind_name :: "int \<Rightarrow> string" where
  "kind_name v = enum_name KIND_BY_ENUM v"

interpretation attention_kinds: crossing KIND_BY_ENUM ENUM_BY_KIND
  by unfold_locales (simp_all add: KIND_BY_ENUM_def ENUM_BY_KIND_def dict_invert_def)

interpretation attention_changes: crossing CHANGE_BY_ENUM ENUM_BY_CHANGE
  by unfold_locales (simp_all add: CHANGE_BY_ENUM_def ENUM_BY_CHANGE_def dict_invert_def)

section \<open>The core's messages and the edge's models\<close>

text \<open>A message field that is not set is None.\<close>

record core_attention_item =
  ct_id :: string
  ct_kind :: int
  ct_target_kind :: string
  ct_target_id :: string
  ct_demand :: "string option"
  ct_title :: string
  ct_summary :: string
  ct_priority :: int
  ct_opened_at :: "timestamp option"
  ct_resolved_at :: "timestamp option"

record core_attention_update =
  cx_change :: int
  cx_event_id :: string
  cx_item :: "core_attention_item option"

record attention_request =
  ar_include_resolved :: bool
  ar_page_size :: int
  ar_demand :: "string option"

record attention_item =
  ti_id :: string
  ti_kind :: string
  ti_target_kind :: string
  ti_target_id :: string
  ti_demand_id :: string
  ti_title :: string
  ti_summary :: string
  ti_priority :: int
  ti_opened_at :: "timestamp option"
  ti_resolved_at :: "timestamp option"

record attention_group =
  tg_demand_id :: string
  tg_items :: "attention_item list"

record attention_box =
  tb_items :: "attention_item list"
  tb_groups :: "attention_group list"
  tb_open_total :: int

record attention_update =
  tu_change :: string
  tu_id :: string
  tu_item :: attention_item

record 'w attention_stub =
  ListAttention :: "('w, attention_request, core_attention_item list \<times> int) rpc"
  WatchAttention :: "('w, string, core_attention_update) stream_rpc"

definition no_item :: attention_item where
  "no_item = \<lparr>ti_id = [], ti_kind = [], ti_target_kind = [], ti_target_id = [], ti_demand_id = [],
     ti_title = [], ti_summary = [], ti_priority = 0, ti_opened_at = None, ti_resolved_at = None\<rparr>"

definition item_of :: "core_attention_item \<Rightarrow> attention_item" where
  "item_of it = \<lparr>ti_id = ct_id it, ti_kind = kind_name (ct_kind it), ti_target_kind = ct_target_kind it,
     ti_target_id = ct_target_id it, ti_demand_id = (case ct_demand it of None \<Rightarrow> [] | Some d \<Rightarrow> d),
     ti_title = ct_title it, ti_summary = ct_summary it, ti_priority = ct_priority it,
     ti_opened_at = when_set (ct_opened_at it), ti_resolved_at = when_set (ct_resolved_at it)\<rparr>"

definition update_of :: "core_attention_update \<Rightarrow> attention_update" where
  "update_of u = \<lparr>tu_change = enum_name CHANGE_BY_ENUM (cx_change u), tu_id = cx_event_id u,
     tu_item = (case cx_item u of None \<Rightarrow> no_item | Some it \<Rightarrow> item_of it)\<rparr>"

section \<open>Grouping\<close>

text \<open>
  The loop over the items, with the dictionary of groups in insertion order: an item goes to its
  demand's group, or opens one at the end.
\<close>

fun add_item :: "attention_item \<Rightarrow> attention_group list \<Rightarrow> attention_group list" where
  "add_item i [] = [\<lparr>tg_demand_id = ti_demand_id i, tg_items = [i]\<rparr>]"
| "add_item i (g # gs) =
     (if tg_demand_id g = ti_demand_id i then g\<lparr>tg_items := tg_items g @ [i]\<rparr> # gs
      else g # add_item i gs)"

definition group_by_demand :: "attention_item list \<Rightarrow> attention_group list" where
  "group_by_demand items = fold add_item items []"

section \<open>Use cases\<close>

definition list_attention :: "'w env \<Rightarrow> 'w attention_stub \<Rightarrow> bool \<Rightarrow> string \<Rightarrow> int \<Rightarrow> ('w, attention_box) io" where
  "list_attention env st include_resolved demand_id page_size = logged ''list_attention'' (account_scoped
     (mapv (\<lambda>(resp, open_total).
          let items = map item_of resp
          in \<lparr>tb_items = items, tb_groups = group_by_demand items, tb_open_total = open_total\<rparr>)
       (unary env (ListAttention st)
         (ret \<lparr>ar_include_resolved = include_resolved, ar_page_size = page_size,
               ar_demand = (if demand_id = [] then None else Some demand_id)\<rparr>))))"

definition watch_attention :: "'w env \<Rightarrow> 'w attention_stub \<Rightarrow> string \<Rightarrow> ('w, ('w, attention_update) gen) io" where
  "watch_attention env st since_event_id = account_scoped
     (open_stream env (WatchAttention st) since_event_id update_of ''attention'')"

section \<open>The ports\<close>

definition stream_attention :: "'w env \<Rightarrow> 'w attention_stub \<Rightarrow> string \<Rightarrow> string
    \<Rightarrow> ('w, ('w, attention_update sse) gen) io" where
  "stream_attention env st since_event_id last_event_id =
     mapv (sse_events env tu_id ''attention'')
       (watch_attention env st (cursor last_event_id since_event_id))"

record bff_attention_item =
  bi_id :: string
  bi_kind :: int
  bi_target_kind :: string
  bi_target_id :: string
  bi_demand_id :: string
  bi_title :: string
  bi_summary :: string
  bi_priority :: int
  bi_opened_at :: "timestamp option"
  bi_resolved_at :: "timestamp option"

definition bff_item :: "attention_item \<Rightarrow> bff_attention_item" where
  "bff_item i = \<lparr>bi_id = ti_id i, bi_kind = dict_get ENUM_BY_KIND (ti_kind i) 0,
     bi_target_kind = ti_target_kind i, bi_target_id = ti_target_id i, bi_demand_id = ti_demand_id i,
     bi_title = ti_title i, bi_summary = ti_summary i, bi_priority = ti_priority i,
     bi_opened_at = ti_opened_at i, bi_resolved_at = ti_resolved_at i\<rparr>"

record bff_attention_box =
  bb_items :: "bff_attention_item list"
  bb_groups :: "(string \<times> bff_attention_item list) list"
  bb_open_total :: int

definition bff_box :: "attention_box \<Rightarrow> bff_attention_box" where
  "bff_box b = \<lparr>bb_items = map bff_item (tb_items b),
     bb_groups = map (\<lambda>g. (tg_demand_id g, map bff_item (tg_items g))) (tb_groups b),
     bb_open_total = tb_open_total b\<rparr>"

definition grpc_ListAttention :: "'w env \<Rightarrow> 'w attention_stub \<Rightarrow> bool \<Rightarrow> string \<Rightarrow> int \<Rightarrow> ('w, bff_attention_box) io" where
  "grpc_ListAttention env st include_resolved demand_id page_size =
     mapv bff_box (list_attention env st include_resolved demand_id page_size)"

text \<open>The message of the gRPC stream has no field for the event's id.\<close>

record bff_attention_update =
  bu_change :: int
  bu_item :: bff_attention_item

definition grpc_WatchAttention :: "'w env \<Rightarrow> 'w attention_stub \<Rightarrow> string \<Rightarrow> ('w, bff_attention_update) gen" where
  "grpc_WatchAttention env st since_event_id =
     serve (watch_attention env st since_event_id)
       (\<lambda>u. \<lparr>bu_change = dict_get ENUM_BY_CHANGE (tu_change u) 0, bu_item = bff_item (tu_item u)\<rparr>)"

section \<open>Grouping is not reordering\<close>

text \<open>The demands in the order of their first appearance.\<close>

fun first_seen :: "'a list \<Rightarrow> 'a list" where
  "first_seen [] = []"
| "first_seen (x # xs) = x # filter (\<lambda>y. y \<noteq> x) (first_seen xs)"

lemma set_first_seen [simp]: "set (first_seen xs) = set xs"
  by (induction xs) auto

lemma distinct_first_seen [simp]: "distinct (first_seen xs)"
  by (induction xs) auto

lemma first_seen_snoc: "first_seen (xs @ [x]) = (if x \<in> set xs then first_seen xs else first_seen xs @ [x])"
  by (induction xs) auto

definition group_of :: "attention_item list \<Rightarrow> string \<Rightarrow> attention_group" where
  "group_of items d = \<lparr>tg_demand_id = d, tg_items = filter (\<lambda>i. ti_demand_id i = d) items\<rparr>"

lemma add_item_groups:
  assumes "distinct ds" and "set ds = ti_demand_id ` set items"
  shows "add_item i (map (group_of items) ds) =
    map (group_of (items @ [i])) (if ti_demand_id i \<in> set ds then ds else ds @ [ti_demand_id i])"
proof -
  let ?d = "ti_demand_id i"
  have other: "d \<noteq> ?d \<Longrightarrow> group_of (items @ [i]) d = group_of items d" for d
    by (simp add: group_of_def)
  have new: "?d \<notin> ti_demand_id ` set items \<Longrightarrow>
      group_of (items @ [i]) ?d = \<lparr>tg_demand_id = ?d, tg_items = [i]\<rparr>"
    by (simp add: group_of_def filter_empty_conv) (metis image_eqI)
  have absent: "add_item i (map (group_of items) es) = map (group_of items) es @ [\<lparr>tg_demand_id = ?d, tg_items = [i]\<rparr>]"
    if "?d \<notin> set es" for es
    using that by (induction es) (auto simp: group_of_def)
  have present: "add_item i (map (group_of items) es) = map (group_of (items @ [i])) es"
    if "?d \<in> set es" "distinct es" for es
    using that by (induction es) (auto simp: group_of_def)
  show ?thesis
  proof (cases "?d \<in> set ds")
    case True
    with present assms(1) show ?thesis by simp
  next
    case False
    then have "map (group_of (items @ [i])) ds = map (group_of items) ds" by (auto intro!: other)
    with False absent [OF False] new assms(2) show ?thesis by simp
  qed
qed

text \<open>
  Grouping is not reordering. The groups of the box are exactly one per demand among the
  items, in the order of each demand's first (most urgent) item, the account's own group included;
  each group holds all of its demand's items and no other, in the order the core sent them. So
  putting the groups' items side by side loses and repeats none of them.
\<close>

theorem grouping_keeps_the_order:
  "group_by_demand items = map (group_of items) (first_seen (map ti_demand_id items))
   \<and> (\<forall>i. count_list (concat (map tg_items (group_by_demand items))) i = count_list items i)"
proof -
  have g: "group_by_demand items = map (group_of items) (first_seen (map ti_demand_id items))" for items
  proof (induction items rule: rev_induct)
    case (snoc i items)
    have "group_by_demand (items @ [i]) = add_item i (group_by_demand items)"
      by (simp add: group_by_demand_def)
    with snoc add_item_groups [of "first_seen (map ti_demand_id items)" items i] show ?case
      by (simp add: first_seen_snoc)
  qed (simp add: group_by_demand_def)
  have c: "count_list (concat (map tg_items (map (group_of items) ds))) i
      = (if ti_demand_id i \<in> set ds then count_list items i else 0)" if "distinct ds" for i ds
  proof -
    have f: "count_list (filter (\<lambda>j. ti_demand_id j = d) xs) i = (if ti_demand_id i = d then count_list xs i else 0)"
      for d xs by (induction xs) auto
    from that show ?thesis
      by (induction ds) (auto simp: group_of_def f)
  qed
  have "count_list (concat (map tg_items (group_by_demand items))) i = count_list items i" for i
    unfolding g by (subst c) (auto simp: count_list_0_iff)
  with g show ?thesis by blast
qed

end
