(* ===== verification/Resource.thy ===== *)
theory Resource
  imports Usecase Vocabulary Base64
begin

text \<open>
  \<^verbatim>\<open>app/usecases/resource.py\<close> and \<^verbatim>\<open>app/grpcapi/resource.py\<close>: integrations, skills, flows, their
  grants, and the credential that goes into the vault and never comes back.
\<close>

section \<open>Vocabulary\<close>

definition NAME_BY_KIND :: "(int \<times> string) list" where
  "NAME_BY_KIND = [(1, ''integration''), (2, ''skill''), (3, ''workflow''), (4, ''git_flow'')]"

definition bff_NAME_BY_ENUM :: "(int \<times> string) list" where
  "bff_NAME_BY_ENUM = [(1, ''integration''), (2, ''skill''), (3, ''workflow''), (4, ''git_flow'')]"

interpretation resource_kinds: shared_vocabulary NAME_BY_KIND bff_NAME_BY_ENUM
  by unfold_locales (simp_all add: NAME_BY_KIND_def bff_NAME_BY_ENUM_def)

section \<open>Models\<close>

text \<open>Protobuf's \<^verbatim>\<open>Value\<close>: one of its kinds, or none set.\<close>

datatype pb_value =
    NotSet
  | NullValue
  | NumberValue real
  | StringValue string
  | BoolValue bool
  | StructValue "(string \<times> pb_value) list"
  | ListValue "pb_value list"

fun value_of :: "pb_value \<Rightarrow> pyval" where
  "value_of (StringValue s) = PyStr s"
| "value_of (NumberValue x) = PyNum x"
| "value_of (BoolValue b) = PyBool b"
| "value_of (ListValue vs) = PyList (map value_of vs)"
| "value_of (StructValue fs) = PyDict (map (\<lambda>(k, v). (k, value_of v)) fs)"
| "value_of NullValue = PyNone"
| "value_of NotSet = PyNone"

record core_resource =
  rc_id :: string
  rc_kind :: int
  rc_name :: string
  rc_version :: int
  rc_config :: "(string \<times> pb_value) list option"
  rc_credential_ref :: string

record resource_summary =
  rz_id :: string
  rz_kind :: string
  rz_name :: string
  rz_version :: int
  rz_config :: "(string \<times> pyval) list"
  rz_credential_ref :: string

record check_result =
  ch_operated :: bool
  ch_ok :: bool
  ch_identity :: string
  ch_message :: string

record grant_summary =
  gr_id :: string
  gr_resource_id :: string
  gr_user_id :: string
  gr_level :: string

record create_resource_request =
  rk_kind :: int
  rk_name :: string
  rk_config :: "(string \<times> pyval) list"
  rk_idempotency_key :: string

record set_credential_request =
  sc_resource_id :: string
  sc_secret :: string

record 'w resource_stub =
  ListResources :: "('w, int, core_resource list) rpc"
  GetResource :: "('w, string, core_resource) rpc"
  CreateResource :: "('w, create_resource_request, core_resource) rpc"
  SetCredential :: "('w, set_credential_request, string) rpc"
  GrantResource :: "('w, string \<times> string \<times> string, grant_summary) rpc"
  ListMemberGrants :: "('w, string, grant_summary list) rpc"
  RevokeGrant :: "('w, string, bool) rpc"
  CheckResource :: "('w, string, check_result) rpc"

definition resource_of :: "core_resource \<Rightarrow> resource_summary" where
  "resource_of r = \<lparr>rz_id = rc_id r, rz_kind = enum_name NAME_BY_KIND (rc_kind r), rz_name = rc_name r,
     rz_version = rc_version r,
     rz_config = (case rc_config r of None \<Rightarrow> [] | Some fs \<Rightarrow> map (\<lambda>(k, v). (k, value_of v)) fs),
     rz_credential_ref = rc_credential_ref r\<rparr>"

definition grant_of :: "grant_summary \<Rightarrow> grant_summary" where
  "grant_of g = \<lparr>gr_id = gr_id g, gr_resource_id = gr_resource_id g, gr_user_id = gr_user_id g, gr_level = gr_level g\<rparr>"

section \<open>Use cases\<close>

text \<open>With no kind, or one outside the table, the request's kind is left unspecified.\<close>

definition list_resources :: "'w env \<Rightarrow> 'w resource_stub \<Rightarrow> string \<Rightarrow> ('w, resource_summary list) io" where
  "list_resources env st kind = logged ''list_resources'' (account_scoped
     (mapv (map resource_of) (unary env (ListResources st)
       (ret (if kind = [] then 0 else enum_value NAME_BY_KIND kind)))))"

definition get_resource :: "'w env \<Rightarrow> 'w resource_stub \<Rightarrow> string \<Rightarrow> ('w, resource_summary) io" where
  "get_resource env st resource_id = logged ''get_resource'' (account_scoped
     (mapv resource_of (unary env (GetResource st) (ret resource_id))))"

definition create_resource :: "'w env \<Rightarrow> 'w resource_stub \<Rightarrow> string \<Rightarrow> string \<Rightarrow> (string \<times> pyval) list
    \<Rightarrow> string \<Rightarrow> ('w, resource_summary) io" where
  "create_resource env st kind name config key = logged ''create_resource'' (account_scoped
     (mapv resource_of (unary env (CreateResource st) (mapv (\<lambda>k.
        \<lparr>rk_kind = enum_value NAME_BY_KIND kind, rk_name = name, rk_config = config, rk_idempotency_key = k\<rparr>)
        (idempotency env key)))))"

text \<open>\<^verbatim>\<open>base64.b64decode\<close> without \<^verbatim>\<open>validate\<close>: characters outside the alphabet are skipped.\<close>

definition decoded_secret :: "string \<Rightarrow> ('w, string) io" where
  "decoded_secret b64 = (case b64decode False b64 of
      None \<Rightarrow> raise (OtherError ''binascii.Error'') | Some bytes \<Rightarrow> ret bytes)"

definition set_credential :: "'w env \<Rightarrow> 'w resource_stub \<Rightarrow> string \<Rightarrow> string \<Rightarrow> ('w, resource_summary) io" where
  "set_credential env st resource_id secret_base64 = logged ''set_credential'' (account_scoped
     (bnd (unary env (SetCredential st)
            (mapv (\<lambda>secret. \<lparr>sc_resource_id = resource_id, sc_secret = secret\<rparr>) (decoded_secret secret_base64)))
          (\<lambda>_. mapv resource_of (on_stub env (GetResource st) resource_id))))"

definition grant_resource :: "'w env \<Rightarrow> 'w resource_stub \<Rightarrow> string \<Rightarrow> string \<Rightarrow> string \<Rightarrow> ('w, grant_summary) io" where
  "grant_resource env st resource_id user_id level = logged ''grant_resource'' (account_scoped (require_role managers
     (mapv grant_of (unary env (GrantResource st) (ret (resource_id, user_id, level))))))"

definition list_member_grants :: "'w env \<Rightarrow> 'w resource_stub \<Rightarrow> string \<Rightarrow> ('w, grant_summary list) io" where
  "list_member_grants env st user_id = logged ''list_member_grants'' (account_scoped (require_role managers
     (mapv (map grant_of) (unary env (ListMemberGrants st) (ret user_id)))))"

text \<open>As the source has it: no decorator at all.\<close>

definition revoke_grant :: "'w env \<Rightarrow> 'w resource_stub \<Rightarrow> string \<Rightarrow> ('w, bool) io" where
  "revoke_grant env st grant_id = unary env (RevokeGrant st) (ret grant_id)"

definition check_resource :: "'w env \<Rightarrow> 'w resource_stub \<Rightarrow> string \<Rightarrow> ('w, check_result) io" where
  "check_resource env st resource_id = logged ''check_resource'' (account_scoped
     (mapv (\<lambda>r. \<lparr>ch_operated = ch_operated r, ch_ok = ch_ok r, ch_identity = ch_identity r, ch_message = ch_message r\<rparr>)
       (unary env (CheckResource st) (ret resource_id))))"

section \<open>The ports\<close>

text \<open>\<^verbatim>\<open>NewCredential(...)\<close>: an empty secret is refused, and nothing else is looked at.\<close>

definition NewCredential :: "string \<Rightarrow> ('w, string) io" where
  "NewCredential secret_base64 = (if secret_base64 = [] then raise (ValidationError ''secret_base64'') else ret secret_base64)"

record bff_resource =
  bz_id :: string
  bz_kind :: int
  bz_name :: string
  bz_version :: int
  bz_config :: "(string \<times> pyval) list"
  bz_credential_ref :: string

definition bff_resource_of :: "resource_summary \<Rightarrow> bff_resource" where
  "bff_resource_of r = \<lparr>bz_id = rz_id r, bz_kind = enum_value bff_NAME_BY_ENUM (rz_kind r), bz_name = rz_name r,
     bz_version = rz_version r, bz_config = rz_config r, bz_credential_ref = rz_credential_ref r\<rparr>"

definition grpc_ListResources :: "'w env \<Rightarrow> 'w resource_stub \<Rightarrow> int \<Rightarrow> ('w, bff_resource list) io" where
  "grpc_ListResources env st kind =
     mapv (map bff_resource_of) (list_resources env st (enum_name bff_NAME_BY_ENUM kind))"

definition grpc_SetCredential :: "'w env \<Rightarrow> 'w resource_stub \<Rightarrow> string \<Rightarrow> string \<Rightarrow> ('w, bff_resource) io" where
  "grpc_SetCredential env st resource_id secret =
     bnd (NewCredential (b64encode secret)) (\<lambda>body. mapv bff_resource_of (set_credential env st resource_id body))"

definition rest_set_credential :: "'w env \<Rightarrow> 'w resource_stub \<Rightarrow> string \<Rightarrow> string \<Rightarrow> ('w, resource_summary) io" where
  "rest_set_credential env st resource_id secret_base64 =
     bnd (NewCredential secret_base64) (\<lambda>body. set_credential env st resource_id body)"

text \<open>\<^verbatim>\<open>NewResource(...)\<close> and \<^verbatim>\<open>NewGrant(...)\<close>; the level of a grant has a pattern of its own.\<close>

definition NewResource :: "string \<Rightarrow> string \<Rightarrow> ('w, string \<times> string) io" where
  "NewResource kind name =
     (if kind = [] then raise (ValidationError ''kind'')
      else if name = [] then raise (ValidationError ''name'') else ret (kind, name))"

definition NewGrant :: "string \<Rightarrow> string \<Rightarrow> string \<Rightarrow> ('w, string \<times> string \<times> string) io" where
  "NewGrant resource_id user_id level =
     (if resource_id = [] then raise (ValidationError ''resource_id'')
      else if user_id = [] then raise (ValidationError ''user_id'')
      else if level \<notin> {''use'', ''manage''} then raise (ValidationError ''level'')
      else ret (resource_id, user_id, level))"

definition grpc_GetResource :: "'w env \<Rightarrow> 'w resource_stub \<Rightarrow> string \<Rightarrow> ('w, bff_resource) io" where
  "grpc_GetResource env st resource_id = mapv bff_resource_of (get_resource env st resource_id)"

text \<open>\<^verbatim>\<open>dict(request.config)\<close>, which leaves the inner levels as the library's messages, is a parameter.\<close>

definition grpc_CreateResource :: "((string \<times> pb_value) list \<Rightarrow> (string \<times> pyval) list) \<Rightarrow> 'w env \<Rightarrow> 'w resource_stub
    \<Rightarrow> int \<Rightarrow> string \<Rightarrow> (string \<times> pb_value) list option \<Rightarrow> string \<Rightarrow> ('w, bff_resource) io" where
  "grpc_CreateResource dict_of env st kind name config key =
     bnd (NewResource (enum_name bff_NAME_BY_ENUM kind) name) (\<lambda>(k, n). mapv bff_resource_of
       (create_resource env st k n (case config of None \<Rightarrow> [] | Some c \<Rightarrow> dict_of c) key))"

definition grpc_CheckResource :: "'w env \<Rightarrow> 'w resource_stub \<Rightarrow> string \<Rightarrow> ('w, check_result) io" where
  "grpc_CheckResource env st resource_id =
     mapv (\<lambda>r. \<lparr>ch_operated = ch_operated r, ch_ok = ch_ok r, ch_identity = ch_identity r, ch_message = ch_message r\<rparr>)
       (check_resource env st resource_id)"

definition grpc_GrantResource :: "'w env \<Rightarrow> 'w resource_stub \<Rightarrow> string \<Rightarrow> string \<Rightarrow> string \<Rightarrow> ('w, grant_summary) io" where
  "grpc_GrantResource env st resource_id user_id level =
     bnd (NewGrant resource_id user_id level) (\<lambda>(r, u, l). mapv grant_of (grant_resource env st r u l))"

definition grpc_RevokeGrant :: "'w env \<Rightarrow> 'w resource_stub \<Rightarrow> string \<Rightarrow> ('w, bool) io" where
  "grpc_RevokeGrant env st grant_id = revoke_grant env st grant_id"

definition rest_create_resource :: "'w env \<Rightarrow> 'w resource_stub \<Rightarrow> string \<Rightarrow> string \<Rightarrow> (string \<times> pyval) list \<Rightarrow> string
    \<Rightarrow> ('w, resource_summary) io" where
  "rest_create_resource env st kind name config key =
     bnd (NewResource kind name) (\<lambda>(k, n). create_resource env st k n config key)"

definition rest_grant_resource :: "'w env \<Rightarrow> 'w resource_stub \<Rightarrow> string \<Rightarrow> string \<Rightarrow> string \<Rightarrow> ('w, grant_summary) io" where
  "rest_grant_resource env st resource_id user_id level =
     bnd (NewGrant resource_id user_id level) (\<lambda>(r, u, l). grant_resource env st r u l)"

definition rest_revoke_grant :: "'w env \<Rightarrow> 'w resource_stub \<Rightarrow> string \<Rightarrow> ('w, unit) io" where
  "rest_revoke_grant env st grant_id = mapv (\<lambda>_. ()) (revoke_grant env st grant_id)"

section \<open>A grant takes a manager, its removal does not\<close>

text \<open>
  Granting is refused to whoever manages nothing, before the core is reached; removing a grant, with
  no decorator, asks the core whatever the caller's role is, and even with no caller at all.
\<close>

lemma grant_takes_a_manager:
  assumes "auth_ctx s = Some ctx" and "a_account_id ctx \<noteq> []" and "a_role ctx \<notin> set managers"
  shows "refuses (grant_resource env st r u l) s (HTTPException 403 ''Insufficient permission'')"
  unfolding grant_resource_def by (rule not_manager_refused [OF assms])

lemma revoke_grant_unguarded:
  "revoke_grant env st g s = (Inr x, s') \<longleftrightarrow> asked env (RevokeGrant st) g s x s'"
  by (simp add: revoke_grant_def unary_asked)

section \<open>The secret goes one way\<close>

lemma decoded_secret_run [io_simps]: "decoded_secret b s =
    ((case b64decode False b of None \<Rightarrow> Inl (OtherError ''binascii.Error'') | Some x \<Rightarrow> Inr x), s)"
  by (simp add: decoded_secret_def split: option.splits)

lemma NewCredential_run [io_simps]:
  "NewCredential b s = (if b = [] then Inl (ValidationError ''secret_base64'') else Inr b, s)"
  by (simp add: NewCredential_def)

lemma set_credential_Inr:
  fixes env :: "'w env"
  assumes "set_credential env st rid b s = (Inr x, s')"
  shows "\<exists>ctx secret res u s1 s2 s3. auth_ctx s = Some ctx \<and> a_account_id ctx \<noteq> []
    \<and> b64decode False b = Some secret
    \<and> asked env (SetCredential st) \<lparr>sc_resource_id = rid, sc_secret = secret\<rparr> s1 u s2 \<and> auth_ctx s1 = Some ctx
    \<and> asked env (GetResource st) rid s2 res s3 \<and> x = resource_of res"
proof -
  from logged_Inr [OF assms [unfolded set_credential_def]] obtain ctx u s2 s4 where
    ctx: "auth_ctx s = Some ctx" "a_account_id ctx \<noteq> []"
    and w: "unary env (SetCredential st) (mapv (\<lambda>secret. \<lparr>sc_resource_id = rid, sc_secret = secret\<rparr>) (decoded_secret b))
      (write_log (LogCall ''set_credential'') s) = (Inr u, s2)"
    and g: "mapv resource_of (on_stub env (GetResource st) rid) s2 = (Inr x, s4)"
    by (auto simp: scoped_Inr bnd_Inr)
  from w obtain secret where secret: "b64decode False b = Some secret"
    by (auto simp: unary_Inr mapv_Inr decoded_secret_run split: option.splits)
  then have "decoded_secret b = (ret secret :: ('w, string) io)" by (simp add: decoded_secret_def)
  with w have set: "asked env (SetCredential st) \<lparr>sc_resource_id = rid, sc_secret = secret\<rparr>
      (write_log (LogCall ''set_credential'') s) u s2"
    by (simp only: mapv_ret unary_asked)
  from g asked_open [OF set] obtain res where "asked env (GetResource st) rid s2 res s4" "x = resource_of res"
    by (auto simp: mapv_Inr on_stub_open unary_asked)
  with ctx secret set show ?thesis using write_log_simps(1) [of "LogCall ''set_credential''" s] by metis
qed

text \<open>
  C31. A credential goes in and does not come back. When writing one answers, on either port, the
  caller had an account, the core was sent, for that resource, the secret, and the answer is the
  resource as the core then gave it, every field of it: no part of the answer is made of the secret.
  Over gRPC the secret is the very bytes the client sent; over REST it is what the base64 text
  decodes to, characters outside the alphabet being skipped. An empty secret is refused, and a text
  that cannot be decoded fails, before anything of the outside world is touched.
\<close>

theorem credential_goes_one_way:
  shows "(\<forall>x s'. rest_set_credential env st rid b s = (Inr x, s') \<longrightarrow>
      (\<exists>ctx secret res u s1 s2 s3. auth_ctx s = Some ctx \<and> a_account_id ctx \<noteq> []
        \<and> b64decode False b = Some secret
        \<and> asked env (SetCredential st) \<lparr>sc_resource_id = rid, sc_secret = secret\<rparr> s1 u s2 \<and> auth_ctx s1 = Some ctx
        \<and> asked env (GetResource st) rid s2 res s3 \<and> x = resource_of res))
    \<and> (\<forall>x s'. grpc_SetCredential env st rid secret s = (Inr x, s') \<longrightarrow>
      (\<exists>ctx res u s1 s2 s3. auth_ctx s = Some ctx \<and> a_account_id ctx \<noteq> []
        \<and> asked env (SetCredential st) \<lparr>sc_resource_id = rid, sc_secret = secret\<rparr> s1 u s2 \<and> auth_ctx s1 = Some ctx
        \<and> asked env (GetResource st) rid s2 res s3 \<and> x = bff_resource_of (resource_of res)))
    \<and> refuses (rest_set_credential env st rid []) s (ValidationError ''secret_base64'')
    \<and> refuses (grpc_SetCredential env st rid []) s (ValidationError ''secret_base64'')
    \<and> (b64decode False b = None \<longrightarrow> (\<exists>e. refuses (rest_set_credential env st rid b) s e))"
proof (intro conjI allI impI)
  fix x s' assume "rest_set_credential env st rid b s = (Inr x, s')"
  then have "set_credential env st rid b s = (Inr x, s')"
    by (auto simp: rest_set_credential_def bnd_Inr NewCredential_run split: if_splits)
  from set_credential_Inr [OF this] show "\<exists>ctx secret res u s1 s2 s3. auth_ctx s = Some ctx \<and> a_account_id ctx \<noteq> []
        \<and> b64decode False b = Some secret
        \<and> asked env (SetCredential st) \<lparr>sc_resource_id = rid, sc_secret = secret\<rparr> s1 u s2 \<and> auth_ctx s1 = Some ctx
        \<and> asked env (GetResource st) rid s2 res s3 \<and> x = resource_of res" .
next
  fix x s' assume "grpc_SetCredential env st rid secret s = (Inr x, s')"
  then obtain r where "set_credential env st rid (b64encode secret) s = (Inr r, s')" "x = bff_resource_of r"
    by (auto simp: grpc_SetCredential_def bnd_Inr NewCredential_run mapv_Inr split: if_splits)
  from set_credential_Inr [OF this(1)] this(2) show "\<exists>ctx res u s1 s2 s3. auth_ctx s = Some ctx \<and> a_account_id ctx \<noteq> []
        \<and> asked env (SetCredential st) \<lparr>sc_resource_id = rid, sc_secret = secret\<rparr> s1 u s2 \<and> auth_ctx s1 = Some ctx
        \<and> asked env (GetResource st) rid s2 res s3 \<and> x = bff_resource_of (resource_of res)"
    by (simp only: b64decode_encode option.inject) metis
next
  show "refuses (rest_set_credential env st rid []) s (ValidationError ''secret_base64'')"
    by (intro refusesI) (simp_all add: rest_set_credential_def bnd_run NewCredential_run)
next
  show "refuses (grpc_SetCredential env st rid []) s (ValidationError ''secret_base64'')"
    by (intro refusesI) (simp_all add: grpc_SetCredential_def bnd_run NewCredential_run b64encode_def)
next
  assume "b64decode False b = None"
  then show "\<exists>e. refuses (rest_set_credential env st rid b) s e"
    by (auto simp: rest_set_credential_def set_credential_def refuses_def result_def after_def bnd_run NewCredential_run
        logged_run account_scoped_run unary_def unary_by_def mapv_run decoded_secret_run split: option.splits)
qed

definition demo_resource :: core_resource where
  "demo_resource = \<lparr>rc_id = ''i-1'', rc_kind = 1, rc_name = ''jira'', rc_version = 1, rc_config = None,
     rc_credential_ref = ''vault:i-1''\<rparr>"

definition demo_resources :: "nat resource_stub" where
  "demo_resources = \<lparr>ListResources = answering [demo_resource], GetResource = answering demo_resource,
     CreateResource = answering demo_resource, SetCredential = answering ''vault:i-1'',
     GrantResource = failing NOT_FOUND ''no such resource'', ListMemberGrants = answering [],
     RevokeGrant = answering True, CheckResource = answering \<lparr>ch_operated = False, ch_ok = False, ch_identity = [], ch_message = []\<rparr>\<rparr>"

theorem credential_goes_one_way_witness:
  "\<exists>x s'. grpc_SetCredential demo_env demo_resources ''i-1'' ''hunter2'' (demo_rt (Some (demo_ctx ''acc-1'' ''developer'')))
      = (Inr x, s') \<and> x = bff_resource_of (resource_of demo_resource)"
proof -
  let ?s = "demo_rt (Some (demo_ctx ''acc-1'' ''developer''))"
  have "b64encode ''hunter2'' \<noteq> []" by code_simp
  then have "\<exists>x s'. grpc_SetCredential demo_env demo_resources ''i-1'' ''hunter2'' ?s = (Inr x, s')"
    by (simp add: grpc_SetCredential_def set_credential_def on_stub_def io_simps demo_run unary_def unary_by_def
        core_metadata_def demo_resources_def)
  then obtain x s' where run: "grpc_SetCredential demo_env demo_resources ''i-1'' ''hunter2'' ?s = (Inr x, s')" by blast
  with credential_goes_one_way [of demo_env demo_resources "''i-1''" "[]" ?s "''hunter2''"] show ?thesis
    by (fastforce simp: asked_def demo_resources_def answering_def)
qed

end
