(* ===== verification/Knowledge.thy ===== *)
theory Knowledge
  imports Usecase Vocabulary Base64
begin

text \<open>
  \<^verbatim>\<open>app/usecases/knowledge.py\<close> and \<^verbatim>\<open>app/grpcapi/knowledge.py\<close>: knowledge artifacts, the context
  package with what was left out of it, and the memory's hits with their scores.
\<close>

section \<open>Vocabulary\<close>

definition NAME_BY_KIND :: "(int \<times> string) list" where
  "NAME_BY_KIND = [(1, ''rule''), (2, ''index''), (3, ''memory'')]"

definition NAME_BY_ENUM :: "(int \<times> string) list" where
  "NAME_BY_ENUM = [(1, ''rule''), (2, ''index''), (3, ''memory'')]"

definition META_BODY :: string where "META_BODY = ''dop.body''"
definition META_SCOPE :: string where "META_SCOPE = ''dop.scope''"

interpretation knowledge_kinds: shared_vocabulary NAME_BY_KIND NAME_BY_ENUM
  by unfold_locales (simp_all add: NAME_BY_KIND_def NAME_BY_ENUM_def)

section \<open>Models\<close>

text \<open>A set Struct is the dictionary \<^verbatim>\<open>MessageToDict\<close> makes of it; a map is its pairs.\<close>

record core_knowledge =
  kn_id :: string
  kn_kind :: int
  kn_project :: string
  kn_name :: string
  kn_version :: int
  kn_object_ref :: string
  kn_meta :: "(string \<times> pyval) list option"

record knowledge_finding =
  kf_id :: string
  kf_thread_id :: string
  kf_title :: string
  kf_payload :: "(string \<times> pyval) list option"

record context_package =
  cp_demand :: string
  cp_rules :: "string list"
  cp_index :: "core_knowledge list"
  cp_memories :: "core_knowledge list"
  cp_findings :: "knowledge_finding list"
  cp_estimated_tokens :: int
  cp_dropped :: "(string \<times> int) list"

record artifact_summary =
  az_id :: string
  az_kind :: string
  az_project_id :: string
  az_name :: string
  az_version :: int
  az_object_ref :: string
  az_meta :: "(string \<times> pyval) list"
  az_body :: string
  az_scope :: string

record dropped_counts =
  dc_rules :: int
  dc_findings :: int
  dc_index :: int
  dc_memories :: int
  dc_truncated :: bool

record finding_summary =
  fz_id :: string
  fz_thread_id :: string
  fz_title :: string
  fz_payload :: "(string \<times> pyval) list"

record package_summary =
  ps_demand_id :: string
  ps_rules :: "string list"
  ps_index :: "artifact_summary list"
  ps_memories :: "artifact_summary list"
  ps_findings :: "finding_summary list"
  ps_estimated_tokens :: int
  ps_dropped :: "dropped_counts option"

record memory_hit =
  mh_artifact :: artifact_summary
  mh_score :: "real option"

record new_artifact =
  na_kind :: string
  na_name :: string
  na_project_id :: string
  na_content_base64 :: string
  na_meta :: "(string \<times> pyval) list"

record search_request =
  sq_query :: string
  sq_limit :: int
  sq_project :: "string option"

record put_request =
  pu_kind :: int
  pu_name :: string
  pu_project :: "string option"
  pu_meta :: "(string \<times> pyval) list option"
  pu_content :: string
  pu_idempotency_key :: string

record 'w knowledge_stub =
  BuildContextPackage :: "('w, string, context_package) rpc"
  SearchMemory :: "('w, search_request, core_knowledge list \<times> real list) rpc"
  ReadIndex :: "('w, string \<times> string, core_knowledge) rpc"
  ListRules :: "('w, string, string list) rpc"
  PutArtifact :: "('w, put_request, core_knowledge) rpc"

section \<open>Conversions\<close>

text \<open>
  \<^verbatim>\<open>str(meta.pop(key, ""))\<close>: the text of the value, and the dictionary without it. Python's \<^verbatim>\<open>str\<close> of
  a value that is not a string is a parameter, \<open>str_of\<close>.
\<close>

definition pop_str :: "(pyval \<Rightarrow> string) \<Rightarrow> string \<Rightarrow> (string \<times> pyval) list \<Rightarrow> string \<times> (string \<times> pyval) list" where
  "pop_str str_of k d = (case map_of (rev d) k of None \<Rightarrow> [] | Some (PyStr s) \<Rightarrow> s | Some v \<Rightarrow> str_of v,
     filter (\<lambda>(k', v). k' \<noteq> k) d)"

definition artifact_of :: "(pyval \<Rightarrow> string) \<Rightarrow> core_knowledge \<Rightarrow> artifact_summary" where
  "artifact_of str_of a =
     (let meta = (case kn_meta a of None \<Rightarrow> [] | Some m \<Rightarrow> m);
          (body, meta1) = pop_str str_of META_BODY meta;
          (scope, meta2) = pop_str str_of META_SCOPE meta1
      in \<lparr>az_id = kn_id a, az_kind = enum_name NAME_BY_KIND (kn_kind a), az_project_id = kn_project a,
          az_name = kn_name a, az_version = kn_version a, az_object_ref = kn_object_ref a,
          az_meta = meta2, az_body = body, az_scope = scope\<rparr>)"

definition finding_of :: "knowledge_finding \<Rightarrow> finding_summary" where
  "finding_of f = \<lparr>fz_id = kf_id f, fz_thread_id = kf_thread_id f, fz_title = kf_title f,
     fz_payload = (case kf_payload f of None \<Rightarrow> [] | Some p \<Rightarrow> p)\<rparr>"

definition drops :: "context_package \<Rightarrow> dropped_counts option" where
  "drops package = (let d = cp_dropped package in
     if d = [] then None
     else Some \<lparr>dc_rules = dict_get d ''rules'' 0, dc_findings = dict_get d ''findings'' 0,
       dc_index = dict_get d ''index'' 0, dc_memories = dict_get d ''memories'' 0,
       dc_truncated = list_ex (\<lambda>(k, v). 0 < v) d\<rparr>)"

definition package_of :: "(pyval \<Rightarrow> string) \<Rightarrow> string \<Rightarrow> context_package \<Rightarrow> package_summary" where
  "package_of str_of demand_id p = \<lparr>ps_demand_id = str_or (cp_demand p) demand_id, ps_rules = cp_rules p,
     ps_index = map (artifact_of str_of) (cp_index p), ps_memories = map (artifact_of str_of) (cp_memories p),
     ps_findings = map finding_of (cp_findings p), ps_estimated_tokens = cp_estimated_tokens p,
     ps_dropped = drops p\<rparr>"

definition hits_of :: "(pyval \<Rightarrow> string) \<Rightarrow> core_knowledge list \<times> real list \<Rightarrow> memory_hit list" where
  "hits_of str_of r = (case r of (artifacts, scores) \<Rightarrow>
     map (\<lambda>(i, a). \<lparr>mh_artifact = artifact_of str_of a,
            mh_score = (if i < length scores then Some (scores ! i) else None)\<rparr>)
       (enumerate 0 artifacts))"

section \<open>Use cases\<close>

definition get_context_package :: "(pyval \<Rightarrow> string) \<Rightarrow> 'w env \<Rightarrow> 'w knowledge_stub \<Rightarrow> string
    \<Rightarrow> ('w, package_summary) io" where
  "get_context_package str_of env st demand_id = logged ''get_context_package'' (account_scoped
     (mapv (package_of str_of demand_id) (unary env (BuildContextPackage st) (ret demand_id))))"

definition search_memory :: "(pyval \<Rightarrow> string) \<Rightarrow> 'w env \<Rightarrow> 'w knowledge_stub \<Rightarrow> string \<Rightarrow> string \<Rightarrow> int
    \<Rightarrow> ('w, memory_hit list) io" where
  "search_memory str_of env st project_id query limit = logged ''search_memory'' (account_scoped
     (mapv (hits_of str_of) (unary env (SearchMemory st) (ret \<lparr>sq_query = query, sq_limit = limit,
        sq_project = (if project_id = [] then None else Some project_id)\<rparr>))))"

definition read_index :: "(pyval \<Rightarrow> string) \<Rightarrow> 'w env \<Rightarrow> 'w knowledge_stub \<Rightarrow> string \<Rightarrow> string
    \<Rightarrow> ('w, artifact_summary) io" where
  "read_index str_of env st project_id repo = logged ''read_index'' (account_scoped
     (mapv (artifact_of str_of) (unary env (ReadIndex st) (ret (project_id, repo)))))"

definition list_rules :: "'w env \<Rightarrow> 'w knowledge_stub \<Rightarrow> string \<Rightarrow> ('w, string list) io" where
  "list_rules env st project_id = logged ''list_rules'' (account_scoped
     (mapv id (unary env (ListRules st) (ret project_id))))"

text \<open>\<^verbatim>\<open>_KIND_BY_NAME[body.kind]\<close>, and \<^verbatim>\<open>body.content()\<close>, which decodes strictly.\<close>

definition kind_value :: "string \<Rightarrow> ('w, int) io" where
  "kind_value name = (case map_of (dict_invert NAME_BY_KIND) name of
      None \<Rightarrow> raise (KeyError name) | Some n \<Rightarrow> ret n)"

definition content_of :: "string \<Rightarrow> ('w, string) io" where
  "content_of b64 = (case b64decode True b64 of
      None \<Rightarrow> raise (OtherError ''binascii.Error'') | Some bytes \<Rightarrow> ret bytes)"

text \<open>The artifact is built before the stub is asked for, the content and the key after it.\<close>

definition put_artifact :: "(pyval \<Rightarrow> string) \<Rightarrow> 'w env \<Rightarrow> 'w knowledge_stub \<Rightarrow> new_artifact \<Rightarrow> string
    \<Rightarrow> ('w, artifact_summary) io" where
  "put_artifact str_of env st body key = logged ''put_artifact'' (account_scoped
     (bnd (kind_value (na_kind body)) (\<lambda>kind.
        mapv (artifact_of str_of) (unary env (PutArtifact st)
          (bnd (content_of (na_content_base64 body)) (\<lambda>content.
             mapv (\<lambda>k. \<lparr>pu_kind = kind, pu_name = na_name body,
               pu_project = (if na_project_id body = [] then None else Some (na_project_id body)),
               pu_meta = (if na_meta body = [] then None else Some (na_meta body)),
               pu_content = content, pu_idempotency_key = k\<rparr>) (idempotency env key)))))))"

text \<open>\<^verbatim>\<open>NewArtifact(...)\<close>: the pattern of the kind, the two lengths and the validator of the content.\<close>

definition NewArtifact :: "string \<Rightarrow> string \<Rightarrow> string \<Rightarrow> string \<Rightarrow> (string \<times> pyval) list \<Rightarrow> ('w, new_artifact) io" where
  "NewArtifact kind name project_id content_base64 meta =
     (if kind \<notin> {''rule'', ''index'', ''memory''} then raise (ValidationError ''kind'')
      else if name = [] then raise (ValidationError ''name'')
      else if content_base64 = [] \<or> b64decode True content_base64 = None then raise (ValidationError ''content_base64'')
      else ret \<lparr>na_kind = kind, na_name = name, na_project_id = project_id, na_content_base64 = content_base64,
        na_meta = meta\<rparr>)"

section \<open>The gRPC port\<close>

record bff_artifact =
  bk_id :: string
  bk_kind :: int
  bk_project_id :: string
  bk_name :: string
  bk_version :: int
  bk_object_ref :: string
  bk_meta :: "(string \<times> pyval) list"
  bk_body :: string
  bk_scope :: string

record bff_package =
  bp_demand_id :: string
  bp_rules :: "string list"
  bp_index :: "bff_artifact list"
  bp_memories :: "bff_artifact list"
  bp_findings :: "finding_summary list"
  bp_estimated_tokens :: int
  bp_dropped :: "dropped_counts option"

definition bff_artifact_of :: "artifact_summary \<Rightarrow> bff_artifact" where
  "bff_artifact_of a = \<lparr>bk_id = az_id a, bk_kind = enum_value NAME_BY_ENUM (az_kind a), bk_project_id = az_project_id a,
     bk_name = az_name a, bk_version = az_version a, bk_object_ref = az_object_ref a, bk_meta = az_meta a,
     bk_body = az_body a, bk_scope = az_scope a\<rparr>"

definition bff_package_of :: "package_summary \<Rightarrow> bff_package" where
  "bff_package_of p = \<lparr>bp_demand_id = ps_demand_id p, bp_rules = ps_rules p,
     bp_index = map bff_artifact_of (ps_index p), bp_memories = map bff_artifact_of (ps_memories p),
     bp_findings = ps_findings p, bp_estimated_tokens = ps_estimated_tokens p,
     bp_dropped = (case ps_dropped p of None \<Rightarrow> None
       | Some d \<Rightarrow> Some \<lparr>dc_rules = dc_rules d, dc_findings = dc_findings d, dc_index = dc_index d,
           dc_memories = dc_memories d, dc_truncated = dc_truncated d\<rparr>)\<rparr>"

definition grpc_GetContextPackage :: "(pyval \<Rightarrow> string) \<Rightarrow> 'w env \<Rightarrow> 'w knowledge_stub \<Rightarrow> string
    \<Rightarrow> ('w, bff_package) io" where
  "grpc_GetContextPackage str_of env st demand_id = mapv bff_package_of (get_context_package str_of env st demand_id)"

definition grpc_PutArtifact :: "(pyval \<Rightarrow> string) \<Rightarrow> 'w env \<Rightarrow> 'w knowledge_stub \<Rightarrow> int \<Rightarrow> string \<Rightarrow> string \<Rightarrow> string
    \<Rightarrow> (string \<times> pyval) list option \<Rightarrow> string \<Rightarrow> ('w, bff_artifact) io" where
  "grpc_PutArtifact str_of env st kind name project_id content meta key =
     bnd (NewArtifact (enum_name NAME_BY_ENUM kind) name project_id (b64encode content)
        (case meta of None \<Rightarrow> [] | Some m \<Rightarrow> m))
       (\<lambda>body. mapv bff_artifact_of (put_artifact str_of env st body key))"

definition rest_put_artifact :: "(pyval \<Rightarrow> string) \<Rightarrow> 'w env \<Rightarrow> 'w knowledge_stub \<Rightarrow> new_artifact \<Rightarrow> string
    \<Rightarrow> ('w, artifact_summary) io" where
  "rest_put_artifact str_of env st q key =
     bnd (NewArtifact (na_kind q) (na_name q) (na_project_id q) (na_content_base64 q) (na_meta q))
       (\<lambda>body. put_artifact str_of env st body key)"

record bff_hit =
  bh_artifact :: bff_artifact
  bh_score :: "real option"

definition grpc_SearchMemory :: "(pyval \<Rightarrow> string) \<Rightarrow> 'w env \<Rightarrow> 'w knowledge_stub \<Rightarrow> string \<Rightarrow> string \<Rightarrow> int
    \<Rightarrow> ('w, bff_hit list) io" where
  "grpc_SearchMemory str_of env st project_id query limit =
     mapv (map (\<lambda>h. \<lparr>bh_artifact = bff_artifact_of (mh_artifact h), bh_score = mh_score h\<rparr>))
       (search_memory str_of env st project_id query limit)"

definition grpc_ReadIndex :: "(pyval \<Rightarrow> string) \<Rightarrow> 'w env \<Rightarrow> 'w knowledge_stub \<Rightarrow> string \<Rightarrow> string
    \<Rightarrow> ('w, bff_artifact) io" where
  "grpc_ReadIndex str_of env st project_id repo = mapv bff_artifact_of (read_index str_of env st project_id repo)"

definition grpc_ListRules :: "'w env \<Rightarrow> 'w knowledge_stub \<Rightarrow> string \<Rightarrow> ('w, string list) io" where
  "grpc_ListRules env st project_id = mapv id (list_rules env st project_id)"

text \<open>The REST port bounds the texts of a query: FastAPI refuses an empty one.\<close>

definition rest_search_memory :: "(pyval \<Rightarrow> string) \<Rightarrow> 'w env \<Rightarrow> 'w knowledge_stub \<Rightarrow> string \<Rightarrow> string \<Rightarrow> int
    \<Rightarrow> ('w, memory_hit list) io" where
  "rest_search_memory str_of env st q project_id limit =
     (if q = [] then raise (ValidationError ''q'') else search_memory str_of env st project_id q limit)"

definition rest_read_index :: "(pyval \<Rightarrow> string) \<Rightarrow> 'w env \<Rightarrow> 'w knowledge_stub \<Rightarrow> string \<Rightarrow> string
    \<Rightarrow> ('w, artifact_summary) io" where
  "rest_read_index str_of env st project_id repo =
     (if project_id = [] then raise (ValidationError ''project_id'')
      else if repo = [] then raise (ValidationError ''repo'') else read_index str_of env st project_id repo)"

section \<open>A hit keeps its own score\<close>

text \<open>
  Pairing loses nothing: as many hits as artifacts, each artifact in its place with the score the
  core gave for that place, and none where the core sent fewer scores.
\<close>

lemma hits_paired:
  "length (hits_of str_of (arts, scores)) = length arts"
  "i < length arts \<Longrightarrow> hits_of str_of (arts, scores) ! i =
     \<lparr>mh_artifact = artifact_of str_of (arts ! i), mh_score = (if i < length scores then Some (scores ! i) else None)\<rparr>"
  by (simp_all add: hits_of_def nth_enumerate_eq)

section \<open>What was left out is said\<close>

text \<open>
  C30. The package never lies about what was left out. The counts are there exactly when the core sent
  any, and then each layer's is the core's, zero for a layer it did not name; the package is called
  truncated exactly when the core dropped something in some layer, one the edge has no field for
  included. The gRPC port keeps an absent count absent. Every rule, index entry, memory and finding
  of the core is there, in its order.
\<close>

theorem package_never_lies:
  assumes "get_context_package str_of env st demand_id s = (Inr p, s')"
  shows "\<exists>core s1 s2. asked env (BuildContextPackage st) demand_id s1 core s2 \<and> auth_ctx s1 = auth_ctx s
    \<and> (ps_dropped p = None \<longleftrightarrow> cp_dropped core = [])
    \<and> (\<forall>d. ps_dropped p = Some d \<longrightarrow>
        (dc_truncated d \<longleftrightarrow> (\<exists>(layer, n) \<in> set (cp_dropped core). 0 < n))
        \<and> dc_rules d = dict_get (cp_dropped core) ''rules'' 0
        \<and> dc_findings d = dict_get (cp_dropped core) ''findings'' 0
        \<and> dc_index d = dict_get (cp_dropped core) ''index'' 0
        \<and> dc_memories d = dict_get (cp_dropped core) ''memories'' 0)
    \<and> ps_rules p = cp_rules core \<and> map az_id (ps_index p) = map kn_id (cp_index core)
    \<and> map az_id (ps_memories p) = map kn_id (cp_memories core)
    \<and> map fz_id (ps_findings p) = map kf_id (cp_findings core)
    \<and> bp_dropped (bff_package_of p) = ps_dropped p"
proof -
  from read_Inr [OF assms [unfolded get_context_package_def]] obtain core s1 s2 where
    "asked env (BuildContextPackage st) demand_id s1 core s2" "auth_ctx s1 = auth_ctx s"
    and p: "p = package_of str_of demand_id core" by auto
  moreover have "ps_dropped p = drops core" by (simp add: p package_of_def)
  moreover have "map az_id (map (artifact_of str_of) as) = map kn_id as" for as
    by (simp add: artifact_of_def pop_str_def Let_def)
  then have "map az_id (ps_index p) = map kn_id (cp_index core)" "map az_id (ps_memories p) = map kn_id (cp_memories core)"
    by (simp_all only: p package_of_def package_summary.simps)
  moreover have "ps_rules p = cp_rules core" "map fz_id (ps_findings p) = map kf_id (cp_findings core)"
    by (simp_all add: p package_of_def finding_of_def)
  moreover have "bp_dropped (bff_package_of p) = ps_dropped p"
    by (simp add: bff_package_of_def split: option.splits)
  moreover have "(drops core = None \<longleftrightarrow> cp_dropped core = [])
      \<and> (\<forall>d. drops core = Some d \<longrightarrow>
        (dc_truncated d \<longleftrightarrow> (\<exists>(layer, n) \<in> set (cp_dropped core). 0 < n))
        \<and> dc_rules d = dict_get (cp_dropped core) ''rules'' 0
        \<and> dc_findings d = dict_get (cp_dropped core) ''findings'' 0
        \<and> dc_index d = dict_get (cp_dropped core) ''index'' 0
        \<and> dc_memories d = dict_get (cp_dropped core) ''memories'' 0)"
    by (auto simp: drops_def Let_def list_ex_iff)
  ultimately show ?thesis by metis
qed

definition demo_package :: context_package where
  "demo_package = \<lparr>cp_demand = ''d-1'', cp_rules = [''be kind''], cp_index = [], cp_memories = [], cp_findings = [],
     cp_estimated_tokens = 900, cp_dropped = [(''rules'', 0), (''maps'', 2)]\<rparr>"

definition demo_artifact :: core_knowledge where
  "demo_artifact = \<lparr>kn_id = ''a-1'', kn_kind = 3, kn_project = [], kn_name = ''deploys'', kn_version = 2, kn_object_ref = [],
     kn_meta = Some [(''dop.body'', PyStr ''text''), (''author'', PyStr ''ana'')]\<rparr>"

definition demo_knowledge :: "nat knowledge_stub" where
  "demo_knowledge = \<lparr>BuildContextPackage = answering demo_package, SearchMemory = answering ([demo_artifact], []),
     ReadIndex = failing NOT_FOUND ''no index'', ListRules = answering [], PutArtifact = answering demo_artifact\<rparr>"

theorem package_never_lies_witness:
  "\<exists>p s' d. get_context_package (\<lambda>v. []) demo_env demo_knowledge ''d-1'' (demo_rt (Some (demo_ctx ''acc-1'' ''viewer'')))
      = (Inr p, s') \<and> ps_dropped p = Some d \<and> dc_truncated d \<and> dc_rules d = 0 \<and> dc_memories d = 0"
proof -
  let ?s = "demo_rt (Some (demo_ctx ''acc-1'' ''viewer''))"
  have "\<exists>p s'. get_context_package (\<lambda>v. []) demo_env demo_knowledge ''d-1'' ?s = (Inr p, s')"
    by (simp add: get_context_package_def io_simps demo_run unary_def unary_by_def core_metadata_def demo_knowledge_def)
  then obtain p s' where run: "get_context_package (\<lambda>v. []) demo_env demo_knowledge ''d-1'' ?s = (Inr p, s')" by blast
  from package_never_lies [OF run] have "\<exists>core s1 s2. asked demo_env (BuildContextPackage demo_knowledge) ''d-1'' s1 core s2
    \<and> (ps_dropped p = None \<longleftrightarrow> cp_dropped core = [])
    \<and> (\<forall>d. ps_dropped p = Some d \<longrightarrow> (dc_truncated d \<longleftrightarrow> (\<exists>(layer, n) \<in> set (cp_dropped core). 0 < n))
        \<and> dc_rules d = dict_get (cp_dropped core) ''rules'' 0 \<and> dc_memories d = dict_get (cp_dropped core) ''memories'' 0)"
    by (elim exE conjE) (intro exI conjI, assumption+, simp)
  then obtain core s1 s2 where
    c: "asked demo_env (BuildContextPackage demo_knowledge) ''d-1'' s1 core s2"
    and n: "ps_dropped p = None \<longleftrightarrow> cp_dropped core = []"
    and d: "\<forall>d. ps_dropped p = Some d \<longrightarrow> (dc_truncated d \<longleftrightarrow> (\<exists>(layer, n) \<in> set (cp_dropped core). 0 < n))
        \<and> dc_rules d = dict_get (cp_dropped core) ''rules'' 0 \<and> dc_memories d = dict_get (cp_dropped core) ''memories'' 0"
    by (elim exE conjE) rule
  from c have "core = demo_package" by (auto simp: asked_def demo_knowledge_def answering_def)
  with n d run show ?thesis by (cases "ps_dropped p") (auto simp: demo_package_def dict_get_def)
qed

end
