(* ===== verification/SecondFactor.thy ===== *)
theory SecondFactor
  imports Usecase Vocabulary Gateway
begin

text \<open>
  \<^verbatim>\<open>app/usecases/secondfactor.py\<close> and \<^verbatim>\<open>app/grpcapi/secondfactor.py\<close>: the edge's side of the second
  factor, which translates and keeps nothing. These use cases need a session and no active account,
  so \<^verbatim>\<open>@log\<close> is their only decorator.
\<close>

section \<open>Vocabulary\<close>

definition KIND_FROM_PROTO :: "(int \<times> string) list" where
  "KIND_FROM_PROTO = [(1, ''totp''), (2, ''email''), (3, ''sms'')]"

definition STATUS_FROM_PROTO :: "(int \<times> string) list" where
  "STATUS_FROM_PROTO = [(1, ''pending''), (2, ''active''), (3, ''revoked'')]"

definition bff_KIND_NAME :: "(int \<times> string) list" where
  "bff_KIND_NAME = [(1, ''totp''), (2, ''email''), (3, ''sms'')]"

definition bff_STATUS :: "(string \<times> int) list" where
  "bff_STATUS = [(''pending'', 1), (''active'', 2), (''revoked'', 3)]"

interpretation factor_kinds: shared_vocabulary KIND_FROM_PROTO bff_KIND_NAME
  by unfold_locales (simp_all add: KIND_FROM_PROTO_def bff_KIND_NAME_def)

interpretation factor_statuses: crossing STATUS_FROM_PROTO bff_STATUS
  by unfold_locales (simp_all add: STATUS_FROM_PROTO_def bff_STATUS_def dict_invert_def)

section \<open>Models\<close>

record core_factor =
  ff_id :: string
  ff_kind :: int
  ff_status :: int
  ff_label :: string
  ff_masked_destination :: string
  ff_confirmed_at :: timestamp
  ff_last_used_at :: timestamp

record factor_summary =
  fs_id :: string
  fs_kind :: string
  fs_status :: string
  fs_label :: string
  fs_masked_destination :: string
  fs_confirmed_at :: "string option"
  fs_last_used_at :: "string option"

record core_state =
  ss_required :: bool
  ss_enrolled :: bool
  ss_stepped_up :: bool
  ss_needs_setup :: bool
  ss_allowed :: "int list"
  ss_factors :: "core_factor list"
  ss_recovery_codes_left :: int
  ss_step_up_expires_at :: timestamp

record factor_state =
  fe_required :: bool
  fe_enrolled :: bool
  fe_stepped_up :: bool
  fe_needs_setup :: bool
  fe_allowed :: "string list"
  fe_factors :: "factor_summary list"
  fe_recovery_codes_left :: int
  fe_step_up_expires_at :: "string option"

record new_factor =
  nw_kind :: string
  nw_label :: string
  nw_destination :: string

record enroll_request =
  er_kind :: int
  er_label :: string
  er_destination :: string

record core_enrolled =
  el_factor :: core_factor
  el_challenge_id :: string
  el_secret :: string
  el_uri :: string

record enroll_response =
  eo_factor :: factor_summary
  eo_challenge_id :: string
  eo_secret :: string
  eo_uri :: string

record core_challenge =
  cy_challenge_id :: string
  cy_kind :: int
  cy_masked_destination :: string
  cy_expires_at :: timestamp

record challenge_response =
  cz_challenge_id :: string
  cz_kind :: string
  cz_masked_destination :: string
  cz_expires_at :: "string option"

record core_step_up =
  st_method :: int
  st_recovery :: bool
  st_expires_at :: timestamp

record step_up =
  su_method :: string
  su_recovery :: bool
  su_expires_at :: "string option"

record 'w factor_stub =
  GetSecondFactorState :: "('w, unit, core_state) rpc"
  ListSecondFactors :: "('w, unit, core_factor list) rpc"
  EnrollSecondFactor :: "('w, enroll_request, core_enrolled) rpc"
  ConfirmSecondFactor :: "('w, string \<times> string \<times> string, core_factor \<times> string list) rpc"
  RevokeSecondFactor :: "('w, string, core_factor) rpc"
  ChallengeSecondFactor :: "('w, string, core_challenge) rpc"
  VerifySecondFactor :: "('w, string \<times> string, core_step_up) rpc"
  VerifyRecoveryCode :: "('w, string, core_step_up) rpc"
  RegenerateRecoveryCodes :: "('w, unit, string list) rpc"

section \<open>Conversions\<close>

definition factor_of :: "core_factor \<Rightarrow> factor_summary" where
  "factor_of f = \<lparr>fs_id = ff_id f, fs_kind = enum_name KIND_FROM_PROTO (ff_kind f),
     fs_status = enum_name STATUS_FROM_PROTO (ff_status f), fs_label = ff_label f,
     fs_masked_destination = ff_masked_destination f, fs_confirmed_at = ts_text (ff_confirmed_at f),
     fs_last_used_at = ts_text (ff_last_used_at f)\<rparr>"

text \<open>Python's \<^verbatim>\<open>repr\<close> of the kind, for the message, is a parameter.\<close>

definition kind_value :: "(string \<Rightarrow> string) \<Rightarrow> string \<Rightarrow> ('w, int) io" where
  "kind_value repr_of kind = (if kind \<notin> snd ` set KIND_FROM_PROTO
     then raise (HTTPException 422 (''unknown second factor kind: '' @ repr_of kind))
     else ret (enum_value KIND_FROM_PROTO kind))"

definition step_up_of :: "core_step_up \<Rightarrow> step_up" where
  "step_up_of r = \<lparr>su_method = (if st_recovery r then ''recovery_code'' else enum_name KIND_FROM_PROTO (st_method r)),
     su_recovery = st_recovery r, su_expires_at = ts_text (st_expires_at r)\<rparr>"

section \<open>Use cases\<close>

definition factor_state_of :: "'w env \<Rightarrow> 'w factor_stub \<Rightarrow> ('w, factor_state) io" where
  "factor_state_of env st = logged ''state''
     (mapv (\<lambda>r. \<lparr>fe_required = ss_required r, fe_enrolled = ss_enrolled r, fe_stepped_up = ss_stepped_up r,
          fe_needs_setup = ss_needs_setup r, fe_allowed = map (enum_name KIND_FROM_PROTO) (ss_allowed r),
          fe_factors = map factor_of (ss_factors r), fe_recovery_codes_left = ss_recovery_codes_left r,
          fe_step_up_expires_at = ts_text (ss_step_up_expires_at r)\<rparr>)
       (unary env (GetSecondFactorState st) (ret ())))"

definition list_factors :: "'w env \<Rightarrow> 'w factor_stub \<Rightarrow> ('w, factor_summary list) io" where
  "list_factors env st = logged ''list_factors''
     (mapv (map factor_of) (unary env (ListSecondFactors st) (ret ())))"

definition enroll :: "(string \<Rightarrow> string) \<Rightarrow> 'w env \<Rightarrow> 'w factor_stub \<Rightarrow> new_factor \<Rightarrow> ('w, enroll_response) io" where
  "enroll repr_of env st body = logged ''enroll''
     (mapv (\<lambda>r. \<lparr>eo_factor = factor_of (el_factor r), eo_challenge_id = el_challenge_id r,
          eo_secret = el_secret r, eo_uri = el_uri r\<rparr>)
       (unary env (EnrollSecondFactor st) (mapv (\<lambda>kind.
          \<lparr>er_kind = kind, er_label = nw_label body, er_destination = nw_destination body\<rparr>)
          (kind_value repr_of (nw_kind body)))))"

definition confirm :: "'w env \<Rightarrow> 'w factor_stub \<Rightarrow> string \<Rightarrow> string \<Rightarrow> string
    \<Rightarrow> ('w, factor_summary option \<times> string list) io" where
  "confirm env st factor_id challenge_id code = logged ''confirm''
     (mapv (\<lambda>(f, codes). (if ff_id f = [] then None else Some (factor_of f), codes))
       (unary env (ConfirmSecondFactor st) (ret (factor_id, challenge_id, code))))"

definition revoke :: "'w env \<Rightarrow> 'w factor_stub \<Rightarrow> string \<Rightarrow> ('w, unit) io" where
  "revoke env st factor_id = logged ''revoke''
     (mapv (\<lambda>_. ()) (unary env (RevokeSecondFactor st) (ret factor_id)))"

definition challenge :: "'w env \<Rightarrow> 'w factor_stub \<Rightarrow> string \<Rightarrow> ('w, challenge_response) io" where
  "challenge env st factor_id = logged ''challenge''
     (mapv (\<lambda>r. \<lparr>cz_challenge_id = cy_challenge_id r, cz_kind = enum_name KIND_FROM_PROTO (cy_kind r),
          cz_masked_destination = cy_masked_destination r, cz_expires_at = ts_text (cy_expires_at r)\<rparr>)
       (unary env (ChallengeSecondFactor st) (ret factor_id)))"

definition verify_code :: "'w env \<Rightarrow> 'w factor_stub \<Rightarrow> string \<Rightarrow> string \<Rightarrow> ('w, step_up) io" where
  "verify_code env st challenge_id code = logged ''verify''
     (mapv step_up_of (unary env (VerifySecondFactor st) (ret (challenge_id, code))))"

definition verify_recovery :: "'w env \<Rightarrow> 'w factor_stub \<Rightarrow> string \<Rightarrow> ('w, step_up) io" where
  "verify_recovery env st code = logged ''verify_recovery''
     (mapv step_up_of (unary env (VerifyRecoveryCode st) (ret code)))"

definition regenerate_recovery_codes :: "'w env \<Rightarrow> 'w factor_stub \<Rightarrow> ('w, string list) io" where
  "regenerate_recovery_codes env st = logged ''regenerate_recovery_codes''
     (mapv id (unary env (RegenerateRecoveryCodes st) (ret ())))"

section \<open>The ports\<close>

text \<open>\<^verbatim>\<open>NewFactor(...)\<close> bounds the label, and the code of a step-up has bounds of its own.\<close>

definition NewFactor :: "string \<Rightarrow> string \<Rightarrow> string \<Rightarrow> ('w, new_factor) io" where
  "NewFactor kind label destination =
     (if label = [] \<or> 60 < length label then raise (ValidationError ''label'')
      else ret \<lparr>nw_kind = kind, nw_label = label, nw_destination = destination\<rparr>)"

definition VerifyRequest :: "string \<Rightarrow> string \<Rightarrow> ('w, string \<times> string) io" where
  "VerifyRequest challenge_id code =
     (if code = [] \<or> 32 < length code then raise (ValidationError ''code'') else ret (challenge_id, code))"

definition RecoveryRequest :: "string \<Rightarrow> ('w, string) io" where
  "RecoveryRequest code = (if code = [] \<or> 64 < length code then raise (ValidationError ''code'') else ret code)"

definition rest_enroll :: "(string \<Rightarrow> string) \<Rightarrow> 'w env \<Rightarrow> 'w factor_stub \<Rightarrow> new_factor \<Rightarrow> ('w, enroll_response) io" where
  "rest_enroll repr_of env st q =
     bnd (NewFactor (nw_kind q) (nw_label q) (nw_destination q)) (enroll repr_of env st)"

text \<open>The gRPC port's messages: the text of an instant is read back into a timestamp.\<close>

record bff_factor =
  bt_id :: string
  bt_kind :: int
  bt_status :: int
  bt_label :: string
  bt_masked_destination :: string
  bt_confirmed_at :: "timestamp option"
  bt_last_used_at :: "timestamp option"

record bff_step_up =
  bu_method :: int
  bu_recovery :: bool
  bu_expires_at :: "timestamp option"

definition bff_factor_of :: "factor_summary \<Rightarrow> bff_factor" where
  "bff_factor_of f = \<lparr>bt_id = fs_id f, bt_kind = enum_value bff_KIND_NAME (fs_kind f),
     bt_status = dict_get bff_STATUS (fs_status f) 0, bt_label = fs_label f,
     bt_masked_destination = fs_masked_destination f,
     bt_confirmed_at = grpc_ts (fs_confirmed_at f), bt_last_used_at = grpc_ts (fs_last_used_at f)\<rparr>"

definition bff_step_up_of :: "step_up \<Rightarrow> bff_step_up" where
  "bff_step_up_of r = \<lparr>bu_method = enum_value bff_KIND_NAME (su_method r), bu_recovery = su_recovery r,
     bu_expires_at = grpc_ts (su_expires_at r)\<rparr>"

definition grpc_ListSecondFactors :: "'w env \<Rightarrow> 'w factor_stub \<Rightarrow> ('w, bff_factor list) io" where
  "grpc_ListSecondFactors env st = mapv (map bff_factor_of) (list_factors env st)"

definition grpc_EnrollSecondFactor :: "(string \<Rightarrow> string) \<Rightarrow> 'w env \<Rightarrow> 'w factor_stub \<Rightarrow> int \<Rightarrow> string \<Rightarrow> string
    \<Rightarrow> ('w, bff_factor \<times> string \<times> string \<times> string) io" where
  "grpc_EnrollSecondFactor repr_of env st kind label destination =
     bnd (NewFactor (enum_name bff_KIND_NAME kind) label destination)
       (\<lambda>body. mapv (\<lambda>r. (bff_factor_of (eo_factor r), eo_challenge_id r, eo_secret r, eo_uri r))
         (enroll repr_of env st body))"

definition grpc_VerifySecondFactor :: "'w env \<Rightarrow> 'w factor_stub \<Rightarrow> string \<Rightarrow> string \<Rightarrow> ('w, bff_step_up) io" where
  "grpc_VerifySecondFactor env st challenge_id code =
     bnd (VerifyRequest challenge_id code) (\<lambda>(ch, c). mapv bff_step_up_of (verify_code env st ch c))"

definition grpc_VerifyRecoveryCode :: "'w env \<Rightarrow> 'w factor_stub \<Rightarrow> string \<Rightarrow> ('w, bff_step_up) io" where
  "grpc_VerifyRecoveryCode env st code =
     bnd (RecoveryRequest code) (\<lambda>c. mapv bff_step_up_of (verify_recovery env st c))"

record bff_state =
  bw_required :: bool
  bw_enrolled :: bool
  bw_stepped_up :: bool
  bw_needs_setup :: bool
  bw_allowed :: "int list"
  bw_factors :: "bff_factor list"
  bw_recovery_codes_left :: int
  bw_step_up_expires_at :: "timestamp option"

text \<open>A kind the port has no number for is left out of the allowed ones.\<close>

definition grpc_GetSecondFactorState :: "'w env \<Rightarrow> 'w factor_stub \<Rightarrow> ('w, bff_state) io" where
  "grpc_GetSecondFactorState env st = mapv (\<lambda>r. \<lparr>bw_required = fe_required r, bw_enrolled = fe_enrolled r,
       bw_stepped_up = fe_stepped_up r, bw_needs_setup = fe_needs_setup r,
       bw_allowed = map (enum_value bff_KIND_NAME) (filter (\<lambda>k. k \<in> snd ` set bff_KIND_NAME) (fe_allowed r)),
       bw_factors = map bff_factor_of (fe_factors r), bw_recovery_codes_left = fe_recovery_codes_left r,
       bw_step_up_expires_at = grpc_ts (fe_step_up_expires_at r)\<rparr>) (factor_state_of env st)"

definition ConfirmFactor :: "string \<Rightarrow> string \<Rightarrow> ('w, string \<times> string) io" where
  "ConfirmFactor challenge_id code =
     (if code = [] \<or> 32 < length code then raise (ValidationError ''code'') else ret (challenge_id, code))"

definition grpc_ConfirmSecondFactor :: "'w env \<Rightarrow> 'w factor_stub \<Rightarrow> string \<Rightarrow> string \<Rightarrow> string
    \<Rightarrow> ('w, bff_factor option \<times> string list) io" where
  "grpc_ConfirmSecondFactor env st factor_id challenge_id code =
     bnd (ConfirmFactor challenge_id code) (\<lambda>(ch, c).
       mapv (\<lambda>(f, codes). (map_option bff_factor_of f, codes)) (confirm env st factor_id ch c))"

text \<open>The answer of a removal is made here: the id asked for, revoked.\<close>

definition grpc_RevokeSecondFactor :: "'w env \<Rightarrow> 'w factor_stub \<Rightarrow> string \<Rightarrow> ('w, bff_factor) io" where
  "grpc_RevokeSecondFactor env st factor_id = mapv (\<lambda>_. \<lparr>bt_id = factor_id, bt_kind = 0, bt_status = 3,
     bt_label = [], bt_masked_destination = [], bt_confirmed_at = None, bt_last_used_at = None\<rparr>)
     (revoke env st factor_id)"

definition grpc_ChallengeSecondFactor :: "'w env \<Rightarrow> 'w factor_stub \<Rightarrow> string
    \<Rightarrow> ('w, string \<times> int \<times> string \<times> timestamp option) io" where
  "grpc_ChallengeSecondFactor env st factor_id = mapv (\<lambda>r. (cz_challenge_id r,
     enum_value bff_KIND_NAME (cz_kind r), cz_masked_destination r, grpc_ts (cz_expires_at r))) (challenge env st factor_id)"

definition grpc_RegenerateRecoveryCodes :: "'w env \<Rightarrow> 'w factor_stub \<Rightarrow> ('w, string list) io" where
  "grpc_RegenerateRecoveryCodes env st = mapv id (regenerate_recovery_codes env st)"

section \<open>A step-up says what answered\<close>

text \<open>
  A recovery code is told as such over REST, and over gRPC by the flag alone, its method being no
  kind; otherwise the method is the core's kind, zero for one the edge does not know.
\<close>

lemma step_up_method:
  "bu_method (bff_step_up_of (step_up_of r)) =
     (if \<not> st_recovery r \<and> known_number KIND_FROM_PROTO (st_method r) then st_method r else 0)"
proof (cases "st_recovery r")
  case True
  have "''recovery_code'' \<notin> snd ` set bff_KIND_NAME" by (simp add: bff_KIND_NAME_def)
  with True show ?thesis by (simp add: bff_step_up_of_def step_up_of_def factor_kinds.edge.value_unknown known_name_def)
next
  case False
  then show ?thesis by (simp add: bff_step_up_of_def step_up_of_def factor_kinds.crossing_out)
qed

section \<open>An unknown kind costs no round trip\<close>

lemma kind_value_known: "known_name KIND_FROM_PROTO k \<Longrightarrow> kind_value repr_of k = ret (enum_value KIND_FROM_PROTO k)"
  by (simp add: kind_value_def known_name_def)

lemma kind_value_unknown: "\<not> known_name KIND_FROM_PROTO k \<Longrightarrow>
    kind_value repr_of k = raise (HTTPException 422 (''unknown second factor kind: '' @ repr_of k))"
  by (simp add: kind_value_def known_name_def)

lemma factor_known: "known_name KIND_FROM_PROTO (enum_name bff_KIND_NAME n) \<longleftrightarrow> known_number bff_KIND_NAME n"
proof (cases "known_number bff_KIND_NAME n")
  case True
  then show ?thesis using factor_kinds.edge.known_enum_name by (simp add: factor_kinds.same_known(2))
next
  case False
  then show ?thesis using factor_kinds.core.empty_absent
    by (simp add: factor_kinds.edge.name_unknown known_name_def)
qed

lemma enroll_unknown:
  assumes "channel_open s" and "\<not> known_name KIND_FROM_PROTO (nw_kind b)"
  shows "refuses (enroll repr_of env st b) s (HTTPException 422 (''unknown second factor kind: '' @ repr_of (nw_kind b)))"
  using assms
  by (simp add: enroll_def refuses_def result_def after_def logged_run mapv_run unary_def unary_by_def bnd_run
      kind_value_unknown)

lemma enroll_Inr:
  assumes "enroll repr_of env st b s = (Inr r, s')"
  shows "\<exists>resp s1 s2. asked env (EnrollSecondFactor st)
      \<lparr>er_kind = enum_value KIND_FROM_PROTO (nw_kind b), er_label = nw_label b, er_destination = nw_destination b\<rparr> s1 resp s2
    \<and> auth_ctx s1 = auth_ctx s \<and> known_name KIND_FROM_PROTO (nw_kind b)
    \<and> r = \<lparr>eo_factor = factor_of (el_factor resp), eo_challenge_id = el_challenge_id resp,
          eo_secret = el_secret resp, eo_uri = el_uri resp\<rparr>"
proof (cases "known_name KIND_FROM_PROTO (nw_kind b)")
  case True
  from session_Inr [OF assms [unfolded enroll_def kind_value_known [OF True] mapv_ret]] True
  show ?thesis by metis
next
  case False
  with logged_Inr [OF assms [unfolded enroll_def]] show ?thesis
    by (auto simp: kind_value_unknown mapv_Inr unary_Inr)
qed

lemma NewFactor_given: "label \<noteq> [] \<Longrightarrow> length label \<le> 60 \<Longrightarrow>
    NewFactor k label destination = ret \<lparr>nw_kind = k, nw_label = label, nw_destination = destination\<rparr>"
  by (simp add: NewFactor_def)

lemma grpc_enroll_unknown:
  assumes "channel_open s" and label: "label \<noteq> []" "length label \<le> 60" and "\<not> known_number bff_KIND_NAME n"
  shows "\<exists>d. refuses (grpc_EnrollSecondFactor repr_of env st n label destination) s (HTTPException 422 d)
    \<and> fst (error_wrap (grpc_EnrollSecondFactor repr_of env st n label destination) s) = Inr (Inl (INTERNAL, d))"
proof -
  let ?b = "\<lparr>nw_kind = enum_name bff_KIND_NAME n, nw_label = label, nw_destination = destination\<rparr>"
  let ?d = "''unknown second factor kind: '' @ repr_of (enum_name bff_KIND_NAME n)"
  from enroll_unknown [OF assms(1), of ?b repr_of env st] assms(4)
  have r: "refuses (enroll repr_of env st ?b) s (HTTPException 422 ?d)" by (simp add: factor_known)
  then have "refuses (grpc_EnrollSecondFactor repr_of env st n label destination) s (HTTPException 422 ?d)"
    by (auto simp: grpc_EnrollSecondFactor_def NewFactor_given [OF label] refuses_def result_def after_def mapv_run
        split: prod.splits sum.splits)
  moreover from this have "fst (error_wrap (grpc_EnrollSecondFactor repr_of env st n label destination) s)
      = Inr (Inl (INTERNAL, ?d))"
    by (auto simp: refuses_def result_def error_wrap_def abort_with_def as_grpc_from_http_def
        grpc_status_for_http_simps try_with_run mapv_run split: prod.splits sum.splits)
  ultimately show ?thesis by blast
qed

lemma grpc_enroll_asked:
  assumes a: "grpc_EnrollSecondFactor repr_of env st n label destination s = (Inr (f, c, x, u), s')"
    and label: "label \<noteq> []" "length label \<le> 60"
  shows "\<exists>resp s1 s2. asked env (EnrollSecondFactor st)
        \<lparr>er_kind = n, er_label = label, er_destination = destination\<rparr> s1 resp s2 \<and> auth_ctx s1 = auth_ctx s
      \<and> c = el_challenge_id resp \<and> x = el_secret resp \<and> u = el_uri resp
      \<and> bt_kind f = (if known_number KIND_FROM_PROTO (ff_kind (el_factor resp)) then ff_kind (el_factor resp) else 0)
      \<and> bt_status f
          = (if known_number STATUS_FROM_PROTO (ff_status (el_factor resp)) then ff_status (el_factor resp) else 0)"
proof -
  from a obtain r where r: "enroll repr_of env st
      \<lparr>nw_kind = enum_name bff_KIND_NAME n, nw_label = label, nw_destination = destination\<rparr> s = (Inr r, s')"
    and f: "f = bff_factor_of (eo_factor r)" "c = eo_challenge_id r" "x = eo_secret r" "u = eo_uri r"
    by (auto simp: grpc_EnrollSecondFactor_def NewFactor_given [OF label] mapv_Inr)
  from enroll_Inr [OF r] obtain resp s1 s2 where
    q: "asked env (EnrollSecondFactor st) \<lparr>er_kind = enum_value KIND_FROM_PROTO (enum_name bff_KIND_NAME n),
        er_label = label, er_destination = destination\<rparr> s1 resp s2" "auth_ctx s1 = auth_ctx s"
    and k: "known_number bff_KIND_NAME n"
    and r': "r = \<lparr>eo_factor = factor_of (el_factor resp), eo_challenge_id = el_challenge_id resp,
        eo_secret = el_secret resp, eo_uri = el_uri resp\<rparr>" by (auto simp: factor_known)
  from k have "enum_value KIND_FROM_PROTO (enum_name bff_KIND_NAME n) = n" by (simp add: factor_kinds.crossing_in)
  with q f r' show ?thesis
    by (auto simp: bff_factor_of_def factor_of_def factor_kinds.crossing_out factor_statuses.crosses)
qed

text \<open>
  C33. A kind nobody knows never reaches the core. On either port, with the channel up, enrolling a
  kind outside the vocabulary is refused with a 422 before anything of the outside world is touched;
  on the gRPC wire that refusal is aborted as \<^verbatim>\<open>INTERNAL\<close>, the table of statuses having no 422, with
  the sentence as its detail. Enrolling a known kind over gRPC asks the core for that very number,
  and the answer has the core's challenge, seed and address as they came, with the factor's kind and
  status as the core's numbers, zero for one the edge does not know.
\<close>

theorem unknown_kind_stays_out:
  assumes "channel_open s" and "label \<noteq> []" and "length label \<le> 60"
  shows "(\<not> known_number bff_KIND_NAME n \<longrightarrow>
      (\<exists>d. refuses (grpc_EnrollSecondFactor repr_of env st n label destination) s (HTTPException 422 d)
        \<and> fst (error_wrap (grpc_EnrollSecondFactor repr_of env st n label destination) s) = Inr (Inl (INTERNAL, d))))
    \<and> (\<not> known_name KIND_FROM_PROTO kind \<longrightarrow>
      (\<exists>d. refuses (rest_enroll repr_of env st \<lparr>nw_kind = kind, nw_label = label, nw_destination = destination\<rparr>) s
         (HTTPException 422 d)))
    \<and> (\<forall>f c x u s'. grpc_EnrollSecondFactor repr_of env st n label destination s = (Inr (f, c, x, u), s') \<longrightarrow>
      (\<exists>resp s1 s2. asked env (EnrollSecondFactor st)
          \<lparr>er_kind = n, er_label = label, er_destination = destination\<rparr> s1 resp s2 \<and> auth_ctx s1 = auth_ctx s
        \<and> c = el_challenge_id resp \<and> x = el_secret resp \<and> u = el_uri resp
        \<and> bt_kind f = (if known_number KIND_FROM_PROTO (ff_kind (el_factor resp)) then ff_kind (el_factor resp) else 0)
        \<and> bt_status f
            = (if known_number STATUS_FROM_PROTO (ff_status (el_factor resp)) then ff_status (el_factor resp) else 0)))"
proof -
  have "\<exists>d. refuses (rest_enroll repr_of env st \<lparr>nw_kind = kind, nw_label = label, nw_destination = destination\<rparr>) s
         (HTTPException 422 d)" if "\<not> known_name KIND_FROM_PROTO kind"
    using enroll_unknown [OF assms(1), of "\<lparr>nw_kind = kind, nw_label = label, nw_destination = destination\<rparr>" repr_of env st] that
    by (auto simp: rest_enroll_def NewFactor_given [OF assms(2,3)])
  with grpc_enroll_unknown [OF assms] grpc_enroll_asked [OF _ assms(2,3)] show ?thesis by blast
qed

definition demo_factor :: core_factor where
  "demo_factor = \<lparr>ff_id = ''f-1'', ff_kind = 1, ff_status = 1, ff_label = ''phone'', ff_masked_destination = [],
     ff_confirmed_at = no_time, ff_last_used_at = no_time\<rparr>"

definition demo_factors :: "nat factor_stub" where
  "demo_factors = \<lparr>GetSecondFactorState = failing UNAVAILABLE ''down'', ListSecondFactors = answering [demo_factor],
     EnrollSecondFactor = answering \<lparr>el_factor = demo_factor, el_challenge_id = ''c-1'', el_secret = ''S'', el_uri = ''otpauth''\<rparr>,
     ConfirmSecondFactor = answering (demo_factor, []), RevokeSecondFactor = answering demo_factor,
     ChallengeSecondFactor = failing UNAVAILABLE ''down'', VerifySecondFactor = failing UNAVAILABLE ''down'',
     VerifyRecoveryCode = failing UNAVAILABLE ''down'', RegenerateRecoveryCodes = answering []\<rparr>"

theorem unknown_kind_stays_out_witness:
  "\<exists>d. fst (error_wrap (grpc_EnrollSecondFactor id demo_env demo_factors 9 ''phone'' []) (demo_rt None)) = Inr (Inl (INTERNAL, d))"
  using unknown_kind_stays_out [of "demo_rt None" "''phone''" 9 id demo_env demo_factors "[]" "[]"]
  by (simp add: demo_rt_def known_number_def bff_KIND_NAME_def) blast

end
