(* ===== verification/Catalog.thy ===== *)
theory Catalog
  imports Usecase
begin

text \<open>
  \<^verbatim>\<open>app/usecases/catalog.py\<close>: the plans and the providers, read by the onboarding journey with a
  session and no active account. Their rows have the same fields on every side.
\<close>

record plan =
  pl_key :: string
  pl_name :: string
  pl_tagline :: string
  pl_features :: "string list"

record provider =
  pv_key :: string
  pv_category :: string
  pv_name :: string
  pv_credential_kind :: string
  pv_permissions :: "string list"
  pv_needs_base_url :: bool
  pv_operated :: bool
  pv_docs_url :: string
  pv_brand_color :: string

record 'w catalog_stub =
  ListPlans :: "('w, unit, plan list) rpc"
  ListProviders :: "('w, unit, provider list) rpc"

definition plan_of :: "plan \<Rightarrow> plan" where
  "plan_of p = \<lparr>pl_key = pl_key p, pl_name = pl_name p, pl_tagline = pl_tagline p, pl_features = pl_features p\<rparr>"

definition provider_of :: "provider \<Rightarrow> provider" where
  "provider_of p = \<lparr>pv_key = pv_key p, pv_category = pv_category p, pv_name = pv_name p,
     pv_credential_kind = pv_credential_kind p, pv_permissions = pv_permissions p,
     pv_needs_base_url = pv_needs_base_url p, pv_operated = pv_operated p, pv_docs_url = pv_docs_url p,
     pv_brand_color = pv_brand_color p\<rparr>"

definition plans :: "'w env \<Rightarrow> 'w catalog_stub \<Rightarrow> ('w, plan list) io" where
  "plans env st = logged ''plans'' (mapv (map plan_of) (unary env (ListPlans st) (ret ())))"

definition providers :: "'w env \<Rightarrow> 'w catalog_stub \<Rightarrow> ('w, provider list) io" where
  "providers env st = logged ''providers'' (mapv (map provider_of) (unary env (ListProviders st) (ret ())))"

text \<open>The gRPC port copies the rows once more.\<close>

definition grpc_ListPlans :: "'w env \<Rightarrow> 'w catalog_stub \<Rightarrow> ('w, plan list) io" where
  "grpc_ListPlans env st = mapv (map plan_of) (plans env st)"

definition grpc_ListProviders :: "'w env \<Rightarrow> 'w catalog_stub \<Rightarrow> ('w, provider list) io" where
  "grpc_ListProviders env st = mapv (map provider_of) (providers env st)"

lemma plan_of_id [simp]: "plan_of p = p"
  by (simp add: plan_of_def)

lemma provider_of_id [simp]: "provider_of p = p"
  by (simp add: provider_of_def)

lemma maps_id: "map plan_of xs = xs" "map provider_of ys = ys"
  by (simp_all add: map_idI)

text \<open>Both ports answer with the core's rows, in the core's order; nobody needs an account.\<close>

lemma catalog_is_the_cores:
  "grpc_ListPlans env st s = (Inr ps, s') \<Longrightarrow>
     \<exists>s1 s2. asked env (ListPlans st) () s1 ps s2 \<and> auth_ctx s1 = auth_ctx s"
  "grpc_ListProviders env st s = (Inr vs, s') \<Longrightarrow>
     \<exists>s1 s2. asked env (ListProviders st) () s1 vs s2 \<and> auth_ctx s1 = auth_ctx s"
proof -
  assume "grpc_ListPlans env st s = (Inr ps, s')"
  then have "plans env st s = (Inr ps, s')" by (auto simp: grpc_ListPlans_def mapv_Inr maps_id)
  from session_Inr [OF this [unfolded plans_def]]
  show "\<exists>s1 s2. asked env (ListPlans st) () s1 ps s2 \<and> auth_ctx s1 = auth_ctx s"
    by (auto simp: maps_id)
next
  assume "grpc_ListProviders env st s = (Inr vs, s')"
  then have "providers env st s = (Inr vs, s')" by (auto simp: grpc_ListProviders_def mapv_Inr maps_id)
  from session_Inr [OF this [unfolded providers_def]]
  show "\<exists>s1 s2. asked env (ListProviders st) () s1 vs s2 \<and> auth_ctx s1 = auth_ctx s"
    by (auto simp: maps_id)
qed

end
