(* ===== verification/Watched.thy ===== *)
theory Watched
  imports Identity Hierarchy Demand Workflow Delivery Cost TurnRuntime Execution Attention Resource Knowledge
    SecondFactor Catalog Streams
begin

text \<open>
  How a use case is watched, for the whole of \<^verbatim>\<open>app/usecases/\<close>. A stub can be made suspicious: it refuses,
  untouched, every call whose metadata is not what it is told to expect or that has no deadline. A use case that
  gives the same answer and leaves the same world whether its stub is suspicious or not has made no other
  call. The locale \<open>watched\<close> is a condition on the context, what it makes of metadata and of the lines of the log;
  in it every use case is shown to keep the condition and to be the same behind the suspicious stub.
\<close>

section \<open>Suspicious stubs\<close>

definition only_from :: "((string \<times> string) list \<Rightarrow> bool) \<Rightarrow> ('w, 'q, 'r) rpc \<Rightarrow> ('w, 'q, 'r) rpc" where
  "only_from P rpc req opts w = (if P (co_metadata opts) \<and> co_timeout opts \<noteq> None then rpc req opts w
     else (Inl (PERMISSION_DENIED, None), w))"

text \<open>A stream has no deadline; refused, it is a call that was never opened.\<close>

definition only_from_stream :: "((string \<times> string) list \<Rightarrow> bool) \<Rightarrow> ('w, 'q, 'r) stream_rpc \<Rightarrow> ('w, 'q, 'r) stream_rpc" where
  "only_from_stream P rpc = rpc\<lparr>sr_open := (\<lambda>req md w. if P md then sr_open rpc req md w else (0, w))\<rparr>"

definition only_identity_stub :: "((string \<times> string) list \<Rightarrow> bool) \<Rightarrow> 'w identity_stub \<Rightarrow> 'w identity_stub" where
  "only_identity_stub P st = \<lparr>EnsureUser = only_from P (EnsureUser st), GetUser = only_from P (GetUser st),
     UpdateProfile = only_from P (UpdateProfile st), GetOnboarding = only_from P (GetOnboarding st),
     RecordOnboardingStep = only_from P (RecordOnboardingStep st),
     CompleteOnboarding = only_from P (CompleteOnboarding st),
     CheckHandle = only_from P (CheckHandle st),
     UpdatePersonalAccount = only_from P (UpdatePersonalAccount st), SetPlan = only_from P (SetPlan st),
     ListAccounts = only_from P (ListAccounts st), GetAccount = only_from P (GetAccount st),
     CreateAccount = only_from P (CreateAccount st), ListMemberships = only_from P (ListMemberships st),
     UpdateMembership = only_from P (UpdateMembership st),
     RemoveMembership = only_from P (RemoveMembership st), CreateInvite = only_from P (CreateInvite st),
     ListInvites = only_from P (ListInvites st), GetInvite = only_from P (GetInvite st),
     AcceptInvite = only_from P (AcceptInvite st), RevokeInvite = only_from P (RevokeInvite st),
     SendEmailVerification = only_from P (SendEmailVerification st)\<rparr>"

definition only_hierarchy_stub :: "((string \<times> string) list \<Rightarrow> bool) \<Rightarrow> 'w hierarchy_stub \<Rightarrow> 'w hierarchy_stub" where
  "only_hierarchy_stub P st = \<lparr>GetTree = only_from P (GetTree st), ListWorkspaces = only_from P (ListWorkspaces st),
     CreateWorkspace = only_from P (CreateWorkspace st), ListProjects = only_from P (ListProjects st),
     GetProject = only_from P (GetProject st), CreateProject = only_from P (CreateProject st),
     UpdateProject = only_from P (UpdateProject st)\<rparr>"

definition only_demand_stub :: "((string \<times> string) list \<Rightarrow> bool) \<Rightarrow> 'w demand_stub \<Rightarrow> 'w demand_stub" where
  "only_demand_stub P st = \<lparr>ListDemands = only_from P (ListDemands st), GetDemand = only_from P (GetDemand st),
     ListThreads = only_from P (ListThreads st), ListFindings = only_from P (ListFindings st),
     StartDemand = only_from P (StartDemand st), AdvanceStage = only_from P (AdvanceStage st),
     DecideGate = only_from P (DecideGate st), CreateThread = only_from P (CreateThread st),
     PostMessage = only_from P (PostMessage st), PublishFinding = only_from P (PublishFinding st)\<rparr>"

definition only_workflow_stub :: "((string \<times> string) list \<Rightarrow> bool) \<Rightarrow> 'w workflow_stub \<Rightarrow> 'w workflow_stub" where
  "only_workflow_stub P st = \<lparr>ListFlows = only_from P (ListFlows st), GetFlow = only_from P (GetFlow st),
     ResolveFlow = only_from P (ResolveFlow st), CreateFlow = only_from P (CreateFlow st),
     UpdateFlow = only_from P (UpdateFlow st), ValidateFlow = only_from P (ValidateFlow st),
     PromoteFlow = only_from P (PromoteFlow st)\<rparr>"

definition only_delivery_stub :: "((string \<times> string) list \<Rightarrow> bool) \<Rightarrow> 'w delivery_stub \<Rightarrow> 'w delivery_stub" where
  "only_delivery_stub P st = \<lparr>ListPullRequests = only_from P (ListPullRequests st),
     ListDirectives = only_from P (ListDirectives st), GetMergeQueue = only_from P (GetMergeQueue st),
     EnqueueMerge = only_from P (EnqueueMerge st), DecideDirective = only_from P (DecideDirective st)\<rparr>"

definition only_cost_stub :: "((string \<times> string) list \<Rightarrow> bool) \<Rightarrow> 'w cost_stub \<Rightarrow> 'w cost_stub" where
  "only_cost_stub P st = \<lparr>RouteModel = only_from P (RouteModel st), GetBudget = only_from P (GetBudget st),
     SetBudget = only_from P (SetBudget st), RecordUsage = only_from P (RecordUsage st),
     SummarizeCost = only_from P (SummarizeCost st)\<rparr>"

definition only_agent_stub :: "((string \<times> string) list \<Rightarrow> bool) \<Rightarrow> 'w agent_stub \<Rightarrow> 'w agent_stub" where
  "only_agent_stub P st = \<lparr>core_RunTurn = only_from P (core_RunTurn st)\<rparr>"

definition only_execution_stub :: "((string \<times> string) list \<Rightarrow> bool) \<Rightarrow> 'w execution_stub \<Rightarrow> 'w execution_stub" where
  "only_execution_stub P st = \<lparr>ProvisionSandbox = only_from P (ProvisionSandbox st),
     DescribeSandbox = only_from P (DescribeSandbox st),
     SuspendSandbox = only_from P (SuspendSandbox st), ResumeSandbox = only_from P (ResumeSandbox st),
     DestroySandbox = only_from P (DestroySandbox st)\<rparr>"

definition only_attention_stub :: "((string \<times> string) list \<Rightarrow> bool) \<Rightarrow> 'w attention_stub \<Rightarrow> 'w attention_stub" where
  "only_attention_stub P st = \<lparr>ListAttention = only_from P (ListAttention st),
     WatchAttention = only_from_stream P (WatchAttention st)\<rparr>"

definition only_resource_stub :: "((string \<times> string) list \<Rightarrow> bool) \<Rightarrow> 'w resource_stub \<Rightarrow> 'w resource_stub" where
  "only_resource_stub P st = \<lparr>ListResources = only_from P (ListResources st), GetResource = only_from P (GetResource st),
     CreateResource = only_from P (CreateResource st), SetCredential = only_from P (SetCredential st),
     GrantResource = only_from P (GrantResource st),
     ListMemberGrants = only_from P (ListMemberGrants st), RevokeGrant = only_from P (RevokeGrant st),
     CheckResource = only_from P (CheckResource st)\<rparr>"

definition only_knowledge_stub :: "((string \<times> string) list \<Rightarrow> bool) \<Rightarrow> 'w knowledge_stub \<Rightarrow> 'w knowledge_stub" where
  "only_knowledge_stub P st = \<lparr>BuildContextPackage = only_from P (BuildContextPackage st),
     SearchMemory = only_from P (SearchMemory st), ReadIndex = only_from P (ReadIndex st),
     ListRules = only_from P (ListRules st), PutArtifact = only_from P (PutArtifact st)\<rparr>"

definition only_factor_stub :: "((string \<times> string) list \<Rightarrow> bool) \<Rightarrow> 'w factor_stub \<Rightarrow> 'w factor_stub" where
  "only_factor_stub P st = \<lparr>GetSecondFactorState = only_from P (GetSecondFactorState st),
     ListSecondFactors = only_from P (ListSecondFactors st),
     EnrollSecondFactor = only_from P (EnrollSecondFactor st),
     ConfirmSecondFactor = only_from P (ConfirmSecondFactor st),
     RevokeSecondFactor = only_from P (RevokeSecondFactor st),
     ChallengeSecondFactor = only_from P (ChallengeSecondFactor st),
     VerifySecondFactor = only_from P (VerifySecondFactor st),
     VerifyRecoveryCode = only_from P (VerifyRecoveryCode st),
     RegenerateRecoveryCodes = only_from P (RegenerateRecoveryCodes st)\<rparr>"

definition only_catalog_stub :: "((string \<times> string) list \<Rightarrow> bool) \<Rightarrow> 'w catalog_stub \<Rightarrow> 'w catalog_stub" where
  "only_catalog_stub P st = \<lparr>ListPlans = only_from P (ListPlans st), ListProviders = only_from P (ListProviders st)\<rparr>"

definition only_stream_stubs :: "((string \<times> string) list \<Rightarrow> bool) \<Rightarrow> 'w stream_stubs \<Rightarrow> 'w stream_stubs" where
  "only_stream_stubs P st = \<lparr>WatchEvents = only_from_stream P (WatchEvents st),
     WatchDemand = only_from_stream P (WatchDemand st), StreamLogs = only_from_stream P (StreamLogs st)\<rparr>"

text \<open>A call under the id of the request being served; when there is none, a call makes an id of its own.\<close>

definition same_request :: "string \<Rightarrow> (string \<times> string) list \<Rightarrow> bool" where
  "same_request rid md \<longleftrightarrow> (if rid = [] then map_of md ''x-request-id'' \<noteq> None
     else map_of md ''x-request-id'' = Some rid)"

lemma metadata_same_request:
  assumes "metadata_for env a s = (Inr md, s')"
  shows "same_request (current_request_id s) md"
  using assms by (auto simp: metadata_for_def sign_def same_request_def io_simps
      split: prod.splits sum.splits if_splits)

section \<open>The same under a condition\<close>

text \<open>
  From a state of the condition \<open>I\<close> on, \<open>I\<close> still holds and what was logged meanwhile satisfies \<open>L\<close>; and two
  computations are the same while \<open>I\<close>.
\<close>

definition goes_on :: "('w rt \<Rightarrow> bool) \<Rightarrow> (stamped \<Rightarrow> bool) \<Rightarrow> 'w rt \<Rightarrow> 'w rt \<Rightarrow> bool" where
  "goes_on I L s s' \<longleftrightarrow> I s' \<and> (\<exists>new. log_lines s' = log_lines s @ new \<and> list_all L new)"

definition same_while :: "('w rt \<Rightarrow> bool) \<Rightarrow> (stamped \<Rightarrow> bool) \<Rightarrow> ('w, 'a) io \<Rightarrow> ('w, 'a) io \<Rightarrow> bool" where
  "same_while I L m m' \<longleftrightarrow> (\<forall>s. I s \<longrightarrow> m' s = m s \<and> goes_on I L s (snd (m s)))"

named_theorems same_rules \<open>two computations that are the same while a condition holds\<close>

lemma goes_on_refl: "I s \<Longrightarrow> goes_on I L s s"
  by (simp add: goes_on_def)

lemma goes_on_trans: "goes_on I L s s' \<Longrightarrow> goes_on I L s' s'' \<Longrightarrow> goes_on I L s s''"
  unfolding goes_on_def by (metis append.assoc list_all_append)

lemma goes_onD: "goes_on I L s s' \<Longrightarrow> I s'"
  by (simp add: goes_on_def)

lemma same_whileD: "same_while I L m m' \<Longrightarrow> I s \<Longrightarrow> m' s = m s"
  by (simp add: same_while_def)

lemma same_run: "same_while I L m m' \<Longrightarrow> I s \<Longrightarrow> m s = (r, s') \<Longrightarrow> m' s = (r, s') \<and> goes_on I L s s'"
  unfolding same_while_def by (metis snd_conv)

lemma same_then:
  "same_while I L m m' \<Longrightarrow> goes_on I L s0 s \<Longrightarrow> m s = (r, s') \<Longrightarrow> m' s = (r, s') \<and> goes_on I L s0 s'"
  using same_run goes_onD goes_on_trans by metis

lemma same_whileI: "(\<And>s r s'. I s \<Longrightarrow> m s = (r, s') \<Longrightarrow> m' s = (r, s') \<and> goes_on I L s s') \<Longrightarrow> same_while I L m m'"
  unfolding same_while_def by (metis prod.collapse)

text \<open>Computations that touch neither the context nor the log.\<close>

definition quiet :: "('w, 'a) io \<Rightarrow> bool" where
  "quiet m \<longleftrightarrow> (\<forall>s r s'. m s = (r, s') \<longrightarrow> auth_ctx s' = auth_ctx s \<and> request_ctx s' = request_ctx s
     \<and> log_lines s' = log_lines s)"

lemma quiet_simple:
  "quiet (ret x)" "quiet (raise e)" "quiet (ask f)" "quiet channel" "quiet (outside g)" "quiet (from_ctx k)"
  "quiet (call rpc req opts)"
  by (auto simp: quiet_def io_simps split: prod.splits sum.splits option.splits)

lemma quiet_metadata: "quiet (metadata_for env a)" "quiet (core_metadata env)" "quiet (idempotency env key)" "quiet (idempotency_key env)"
  using metadata_for_state core_metadata_state
  by (fastforce simp: quiet_def idempotency_def idempotency_key_def io_simps split: prod.splits)+

lemma same_bnd [same_rules]:
  fixes m m' :: "('w, 'a) io"
  assumes "same_while I L m m'" and "\<And>x. same_while I L (f x) (f' x)"
  shows "same_while I L (bnd m f) (bnd m' f')"
proof (rule same_whileI)
  fix s s2 :: "'w rt" and r
  assume s: "I s" and run: "bnd m f s = (r, s2)"
  obtain q s1 where m: "m s = (q, s1)" by (cases "m s")
  note m' = same_run [OF assms(1) s m]
  show "bnd m' f' s = (r, s2) \<and> goes_on I L s s2"
  proof (cases q)
    case (Inl e)
    with run m m' show ?thesis by (simp add: bnd_run)
  next
    case (Inr x)
    with run m have "f x s1 = (r, s2)" by (simp add: bnd_run)
    from same_then [OF assms(2) conjunct2 [OF m'] this] m' Inr show ?thesis by (simp add: bnd_run)
  qed
qed

lemma same_try [same_rules]:
  fixes m m' :: "('w, 'a) io"
  assumes "same_while I L m m'" and "\<And>e. same_while I L (h e) (h' e)"
  shows "same_while I L (try_with m h) (try_with m' h')"
proof (rule same_whileI)
  fix s s2 :: "'w rt" and r
  assume s: "I s" and run: "try_with m h s = (r, s2)"
  obtain q s1 where m: "m s = (q, s1)" by (cases "m s")
  note m' = same_run [OF assms(1) s m]
  show "try_with m' h' s = (r, s2) \<and> goes_on I L s s2"
  proof (cases q)
    case (Inr x)
    with run m m' show ?thesis by (auto simp: try_with_run)
  next
    case (Inl e)
    with run m have "h e s1 = (r, s2)" by (simp add: try_with_run)
    from same_then [OF assms(2) conjunct2 [OF m'] this] m' Inl show ?thesis by (simp add: try_with_run)
  qed
qed

lemma same_cases [same_rules]:
  "same_while I L m m' \<Longrightarrow> same_while I L n n' \<Longrightarrow> same_while I L (if b then m else n) (if b then m' else n')"
  "same_while I L m m' \<Longrightarrow> (\<And>x. same_while I L (f x) (f' x)) \<Longrightarrow>
     same_while I L (case z of None \<Rightarrow> m | Some x \<Rightarrow> f x) (case z of None \<Rightarrow> m' | Some x \<Rightarrow> f' x)"
  by (simp_all split: option.splits)

lemma same_exn [same_rules]:
  "(\<And>c d. same_while I L (f c d) (f' c d)) \<Longrightarrow> same_while I L m m' \<Longrightarrow>
     same_while I L (case e of AioRpcError c d \<Rightarrow> f c d | _ \<Rightarrow> m) (case e of AioRpcError c d \<Rightarrow> f' c d | _ \<Rightarrow> m')"
  "(\<And>n. same_while I L (g n) (g' n)) \<Longrightarrow> same_while I L m m' \<Longrightarrow>
     same_while I L (case e of LinkNotGenerated n \<Rightarrow> g n | _ \<Rightarrow> m) (case e of LinkNotGenerated n \<Rightarrow> g' n | _ \<Rightarrow> m')"
  by (simp_all split: exn.splits)

lemma same_gather [same_rules]:
  fixes a a' :: "('w, 'a) io"
  assumes "same_while I L a a'" and "same_while I L b b'"
  shows "same_while I L (gather left_first a b) (gather left_first a' b')"
  unfolding same_while_def
proof (intro allI impI)
  fix s :: "'w rt" assume s: "I s"
  obtain ra s1 where a: "a s = (ra, s1)" by (cases "a s")
  obtain rb s2 where b: "b s1 = (rb, s2)" by (cases "b s1")
  obtain rb' s1' where b1: "b s = (rb', s1')" by (cases "b s")
  obtain ra' s2' where a1: "a s1' = (ra', s2')" by (cases "a s1'")
  note 1 = same_run [OF assms(1) s a] same_run [OF assms(2) s b1]
  note 2 = same_then [OF assms(2) conjunct2 [OF 1(1)] b] same_then [OF assms(1) conjunct2 [OF 1(2)] a1]
  show "gather left_first a' b' s = gather left_first a b s \<and> goes_on I L s (snd (gather left_first a b s))"
    using 1 2 a b a1 b1 by (auto simp: gather_def split: sum.splits)
qed

lemma same_gather_fold:
  assumes "same_while I L a a'" and "same_while I L b b'" and "same_while I L c c'" and "I (snd (snd acc))"
  shows "fold (gather_step a' b' c') order acc = fold (gather_step a b c) order acc
    \<and> goes_on I L (snd (snd acc)) (snd (snd (fold (gather_step a b c) order acc)))"
  using assms(4)
proof (induction order arbitrary: acc)
  case (Cons t order)
  obtain x y z e s where acc: "acc = ((x, y, z), e, s)" by (cases acc) auto
  with Cons.prems have s: "I s" by simp
  have step: "gather_step a' b' c' t acc = gather_step a b c t acc
    \<and> goes_on I L (snd (snd acc)) (snd (snd (gather_step a b c t acc)))"
  proof (cases t)
    case FirstTask
    obtain r s1 where m: "a s = (r, s1)" by (cases "a s")
    from same_run [OF assms(1) s m] m show ?thesis by (cases r) (simp_all add: FirstTask acc)
  next
    case SecondTask
    obtain r s1 where m: "b s = (r, s1)" by (cases "b s")
    from same_run [OF assms(2) s m] m show ?thesis by (cases r) (simp_all add: SecondTask acc)
  next
    case ThirdTask
    obtain r s1 where m: "c s = (r, s1)" by (cases "c s")
    from same_run [OF assms(3) s m] m show ?thesis by (cases r) (simp_all add: ThirdTask acc)
  qed
  with Cons.IH [of "gather_step a b c t acc"] show ?case by (auto intro: goes_on_trans dest: goes_onD)
qed (simp add: goes_on_refl)

lemma same_gather3 [same_rules]:
  fixes a a' :: "('w, 'a) io"
  assumes "same_while I L a a'" and "same_while I L b b'" and "same_while I L c c'"
  shows "same_while I L (gather3 order a b c) (gather3 order a' b' c')"
  unfolding same_while_def
proof (intro allI impI)
  fix s :: "'w rt" assume s: "I s"
  let ?acc = "((None, None, None), None, s)"
  obtain x y z e s' where f: "fold (gather_step a b c) order ?acc = ((x, y, z), e, s')"
    by (cases "fold (gather_step a b c) order ?acc") auto
  with same_gather_fold [OF assms, of ?acc order] s
  have f': "fold (gather_step a' b' c') order ?acc = ((x, y, z), e, s')" and "goes_on I L s s'" by simp_all
  then show "gather3 order a' b' c' s = gather3 order a b c s \<and> goes_on I L s (snd (gather3 order a b c s))"
    by (simp only: gather3_def f f' case_prod_conv) (cases x; cases y; cases z; cases e; simp)
qed

section \<open>A condition on the context\<close>

locale watched =
  fixes env :: "'w env"
    and I :: "'w rt \<Rightarrow> bool"
    and L :: "stamped \<Rightarrow> bool"
    and P :: "(string \<times> string) list \<Rightarrow> bool"
  assumes context_only: "I s \<Longrightarrow> auth_ctx s' = auth_ctx s \<Longrightarrow> request_ctx s' = request_ctx s \<Longrightarrow> I s'"
    and stamps: "I s \<Longrightarrow> L (stamp l s)"
    and own: "I s \<Longrightarrow> core_metadata env s = (Inr md, s') \<Longrightarrow> P md"
begin

abbreviation same :: "('w, 'a) io \<Rightarrow> ('w, 'a) io \<Rightarrow> bool" where
  "same \<equiv> same_while I L"

lemma same_quiet: "quiet m \<Longrightarrow> same m m"
  by (rule same_whileI) (auto simp: quiet_def goes_on_def intro: context_only)

lemma same_simple [same_rules]:
  "same (ret x) (ret x)" "same (raise e) (raise e)" "same (ask f) (ask f)" "same channel channel"
  "same (outside g) (outside g)" "same (from_ctx k) (from_ctx k)"
  "same (metadata_for env a) (metadata_for env a)" "same (idempotency env key) (idempotency env key)"
  by (intro same_quiet quiet_simple quiet_metadata)+

lemma same_emit [same_rules]: "same (emit l) (emit l)"
  by (rule same_whileI) (auto simp: goes_on_def intro: context_only stamps)

lemma same_mapv [same_rules]: "same m m' \<Longrightarrow> same (mapv f m) (mapv f m')"
  unfolding mapv_def by (intro same_rules)

lemma same_logged [same_rules]: "same m m' \<Longrightarrow> same (logged n m) (logged n m')"
  unfolding logged_def by (intro same_rules)

lemma same_scoped [same_rules]:
  "same m m' \<Longrightarrow> same (account_scoped m) (account_scoped m')"
  "same m m' \<Longrightarrow> same (require_role roles m) (require_role roles m')"
  by (auto simp: same_while_def account_scoped_run require_role_run goes_on_refl split: option.splits)

lemma same_with_ctx [same_rules]: "same m m' \<Longrightarrow> same (with_ctx f m) (with_ctx f m')"
  unfolding with_ctx_def by (intro same_rules)

lemma same_each [same_rules]: "(\<And>x. same (f x) (f' x)) \<Longrightarrow> same (each f xs) (each f' xs)"
  by (induction xs) (auto intro: same_rules)

text \<open>The calls: metadata that the stub expects is not refused.\<close>

lemma same_guarded:
  assumes "same f f" and "\<And>s md s'. I s \<Longrightarrow> f s = (Inr md, s') \<Longrightarrow> Q md"
    and "\<And>md. same (g md) (g md)" and "\<And>md. Q md \<Longrightarrow> g' md = g md"
  shows "same (bnd f g) (bnd f g')"
proof -
  have "bnd f g' s = bnd f g s" if "I s" for s
    using assms(2,4) that by (auto simp: bnd_run split: prod.splits sum.splits)
  moreover have "same (bnd f g) (bnd f g)" by (intro same_bnd assms(1,3))
  ultimately show ?thesis by (simp add: same_while_def)
qed

lemma same_call: "same (bnd (core_metadata env) (\<lambda>md. call rpc req \<lparr>co_metadata = md, co_timeout = Some t\<rparr>))
    (bnd (core_metadata env) (\<lambda>md. call (only_from P rpc) req \<lparr>co_metadata = md, co_timeout = Some t\<rparr>))"
  by (rule same_guarded [where Q = P])
    (auto intro: same_quiet quiet_simple quiet_metadata own simp: fun_eq_iff call_run only_from_def)

lemma same_unary [same_rules]:
  "same request request' \<Longrightarrow> same (unary_by t env rpc request) (unary_by t env (only_from P rpc) request')"
  "same request request' \<Longrightarrow> same (unary env rpc request) (unary env (only_from P rpc) request')"
  "same (on_stub env rpc req) (on_stub env (only_from P rpc) req)"
  unfolding unary_def unary_by_def on_stub_def opts_of_def by (intro same_rules same_call; simp)+

lemma pump_only: "pump (only_from_stream P rpc) h f label = pump rpc h f label"
proof -
  have "read_call (only_from_stream P rpc) h n w = read_call rpc h n w" for n w
    by (induction n arbitrary: w) (auto simp: only_from_stream_def split: prod.splits sum.splits option.splits)
  then show ?thesis by (simp add: pump_def only_from_stream_def fun_eq_iff)
qed

lemma same_stream [same_rules]:
  "same (open_stream env rpc req f label) (open_stream env (only_from_stream P rpc) req f label)"
proof -
  have "same (bnd (core_metadata env) (\<lambda>md. bnd (outside (sr_open rpc req md)) (\<lambda>h. ret (pump rpc h f label))))
    (bnd (core_metadata env) (\<lambda>md. bnd (outside (sr_open (only_from_stream P rpc) req md))
       (\<lambda>h. ret (pump rpc h f label))))"
    by (rule same_guarded [where Q = P])
      (auto intro: same_bnd same_quiet quiet_simple quiet_metadata own simp: fun_eq_iff only_from_stream_def bnd_run outside_run)
  then show ?thesis unfolding open_stream_def pump_only by (rule same_bnd [OF same_simple(4)])
qed

section \<open>The use cases\<close>

lemma watched_Identity:
  "same (me env st)
     (me env (only_identity_stub P st))"
  "same (update_profile env st body)
     (update_profile env (only_identity_stub P st) body)"
  "same (onboarding env st)
     (onboarding env (only_identity_stub P st))"
  "same (record_step env st step status)
     (record_step env (only_identity_stub P st) step status)"
  "same (complete_onboarding env st)
     (complete_onboarding env (only_identity_stub P st))"
  "same (handle_availability env st handle)
     (handle_availability env (only_identity_stub P st) handle)"
  "same (update_personal_account env st body2)
     (update_personal_account env (only_identity_stub P st) body2)"
  "same (set_plan env st plan_key)
     (set_plan env (only_identity_stub P st) plan_key)"
  "same (list_accounts env st)
     (list_accounts env (only_identity_stub P st))"
  "same (create_account env st body3 key)
     (create_account env (only_identity_stub P st) body3 key)"
  "same (list_members env st)
     (list_members env (only_identity_stub P st))"
  "same (update_member env st membership_id role)
     (update_member env (only_identity_stub P st) membership_id role)"
  "same (remove_member env st membership_id)
     (remove_member env (only_identity_stub P st) membership_id)"
  "same (create_invite env st body4 key)
     (create_invite env (only_identity_stub P st) body4 key)"
  "same (list_invites env st)
     (list_invites env (only_identity_stub P st))"
  "same (get_invite env st invite_id)
     (get_invite env (only_identity_stub P st) invite_id)"
  "same (revoke_invite env st invite_id)
     (revoke_invite env (only_identity_stub P st) invite_id)"
  unfolding  Identity.me_def Identity.update_profile_def Identity.onboarding_def Identity.record_step_def Identity.complete_onboarding_def
    Identity.handle_availability_def Identity.update_personal_account_def Identity.set_plan_def Identity.list_accounts_def Identity.create_account_def
    Identity.list_members_def Identity.update_member_def Identity.remove_member_def Identity.create_invite_def Identity.list_invites_def
    Identity.get_invite_def Identity.revoke_invite_def only_identity_stub_def
  by (simp only: identity_stub.select_convs, intro same_rules)+

lemma watched_Hierarchy:
  "same (get_tree env st)
     (get_tree env (only_hierarchy_stub P st))"
  "same (list_workspaces env st)
     (list_workspaces env (only_hierarchy_stub P st))"
  "same (create_workspace env st name wkey description tags key)
     (create_workspace env (only_hierarchy_stub P st) name wkey description tags key)"
  "same (list_projects env st workspace_id)
     (list_projects env (only_hierarchy_stub P st) workspace_id)"
  "same (get_project env st project_id)
     (get_project env (only_hierarchy_stub P st) project_id)"
  "same (create_project env st workspace_id name description key)
     (create_project env (only_hierarchy_stub P st) workspace_id name description key)"
  "same (bind_task_manager env st project_id body5)
     (bind_task_manager env (only_hierarchy_stub P st) project_id body5)"
  unfolding  Hierarchy.get_tree_def Hierarchy.list_workspaces_def Hierarchy.create_workspace_def
    Hierarchy.list_projects_def Hierarchy.get_project_def Hierarchy.create_project_def
    Hierarchy.bind_task_manager_def only_hierarchy_stub_def
  by (simp only: hierarchy_stub.select_convs, intro same_rules)+

lemma watched_Demand:
  "same (list_demands env st project_id page_size page_token)
     (list_demands env (only_demand_stub P st) project_id page_size page_token)"
  "same (get_demand env st demand_id)
     (get_demand env (only_demand_stub P st) demand_id)"
  "same (list_threads env st demand_id)
     (list_threads env (only_demand_stub P st) demand_id)"
  "same (list_findings env st demand_id thread_id)
     (list_findings env (only_demand_stub P st) demand_id thread_id)"
  "same (get_cockpit order env st demand_id)
     (get_cockpit order env (only_demand_stub P st) demand_id)"
  "same (start_demand env st project_id external_key key)
     (start_demand env (only_demand_stub P st) project_id external_key key)"
  "same (advance_stage env st demand_id stage_key status key)
     (advance_stage env (only_demand_stub P st) demand_id stage_key status key)"
  "same (decide_gate env st demand_id stage_key approved comment key)
     (decide_gate env (only_demand_stub P st) demand_id stage_key approved comment key)"
  "same (create_thread env st demand_id thread_key brief key)
     (create_thread env (only_demand_stub P st) demand_id thread_key brief key)"
  "same (publish_finding env st demand_id thread_id title payload key)
     (publish_finding env (only_demand_stub P st) demand_id thread_id title payload key)"
  unfolding  Demand.list_demands_def Demand.get_demand_def Demand.list_threads_def Demand.list_findings_def
    Demand.get_cockpit_def Demand.start_demand_def Demand.advance_stage_def Demand.decide_gate_def
    Demand.create_thread_def Demand.publish_finding_def only_demand_stub_def
  by (simp only: demand_stub.select_convs, intro same_rules)+

lemma watched_Workflow:
  "same (list_flows env st owner_scope owner_id)
     (list_flows env (only_workflow_stub P st) owner_scope owner_id)"
  "same (get_flow env st flow_id)
     (get_flow env (only_workflow_stub P st) flow_id)"
  "same (resolve_flow env st scope scope_id)
     (resolve_flow env (only_workflow_stub P st) scope scope_id)"
  "same (create_flow env st body6 key)
     (create_flow env (only_workflow_stub P st) body6 key)"
  "same (update_flow env st flow_id body6)
     (update_flow env (only_workflow_stub P st) flow_id body6)"
  "same (validate_flow env st body6)
     (validate_flow env (only_workflow_stub P st) body6)"
  "same (promote_flow env st flow_id target)
     (promote_flow env (only_workflow_stub P st) flow_id target)"
  unfolding  Workflow.list_flows_def Workflow.get_flow_def Workflow.resolve_flow_def Workflow.create_flow_def
    Workflow.update_flow_def Workflow.validate_flow_def Workflow.promote_flow_def only_workflow_stub_def
  by (simp only: workflow_stub.select_convs, intro same_rules)+

lemma watched_Delivery:
  "same (list_pull_requests env st demand_id project_id)
     (list_pull_requests env (only_delivery_stub P st) demand_id project_id)"
  "same (list_directives env st project_id)
     (list_directives env (only_delivery_stub P st) project_id)"
  "same (get_board left_first env st project_id)
     (get_board left_first env (only_delivery_stub P st) project_id)"
  "same (get_merge_queue env st repo_id)
     (get_merge_queue env (only_delivery_stub P st) repo_id)"
  "same (enqueue_merge env st repo_id demand_id key)
     (enqueue_merge env (only_delivery_stub P st) repo_id demand_id key)"
  "same (decide_directive env st directive_id decision key)
     (decide_directive env (only_delivery_stub P st) directive_id decision key)"
  unfolding  Delivery.list_pull_requests_def Delivery.list_directives_def Delivery.get_board_def
    Delivery.get_merge_queue_def Delivery.enqueue_merge_def Delivery.decide_directive_def only_delivery_stub_def
  by (simp only: delivery_stub.select_convs, intro same_rules)+

lemma watched_Cost:
  "same (route_model env st task_kind demand_id)
     (route_model env (only_cost_stub P st) task_kind demand_id)"
  "same (get_budget env st scope scope_id)
     (get_budget env (only_cost_stub P st) scope scope_id)"
  "same (set_budget env st body7)
     (set_budget env (only_cost_stub P st) body7)"
  "same (record_usage env st body8 key)
     (record_usage env (only_cost_stub P st) body8 key)"
  "same (summarize_cost env st scope scope_id)
     (summarize_cost env (only_cost_stub P st) scope scope_id)"
  unfolding  Cost.route_model_def Cost.get_budget_def Cost.set_budget_def Cost.record_usage_def
    Cost.summarize_cost_def only_cost_stub_def
  by (simp only: cost_stub.select_convs, intro same_rules)+

lemma watched_TurnRuntime:
  "same (run_turn env st demand_id thread_id body9 key)
     (run_turn env (only_agent_stub P st) demand_id thread_id body9 key)"
  unfolding  TurnRuntime.run_turn_def only_agent_stub_def
  by (simp only: agent_stub.select_convs, intro same_rules)+

lemma watched_Execution:
  "same (provision_sandbox env st body10 key)
     (provision_sandbox env (only_execution_stub P st) body10 key)"
  "same (describe_sandbox env st sandbox_id)
     (describe_sandbox env (only_execution_stub P st) sandbox_id)"
  "same (suspend_sandbox env st sandbox_id)
     (suspend_sandbox env (only_execution_stub P st) sandbox_id)"
  "same (resume_sandbox env st sandbox_id)
     (resume_sandbox env (only_execution_stub P st) sandbox_id)"
  "same (destroy_sandbox env st sandbox_id)
     (destroy_sandbox env (only_execution_stub P st) sandbox_id)"
  unfolding  Execution.provision_sandbox_def Execution.describe_sandbox_def Execution.suspend_sandbox_def
    Execution.resume_sandbox_def Execution.destroy_sandbox_def tier_value_def only_execution_stub_def
  by (simp only: execution_stub.select_convs, intro same_rules)+

lemma watched_Attention:
  "same (list_attention env st include_resolved demand_id page_size)
     (list_attention env (only_attention_stub P st) include_resolved demand_id page_size)"
  "same (watch_attention env st since_event_id)
     (watch_attention env (only_attention_stub P st) since_event_id)"
  unfolding  Attention.list_attention_def Attention.watch_attention_def only_attention_stub_def
  by (simp only: attention_stub.select_convs, intro same_rules)+

lemma watched_Resource:
  "same (list_resources env st kind)
     (list_resources env (only_resource_stub P st) kind)"
  "same (get_resource env st resource_id)
     (get_resource env (only_resource_stub P st) resource_id)"
  "same (create_resource env st kind name config key)
     (create_resource env (only_resource_stub P st) kind name config key)"
  "same (set_credential env st resource_id secret_base64)
     (set_credential env (only_resource_stub P st) resource_id secret_base64)"
  "same (grant_resource env st resource_id user_id level)
     (grant_resource env (only_resource_stub P st) resource_id user_id level)"
  "same (list_member_grants env st user_id)
     (list_member_grants env (only_resource_stub P st) user_id)"
  "same (revoke_grant env st grant_id)
     (revoke_grant env (only_resource_stub P st) grant_id)"
  "same (check_resource env st resource_id)
     (check_resource env (only_resource_stub P st) resource_id)"
  unfolding  Resource.list_resources_def Resource.get_resource_def Resource.create_resource_def
    Resource.set_credential_def Resource.grant_resource_def Resource.list_member_grants_def
    Resource.revoke_grant_def Resource.check_resource_def decoded_secret_def only_resource_stub_def
  by (simp only: resource_stub.select_convs, intro same_rules)+

lemma watched_Knowledge:
  "same (get_context_package str_of env st demand_id)
     (get_context_package str_of env (only_knowledge_stub P st) demand_id)"
  "same (search_memory str_of env st project_id query limit)
     (search_memory str_of env (only_knowledge_stub P st) project_id query limit)"
  "same (read_index str_of env st project_id repo)
     (read_index str_of env (only_knowledge_stub P st) project_id repo)"
  "same (list_rules env st project_id)
     (list_rules env (only_knowledge_stub P st) project_id)"
  "same (put_artifact str_of env st body11 key)
     (put_artifact str_of env (only_knowledge_stub P st) body11 key)"
  unfolding  Knowledge.get_context_package_def Knowledge.search_memory_def Knowledge.read_index_def
    Knowledge.list_rules_def Knowledge.put_artifact_def Knowledge.kind_value_def content_of_def only_knowledge_stub_def
  by (simp only: knowledge_stub.select_convs, intro same_rules)+

lemma watched_SecondFactor:
  "same (factor_state_of env st)
     (factor_state_of env (only_factor_stub P st))"
  "same (list_factors env st)
     (list_factors env (only_factor_stub P st))"
  "same (enroll repr_of env st body12)
     (enroll repr_of env (only_factor_stub P st) body12)"
  "same (confirm env st factor_id challenge_id passcode)
     (confirm env (only_factor_stub P st) factor_id challenge_id passcode)"
  "same (revoke env st factor_id)
     (revoke env (only_factor_stub P st) factor_id)"
  "same (challenge env st factor_id)
     (challenge env (only_factor_stub P st) factor_id)"
  "same (verify_code env st challenge_id passcode)
     (verify_code env (only_factor_stub P st) challenge_id passcode)"
  "same (verify_recovery env st passcode)
     (verify_recovery env (only_factor_stub P st) passcode)"
  "same (regenerate_recovery_codes env st)
     (regenerate_recovery_codes env (only_factor_stub P st))"
  unfolding  SecondFactor.factor_state_of_def SecondFactor.list_factors_def SecondFactor.enroll_def
    SecondFactor.confirm_def SecondFactor.revoke_def SecondFactor.challenge_def
    SecondFactor.verify_code_def SecondFactor.verify_recovery_def
    SecondFactor.regenerate_recovery_codes_def SecondFactor.kind_value_def only_factor_stub_def
  by (simp only: factor_stub.select_convs, intro same_rules)+

lemma watched_Catalog:
  "same (plans env st)
     (plans env (only_catalog_stub P st))"
  "same (providers env st)
     (providers env (only_catalog_stub P st))"
  unfolding  Catalog.plans_def Catalog.providers_def only_catalog_stub_def
  by (simp only: catalog_stub.select_convs, intro same_rules)+

lemma watched_Streams:
  "same (watch_account_events env st since_event_id aggregate types)
     (watch_account_events env (only_stream_stubs P st) since_event_id aggregate types)"
  "same (watch_demand env st demand_id)
     (watch_demand env (only_stream_stubs P st) demand_id)"
  "same (tail_sandbox_logs env st req)
     (tail_sandbox_logs env (only_stream_stubs P st) req)"
  unfolding  Streams.watch_account_events_def Streams.watch_demand_def Streams.tail_sandbox_logs_def only_stream_stubs_def
  by (simp only: stream_stubs.select_convs, intro same_rules)+

lemma quiet_verification_link: "quiet (verification_link env ad email)"
  unfolding verification_link_def access_token_def lift_exn_def
  by (auto simp: quiet_def io_simps Let_def split: prod.splits sum.splits if_splits)

lemma watched_verification:
  "same (send_email_verification env ad st) (send_email_verification env ad (only_identity_stub P st))"
  unfolding send_email_verification_def only_identity_stub_def Let_def
  by (simp only: identity_stub.select_convs, intro same_rules same_quiet [OF quiet_verification_link])

end

end
