(* ===== verification/OnBehalf.thy ===== *)
theory OnBehalf
  imports Watched
begin

text \<open>
  In whose name the edge calls the core. A caller is an identity with the id of the request it came with; every
  use case is watched (theory Watched) by a stub that refuses what is not in the caller's name.
\<close>

section \<open>Metadata in the caller's name\<close>

text \<open>
  A caller is an identity and the id of the request it came with. The metadata of a call in that caller's name
  carries the context's account, user and session, the person's own token whole, the request's id, and under a
  key the assertion of just these. A context with neither user nor account carries no actor; with no id of the
  request to carry on, a call makes one.
\<close>

type_synonym caller = "auth_context \<times> string"

definition asks :: "caller \<Rightarrow> 'w rt \<Rightarrow> bool" where
  "asks who s \<longleftrightarrow> auth_ctx s = Some (fst who) \<and> current_request_id s = snd who"

definition on_behalf :: "'w env \<Rightarrow> caller \<Rightarrow> (string \<times> string) list \<Rightarrow> bool" where
  "on_behalf env who md \<longleftrightarrow>
     (let ctx = fst who; there = a_user_id ctx \<noteq> [] \<or> a_account_id ctx \<noteq> [];
          actor = (\<lambda>v. if there then Some v else None)
      in same_request (snd who) md
       \<and> map_of md ''x-account-id'' = actor (a_account_id ctx) \<and> map_of md ''x-actor-id'' = actor (a_user_id ctx)
       \<and> map_of md ''x-actor-kind'' = actor ''user'' \<and> map_of md ''x-session-id'' = actor (p_session_id (a_principal ctx))
       \<and> map_of md ''authorization'' = (if a_raw_token ctx = [] then None else Some (''Bearer '' @ a_raw_token ctx))
       \<and> (map_of md ''x-dop-assertion'' = None \<longleftrightarrow> call_auth_key (cfg env) = [])
       \<and> (\<forall>t. map_of md ''x-dop-assertion'' = Some t \<longrightarrow> (\<exists>expires mac. read_assertion t =
            Some ([''bff'', a_user_id ctx, if there then ''user'' else ''system'', a_account_id ctx,
              p_session_id (a_principal ctx), expires], mac))))"

lemma core_metadata_on_behalf:
  assumes "core_metadata env s = (Inr md, s')" and who: "asks who s"
  shows "on_behalf env who md"
proof -
  let ?ctx = "fst who"
  from assms have run: "metadata_for env (ctx_args (Some ?ctx)) s = (Inr md, s')"
    by (simp add: core_metadata_def asks_def io_simps)
  note says = metadata_for_says [OF run]
  have args: "m_user_id (ctx_args (Some ?ctx)) = a_user_id ?ctx" "m_account_id (ctx_args (Some ?ctx)) = a_account_id ?ctx"
      "m_actor_kind (ctx_args (Some ?ctx)) = ''user''" "m_raw_token (ctx_args (Some ?ctx)) = a_raw_token ?ctx"
      "m_session_id (ctx_args (Some ?ctx)) = p_session_id (a_principal ?ctx)"
    by (simp_all add: ctx_args_def no_args_def)
  from says metadata_same_request [OF run] who show ?thesis
    unfolding on_behalf_def has_actor_def args Let_def asks_def by (auto split: if_splits)
qed

text \<open>The two calls whose metadata is put together by hand: the same user, without the token and the session.\<close>

definition by_hand :: "caller \<Rightarrow> string \<Rightarrow> string \<Rightarrow> (string \<times> string) list \<Rightarrow> bool" where
  "by_hand who account_id actor_kind md \<longleftrightarrow>
     (let ctx = fst who; actor = (\<lambda>v. if a_user_id ctx \<noteq> [] \<or> account_id \<noteq> [] then Some v else None)
      in same_request (snd who) md
       \<and> map_of md ''x-account-id'' = actor account_id \<and> map_of md ''x-actor-id'' = actor (a_user_id ctx)
       \<and> map_of md ''x-actor-kind'' = actor actor_kind \<and> map_of md ''x-session-id'' = actor []
       \<and> map_of md ''authorization'' = None)"

lemma metadata_by_hand:
  assumes "metadata_for env (no_args\<lparr>m_user_id := a_user_id (fst who), m_account_id := acc, m_actor_name := n,
      m_actor_kind := kind\<rparr>) s = (Inr md, s')" and "asks who s"
  shows "by_hand who acc kind md"
  using metadata_for_says [OF assms(1)] metadata_same_request [OF assms(1)] assms(2)
  by (simp add: asks_def by_hand_def no_args_def has_actor_def Let_def)

section \<open>A caller's use cases\<close>

text \<open>The line of a log that says whose it is, and of which request.\<close>

definition signed :: "caller \<Rightarrow> stamped \<Rightarrow> bool" where
  "signed who l \<longleftrightarrow> sp_auth l = Some (fst who)
     \<and> (case sp_request l ''request_id'' of None \<Rightarrow> [] | Some r \<Rightarrow> r) = snd who"

interpretation caller: watched env "asks who" "signed who" "on_behalf env who" for env who
proof
  fix s s' :: "'a rt" and l md
  show "asks who s \<Longrightarrow> auth_ctx s' = auth_ctx s \<Longrightarrow> request_ctx s' = request_ctx s \<Longrightarrow> asks who s'"
    by (simp add: asks_def current_request_id_def)
  show "asks who s \<Longrightarrow> signed who (stamp l s)"
    by (simp add: asks_def signed_def stamp_def current_request_id_def)
  show "asks who s \<Longrightarrow> core_metadata env s = (Inr md, s') \<Longrightarrow> on_behalf env who md"
    by (rule core_metadata_on_behalf)
qed

text \<open>The two calls put together by hand, behind a stub that expects just that.\<close>

definition post_checked :: "'w env \<Rightarrow> caller \<Rightarrow> string \<Rightarrow> 'w demand_stub \<Rightarrow> 'w demand_stub" where
  "post_checked env who actor_kind st = (only_demand_stub (on_behalf env who) st)
     \<lparr>PostMessage := only_from (by_hand who (a_account_id (fst who)) actor_kind) (PostMessage st)\<rparr>"

definition accept_checked :: "'w env \<Rightarrow> caller \<Rightarrow> 'w identity_stub \<Rightarrow> 'w identity_stub" where
  "accept_checked env who st = (only_identity_stub (on_behalf env who) st)
     \<lparr>GetAccount := (\<lambda>account_id. only_from (by_hand who account_id ''user'') (GetAccount st) account_id)\<rparr>"

lemma call_only: "P md \<Longrightarrow> call (only_from P rpc) req (opts_of env md) = call rpc req (opts_of env md)"
  by (rule ext) (simp add: call_run only_from_def opts_of_def)

lemma same_whose:
  "same_while (asks who) L (f (fst who)) (f' (fst who)) \<Longrightarrow>
     same_while (asks who) L (bnd (from_ctx id) f) (bnd (from_ctx id) f')"
  "same_while (asks who) L (g (Some (fst who))) (g' (Some (fst who))) \<Longrightarrow>
     same_while (asks who) L (bnd (ask auth_ctx) g) (bnd (ask auth_ctx) g')"
  by (simp_all add: same_while_def asks_def bnd_run from_ctx_run ask_run)

lemma on_behalf_post_message:
  "same_while (asks who) (signed who) (post_message env st thread_id body key kind)
     (post_message env (post_checked env who kind st) thread_id body key kind)"
  unfolding post_message_def post_checked_def demand_stub.select_convs demand_stub.update_convs
  by (intro caller.same_logged caller.same_scoped same_whose same_bnd [OF caller.same_simple(4)]
      same_bnd [OF caller.same_mapv [OF caller.same_simple(8)]]
      caller.same_guarded [where Q = "by_hand who (a_account_id (fst who)) kind"] caller.same_simple(7))
    (auto simp: author_args_def mapv_def call_only
      intro: metadata_by_hand same_bnd caller.same_quiet quiet_simple)

lemma on_behalf_account:
  "same_while (asks who) (signed who)
    (bnd (metadata_for env (no_args\<lparr>m_user_id := a_user_id (fst who), m_account_id := acc\<rparr>))
       (\<lambda>md. bnd (call (GetAccount st) acc (opts_of env md)) (\<lambda>a. ret (f a))))
    (bnd (metadata_for env (no_args\<lparr>m_user_id := a_user_id (fst who), m_account_id := acc\<rparr>))
       (\<lambda>md. bnd (call (\<lambda>id. only_from (by_hand who id ''user'') (GetAccount st) id) acc (opts_of env md))
          (\<lambda>a. ret (f a))))"
proof (rule caller.same_guarded [where Q = "by_hand who acc ''user''"], rule caller.same_simple(7))
  fix s s' :: "'a rt" and md
  assume run: "metadata_for env (no_args\<lparr>m_user_id := a_user_id (fst who), m_account_id := acc\<rparr>) s = (Inr md, s')"
    and who: "asks who s"
  from metadata_for_says [OF run] metadata_same_request [OF run] who show "by_hand who acc ''user'' md"
    by (simp add: by_hand_def no_args_def has_actor_def Let_def asks_def)
next
  fix md show "same_while (asks who) (signed who) (bnd (call (GetAccount st) acc (opts_of env md)) (\<lambda>a. ret (f a)))
      (bnd (call (GetAccount st) acc (opts_of env md)) (\<lambda>a. ret (f a)))"
    by (intro same_bnd caller.same_quiet quiet_simple)
next
  fix md assume P: "by_hand who acc ''user'' md"
  have "call (\<lambda>id. only_from (by_hand who id ''user'') (GetAccount st) id) acc (opts_of env md)
      = call (GetAccount st) acc (opts_of env md)"
    by (rule ext) (simp add: call_run only_from_def opts_of_def P)
  then show "bnd (call (\<lambda>id. only_from (by_hand who id ''user'') (GetAccount st) id) acc (opts_of env md))
        (\<lambda>a. ret (f a)) = bnd (call (GetAccount st) acc (opts_of env md)) (\<lambda>a. ret (f a))" by simp
qed

lemma on_behalf_accept_invite:
  "same_while (asks who) (signed who) (accept_invite env st invite_id key)
     (accept_invite env (accept_checked env who st) invite_id key)"
  unfolding accept_invite_def accept_checked_def only_identity_stub_def identity_stub.select_convs
    identity_stub.update_convs
  by (rule caller.same_logged, rule same_whose(2), rule same_bnd, (intro same_rules)[1], rule same_bnd,
      rule caller.same_simple(4), simp only: option.case, rule on_behalf_account)

section \<open>In the caller's name\<close>

text \<open>
  \<open>uc\<close>, a use case as a function of its stub, does not notice a guard: for any stub and from any state whose
  caller is \<open>who\<close>, it gives the same answer and leaves the same state through the guarded stub, and every line it
  logs meanwhile is signed by that caller. When the guard refuses what is not in the caller's name, the use case
  makes no such call.
\<close>

definition unnoticed :: "caller \<Rightarrow> ('s \<Rightarrow> 's) \<Rightarrow> ('s \<Rightarrow> ('w, 'a) io) \<Rightarrow> bool" where
  "unnoticed who guarded uc \<longleftrightarrow> (\<forall>st. same_while (asks who) (signed who) (uc st) (uc (guarded st)))"

definition in_the_name :: "'w env \<Rightarrow> caller \<Rightarrow> (((string \<times> string) list \<Rightarrow> bool) \<Rightarrow> 's \<Rightarrow> 's)
    \<Rightarrow> ('s \<Rightarrow> ('w, 'a) io) \<Rightarrow> bool" where
  "in_the_name env who only uc \<longleftrightarrow> unnoticed who (only (on_behalf env who)) uc"

lemma unnoticedI: "(\<And>st. same_while (asks who) (signed who) (uc st) (uc (guarded st))) \<Longrightarrow> unnoticed who guarded uc"
  by (simp add: unnoticed_def)

lemma in_the_nameI: "(\<And>st. same_while (asks who) (signed who) (uc st) (uc (only (on_behalf env who) st))) \<Longrightarrow> in_the_name env who only uc"
  by (simp add: in_the_name_def unnoticedI)

text \<open>A guard can be noticed: posting a message leaves the token out, and the guard refuses it.\<close>

lemma message_without_the_token:
  "\<not> in_the_name demo_env (demo_ctx ''acc-1'' ''developer'', ''r-1'') only_demand_stub
     (\<lambda>st. post_message demo_env st ''t-1'' ''hi'' ''k'' ''user'')"
proof -
  let ?ctx = "demo_ctx ''acc-1'' ''developer''"
  have "post_message demo_env (only_demand_stub (on_behalf demo_env (?ctx, ''r-1'')) demo_demands) ''t-1'' ''hi'' ''k'' ''user''
      (demo_rt (Some ?ctx))
    \<noteq> post_message demo_env demo_demands ''t-1'' ''hi'' ''k'' ''user'' (demo_rt (Some ?ctx))"
    by (simp add: post_message_def io_simps writers_def demo_run author_args_def no_args_def demo_demands_def
        only_demand_stub_def only_from_def on_behalf_def plain_metadata_def opts_of_def)
  moreover have "asks (?ctx, ''r-1'') (demo_rt (Some ?ctx))" by (simp add: asks_def demo_run)
  ultimately show ?thesis unfolding in_the_name_def unnoticed_def by (blast dest: same_whileD)
qed

text \<open>
  C4. In whose name the edge calls the core, whatever the request. Every use case there is, for any arguments, any
  stub and any state in which the caller is \<open>who\<close>, makes each of its calls with the account, the actor, the session
  and the token of that caller, under the id of the caller's request when it has one, under an assertion of just these when there is a key, and a unary call never
  without a deadline: a stub that refuses any other call is not told apart from the stub it guards; and every line
  it logs is written in that caller's context, under that request's id. Two calls
  are the exception, and they leave the same things out. \<open>post_message\<close> and the read of the account joined in
  \<open>accept_invite\<close> are made in the same user's name (the second for the account just joined), but
  without the token and without the session.
\<close>

theorem every_call_on_behalf:
  fixes env :: "'w env"
  shows "in_the_name env who only_identity_stub (\<lambda>st. me env st)
    \<and> in_the_name env who only_identity_stub (\<lambda>st. update_profile env st body)
    \<and> in_the_name env who only_identity_stub (\<lambda>st. onboarding env st)
    \<and> in_the_name env who only_identity_stub (\<lambda>st. record_step env st step status)
    \<and> in_the_name env who only_identity_stub (\<lambda>st. complete_onboarding env st)
    \<and> in_the_name env who only_identity_stub (\<lambda>st. handle_availability env st handle)
    \<and> in_the_name env who only_identity_stub (\<lambda>st. update_personal_account env st body2)
    \<and> in_the_name env who only_identity_stub (\<lambda>st. set_plan env st plan_key)
    \<and> in_the_name env who only_identity_stub (\<lambda>st. list_accounts env st)
    \<and> in_the_name env who only_identity_stub (\<lambda>st. create_account env st body3 key)
    \<and> in_the_name env who only_identity_stub (\<lambda>st. list_members env st)
    \<and> in_the_name env who only_identity_stub (\<lambda>st. update_member env st membership_id role)
    \<and> in_the_name env who only_identity_stub (\<lambda>st. remove_member env st membership_id)
    \<and> in_the_name env who only_identity_stub (\<lambda>st. create_invite env st body4 key)
    \<and> in_the_name env who only_identity_stub (\<lambda>st. list_invites env st)
    \<and> in_the_name env who only_identity_stub (\<lambda>st. get_invite env st invite_id)
    \<and> in_the_name env who only_identity_stub (\<lambda>st. revoke_invite env st invite_id)
    \<and> in_the_name env who only_identity_stub (\<lambda>st. send_email_verification env ad st)
    \<and> in_the_name env who only_hierarchy_stub (\<lambda>st. get_tree env st)
    \<and> in_the_name env who only_hierarchy_stub (\<lambda>st. list_workspaces env st)
    \<and> in_the_name env who only_hierarchy_stub (\<lambda>st. create_workspace env st name wkey description tags key)
    \<and> in_the_name env who only_hierarchy_stub (\<lambda>st. list_projects env st workspace_id)
    \<and> in_the_name env who only_hierarchy_stub (\<lambda>st. get_project env st project_id)
    \<and> in_the_name env who only_hierarchy_stub (\<lambda>st. create_project env st workspace_id name description key)
    \<and> in_the_name env who only_hierarchy_stub (\<lambda>st. bind_task_manager env st project_id body5)
    \<and> in_the_name env who only_demand_stub (\<lambda>st. list_demands env st project_id page_size page_token)
    \<and> in_the_name env who only_demand_stub (\<lambda>st. get_demand env st demand_id)
    \<and> in_the_name env who only_demand_stub (\<lambda>st. list_threads env st demand_id)
    \<and> in_the_name env who only_demand_stub (\<lambda>st. list_findings env st demand_id thread_id)
    \<and> in_the_name env who only_demand_stub (\<lambda>st. get_cockpit order env st demand_id)
    \<and> in_the_name env who only_demand_stub (\<lambda>st. start_demand env st project_id external_key key)
    \<and> in_the_name env who only_demand_stub (\<lambda>st. advance_stage env st demand_id stage_key status key)
    \<and> in_the_name env who only_demand_stub (\<lambda>st. decide_gate env st demand_id stage_key approved comment key)
    \<and> in_the_name env who only_demand_stub (\<lambda>st. create_thread env st demand_id thread_key brief key)
    \<and> in_the_name env who only_demand_stub (\<lambda>st. publish_finding env st demand_id thread_id title payload key)
    \<and> in_the_name env who only_workflow_stub (\<lambda>st. list_flows env st owner_scope owner_id)
    \<and> in_the_name env who only_workflow_stub (\<lambda>st. get_flow env st flow_id)
    \<and> in_the_name env who only_workflow_stub (\<lambda>st. resolve_flow env st scope scope_id)
    \<and> in_the_name env who only_workflow_stub (\<lambda>st. create_flow env st body6 key)
    \<and> in_the_name env who only_workflow_stub (\<lambda>st. update_flow env st flow_id body6)
    \<and> in_the_name env who only_workflow_stub (\<lambda>st. validate_flow env st body6)
    \<and> in_the_name env who only_workflow_stub (\<lambda>st. promote_flow env st flow_id target)
    \<and> in_the_name env who only_delivery_stub (\<lambda>st. list_pull_requests env st demand_id project_id)
    \<and> in_the_name env who only_delivery_stub (\<lambda>st. list_directives env st project_id)
    \<and> in_the_name env who only_delivery_stub (\<lambda>st. get_board left_first env st project_id)
    \<and> in_the_name env who only_delivery_stub (\<lambda>st. get_merge_queue env st repo_id)
    \<and> in_the_name env who only_delivery_stub (\<lambda>st. enqueue_merge env st repo_id demand_id key)
    \<and> in_the_name env who only_delivery_stub (\<lambda>st. decide_directive env st directive_id decision key)
    \<and> in_the_name env who only_cost_stub (\<lambda>st. route_model env st task_kind demand_id)
    \<and> in_the_name env who only_cost_stub (\<lambda>st. get_budget env st scope scope_id)
    \<and> in_the_name env who only_cost_stub (\<lambda>st. set_budget env st body7)
    \<and> in_the_name env who only_cost_stub (\<lambda>st. record_usage env st body8 key)
    \<and> in_the_name env who only_cost_stub (\<lambda>st. summarize_cost env st scope scope_id)
    \<and> in_the_name env who only_agent_stub (\<lambda>st. run_turn env st demand_id thread_id body9 key)
    \<and> in_the_name env who only_execution_stub (\<lambda>st. provision_sandbox env st body10 key)
    \<and> in_the_name env who only_execution_stub (\<lambda>st. describe_sandbox env st sandbox_id)
    \<and> in_the_name env who only_execution_stub (\<lambda>st. suspend_sandbox env st sandbox_id)
    \<and> in_the_name env who only_execution_stub (\<lambda>st. resume_sandbox env st sandbox_id)
    \<and> in_the_name env who only_execution_stub (\<lambda>st. destroy_sandbox env st sandbox_id)
    \<and> in_the_name env who only_attention_stub (\<lambda>st. list_attention env st include_resolved demand_id page_size)
    \<and> in_the_name env who only_attention_stub (\<lambda>st. watch_attention env st since_event_id)
    \<and> in_the_name env who only_resource_stub (\<lambda>st. list_resources env st kind)
    \<and> in_the_name env who only_resource_stub (\<lambda>st. get_resource env st resource_id)
    \<and> in_the_name env who only_resource_stub (\<lambda>st. create_resource env st kind name config key)
    \<and> in_the_name env who only_resource_stub (\<lambda>st. set_credential env st resource_id secret_base64)
    \<and> in_the_name env who only_resource_stub (\<lambda>st. grant_resource env st resource_id user_id level)
    \<and> in_the_name env who only_resource_stub (\<lambda>st. list_member_grants env st user_id)
    \<and> in_the_name env who only_resource_stub (\<lambda>st. revoke_grant env st grant_id)
    \<and> in_the_name env who only_resource_stub (\<lambda>st. check_resource env st resource_id)
    \<and> in_the_name env who only_knowledge_stub (\<lambda>st. get_context_package str_of env st demand_id)
    \<and> in_the_name env who only_knowledge_stub (\<lambda>st. search_memory str_of env st project_id query limit)
    \<and> in_the_name env who only_knowledge_stub (\<lambda>st. read_index str_of env st project_id repo)
    \<and> in_the_name env who only_knowledge_stub (\<lambda>st. list_rules env st project_id)
    \<and> in_the_name env who only_knowledge_stub (\<lambda>st. put_artifact str_of env st body11 key)
    \<and> in_the_name env who only_factor_stub (\<lambda>st. factor_state_of env st)
    \<and> in_the_name env who only_factor_stub (\<lambda>st. list_factors env st)
    \<and> in_the_name env who only_factor_stub (\<lambda>st. enroll repr_of env st body12)
    \<and> in_the_name env who only_factor_stub (\<lambda>st. confirm env st factor_id challenge_id passcode)
    \<and> in_the_name env who only_factor_stub (\<lambda>st. revoke env st factor_id)
    \<and> in_the_name env who only_factor_stub (\<lambda>st. challenge env st factor_id)
    \<and> in_the_name env who only_factor_stub (\<lambda>st. verify_code env st challenge_id passcode)
    \<and> in_the_name env who only_factor_stub (\<lambda>st. verify_recovery env st passcode)
    \<and> in_the_name env who only_factor_stub (\<lambda>st. regenerate_recovery_codes env st)
    \<and> in_the_name env who only_catalog_stub (\<lambda>st. plans env st)
    \<and> in_the_name env who only_catalog_stub (\<lambda>st. providers env st)
    \<and> in_the_name env who only_stream_stubs (\<lambda>st. watch_account_events env st since_event_id aggregate types)
    \<and> in_the_name env who only_stream_stubs (\<lambda>st. watch_demand env st demand_id)
    \<and> in_the_name env who only_stream_stubs (\<lambda>st. tail_sandbox_logs env st req)
    \<and> unnoticed who (post_checked env who actor_kind) (\<lambda>st. post_message env st thread_id text key actor_kind)
    \<and> unnoticed who (accept_checked env who) (\<lambda>st. accept_invite env st invite_id key)"
  by (intro conjI in_the_nameI unnoticedI;
      (intro on_behalf_post_message on_behalf_accept_invite caller.watched_Identity caller.watched_verification
         caller.watched_Hierarchy caller.watched_Demand caller.watched_Workflow caller.watched_Delivery
         caller.watched_Cost caller.watched_TurnRuntime caller.watched_Execution caller.watched_Attention
         caller.watched_Resource caller.watched_Knowledge caller.watched_SecondFactor caller.watched_Catalog
         caller.watched_Streams))

end
