(* ===== verification/Trace.thy ===== *)
theory Trace
  imports Watched Surface Grpc_Surface
begin

text \<open>
  One request, one id. The id a client sends, or the one a door makes, is the id under which the core is asked
  everything the request needs, who the caller is included; it is on every line the request logs; and it goes
  back to a REST client. Every use case is watched (theory Watched) by a stub that refuses a call under
  another id, and so are the doors around it.
\<close>

section \<open>Under one id\<close>

definition under :: "string \<Rightarrow> 'w rt \<Rightarrow> bool" where
  "under rid s \<longleftrightarrow> current_request_id s = rid"

definition line_under :: "string \<Rightarrow> stamped \<Rightarrow> bool" where
  "line_under rid l \<longleftrightarrow> (case sp_request l ''request_id'' of None \<Rightarrow> [] | Some r \<Rightarrow> r) = rid"

text \<open>A condition that any metadata made for the core satisfies watches the calls put together by hand too.\<close>

locale watched_all = watched +
  assumes made: "I s \<Longrightarrow> metadata_for env a s = (Inr md, s') \<Longrightarrow> P md"
begin

lemma call_expected: "P md \<Longrightarrow> call (only_from P rpc) req (opts_of env md) = call rpc req (opts_of env md)"
  by (rule ext) (simp add: call_run only_from_def opts_of_def)

lemma same_made:
  "(\<And>md. same (g md) (g md)) \<Longrightarrow> (\<And>md. P md \<Longrightarrow> g' md = g md) \<Longrightarrow>
     same (bnd (metadata_for env a) g) (bnd (metadata_for env a) g')"
  by (rule same_guarded [where Q = P]) (auto intro: same_simple made)

lemma same_plain_call: "same (call rpc req opts) (call rpc req opts)"
  by (intro same_quiet quiet_simple)

lemma watched_post_message:
  "same (post_message env st thread_id body key kind)
     (post_message env (only_demand_stub P st) thread_id body key kind)"
  unfolding post_message_def only_demand_stub_def demand_stub.select_convs
  by (intro same_logged same_scoped same_bnd [OF same_simple(6)] same_bnd [OF same_simple(4)]
      same_bnd [OF same_mapv [OF same_simple(8)]] same_made same_mapv same_plain_call)
    (simp add: call_expected)

lemma watched_accept_invite:
  "same (accept_invite env st invite_id key) (accept_invite env (only_identity_stub P st) invite_id key)"
  unfolding accept_invite_def only_identity_stub_def identity_stub.select_convs
  by (intro same_logged same_bnd [OF same_simple(3)] same_bnd [OF same_unary(2)] same_bnd [OF same_simple(4)]
      same_mapv same_simple same_cases(2) same_made same_bnd [OF same_plain_call])
    (simp add: call_expected)

lemma same_via_http: "same m m' \<Longrightarrow> same (via_http m) (via_http m')"
  unfolding via_http_def by (intro same_rules)

lemma watched_resolver:
  "same (core_resolver env st p account_id raw_token) (core_resolver env (only_identity_stub P st) p account_id raw_token)"
proof -
  have user: "same (ensure_user env st p raw_token) (ensure_user env (only_identity_stub P st) p raw_token)"
    unfolding ensure_user_def only_identity_stub_def identity_stub.select_convs
    by (intro same_bnd [OF same_quiet] quiet_metadata same_mapv same_via_http same_bnd [OF same_simple(4)] same_made same_plain_call)
      (simp add: call_expected)
  have member: "same (assert_membership env st u a md) (assert_membership env st u a md)" for u a md
    unfolding assert_membership_def
    by (intro same_bnd same_via_http same_simple same_plain_call same_cases)
  have role: "same (role_in_account env st u a md) (role_in_account env st u a md)" for u a md
    unfolding role_in_account_def by (intro same_rules same_plain_call)
  have guarded: "assert_membership env (only_identity_stub P st) u a md = assert_membership env st u a md"
    "role_in_account env (only_identity_stub P st) u a md = role_in_account env st u a md" if "P md" for u a md
    using that by (simp_all add: assert_membership_def role_in_account_def only_identity_stub_def call_expected)
  show ?thesis unfolding core_resolver_def
    by (intro same_bnd user same_cases same_simple same_made member role) (simp add: guarded)
qed

end

interpretation request: watched_all env "under rid" "line_under rid" "same_request rid" for env rid
proof
  fix s s' :: "'a rt" and l md a
  show "under rid s \<Longrightarrow> auth_ctx s' = auth_ctx s \<Longrightarrow> request_ctx s' = request_ctx s \<Longrightarrow> under rid s'"
    by (simp add: under_def current_request_id_def)
  show "under rid s \<Longrightarrow> line_under rid (stamp l s)"
    by (simp add: under_def line_under_def stamp_def current_request_id_def)
  show made: "same_request rid md" if "under rid s" "metadata_for env a s = (Inr md, s')" for a
    using metadata_same_request [OF that(2)] that(1) by (simp add: under_def)
  show "under rid s \<Longrightarrow> core_metadata env s = (Inr md, s') \<Longrightarrow> same_request rid md"
    by (auto simp: core_metadata_def io_simps intro: made)
qed

section \<open>The doors\<close>

text \<open>A condition on the request alone is indifferent to who calls.\<close>

lemma same_with_auth [same_rules]:
  fixes m :: "('w, 'a) io"
  assumes "same_while (under rid) (line_under rid) m m'"
  shows "same_while (under rid) (line_under rid) (with_auth ctx m) (with_auth ctx m')"
proof (rule same_whileI)
  fix s s2 :: "'w rt" and r
  assume s: "under rid s" and run: "with_auth ctx m s = (r, s2)"
  obtain q s1 where m: "m (s\<lparr>auth_ctx := Some ctx\<rparr>) = (q, s1)" by (cases "m (s\<lparr>auth_ctx := Some ctx\<rparr>)")
  from s have "under rid (s\<lparr>auth_ctx := Some ctx\<rparr>)" by (simp add: under_def)
  from same_run [OF assms this m] run m show "with_auth ctx m' s = (r, s2) \<and> goes_on (under rid) (line_under rid) s s2"
    by (auto simp: with_auth_run goes_on_def under_def)
qed

lemma same_splits [same_rules]:
  "(\<And>x. same_while I L (g x) (g' x)) \<Longrightarrow> (\<And>y. same_while I L (h y) (h' y)) \<Longrightarrow>
     same_while I L (case z of Inl x \<Rightarrow> g x | Inr y \<Rightarrow> h y) (case z of Inl x \<Rightarrow> g' x | Inr y \<Rightarrow> h' y)"
  "same_while I L m m' \<Longrightarrow> (\<And>x l. same_while I L (k x l) (k' x l)) \<Longrightarrow>
     same_while I L (case xs of [] \<Rightarrow> m | x # l \<Rightarrow> k x l) (case xs of [] \<Rightarrow> m' | x # l \<Rightarrow> k' x l)"
  "(\<And>x y. same_while I L (j x y) (j' x y)) \<Longrightarrow>
     same_while I L (case pr of (x, y) \<Rightarrow> j x y) (case pr of (x, y) \<Rightarrow> j' x y)"
  by (simp_all split: sum.splits list.splits prod.splits)

lemma same_caught [same_rules]:
  "(\<And>st d. same_while I L (h st d) (h' st d)) \<Longrightarrow> same_while I L m m' \<Longrightarrow>
     same_while I L (case e of HTTPException st d \<Rightarrow> h st d | _ \<Rightarrow> m) (case e of HTTPException st d \<Rightarrow> h' st d | _ \<Rightarrow> m')"
  "(\<And>d. same_while I L (i d) (i' d)) \<Longrightarrow> same_while I L m m' \<Longrightarrow>
     same_while I L (case e of InvalidToken d \<Rightarrow> i d | _ \<Rightarrow> m) (case e of InvalidToken d \<Rightarrow> i' d | _ \<Rightarrow> m')"
  by (simp_all split: exn.splits)

lemma quiet_exn: "quiet (outside_exn g)"
  by (auto simp: quiet_def outside_exn_run split: prod.splits)

lemma watched_verify: "same_while (under rid) (line_under rid) (verify fe raw) (verify fe raw)"
  unfolding verify_def emulator_claims_def verified_claims_def public_key_def fetch_certificates_def Let_def
  by (intro same_rules request.same_simple request.same_quiet [OF quiet_exn])

lemma watched_dispatch:
  assumes "same_while (under rid) (line_under rid) m m'"
  shows "same_while (under rid) (line_under rid)
    (auth_dispatch fe reg (Some (core_resolver (f_env fe) st)) rq m)
    (auth_dispatch fe reg (Some (core_resolver (f_env fe) (only_identity_stub (same_request rid) st))) rq m')"
  unfolding auth_dispatch_def rest_resolve_def Let_def option.case
  by (intro same_rules request.same_simple request.same_mapv assms watched_verify request.watched_resolver)

lemma watched_rest_door:
  assumes "same_while (under rid) (line_under rid) m m'"
  shows "same_while (under rid) (line_under rid)
    (rest_door fe reg (Some (core_resolver (f_env fe) st)) rq m)
    (rest_door fe reg (Some (core_resolver (f_env fe) (only_identity_stub (same_request rid) st))) rq m')"
proof -
  have handled: "same_while (under rid) (line_under rid)
      (case e of AioRpcError c d \<Rightarrow> ret (f c d) | HTTPException st d \<Rightarrow> ret (g st d) | ValidationError msg \<Rightarrow> ret (h msg) | _ \<Rightarrow> raise e)
      (case e of AioRpcError c d \<Rightarrow> ret (f c d) | HTTPException st d \<Rightarrow> ret (g st d) | ValidationError msg \<Rightarrow> ret (h msg) | _ \<Rightarrow> raise e)"
    for e and f :: "grpc_status \<Rightarrow> string option \<Rightarrow> 'x" and g h
    by (cases e) (simp_all add: request.same_simple)
  show ?thesis unfolding rest_door_def exception_layer_def
    by (intro request.same_mapv watched_dispatch same_try assms handled)
qed

lemma watched_wrap:
  assumes "same_while (under rid) (line_under rid) m m'"
  shows "same_while (under rid) (line_under rid)
    (auth_wrap fe (Some (core_resolver (f_env fe) st)) pub md m)
    (auth_wrap fe (Some (core_resolver (f_env fe) (only_identity_stub (same_request rid) st))) pub md m')"
  unfolding auth_wrap_def authenticate_def resolve_account_def Let_def option.case
  by (intro same_rules request.same_simple request.same_mapv assms watched_verify request.watched_resolver)

lemma watched_abort: "same_while (under rid) (line_under rid) (abort_with e) (abort_with e)"
  unfolding abort_with_def by (cases e) (simp_all, (intro same_rules request.same_simple request.same_emit)+)

lemma watched_error_wrap:
  "same_while (under rid) (line_under rid) m m' \<Longrightarrow> same_while (under rid) (line_under rid) (error_wrap m) (error_wrap m')"
  unfolding error_wrap_def by (intro same_rules request.same_mapv watched_abort)

text \<open>A door opens the request: whatever it wraps runs under the id, and the id is what goes back.\<close>

definition id_kept :: "string \<Rightarrow> 'w rt \<Rightarrow> 'w rt \<Rightarrow> bool" where
  "id_kept rid s s' \<longleftrightarrow> (\<exists>new. log_lines s' = log_lines s @ new \<and> list_all (line_under rid) new)"

lemma with_request_opens:
  fixes m :: "('w, 'a) io"
  assumes same: "same_while (under rid) (line_under rid) m m'" and f: "f ''request_id'' = Some rid"
  shows "with_request f m' s = with_request f m s \<and> id_kept rid s (snd (with_request f m s))"
proof -
  obtain r s1 where m: "m (s\<lparr>request_ctx := f\<rparr>) = (r, s1)" by (cases "m (s\<lparr>request_ctx := f\<rparr>)")
  have "under rid (s\<lparr>request_ctx := f\<rparr>)" by (simp add: under_def current_request_id_def f)
  from same_run [OF same this m] m show ?thesis by (auto simp: with_request_run goes_on_def id_kept_def)
qed

lemma request_id_quiet: "request_id_of env h s = (Inr rid, s1) \<Longrightarrow> log_lines s1 = log_lines s"
  by (auto simp: request_id_of_def io_simps split: if_splits prod.splits)

lemma door_opens:
  assumes "request_id_of env h s = (Inr rid, s1)" and "f rid ''request_id'' = Some rid"
    and "same_while (under rid) (line_under rid) (m rid) (m' rid)"
  shows "bnd (request_id_of env h) (\<lambda>rid. with_request (f rid) (m' rid)) s
        = bnd (request_id_of env h) (\<lambda>rid. with_request (f rid) (m rid)) s
    \<and> id_kept rid s (snd (bnd (request_id_of env h) (\<lambda>rid. with_request (f rid) (m rid)) s))"
  using with_request_opens [of rid "m rid" "m' rid" "f rid" s1, OF assms(3,2)] request_id_quiet [OF assms(1)] assms(1)
  by (simp add: bnd_run id_kept_def)

lemma rest_opens:
  assumes "request_id_of (f_env fe) (rq_headers rq) s = (Inr rid, s1)" and "same_while (under rid) (line_under rid) m m'"
  shows "rest_app fe (only_identity_stub (same_request rid) st) routes rq client m' s = rest_app fe st routes rq client m s
    \<and> id_kept rid s (snd (rest_app fe st routes rq client m s))"
  unfolding rest_app_def log_dispatch_def
  by (rule door_opens [OF assms(1)])
    (simp_all add: request_fields_def,
     intro same_rules request.same_simple request.same_emit watched_rest_door assms(2))

lemma rest_echoes:
  assumes "request_id_of (f_env fe) (rq_headers rq) s = (Inr rid, s1)"
    and "rest_app fe st routes rq client m s = (Inr (x, rid'), s')"
  shows "rid' = rid"
  using assms by (auto simp: rest_app_def log_dispatch_def bnd_Inr with_request_run split: prod.splits)

lemma grpc_opens:
  assumes "request_id_of (f_env fe) (metadata_dict md) s = (Inr rid, s1)"
    and "same_while (under rid) (line_under rid) m m'"
  shows "grpc_unary fe (Some (core_resolver (f_env fe) (only_identity_stub (same_request rid) st))) meth peer pub md m' s
      = grpc_unary fe (Some (core_resolver (f_env fe) st)) meth peer pub md m s
    \<and> id_kept rid s (snd (grpc_unary fe (Some (core_resolver (f_env fe) st)) meth peer pub md m s))"
  unfolding grpc_unary_def log_wrap_def
  by (rule door_opens [OF assms(1)])
    (simp_all add: request_fields_def,
     intro same_rules request.same_simple request.same_emit watched_error_wrap watched_wrap assms(2))

section \<open>Every use case\<close>

text \<open>
  \<open>uc\<close>, a use case as a function of its stub, has one id: behind either door, whatever the request and the state, if
  the door takes or makes the id \<open>rid\<close> then a core that refuses every call under another id changes nothing, the
  lines logged meanwhile are all under \<open>rid\<close>, and it is \<open>rid\<close> that a REST response carries.
\<close>

definition one_id :: "'w fb_env \<Rightarrow> (((string \<times> string) list \<Rightarrow> bool) \<Rightarrow> 's \<Rightarrow> 's) \<Rightarrow> ('s \<Rightarrow> ('w, 'a) io) \<Rightarrow> bool" where
  "one_id fe only uc \<longleftrightarrow> (\<forall>ist st routes rq client meth peer pub md s rid s1.
     (request_id_of (f_env fe) (rq_headers rq) s = (Inr rid, s1) \<longrightarrow>
        rest_app fe (only_identity_stub (same_request rid) ist) routes rq client (uc (only (same_request rid) st)) s
          = rest_app fe ist routes rq client (uc st) s
        \<and> id_kept rid s (snd (rest_app fe ist routes rq client (uc st) s))
        \<and> (\<forall>x rid' s'. rest_app fe ist routes rq client (uc st) s = (Inr (x, rid'), s') \<longrightarrow> rid' = rid))
   \<and> (request_id_of (f_env fe) (metadata_dict md) s = (Inr rid, s1) \<longrightarrow>
        grpc_unary fe (Some (core_resolver (f_env fe) (only_identity_stub (same_request rid) ist))) meth peer pub md
            (uc (only (same_request rid) st)) s
          = grpc_unary fe (Some (core_resolver (f_env fe) ist)) meth peer pub md (uc st) s
        \<and> id_kept rid s (snd (grpc_unary fe (Some (core_resolver (f_env fe) ist)) meth peer pub md (uc st) s))))"

lemma one_idI:
  assumes "\<And>st rid. same_while (under rid) (line_under rid) (uc st) (uc (only (same_request rid) st))"
  shows "one_id fe only uc"
  unfolding one_id_def
  by (intro allI conjI impI) (simp_all add: rest_opens [OF _ assms] grpc_opens [OF _ assms] rest_echoes)

text \<open>
  C5. One request, one id. Whichever door a request comes in by, and whatever use case it runs (the four that
  open a stream aside), the id its client sent, or the one the door made for want of it, is the one id there is: each
  call the request makes of the core goes out under it, the calls that find out who is calling among them; every
  line the request logs is under it; and a REST response the application gives carries it back. It is so whether the request is served,
  refused or fails.
\<close>

theorem one_request_one_id:
  fixes fe :: "'w fb_env"
  shows "one_id fe only_identity_stub (\<lambda>st. me (f_env fe) st)
    \<and> one_id fe only_identity_stub (\<lambda>st. update_profile (f_env fe) st body)
    \<and> one_id fe only_identity_stub (\<lambda>st. onboarding (f_env fe) st)
    \<and> one_id fe only_identity_stub (\<lambda>st. record_step (f_env fe) st step status)
    \<and> one_id fe only_identity_stub (\<lambda>st. complete_onboarding (f_env fe) st)
    \<and> one_id fe only_identity_stub (\<lambda>st. handle_availability (f_env fe) st handle)
    \<and> one_id fe only_identity_stub (\<lambda>st. update_personal_account (f_env fe) st body2)
    \<and> one_id fe only_identity_stub (\<lambda>st. set_plan (f_env fe) st plan_key)
    \<and> one_id fe only_identity_stub (\<lambda>st. list_accounts (f_env fe) st)
    \<and> one_id fe only_identity_stub (\<lambda>st. create_account (f_env fe) st body3 key)
    \<and> one_id fe only_identity_stub (\<lambda>st. list_members (f_env fe) st)
    \<and> one_id fe only_identity_stub (\<lambda>st. update_member (f_env fe) st membership_id role)
    \<and> one_id fe only_identity_stub (\<lambda>st. remove_member (f_env fe) st membership_id)
    \<and> one_id fe only_identity_stub (\<lambda>st. create_invite (f_env fe) st body4 key)
    \<and> one_id fe only_identity_stub (\<lambda>st. list_invites (f_env fe) st)
    \<and> one_id fe only_identity_stub (\<lambda>st. get_invite (f_env fe) st invite_id)
    \<and> one_id fe only_identity_stub (\<lambda>st. revoke_invite (f_env fe) st invite_id)
    \<and> one_id fe only_identity_stub (\<lambda>st. send_email_verification (f_env fe) ad st)
    \<and> one_id fe only_hierarchy_stub (\<lambda>st. get_tree (f_env fe) st)
    \<and> one_id fe only_hierarchy_stub (\<lambda>st. list_workspaces (f_env fe) st)
    \<and> one_id fe only_hierarchy_stub (\<lambda>st. create_workspace (f_env fe) st name wkey description tags key)
    \<and> one_id fe only_hierarchy_stub (\<lambda>st. list_projects (f_env fe) st workspace_id)
    \<and> one_id fe only_hierarchy_stub (\<lambda>st. get_project (f_env fe) st project_id)
    \<and> one_id fe only_hierarchy_stub (\<lambda>st. create_project (f_env fe) st workspace_id name description key)
    \<and> one_id fe only_hierarchy_stub (\<lambda>st. bind_task_manager (f_env fe) st project_id body5)
    \<and> one_id fe only_demand_stub (\<lambda>st. list_demands (f_env fe) st project_id page_size page_token)
    \<and> one_id fe only_demand_stub (\<lambda>st. get_demand (f_env fe) st demand_id)
    \<and> one_id fe only_demand_stub (\<lambda>st. list_threads (f_env fe) st demand_id)
    \<and> one_id fe only_demand_stub (\<lambda>st. list_findings (f_env fe) st demand_id thread_id)
    \<and> one_id fe only_demand_stub (\<lambda>st. get_cockpit order (f_env fe) st demand_id)
    \<and> one_id fe only_demand_stub (\<lambda>st. start_demand (f_env fe) st project_id external_key key)
    \<and> one_id fe only_demand_stub (\<lambda>st. advance_stage (f_env fe) st demand_id stage_key status key)
    \<and> one_id fe only_demand_stub (\<lambda>st. decide_gate (f_env fe) st demand_id stage_key approved comment key)
    \<and> one_id fe only_demand_stub (\<lambda>st. create_thread (f_env fe) st demand_id thread_key brief key)
    \<and> one_id fe only_demand_stub (\<lambda>st. publish_finding (f_env fe) st demand_id thread_id title payload key)
    \<and> one_id fe only_workflow_stub (\<lambda>st. list_flows (f_env fe) st owner_scope owner_id)
    \<and> one_id fe only_workflow_stub (\<lambda>st. get_flow (f_env fe) st flow_id)
    \<and> one_id fe only_workflow_stub (\<lambda>st. resolve_flow (f_env fe) st scope scope_id)
    \<and> one_id fe only_workflow_stub (\<lambda>st. create_flow (f_env fe) st body6 key)
    \<and> one_id fe only_workflow_stub (\<lambda>st. update_flow (f_env fe) st flow_id body6)
    \<and> one_id fe only_workflow_stub (\<lambda>st. validate_flow (f_env fe) st body6)
    \<and> one_id fe only_workflow_stub (\<lambda>st. promote_flow (f_env fe) st flow_id target)
    \<and> one_id fe only_delivery_stub (\<lambda>st. list_pull_requests (f_env fe) st demand_id project_id)
    \<and> one_id fe only_delivery_stub (\<lambda>st. list_directives (f_env fe) st project_id)
    \<and> one_id fe only_delivery_stub (\<lambda>st. get_board left_first (f_env fe) st project_id)
    \<and> one_id fe only_delivery_stub (\<lambda>st. get_merge_queue (f_env fe) st repo_id)
    \<and> one_id fe only_delivery_stub (\<lambda>st. enqueue_merge (f_env fe) st repo_id demand_id key)
    \<and> one_id fe only_delivery_stub (\<lambda>st. decide_directive (f_env fe) st directive_id decision key)
    \<and> one_id fe only_cost_stub (\<lambda>st. route_model (f_env fe) st task_kind demand_id)
    \<and> one_id fe only_cost_stub (\<lambda>st. get_budget (f_env fe) st scope scope_id)
    \<and> one_id fe only_cost_stub (\<lambda>st. set_budget (f_env fe) st body7)
    \<and> one_id fe only_cost_stub (\<lambda>st. record_usage (f_env fe) st body8 key)
    \<and> one_id fe only_cost_stub (\<lambda>st. summarize_cost (f_env fe) st scope scope_id)
    \<and> one_id fe only_agent_stub (\<lambda>st. run_turn (f_env fe) st demand_id thread_id body9 key)
    \<and> one_id fe only_execution_stub (\<lambda>st. provision_sandbox (f_env fe) st body10 key)
    \<and> one_id fe only_execution_stub (\<lambda>st. describe_sandbox (f_env fe) st sandbox_id)
    \<and> one_id fe only_execution_stub (\<lambda>st. suspend_sandbox (f_env fe) st sandbox_id)
    \<and> one_id fe only_execution_stub (\<lambda>st. resume_sandbox (f_env fe) st sandbox_id)
    \<and> one_id fe only_execution_stub (\<lambda>st. destroy_sandbox (f_env fe) st sandbox_id)
    \<and> one_id fe only_attention_stub (\<lambda>st. list_attention (f_env fe) st include_resolved demand_id page_size)
    \<and> one_id fe only_resource_stub (\<lambda>st. list_resources (f_env fe) st kind)
    \<and> one_id fe only_resource_stub (\<lambda>st. get_resource (f_env fe) st resource_id)
    \<and> one_id fe only_resource_stub (\<lambda>st. create_resource (f_env fe) st kind name config key)
    \<and> one_id fe only_resource_stub (\<lambda>st. set_credential (f_env fe) st resource_id secret_base64)
    \<and> one_id fe only_resource_stub (\<lambda>st. grant_resource (f_env fe) st resource_id user_id level)
    \<and> one_id fe only_resource_stub (\<lambda>st. list_member_grants (f_env fe) st user_id)
    \<and> one_id fe only_resource_stub (\<lambda>st. revoke_grant (f_env fe) st grant_id)
    \<and> one_id fe only_resource_stub (\<lambda>st. check_resource (f_env fe) st resource_id)
    \<and> one_id fe only_knowledge_stub (\<lambda>st. get_context_package str_of (f_env fe) st demand_id)
    \<and> one_id fe only_knowledge_stub (\<lambda>st. search_memory str_of (f_env fe) st project_id query limit)
    \<and> one_id fe only_knowledge_stub (\<lambda>st. read_index str_of (f_env fe) st project_id repo)
    \<and> one_id fe only_knowledge_stub (\<lambda>st. list_rules (f_env fe) st project_id)
    \<and> one_id fe only_knowledge_stub (\<lambda>st. put_artifact str_of (f_env fe) st body11 key)
    \<and> one_id fe only_factor_stub (\<lambda>st. factor_state_of (f_env fe) st)
    \<and> one_id fe only_factor_stub (\<lambda>st. list_factors (f_env fe) st)
    \<and> one_id fe only_factor_stub (\<lambda>st. enroll repr_of (f_env fe) st body12)
    \<and> one_id fe only_factor_stub (\<lambda>st. confirm (f_env fe) st factor_id challenge_id passcode)
    \<and> one_id fe only_factor_stub (\<lambda>st. revoke (f_env fe) st factor_id)
    \<and> one_id fe only_factor_stub (\<lambda>st. challenge (f_env fe) st factor_id)
    \<and> one_id fe only_factor_stub (\<lambda>st. verify_code (f_env fe) st challenge_id passcode)
    \<and> one_id fe only_factor_stub (\<lambda>st. verify_recovery (f_env fe) st passcode)
    \<and> one_id fe only_factor_stub (\<lambda>st. regenerate_recovery_codes (f_env fe) st)
    \<and> one_id fe only_catalog_stub (\<lambda>st. plans (f_env fe) st)
    \<and> one_id fe only_catalog_stub (\<lambda>st. providers (f_env fe) st)
    \<and> one_id fe only_demand_stub (\<lambda>st. post_message (f_env fe) st thread_id text key actor_kind)
    \<and> one_id fe only_identity_stub (\<lambda>st. accept_invite (f_env fe) st invite_id key)"
  by (intro conjI one_idI;
      (intro request.watched_post_message request.watched_accept_invite request.watched_Identity
         request.watched_verification request.watched_Hierarchy request.watched_Demand request.watched_Workflow
         request.watched_Delivery request.watched_Cost request.watched_TurnRuntime request.watched_Execution
         request.watched_Attention request.watched_Resource request.watched_Knowledge request.watched_SecondFactor
         request.watched_Catalog))

end
