(* ===== verification/Core_Stubs.thy ===== *)
theory Core_Stubs
  imports Contract
begin

text \<open>
  The stubs of the core, as protoc generated them under \<^verbatim>\<open>app/coreclient/gen/dop/v1/\<close>: for each service, the
  methods the stub opens on the channel. \<^verbatim>\<open>app/coreclient/stubs.py\<close> makes one of each on the shared channel.
\<close>

section \<open>The stubs\<close>

definition IdentityServiceStub :: "stub_method list" where
  "IdentityServiceStub = [

     (''GetUser'', ''/dop.v1.IdentityService/GetUser'', UnaryUnary, ''identity_pb2.GetUserRequest'', ''identity_pb2.User''),
     (''EnsureUser'', ''/dop.v1.IdentityService/EnsureUser'', UnaryUnary, ''identity_pb2.EnsureUserRequest'', ''identity_pb2.User''),
     (''ListAccounts'', ''/dop.v1.IdentityService/ListAccounts'', UnaryUnary, ''identity_pb2.ListAccountsRequest'', ''identity_pb2.ListAccountsResponse''),
     (''GetAccount'', ''/dop.v1.IdentityService/GetAccount'', UnaryUnary, ''identity_pb2.GetAccountRequest'', ''identity_pb2.Account''),
     (''CreateAccount'', ''/dop.v1.IdentityService/CreateAccount'', UnaryUnary, ''identity_pb2.CreateAccountRequest'', ''identity_pb2.Account''),
     (''ListMemberships'', ''/dop.v1.IdentityService/ListMemberships'', UnaryUnary, ''identity_pb2.ListMembershipsRequest'', ''identity_pb2.ListMembershipsResponse''),
     (''SendEmailVerification'', ''/dop.v1.IdentityService/SendEmailVerification'', UnaryUnary, ''identity_pb2.SendEmailVerificationRequest'', ''identity_pb2.SendEmailVerificationResponse''),
     (''CreateInvite'', ''/dop.v1.IdentityService/CreateInvite'', UnaryUnary, ''identity_pb2.CreateInviteRequest'', ''identity_pb2.Invite''),
     (''AcceptInvite'', ''/dop.v1.IdentityService/AcceptInvite'', UnaryUnary, ''identity_pb2.AcceptInviteRequest'', ''identity_pb2.Membership''),
     (''RevokeInvite'', ''/dop.v1.IdentityService/RevokeInvite'', UnaryUnary, ''identity_pb2.RevokeInviteRequest'', ''identity_pb2.Invite''),
     (''UpdateMembership'', ''/dop.v1.IdentityService/UpdateMembership'', UnaryUnary, ''identity_pb2.UpdateMembershipRequest'', ''identity_pb2.Membership''),
     (''RemoveMembership'', ''/dop.v1.IdentityService/RemoveMembership'', UnaryUnary, ''identity_pb2.RemoveMembershipRequest'', ''identity_pb2.RemoveMembershipResponse''),
     (''ListInvites'', ''/dop.v1.IdentityService/ListInvites'', UnaryUnary, ''identity_pb2.ListInvitesRequest'', ''identity_pb2.ListInvitesResponse''),
     (''GetInvite'', ''/dop.v1.IdentityService/GetInvite'', UnaryUnary, ''identity_pb2.GetInviteRequest'', ''identity_pb2.InvitePreview''),
     (''UpdateProfile'', ''/dop.v1.IdentityService/UpdateProfile'', UnaryUnary, ''identity_pb2.UpdateProfileRequest'', ''identity_pb2.User''),
     (''GetOnboarding'', ''/dop.v1.IdentityService/GetOnboarding'', UnaryUnary, ''identity_pb2.GetOnboardingRequest'', ''identity_pb2.OnboardingState''),
     (''RecordOnboardingStep'', ''/dop.v1.IdentityService/RecordOnboardingStep'', UnaryUnary, ''identity_pb2.RecordOnboardingStepRequest'', ''identity_pb2.OnboardingState''),
     (''CompleteOnboarding'', ''/dop.v1.IdentityService/CompleteOnboarding'', UnaryUnary, ''identity_pb2.CompleteOnboardingRequest'', ''identity_pb2.OnboardingState''),
     (''CheckHandle'', ''/dop.v1.IdentityService/CheckHandle'', UnaryUnary, ''identity_pb2.CheckHandleRequest'', ''identity_pb2.HandleAvailability''),
     (''UpdatePersonalAccount'', ''/dop.v1.IdentityService/UpdatePersonalAccount'', UnaryUnary, ''identity_pb2.UpdatePersonalAccountRequest'', ''identity_pb2.Account''),
     (''SetPlan'', ''/dop.v1.IdentityService/SetPlan'', UnaryUnary, ''identity_pb2.SetPlanRequest'', ''identity_pb2.Account'')]"

definition CatalogServiceStub :: "stub_method list" where
  "CatalogServiceStub = [

     (''ListPlans'', ''/dop.v1.CatalogService/ListPlans'', UnaryUnary, ''catalog_pb2.ListPlansRequest'', ''catalog_pb2.ListPlansResponse''),
     (''ListProviders'', ''/dop.v1.CatalogService/ListProviders'', UnaryUnary, ''catalog_pb2.ListProvidersRequest'', ''catalog_pb2.ListProvidersResponse'')]"

definition ResourceServiceStub :: "stub_method list" where
  "ResourceServiceStub = [

     (''ListResources'', ''/dop.v1.ResourceService/ListResources'', UnaryUnary, ''resource_pb2.ListResourcesRequest'', ''resource_pb2.ListResourcesResponse''),
     (''GetResource'', ''/dop.v1.ResourceService/GetResource'', UnaryUnary, ''resource_pb2.GetResourceRequest'', ''resource_pb2.Resource''),
     (''CreateResource'', ''/dop.v1.ResourceService/CreateResource'', UnaryUnary, ''resource_pb2.CreateResourceRequest'', ''resource_pb2.Resource''),
     (''UpdateResource'', ''/dop.v1.ResourceService/UpdateResource'', UnaryUnary, ''resource_pb2.UpdateResourceRequest'', ''resource_pb2.Resource''),
     (''DeleteResource'', ''/dop.v1.ResourceService/DeleteResource'', UnaryUnary, ''resource_pb2.DeleteResourceRequest'', ''resource_pb2.DeleteResourceResponse''),
     (''GrantResource'', ''/dop.v1.ResourceService/GrantResource'', UnaryUnary, ''resource_pb2.GrantResourceRequest'', ''resource_pb2.ResourceGrant''),
     (''RevokeGrant'', ''/dop.v1.ResourceService/RevokeGrant'', UnaryUnary, ''resource_pb2.RevokeGrantRequest'', ''resource_pb2.RevokeGrantResponse''),
     (''ListMemberGrants'', ''/dop.v1.ResourceService/ListMemberGrants'', UnaryUnary, ''resource_pb2.ListMemberGrantsRequest'', ''resource_pb2.ListMemberGrantsResponse''),
     (''SetCredential'', ''/dop.v1.ResourceService/SetCredential'', UnaryUnary, ''resource_pb2.SetCredentialRequest'', ''resource_pb2.SetCredentialResponse''),
     (''CheckResource'', ''/dop.v1.ResourceService/CheckResource'', UnaryUnary, ''resource_pb2.CheckResourceRequest'', ''resource_pb2.CheckResult'')]"

definition SecondFactorServiceStub :: "stub_method list" where
  "SecondFactorServiceStub = [

     (''ListSecondFactors'', ''/dop.v1.SecondFactorService/ListSecondFactors'', UnaryUnary, ''secondfactor_pb2.ListSecondFactorsRequest'', ''secondfactor_pb2.ListSecondFactorsResponse''),
     (''EnrollSecondFactor'', ''/dop.v1.SecondFactorService/EnrollSecondFactor'', UnaryUnary, ''secondfactor_pb2.EnrollSecondFactorRequest'', ''secondfactor_pb2.EnrollSecondFactorResponse''),
     (''ConfirmSecondFactor'', ''/dop.v1.SecondFactorService/ConfirmSecondFactor'', UnaryUnary, ''secondfactor_pb2.ConfirmSecondFactorRequest'', ''secondfactor_pb2.ConfirmSecondFactorResponse''),
     (''RevokeSecondFactor'', ''/dop.v1.SecondFactorService/RevokeSecondFactor'', UnaryUnary, ''secondfactor_pb2.RevokeSecondFactorRequest'', ''secondfactor_pb2.SecondFactor''),
     (''ChallengeSecondFactor'', ''/dop.v1.SecondFactorService/ChallengeSecondFactor'', UnaryUnary, ''secondfactor_pb2.ChallengeSecondFactorRequest'', ''secondfactor_pb2.ChallengeSecondFactorResponse''),
     (''VerifySecondFactor'', ''/dop.v1.SecondFactorService/VerifySecondFactor'', UnaryUnary, ''secondfactor_pb2.VerifySecondFactorRequest'', ''secondfactor_pb2.StepUp''),
     (''VerifyRecoveryCode'', ''/dop.v1.SecondFactorService/VerifyRecoveryCode'', UnaryUnary, ''secondfactor_pb2.VerifyRecoveryCodeRequest'', ''secondfactor_pb2.StepUp''),
     (''GetSecondFactorState'', ''/dop.v1.SecondFactorService/GetSecondFactorState'', UnaryUnary, ''secondfactor_pb2.GetSecondFactorStateRequest'', ''secondfactor_pb2.GetSecondFactorStateResponse''),
     (''RegenerateRecoveryCodes'', ''/dop.v1.SecondFactorService/RegenerateRecoveryCodes'', UnaryUnary, ''secondfactor_pb2.RegenerateRecoveryCodesRequest'', ''secondfactor_pb2.RegenerateRecoveryCodesResponse'')]"

definition HierarchyServiceStub :: "stub_method list" where
  "HierarchyServiceStub = [

     (''ListWorkspaces'', ''/dop.v1.HierarchyService/ListWorkspaces'', UnaryUnary, ''hierarchy_pb2.ListWorkspacesRequest'', ''hierarchy_pb2.ListWorkspacesResponse''),
     (''GetWorkspace'', ''/dop.v1.HierarchyService/GetWorkspace'', UnaryUnary, ''hierarchy_pb2.GetWorkspaceRequest'', ''hierarchy_pb2.Workspace''),
     (''CreateWorkspace'', ''/dop.v1.HierarchyService/CreateWorkspace'', UnaryUnary, ''hierarchy_pb2.CreateWorkspaceRequest'', ''hierarchy_pb2.Workspace''),
     (''UpdateWorkspace'', ''/dop.v1.HierarchyService/UpdateWorkspace'', UnaryUnary, ''hierarchy_pb2.UpdateWorkspaceRequest'', ''hierarchy_pb2.Workspace''),
     (''ListProjects'', ''/dop.v1.HierarchyService/ListProjects'', UnaryUnary, ''hierarchy_pb2.ListProjectsRequest'', ''hierarchy_pb2.ListProjectsResponse''),
     (''GetProject'', ''/dop.v1.HierarchyService/GetProject'', UnaryUnary, ''hierarchy_pb2.GetProjectRequest'', ''hierarchy_pb2.Project''),
     (''CreateProject'', ''/dop.v1.HierarchyService/CreateProject'', UnaryUnary, ''hierarchy_pb2.CreateProjectRequest'', ''hierarchy_pb2.Project''),
     (''UpdateProject'', ''/dop.v1.HierarchyService/UpdateProject'', UnaryUnary, ''hierarchy_pb2.UpdateProjectRequest'', ''hierarchy_pb2.Project''),
     (''GetTree'', ''/dop.v1.HierarchyService/GetTree'', UnaryUnary, ''hierarchy_pb2.GetTreeRequest'', ''hierarchy_pb2.GetTreeResponse'')]"

definition WorkflowServiceStub :: "stub_method list" where
  "WorkflowServiceStub = [

     (''ListFlows'', ''/dop.v1.WorkflowService/ListFlows'', UnaryUnary, ''workflow_pb2.ListFlowsRequest'', ''workflow_pb2.ListFlowsResponse''),
     (''GetFlow'', ''/dop.v1.WorkflowService/GetFlow'', UnaryUnary, ''workflow_pb2.GetFlowRequest'', ''workflow_pb2.Flow''),
     (''CreateFlow'', ''/dop.v1.WorkflowService/CreateFlow'', UnaryUnary, ''workflow_pb2.CreateFlowRequest'', ''workflow_pb2.Flow''),
     (''UpdateFlow'', ''/dop.v1.WorkflowService/UpdateFlow'', UnaryUnary, ''workflow_pb2.UpdateFlowRequest'', ''workflow_pb2.Flow''),
     (''ValidateFlow'', ''/dop.v1.WorkflowService/ValidateFlow'', UnaryUnary, ''workflow_pb2.ValidateFlowRequest'', ''workflow_pb2.ValidateFlowResponse''),
     (''ResolveFlow'', ''/dop.v1.WorkflowService/ResolveFlow'', UnaryUnary, ''workflow_pb2.ResolveFlowRequest'', ''workflow_pb2.EffectiveFlow''),
     (''PromoteFlow'', ''/dop.v1.WorkflowService/PromoteFlow'', UnaryUnary, ''workflow_pb2.PromoteFlowRequest'', ''workflow_pb2.Flow''),
     (''PublishFlow'', ''/dop.v1.WorkflowService/PublishFlow'', UnaryUnary, ''workflow_pb2.PublishFlowRequest'', ''workflow_pb2.FlowPublication''),
     (''WithdrawFlow'', ''/dop.v1.WorkflowService/WithdrawFlow'', UnaryUnary, ''workflow_pb2.WithdrawFlowRequest'', ''empty_pb2.Empty''),
     (''GrantFlow'', ''/dop.v1.WorkflowService/GrantFlow'', UnaryUnary, ''workflow_pb2.GrantFlowRequest'', ''workflow_pb2.FlowGrant''),
     (''RevokeFlowGrant'', ''/dop.v1.WorkflowService/RevokeFlowGrant'', UnaryUnary, ''workflow_pb2.RevokeFlowGrantRequest'', ''empty_pb2.Empty''),
     (''DeriveFlow'', ''/dop.v1.WorkflowService/DeriveFlow'', UnaryUnary, ''workflow_pb2.DeriveFlowRequest'', ''workflow_pb2.Flow''),
     (''BumpFlowPin'', ''/dop.v1.WorkflowService/BumpFlowPin'', UnaryUnary, ''workflow_pb2.BumpFlowPinRequest'', ''empty_pb2.Empty''),
     (''ListFlowShares'', ''/dop.v1.WorkflowService/ListFlowShares'', UnaryUnary, ''workflow_pb2.ListFlowSharesRequest'', ''workflow_pb2.ListFlowSharesResponse''),
     (''ListFlowAdoptions'', ''/dop.v1.WorkflowService/ListFlowAdoptions'', UnaryUnary, ''workflow_pb2.ListFlowAdoptionsRequest'', ''workflow_pb2.ListFlowAdoptionsResponse'')]"

definition DemandServiceStub :: "stub_method list" where
  "DemandServiceStub = [

     (''ListDemands'', ''/dop.v1.DemandService/ListDemands'', UnaryUnary, ''demand_pb2.ListDemandsRequest'', ''demand_pb2.ListDemandsResponse''),
     (''GetDemand'', ''/dop.v1.DemandService/GetDemand'', UnaryUnary, ''demand_pb2.GetDemandRequest'', ''demand_pb2.Demand''),
     (''StartDemand'', ''/dop.v1.DemandService/StartDemand'', UnaryUnary, ''demand_pb2.StartDemandRequest'', ''demand_pb2.Demand''),
     (''AdvanceStage'', ''/dop.v1.DemandService/AdvanceStage'', UnaryUnary, ''demand_pb2.AdvanceStageRequest'', ''demand_pb2.DemandStage''),
     (''DecideGate'', ''/dop.v1.DemandService/DecideGate'', UnaryUnary, ''demand_pb2.DecideGateRequest'', ''demand_pb2.DemandStage''),
     (''ListThreads'', ''/dop.v1.DemandService/ListThreads'', UnaryUnary, ''demand_pb2.ListThreadsRequest'', ''demand_pb2.ListThreadsResponse''),
     (''CreateThread'', ''/dop.v1.DemandService/CreateThread'', UnaryUnary, ''demand_pb2.CreateThreadRequest'', ''demand_pb2.Thread''),
     (''PostMessage'', ''/dop.v1.DemandService/PostMessage'', UnaryUnary, ''demand_pb2.PostMessageRequest'', ''demand_pb2.Message''),
     (''PublishFinding'', ''/dop.v1.DemandService/PublishFinding'', UnaryUnary, ''demand_pb2.PublishFindingRequest'', ''demand_pb2.Finding''),
     (''ListFindings'', ''/dop.v1.DemandService/ListFindings'', UnaryUnary, ''demand_pb2.ListFindingsRequest'', ''demand_pb2.ListFindingsResponse''),
     (''WatchDemand'', ''/dop.v1.DemandService/WatchDemand'', UnaryStream, ''demand_pb2.WatchDemandRequest'', ''demand_pb2.DemandEvent'')]"

definition KnowledgeServiceStub :: "stub_method list" where
  "KnowledgeServiceStub = [

     (''BuildContextPackage'', ''/dop.v1.KnowledgeService/BuildContextPackage'', UnaryUnary, ''knowledge_pb2.BuildContextPackageRequest'', ''knowledge_pb2.ContextPackage''),
     (''SearchMemory'', ''/dop.v1.KnowledgeService/SearchMemory'', UnaryUnary, ''knowledge_pb2.SearchMemoryRequest'', ''knowledge_pb2.SearchMemoryResponse''),
     (''ReadIndex'', ''/dop.v1.KnowledgeService/ReadIndex'', UnaryUnary, ''knowledge_pb2.ReadIndexRequest'', ''knowledge_pb2.KnowledgeArtifact''),
     (''PutArtifact'', ''/dop.v1.KnowledgeService/PutArtifact'', UnaryUnary, ''knowledge_pb2.PutArtifactRequest'', ''knowledge_pb2.KnowledgeArtifact''),
     (''ListRules'', ''/dop.v1.KnowledgeService/ListRules'', UnaryUnary, ''knowledge_pb2.ListRulesRequest'', ''knowledge_pb2.ListRulesResponse'')]"

definition CostServiceStub :: "stub_method list" where
  "CostServiceStub = [

     (''RecordUsage'', ''/dop.v1.CostService/RecordUsage'', UnaryUnary, ''cost_pb2.RecordUsageRequest'', ''cost_pb2.RecordUsageResponse''),
     (''GetBudget'', ''/dop.v1.CostService/GetBudget'', UnaryUnary, ''cost_pb2.GetBudgetRequest'', ''cost_pb2.Budget''),
     (''SetBudget'', ''/dop.v1.CostService/SetBudget'', UnaryUnary, ''cost_pb2.SetBudgetRequest'', ''cost_pb2.Budget''),
     (''RouteModel'', ''/dop.v1.CostService/RouteModel'', UnaryUnary, ''cost_pb2.RouteModelRequest'', ''cost_pb2.RoutingDecision''),
     (''SummarizeCost'', ''/dop.v1.CostService/SummarizeCost'', UnaryUnary, ''cost_pb2.SummarizeCostRequest'', ''cost_pb2.SummarizeCostResponse'')]"

definition DeliveryServiceStub :: "stub_method list" where
  "DeliveryServiceStub = [

     (''ListPullRequests'', ''/dop.v1.DeliveryService/ListPullRequests'', UnaryUnary, ''delivery_pb2.ListPullRequestsRequest'', ''delivery_pb2.ListPullRequestsResponse''),
     (''GetMergeQueue'', ''/dop.v1.DeliveryService/GetMergeQueue'', UnaryUnary, ''delivery_pb2.GetMergeQueueRequest'', ''delivery_pb2.GetMergeQueueResponse''),
     (''EnqueueMerge'', ''/dop.v1.DeliveryService/EnqueueMerge'', UnaryUnary, ''delivery_pb2.EnqueueMergeRequest'', ''delivery_pb2.MergeQueueEntry''),
     (''ListDirectives'', ''/dop.v1.DeliveryService/ListDirectives'', UnaryUnary, ''delivery_pb2.ListDirectivesRequest'', ''delivery_pb2.ListDirectivesResponse''),
     (''DecideDirective'', ''/dop.v1.DeliveryService/DecideDirective'', UnaryUnary, ''delivery_pb2.DecideDirectiveRequest'', ''delivery_pb2.Directive'')]"

definition ExecutionServiceStub :: "stub_method list" where
  "ExecutionServiceStub = [

     (''ProvisionSandbox'', ''/dop.v1.ExecutionService/ProvisionSandbox'', UnaryUnary, ''execution_pb2.ProvisionSandboxRequest'', ''execution_pb2.Sandbox''),
     (''SuspendSandbox'', ''/dop.v1.ExecutionService/SuspendSandbox'', UnaryUnary, ''execution_pb2.SuspendSandboxRequest'', ''execution_pb2.Sandbox''),
     (''ResumeSandbox'', ''/dop.v1.ExecutionService/ResumeSandbox'', UnaryUnary, ''execution_pb2.ResumeSandboxRequest'', ''execution_pb2.Sandbox''),
     (''DestroySandbox'', ''/dop.v1.ExecutionService/DestroySandbox'', UnaryUnary, ''execution_pb2.DestroySandboxRequest'', ''execution_pb2.DestroySandboxResponse''),
     (''DescribeSandbox'', ''/dop.v1.ExecutionService/DescribeSandbox'', UnaryUnary, ''execution_pb2.DescribeSandboxRequest'', ''execution_pb2.Sandbox''),
     (''StreamLogs'', ''/dop.v1.ExecutionService/StreamLogs'', UnaryStream, ''execution_pb2.StreamLogsRequest'', ''execution_pb2.LogLine'')]"

definition EventServiceStub :: "stub_method list" where
  "EventServiceStub = [

     (''WatchEvents'', ''/dop.v1.EventService/WatchEvents'', UnaryStream, ''event_pb2.WatchEventsRequest'', ''event_pb2.EventEnvelope'')]"

definition AttentionServiceStub :: "stub_method list" where
  "AttentionServiceStub = [

     (''ListAttention'', ''/dop.v1.AttentionService/ListAttention'', UnaryUnary, ''attention_pb2.ListAttentionRequest'', ''attention_pb2.ListAttentionResponse''),
     (''WatchAttention'', ''/dop.v1.AttentionService/WatchAttention'', UnaryStream, ''attention_pb2.WatchAttentionRequest'', ''attention_pb2.AttentionUpdate'')]"

definition AgentServiceStub :: "stub_method list" where
  "AgentServiceStub = [

     (''RunTurn'', ''/dop.v1.AgentService/RunTurn'', UnaryUnary, ''agent_pb2.RunTurnRequest'', ''agent_pb2.TurnOutcome'')]"

definition core_stubs :: "stub_method list list" where
  "core_stubs = [
     IdentityServiceStub, CatalogServiceStub, ResourceServiceStub, SecondFactorServiceStub,
     HierarchyServiceStub, WorkflowServiceStub, DemandServiceStub, KnowledgeServiceStub, CostServiceStub,
     DeliveryServiceStub, ExecutionServiceStub, EventServiceStub, AttentionServiceStub, AgentServiceStub]"

end
