(* ===== verification/Core_Servers.thy ===== *)
theory Core_Servers
  imports Core_Stubs
begin

text \<open>
  The other half of what protoc generated of the core's services: the class a server would implement, every
  method of which answers UNIMPLEMENTED, and its registration. The edge runs none of it; the core does, from
  the same contract, so it is what the edge's stubs are checked against.
\<close>

section \<open>The classes and their registrations\<close>

definition core_identity_base :: "string list" where
  "core_identity_base = [
     ''GetUser'', ''EnsureUser'', ''ListAccounts'', ''GetAccount'', ''CreateAccount'', ''ListMemberships'',
     ''SendEmailVerification'', ''CreateInvite'', ''AcceptInvite'', ''RevokeInvite'', ''UpdateMembership'',
     ''RemoveMembership'', ''ListInvites'', ''GetInvite'', ''UpdateProfile'', ''GetOnboarding'',
     ''RecordOnboardingStep'', ''CompleteOnboarding'', ''CheckHandle'', ''UpdatePersonalAccount'', ''SetPlan'']"

definition core_identity_service :: service where
  "core_identity_service = \<lparr>sv_name = ''dop.v1.IdentityService'', sv_handlers = [
     (''GetUser'', UnaryUnary, ''identity_pb2.GetUserRequest'', ''identity_pb2.User''),
     (''EnsureUser'', UnaryUnary, ''identity_pb2.EnsureUserRequest'', ''identity_pb2.User''),
     (''ListAccounts'', UnaryUnary, ''identity_pb2.ListAccountsRequest'', ''identity_pb2.ListAccountsResponse''),
     (''GetAccount'', UnaryUnary, ''identity_pb2.GetAccountRequest'', ''identity_pb2.Account''),
     (''CreateAccount'', UnaryUnary, ''identity_pb2.CreateAccountRequest'', ''identity_pb2.Account''),
     (''ListMemberships'', UnaryUnary, ''identity_pb2.ListMembershipsRequest'', ''identity_pb2.ListMembershipsResponse''),
     (''SendEmailVerification'', UnaryUnary, ''identity_pb2.SendEmailVerificationRequest'', ''identity_pb2.SendEmailVerificationResponse''),
     (''CreateInvite'', UnaryUnary, ''identity_pb2.CreateInviteRequest'', ''identity_pb2.Invite''),
     (''AcceptInvite'', UnaryUnary, ''identity_pb2.AcceptInviteRequest'', ''identity_pb2.Membership''),
     (''RevokeInvite'', UnaryUnary, ''identity_pb2.RevokeInviteRequest'', ''identity_pb2.Invite''),
     (''UpdateMembership'', UnaryUnary, ''identity_pb2.UpdateMembershipRequest'', ''identity_pb2.Membership''),
     (''RemoveMembership'', UnaryUnary, ''identity_pb2.RemoveMembershipRequest'', ''identity_pb2.RemoveMembershipResponse''),
     (''ListInvites'', UnaryUnary, ''identity_pb2.ListInvitesRequest'', ''identity_pb2.ListInvitesResponse''),
     (''GetInvite'', UnaryUnary, ''identity_pb2.GetInviteRequest'', ''identity_pb2.InvitePreview''),
     (''UpdateProfile'', UnaryUnary, ''identity_pb2.UpdateProfileRequest'', ''identity_pb2.User''),
     (''GetOnboarding'', UnaryUnary, ''identity_pb2.GetOnboardingRequest'', ''identity_pb2.OnboardingState''),
     (''RecordOnboardingStep'', UnaryUnary, ''identity_pb2.RecordOnboardingStepRequest'', ''identity_pb2.OnboardingState''),
     (''CompleteOnboarding'', UnaryUnary, ''identity_pb2.CompleteOnboardingRequest'', ''identity_pb2.OnboardingState''),
     (''CheckHandle'', UnaryUnary, ''identity_pb2.CheckHandleRequest'', ''identity_pb2.HandleAvailability''),
     (''UpdatePersonalAccount'', UnaryUnary, ''identity_pb2.UpdatePersonalAccountRequest'', ''identity_pb2.Account''),
     (''SetPlan'', UnaryUnary, ''identity_pb2.SetPlanRequest'', ''identity_pb2.Account'')]\<rparr>"

definition core_catalog_base :: "string list" where
  "core_catalog_base = [
     ''ListPlans'', ''ListProviders'']"

definition core_catalog_service :: service where
  "core_catalog_service = \<lparr>sv_name = ''dop.v1.CatalogService'', sv_handlers = [
     (''ListPlans'', UnaryUnary, ''catalog_pb2.ListPlansRequest'', ''catalog_pb2.ListPlansResponse''),
     (''ListProviders'', UnaryUnary, ''catalog_pb2.ListProvidersRequest'', ''catalog_pb2.ListProvidersResponse'')]\<rparr>"

definition core_resource_base :: "string list" where
  "core_resource_base = [
     ''ListResources'', ''GetResource'', ''CreateResource'', ''UpdateResource'', ''DeleteResource'',
     ''GrantResource'', ''RevokeGrant'', ''ListMemberGrants'', ''SetCredential'', ''CheckResource'']"

definition core_resource_service :: service where
  "core_resource_service = \<lparr>sv_name = ''dop.v1.ResourceService'', sv_handlers = [
     (''ListResources'', UnaryUnary, ''resource_pb2.ListResourcesRequest'', ''resource_pb2.ListResourcesResponse''),
     (''GetResource'', UnaryUnary, ''resource_pb2.GetResourceRequest'', ''resource_pb2.Resource''),
     (''CreateResource'', UnaryUnary, ''resource_pb2.CreateResourceRequest'', ''resource_pb2.Resource''),
     (''UpdateResource'', UnaryUnary, ''resource_pb2.UpdateResourceRequest'', ''resource_pb2.Resource''),
     (''DeleteResource'', UnaryUnary, ''resource_pb2.DeleteResourceRequest'', ''resource_pb2.DeleteResourceResponse''),
     (''GrantResource'', UnaryUnary, ''resource_pb2.GrantResourceRequest'', ''resource_pb2.ResourceGrant''),
     (''RevokeGrant'', UnaryUnary, ''resource_pb2.RevokeGrantRequest'', ''resource_pb2.RevokeGrantResponse''),
     (''ListMemberGrants'', UnaryUnary, ''resource_pb2.ListMemberGrantsRequest'', ''resource_pb2.ListMemberGrantsResponse''),
     (''SetCredential'', UnaryUnary, ''resource_pb2.SetCredentialRequest'', ''resource_pb2.SetCredentialResponse''),
     (''CheckResource'', UnaryUnary, ''resource_pb2.CheckResourceRequest'', ''resource_pb2.CheckResult'')]\<rparr>"

definition core_secondfactor_base :: "string list" where
  "core_secondfactor_base = [
     ''ListSecondFactors'', ''EnrollSecondFactor'', ''ConfirmSecondFactor'', ''RevokeSecondFactor'',
     ''ChallengeSecondFactor'', ''VerifySecondFactor'', ''VerifyRecoveryCode'', ''GetSecondFactorState'',
     ''RegenerateRecoveryCodes'']"

definition core_secondfactor_service :: service where
  "core_secondfactor_service = \<lparr>sv_name = ''dop.v1.SecondFactorService'', sv_handlers = [
     (''ListSecondFactors'', UnaryUnary, ''secondfactor_pb2.ListSecondFactorsRequest'', ''secondfactor_pb2.ListSecondFactorsResponse''),
     (''EnrollSecondFactor'', UnaryUnary, ''secondfactor_pb2.EnrollSecondFactorRequest'', ''secondfactor_pb2.EnrollSecondFactorResponse''),
     (''ConfirmSecondFactor'', UnaryUnary, ''secondfactor_pb2.ConfirmSecondFactorRequest'', ''secondfactor_pb2.ConfirmSecondFactorResponse''),
     (''RevokeSecondFactor'', UnaryUnary, ''secondfactor_pb2.RevokeSecondFactorRequest'', ''secondfactor_pb2.SecondFactor''),
     (''ChallengeSecondFactor'', UnaryUnary, ''secondfactor_pb2.ChallengeSecondFactorRequest'', ''secondfactor_pb2.ChallengeSecondFactorResponse''),
     (''VerifySecondFactor'', UnaryUnary, ''secondfactor_pb2.VerifySecondFactorRequest'', ''secondfactor_pb2.StepUp''),
     (''VerifyRecoveryCode'', UnaryUnary, ''secondfactor_pb2.VerifyRecoveryCodeRequest'', ''secondfactor_pb2.StepUp''),
     (''GetSecondFactorState'', UnaryUnary, ''secondfactor_pb2.GetSecondFactorStateRequest'', ''secondfactor_pb2.GetSecondFactorStateResponse''),
     (''RegenerateRecoveryCodes'', UnaryUnary, ''secondfactor_pb2.RegenerateRecoveryCodesRequest'', ''secondfactor_pb2.RegenerateRecoveryCodesResponse'')]\<rparr>"

definition core_hierarchy_base :: "string list" where
  "core_hierarchy_base = [
     ''ListWorkspaces'', ''GetWorkspace'', ''CreateWorkspace'', ''UpdateWorkspace'', ''ListProjects'',
     ''GetProject'', ''CreateProject'', ''UpdateProject'', ''GetTree'']"

definition core_hierarchy_service :: service where
  "core_hierarchy_service = \<lparr>sv_name = ''dop.v1.HierarchyService'', sv_handlers = [
     (''ListWorkspaces'', UnaryUnary, ''hierarchy_pb2.ListWorkspacesRequest'', ''hierarchy_pb2.ListWorkspacesResponse''),
     (''GetWorkspace'', UnaryUnary, ''hierarchy_pb2.GetWorkspaceRequest'', ''hierarchy_pb2.Workspace''),
     (''CreateWorkspace'', UnaryUnary, ''hierarchy_pb2.CreateWorkspaceRequest'', ''hierarchy_pb2.Workspace''),
     (''UpdateWorkspace'', UnaryUnary, ''hierarchy_pb2.UpdateWorkspaceRequest'', ''hierarchy_pb2.Workspace''),
     (''ListProjects'', UnaryUnary, ''hierarchy_pb2.ListProjectsRequest'', ''hierarchy_pb2.ListProjectsResponse''),
     (''GetProject'', UnaryUnary, ''hierarchy_pb2.GetProjectRequest'', ''hierarchy_pb2.Project''),
     (''CreateProject'', UnaryUnary, ''hierarchy_pb2.CreateProjectRequest'', ''hierarchy_pb2.Project''),
     (''UpdateProject'', UnaryUnary, ''hierarchy_pb2.UpdateProjectRequest'', ''hierarchy_pb2.Project''),
     (''GetTree'', UnaryUnary, ''hierarchy_pb2.GetTreeRequest'', ''hierarchy_pb2.GetTreeResponse'')]\<rparr>"

definition core_workflow_base :: "string list" where
  "core_workflow_base = [
     ''ListFlows'', ''GetFlow'', ''CreateFlow'', ''UpdateFlow'', ''ValidateFlow'', ''ResolveFlow'',
     ''PromoteFlow'', ''PublishFlow'', ''WithdrawFlow'', ''GrantFlow'', ''RevokeFlowGrant'', ''DeriveFlow'',
     ''BumpFlowPin'', ''ListFlowShares'', ''ListFlowAdoptions'']"

definition core_workflow_service :: service where
  "core_workflow_service = \<lparr>sv_name = ''dop.v1.WorkflowService'', sv_handlers = [
     (''ListFlows'', UnaryUnary, ''workflow_pb2.ListFlowsRequest'', ''workflow_pb2.ListFlowsResponse''),
     (''GetFlow'', UnaryUnary, ''workflow_pb2.GetFlowRequest'', ''workflow_pb2.Flow''),
     (''CreateFlow'', UnaryUnary, ''workflow_pb2.CreateFlowRequest'', ''workflow_pb2.Flow''),
     (''UpdateFlow'', UnaryUnary, ''workflow_pb2.UpdateFlowRequest'', ''workflow_pb2.Flow''),
     (''ValidateFlow'', UnaryUnary, ''workflow_pb2.ValidateFlowRequest'', ''workflow_pb2.ValidateFlowResponse''),
     (''ResolveFlow'', UnaryUnary, ''workflow_pb2.ResolveFlowRequest'', ''workflow_pb2.EffectiveFlow''),
     (''PromoteFlow'', UnaryUnary, ''workflow_pb2.PromoteFlowRequest'', ''workflow_pb2.Flow''),
     (''PublishFlow'', UnaryUnary, ''workflow_pb2.PublishFlowRequest'', ''workflow_pb2.FlowPublication''),
     (''WithdrawFlow'', UnaryUnary, ''workflow_pb2.WithdrawFlowRequest'', ''empty_pb2.Empty''),
     (''GrantFlow'', UnaryUnary, ''workflow_pb2.GrantFlowRequest'', ''workflow_pb2.FlowGrant''),
     (''RevokeFlowGrant'', UnaryUnary, ''workflow_pb2.RevokeFlowGrantRequest'', ''empty_pb2.Empty''),
     (''DeriveFlow'', UnaryUnary, ''workflow_pb2.DeriveFlowRequest'', ''workflow_pb2.Flow''),
     (''BumpFlowPin'', UnaryUnary, ''workflow_pb2.BumpFlowPinRequest'', ''empty_pb2.Empty''),
     (''ListFlowShares'', UnaryUnary, ''workflow_pb2.ListFlowSharesRequest'', ''workflow_pb2.ListFlowSharesResponse''),
     (''ListFlowAdoptions'', UnaryUnary, ''workflow_pb2.ListFlowAdoptionsRequest'', ''workflow_pb2.ListFlowAdoptionsResponse'')]\<rparr>"

definition core_demand_base :: "string list" where
  "core_demand_base = [
     ''ListDemands'', ''GetDemand'', ''StartDemand'', ''AdvanceStage'', ''DecideGate'', ''ListThreads'',
     ''CreateThread'', ''PostMessage'', ''PublishFinding'', ''ListFindings'', ''WatchDemand'']"

definition core_demand_service :: service where
  "core_demand_service = \<lparr>sv_name = ''dop.v1.DemandService'', sv_handlers = [
     (''ListDemands'', UnaryUnary, ''demand_pb2.ListDemandsRequest'', ''demand_pb2.ListDemandsResponse''),
     (''GetDemand'', UnaryUnary, ''demand_pb2.GetDemandRequest'', ''demand_pb2.Demand''),
     (''StartDemand'', UnaryUnary, ''demand_pb2.StartDemandRequest'', ''demand_pb2.Demand''),
     (''AdvanceStage'', UnaryUnary, ''demand_pb2.AdvanceStageRequest'', ''demand_pb2.DemandStage''),
     (''DecideGate'', UnaryUnary, ''demand_pb2.DecideGateRequest'', ''demand_pb2.DemandStage''),
     (''ListThreads'', UnaryUnary, ''demand_pb2.ListThreadsRequest'', ''demand_pb2.ListThreadsResponse''),
     (''CreateThread'', UnaryUnary, ''demand_pb2.CreateThreadRequest'', ''demand_pb2.Thread''),
     (''PostMessage'', UnaryUnary, ''demand_pb2.PostMessageRequest'', ''demand_pb2.Message''),
     (''PublishFinding'', UnaryUnary, ''demand_pb2.PublishFindingRequest'', ''demand_pb2.Finding''),
     (''ListFindings'', UnaryUnary, ''demand_pb2.ListFindingsRequest'', ''demand_pb2.ListFindingsResponse''),
     (''WatchDemand'', UnaryStream, ''demand_pb2.WatchDemandRequest'', ''demand_pb2.DemandEvent'')]\<rparr>"

definition core_knowledge_base :: "string list" where
  "core_knowledge_base = [
     ''BuildContextPackage'', ''SearchMemory'', ''ReadIndex'', ''PutArtifact'', ''ListRules'']"

definition core_knowledge_service :: service where
  "core_knowledge_service = \<lparr>sv_name = ''dop.v1.KnowledgeService'', sv_handlers = [
     (''BuildContextPackage'', UnaryUnary, ''knowledge_pb2.BuildContextPackageRequest'', ''knowledge_pb2.ContextPackage''),
     (''SearchMemory'', UnaryUnary, ''knowledge_pb2.SearchMemoryRequest'', ''knowledge_pb2.SearchMemoryResponse''),
     (''ReadIndex'', UnaryUnary, ''knowledge_pb2.ReadIndexRequest'', ''knowledge_pb2.KnowledgeArtifact''),
     (''PutArtifact'', UnaryUnary, ''knowledge_pb2.PutArtifactRequest'', ''knowledge_pb2.KnowledgeArtifact''),
     (''ListRules'', UnaryUnary, ''knowledge_pb2.ListRulesRequest'', ''knowledge_pb2.ListRulesResponse'')]\<rparr>"

definition core_cost_base :: "string list" where
  "core_cost_base = [
     ''RecordUsage'', ''GetBudget'', ''SetBudget'', ''RouteModel'', ''SummarizeCost'']"

definition core_cost_service :: service where
  "core_cost_service = \<lparr>sv_name = ''dop.v1.CostService'', sv_handlers = [
     (''RecordUsage'', UnaryUnary, ''cost_pb2.RecordUsageRequest'', ''cost_pb2.RecordUsageResponse''),
     (''GetBudget'', UnaryUnary, ''cost_pb2.GetBudgetRequest'', ''cost_pb2.Budget''),
     (''SetBudget'', UnaryUnary, ''cost_pb2.SetBudgetRequest'', ''cost_pb2.Budget''),
     (''RouteModel'', UnaryUnary, ''cost_pb2.RouteModelRequest'', ''cost_pb2.RoutingDecision''),
     (''SummarizeCost'', UnaryUnary, ''cost_pb2.SummarizeCostRequest'', ''cost_pb2.SummarizeCostResponse'')]\<rparr>"

definition core_delivery_base :: "string list" where
  "core_delivery_base = [
     ''ListPullRequests'', ''GetMergeQueue'', ''EnqueueMerge'', ''ListDirectives'', ''DecideDirective'']"

definition core_delivery_service :: service where
  "core_delivery_service = \<lparr>sv_name = ''dop.v1.DeliveryService'', sv_handlers = [
     (''ListPullRequests'', UnaryUnary, ''delivery_pb2.ListPullRequestsRequest'', ''delivery_pb2.ListPullRequestsResponse''),
     (''GetMergeQueue'', UnaryUnary, ''delivery_pb2.GetMergeQueueRequest'', ''delivery_pb2.GetMergeQueueResponse''),
     (''EnqueueMerge'', UnaryUnary, ''delivery_pb2.EnqueueMergeRequest'', ''delivery_pb2.MergeQueueEntry''),
     (''ListDirectives'', UnaryUnary, ''delivery_pb2.ListDirectivesRequest'', ''delivery_pb2.ListDirectivesResponse''),
     (''DecideDirective'', UnaryUnary, ''delivery_pb2.DecideDirectiveRequest'', ''delivery_pb2.Directive'')]\<rparr>"

definition core_execution_base :: "string list" where
  "core_execution_base = [
     ''ProvisionSandbox'', ''SuspendSandbox'', ''ResumeSandbox'', ''DestroySandbox'', ''DescribeSandbox'',
     ''StreamLogs'']"

definition core_execution_service :: service where
  "core_execution_service = \<lparr>sv_name = ''dop.v1.ExecutionService'', sv_handlers = [
     (''ProvisionSandbox'', UnaryUnary, ''execution_pb2.ProvisionSandboxRequest'', ''execution_pb2.Sandbox''),
     (''SuspendSandbox'', UnaryUnary, ''execution_pb2.SuspendSandboxRequest'', ''execution_pb2.Sandbox''),
     (''ResumeSandbox'', UnaryUnary, ''execution_pb2.ResumeSandboxRequest'', ''execution_pb2.Sandbox''),
     (''DestroySandbox'', UnaryUnary, ''execution_pb2.DestroySandboxRequest'', ''execution_pb2.DestroySandboxResponse''),
     (''DescribeSandbox'', UnaryUnary, ''execution_pb2.DescribeSandboxRequest'', ''execution_pb2.Sandbox''),
     (''StreamLogs'', UnaryStream, ''execution_pb2.StreamLogsRequest'', ''execution_pb2.LogLine'')]\<rparr>"

definition core_event_base :: "string list" where
  "core_event_base = [
     ''WatchEvents'']"

definition core_event_service :: service where
  "core_event_service = \<lparr>sv_name = ''dop.v1.EventService'', sv_handlers = [
     (''WatchEvents'', UnaryStream, ''event_pb2.WatchEventsRequest'', ''event_pb2.EventEnvelope'')]\<rparr>"

definition core_attention_base :: "string list" where
  "core_attention_base = [
     ''ListAttention'', ''WatchAttention'']"

definition core_attention_service :: service where
  "core_attention_service = \<lparr>sv_name = ''dop.v1.AttentionService'', sv_handlers = [
     (''ListAttention'', UnaryUnary, ''attention_pb2.ListAttentionRequest'', ''attention_pb2.ListAttentionResponse''),
     (''WatchAttention'', UnaryStream, ''attention_pb2.WatchAttentionRequest'', ''attention_pb2.AttentionUpdate'')]\<rparr>"

definition core_agent_base :: "string list" where
  "core_agent_base = [
     ''RunTurn'']"

definition core_agent_service :: service where
  "core_agent_service = \<lparr>sv_name = ''dop.v1.AgentService'', sv_handlers = [
     (''RunTurn'', UnaryUnary, ''agent_pb2.RunTurnRequest'', ''agent_pb2.TurnOutcome'')]\<rparr>"

definition AgentMetricsServiceStub :: "stub_method list" where
  "AgentMetricsServiceStub = [
     (''RecordTurns'', ''/dop.v1.AgentMetricsService/RecordTurns'', UnaryUnary, ''agentmetrics_pb2.RecordTurnsRequest'', ''agentmetrics_pb2.RecordTurnsResponse''),
     (''GetDemandConsumption'', ''/dop.v1.AgentMetricsService/GetDemandConsumption'', UnaryUnary, ''agentmetrics_pb2.GetDemandConsumptionRequest'', ''agentmetrics_pb2.DemandConsumption'')]"

definition core_agentmetrics_base :: "string list" where
  "core_agentmetrics_base = [
     ''RecordTurns'', ''GetDemandConsumption'']"

definition core_agentmetrics_service :: service where
  "core_agentmetrics_service = \<lparr>sv_name = ''dop.v1.AgentMetricsService'', sv_handlers = [
     (''RecordTurns'', UnaryUnary, ''agentmetrics_pb2.RecordTurnsRequest'', ''agentmetrics_pb2.RecordTurnsResponse''),
     (''GetDemandConsumption'', UnaryUnary, ''agentmetrics_pb2.GetDemandConsumptionRequest'', ''agentmetrics_pb2.DemandConsumption'')]\<rparr>"

section \<open>The contract the stubs are written to\<close>

definition core_contract :: "(stub_method list \<times> string list \<times> service) list" where
  "core_contract = [
     (IdentityServiceStub, core_identity_base, core_identity_service),
     (CatalogServiceStub, core_catalog_base, core_catalog_service),
     (ResourceServiceStub, core_resource_base, core_resource_service),
     (SecondFactorServiceStub, core_secondfactor_base, core_secondfactor_service),
     (HierarchyServiceStub, core_hierarchy_base, core_hierarchy_service),
     (WorkflowServiceStub, core_workflow_base, core_workflow_service),
     (DemandServiceStub, core_demand_base, core_demand_service),
     (KnowledgeServiceStub, core_knowledge_base, core_knowledge_service),
     (CostServiceStub, core_cost_base, core_cost_service),
     (DeliveryServiceStub, core_delivery_base, core_delivery_service),
     (ExecutionServiceStub, core_execution_base, core_execution_service),
     (EventServiceStub, core_event_base, core_event_service),
     (AttentionServiceStub, core_attention_base, core_attention_service),
     (AgentServiceStub, core_agent_base, core_agent_service),
     (AgentMetricsServiceStub, core_agentmetrics_base, core_agentmetrics_service)]"

text \<open>A server of the generated classes registers every method it declares, in the order it declares them.\<close>

lemma core_mirrors: "list_all (\<lambda>(stub, base, svc). mirrors stub svc \<and> base = map fst (sv_handlers svc)) core_contract"
  by code_simp

lemma core_contract_stubs: "map fst core_contract = core_stubs @ [AgentMetricsServiceStub]"
  by (simp add: core_contract_def core_stubs_def)

definition registered :: "service \<Rightarrow> string \<Rightarrow> (rpc_kind \<times> string \<times> string) option" where
  "registered svc path = map_option snd (List.find (\<lambda>h. rpc_path (sv_name svc) (fst h) = path) (sv_handlers svc))"

lemma core_distinct: "list_all (\<lambda>(stub, base, svc). distinct base \<and> CHR ''/'' \<notin> set (sv_name svc)) core_contract"
  by code_simp

lemma find_named: "distinct (map fst hs) \<Longrightarrow> (m, h) \<in> set hs \<Longrightarrow> List.find (\<lambda>x. fst x = m) hs = Some (m, h)"
  by (induction hs) force+

text \<open>
  Whatever method a client of the core calls, by the attribute of its stub, a server of the generated class has it, of the
  same kind, reading the message the client writes and writing the one it reads.
\<close>

theorem core_contract_closed:
  assumes "(stub, base, svc) \<in> set core_contract" and "(attr, path, kind, q, r) \<in> set stub"
  shows "path = rpc_path (sv_name svc) attr \<and> registered svc path = Some (kind, q, r) \<and> attr \<in> set base"
proof -
  from core_mirrors core_distinct assms(1) have m: "mirrors stub svc" "base = map fst (sv_handlers svc)"
    and d: "distinct base" "CHR ''/'' \<notin> set (sv_name svc)"
    by (auto simp: list_all_iff)
  from m(1) assms(2) have i: "(attr, kind, q, r) \<in> set (sv_handlers svc)" and p: "path = rpc_path (sv_name svc) attr"
    by (auto simp: mirrors_def)
  have "registered svc path = Some (kind, q, r)"
    unfolding registered_def p rpc_path_inject [OF d(2) d(2)] using find_named [OF d(1) [unfolded m(2)] i] by simp
  with p i m(2) show ?thesis by force
qed

end
