(* ===== verification/Static_Api.thy ===== *)
theory Static_Api
  imports Core_Servers Grpc_Surface
begin

text \<open>
  The third face of a generated service, protoc's experimental one: a class of static methods, each of which
  calls a path on a target it is given, with no stub and no channel of the caller's. Nothing in the edge uses it; it is
  generated from the same contract, and says the same as the other two.
\<close>

section \<open>The static methods\<close>

definition core_identity_static :: "stub_method list" where
  "core_identity_static = [
     (''GetUser'', ''/dop.v1.IdentityService/GetUser'', UnaryUnary, ''identity_pb2.GetUserRequest'', ''identity_pb2.User''),
     (''EnsureUser'', ''/dop.v1.IdentityService/EnsureUser'', UnaryUnary, ''identity_pb2.EnsureUserRequest'', ''identity_pb2.User''),
     (''ListAccounts'', ''/dop.v1.IdentityService/ListAccounts'', UnaryUnary, ''identity_pb2.ListAccountsRequest'', ''identity_pb2.ListAccountsResponse''),
     (''GetAccount'', ''/dop.v1.IdentityService/GetAccount'', UnaryUnary, ''identity_pb2.GetAccountRequest'', ''identity_pb2.Account''),
     (''CreateAccount'', ''/dop.v1.IdentityService/CreateAccount'', UnaryUnary, ''identity_pb2.CreateAccountRequest'', ''identity_pb2.Account''),
     (''ListMemberships'', ''/dop.v1.IdentityService/ListMemberships'', UnaryUnary, ''identity_pb2.ListMembershipsRequest'', ''identity_pb2.ListMembershipsResponse''),
     (''SendEmailVerification'', ''/dop.v1.IdentityService/SendEmailVerification'', UnaryUnary, ''identity_pb2.SendEmailVerificationRequest'', ''identity_pb2.SendEmailVerificationResponse''),
     (''CreateInvite'', ''/dop.v1.IdentityService/CreateInvite'', UnaryUnary, ''identity_pb2.CreateInviteRequest'', ''identity_pb2.Invite''),
     (''AcceptInvite'', ''/dop.v1.IdentityService/AcceptInvite'', UnaryUnary, ''identity_pb2.AcceptInviteRequest'', ''identity_pb2.Membership''),
     (''RevokeInvite'', ''/dop.v1.IdentityService/RevokeInvite'', UnaryUnary, ''identity_pb2.RevokeInviteRequest'', ''identity_pb2.Invite''),
     (''UpdateMembership'', ''/dop.v1.IdentityService/UpdateMembership'', UnaryUnary, ''identity_pb2.UpdateMembershipRequest'', ''identity_pb2.Membership''),
     (''RemoveMembership'', ''/dop.v1.IdentityService/RemoveMembership'', UnaryUnary, ''identity_pb2.RemoveMembershipRequest'', ''identity_pb2.RemoveMembershipResponse''),
     (''ListInvites'', ''/dop.v1.IdentityService/ListInvites'', UnaryUnary, ''identity_pb2.ListInvitesRequest'', ''identity_pb2.ListInvitesResponse''),
     (''GetInvite'', ''/dop.v1.IdentityService/GetInvite'', UnaryUnary, ''identity_pb2.GetInviteRequest'', ''identity_pb2.InvitePreview''),
     (''UpdateProfile'', ''/dop.v1.IdentityService/UpdateProfile'', UnaryUnary, ''identity_pb2.UpdateProfileRequest'', ''identity_pb2.User''),
     (''GetOnboarding'', ''/dop.v1.IdentityService/GetOnboarding'', UnaryUnary, ''identity_pb2.GetOnboardingRequest'', ''identity_pb2.OnboardingState''),
     (''RecordOnboardingStep'', ''/dop.v1.IdentityService/RecordOnboardingStep'', UnaryUnary, ''identity_pb2.RecordOnboardingStepRequest'', ''identity_pb2.OnboardingState''),
     (''CompleteOnboarding'', ''/dop.v1.IdentityService/CompleteOnboarding'', UnaryUnary, ''identity_pb2.CompleteOnboardingRequest'', ''identity_pb2.OnboardingState''),
     (''CheckHandle'', ''/dop.v1.IdentityService/CheckHandle'', UnaryUnary, ''identity_pb2.CheckHandleRequest'', ''identity_pb2.HandleAvailability''),
     (''UpdatePersonalAccount'', ''/dop.v1.IdentityService/UpdatePersonalAccount'', UnaryUnary, ''identity_pb2.UpdatePersonalAccountRequest'', ''identity_pb2.Account''),
     (''SetPlan'', ''/dop.v1.IdentityService/SetPlan'', UnaryUnary, ''identity_pb2.SetPlanRequest'', ''identity_pb2.Account'')]"

definition core_catalog_static :: "stub_method list" where
  "core_catalog_static = [
     (''ListPlans'', ''/dop.v1.CatalogService/ListPlans'', UnaryUnary, ''catalog_pb2.ListPlansRequest'', ''catalog_pb2.ListPlansResponse''),
     (''ListProviders'', ''/dop.v1.CatalogService/ListProviders'', UnaryUnary, ''catalog_pb2.ListProvidersRequest'', ''catalog_pb2.ListProvidersResponse'')]"

definition core_resource_static :: "stub_method list" where
  "core_resource_static = [
     (''ListResources'', ''/dop.v1.ResourceService/ListResources'', UnaryUnary, ''resource_pb2.ListResourcesRequest'', ''resource_pb2.ListResourcesResponse''),
     (''GetResource'', ''/dop.v1.ResourceService/GetResource'', UnaryUnary, ''resource_pb2.GetResourceRequest'', ''resource_pb2.Resource''),
     (''CreateResource'', ''/dop.v1.ResourceService/CreateResource'', UnaryUnary, ''resource_pb2.CreateResourceRequest'', ''resource_pb2.Resource''),
     (''UpdateResource'', ''/dop.v1.ResourceService/UpdateResource'', UnaryUnary, ''resource_pb2.UpdateResourceRequest'', ''resource_pb2.Resource''),
     (''DeleteResource'', ''/dop.v1.ResourceService/DeleteResource'', UnaryUnary, ''resource_pb2.DeleteResourceRequest'', ''resource_pb2.DeleteResourceResponse''),
     (''GrantResource'', ''/dop.v1.ResourceService/GrantResource'', UnaryUnary, ''resource_pb2.GrantResourceRequest'', ''resource_pb2.ResourceGrant''),
     (''RevokeGrant'', ''/dop.v1.ResourceService/RevokeGrant'', UnaryUnary, ''resource_pb2.RevokeGrantRequest'', ''resource_pb2.RevokeGrantResponse''),
     (''ListMemberGrants'', ''/dop.v1.ResourceService/ListMemberGrants'', UnaryUnary, ''resource_pb2.ListMemberGrantsRequest'', ''resource_pb2.ListMemberGrantsResponse''),
     (''SetCredential'', ''/dop.v1.ResourceService/SetCredential'', UnaryUnary, ''resource_pb2.SetCredentialRequest'', ''resource_pb2.SetCredentialResponse''),
     (''CheckResource'', ''/dop.v1.ResourceService/CheckResource'', UnaryUnary, ''resource_pb2.CheckResourceRequest'', ''resource_pb2.CheckResult'')]"

definition core_secondfactor_static :: "stub_method list" where
  "core_secondfactor_static = [
     (''ListSecondFactors'', ''/dop.v1.SecondFactorService/ListSecondFactors'', UnaryUnary, ''secondfactor_pb2.ListSecondFactorsRequest'', ''secondfactor_pb2.ListSecondFactorsResponse''),
     (''EnrollSecondFactor'', ''/dop.v1.SecondFactorService/EnrollSecondFactor'', UnaryUnary, ''secondfactor_pb2.EnrollSecondFactorRequest'', ''secondfactor_pb2.EnrollSecondFactorResponse''),
     (''ConfirmSecondFactor'', ''/dop.v1.SecondFactorService/ConfirmSecondFactor'', UnaryUnary, ''secondfactor_pb2.ConfirmSecondFactorRequest'', ''secondfactor_pb2.ConfirmSecondFactorResponse''),
     (''RevokeSecondFactor'', ''/dop.v1.SecondFactorService/RevokeSecondFactor'', UnaryUnary, ''secondfactor_pb2.RevokeSecondFactorRequest'', ''secondfactor_pb2.SecondFactor''),
     (''ChallengeSecondFactor'', ''/dop.v1.SecondFactorService/ChallengeSecondFactor'', UnaryUnary, ''secondfactor_pb2.ChallengeSecondFactorRequest'', ''secondfactor_pb2.ChallengeSecondFactorResponse''),
     (''VerifySecondFactor'', ''/dop.v1.SecondFactorService/VerifySecondFactor'', UnaryUnary, ''secondfactor_pb2.VerifySecondFactorRequest'', ''secondfactor_pb2.StepUp''),
     (''VerifyRecoveryCode'', ''/dop.v1.SecondFactorService/VerifyRecoveryCode'', UnaryUnary, ''secondfactor_pb2.VerifyRecoveryCodeRequest'', ''secondfactor_pb2.StepUp''),
     (''GetSecondFactorState'', ''/dop.v1.SecondFactorService/GetSecondFactorState'', UnaryUnary, ''secondfactor_pb2.GetSecondFactorStateRequest'', ''secondfactor_pb2.GetSecondFactorStateResponse''),
     (''RegenerateRecoveryCodes'', ''/dop.v1.SecondFactorService/RegenerateRecoveryCodes'', UnaryUnary, ''secondfactor_pb2.RegenerateRecoveryCodesRequest'', ''secondfactor_pb2.RegenerateRecoveryCodesResponse'')]"

definition core_hierarchy_static :: "stub_method list" where
  "core_hierarchy_static = [
     (''ListWorkspaces'', ''/dop.v1.HierarchyService/ListWorkspaces'', UnaryUnary, ''hierarchy_pb2.ListWorkspacesRequest'', ''hierarchy_pb2.ListWorkspacesResponse''),
     (''GetWorkspace'', ''/dop.v1.HierarchyService/GetWorkspace'', UnaryUnary, ''hierarchy_pb2.GetWorkspaceRequest'', ''hierarchy_pb2.Workspace''),
     (''CreateWorkspace'', ''/dop.v1.HierarchyService/CreateWorkspace'', UnaryUnary, ''hierarchy_pb2.CreateWorkspaceRequest'', ''hierarchy_pb2.Workspace''),
     (''UpdateWorkspace'', ''/dop.v1.HierarchyService/UpdateWorkspace'', UnaryUnary, ''hierarchy_pb2.UpdateWorkspaceRequest'', ''hierarchy_pb2.Workspace''),
     (''ListProjects'', ''/dop.v1.HierarchyService/ListProjects'', UnaryUnary, ''hierarchy_pb2.ListProjectsRequest'', ''hierarchy_pb2.ListProjectsResponse''),
     (''GetProject'', ''/dop.v1.HierarchyService/GetProject'', UnaryUnary, ''hierarchy_pb2.GetProjectRequest'', ''hierarchy_pb2.Project''),
     (''CreateProject'', ''/dop.v1.HierarchyService/CreateProject'', UnaryUnary, ''hierarchy_pb2.CreateProjectRequest'', ''hierarchy_pb2.Project''),
     (''UpdateProject'', ''/dop.v1.HierarchyService/UpdateProject'', UnaryUnary, ''hierarchy_pb2.UpdateProjectRequest'', ''hierarchy_pb2.Project''),
     (''GetTree'', ''/dop.v1.HierarchyService/GetTree'', UnaryUnary, ''hierarchy_pb2.GetTreeRequest'', ''hierarchy_pb2.GetTreeResponse'')]"

definition core_workflow_static :: "stub_method list" where
  "core_workflow_static = [
     (''ListFlows'', ''/dop.v1.WorkflowService/ListFlows'', UnaryUnary, ''workflow_pb2.ListFlowsRequest'', ''workflow_pb2.ListFlowsResponse''),
     (''GetFlow'', ''/dop.v1.WorkflowService/GetFlow'', UnaryUnary, ''workflow_pb2.GetFlowRequest'', ''workflow_pb2.Flow''),
     (''CreateFlow'', ''/dop.v1.WorkflowService/CreateFlow'', UnaryUnary, ''workflow_pb2.CreateFlowRequest'', ''workflow_pb2.Flow''),
     (''UpdateFlow'', ''/dop.v1.WorkflowService/UpdateFlow'', UnaryUnary, ''workflow_pb2.UpdateFlowRequest'', ''workflow_pb2.Flow''),
     (''ValidateFlow'', ''/dop.v1.WorkflowService/ValidateFlow'', UnaryUnary, ''workflow_pb2.ValidateFlowRequest'', ''workflow_pb2.ValidateFlowResponse''),
     (''ResolveFlow'', ''/dop.v1.WorkflowService/ResolveFlow'', UnaryUnary, ''workflow_pb2.ResolveFlowRequest'', ''workflow_pb2.EffectiveFlow''),
     (''PromoteFlow'', ''/dop.v1.WorkflowService/PromoteFlow'', UnaryUnary, ''workflow_pb2.PromoteFlowRequest'', ''workflow_pb2.Flow''),
     (''PublishFlow'', ''/dop.v1.WorkflowService/PublishFlow'', UnaryUnary, ''workflow_pb2.PublishFlowRequest'', ''workflow_pb2.FlowPublication''),
     (''WithdrawFlow'', ''/dop.v1.WorkflowService/WithdrawFlow'', UnaryUnary, ''workflow_pb2.WithdrawFlowRequest'', ''empty_pb2.Empty''),
     (''GrantFlow'', ''/dop.v1.WorkflowService/GrantFlow'', UnaryUnary, ''workflow_pb2.GrantFlowRequest'', ''workflow_pb2.FlowGrant''),
     (''RevokeFlowGrant'', ''/dop.v1.WorkflowService/RevokeFlowGrant'', UnaryUnary, ''workflow_pb2.RevokeFlowGrantRequest'', ''empty_pb2.Empty''),
     (''DeriveFlow'', ''/dop.v1.WorkflowService/DeriveFlow'', UnaryUnary, ''workflow_pb2.DeriveFlowRequest'', ''workflow_pb2.Flow''),
     (''BumpFlowPin'', ''/dop.v1.WorkflowService/BumpFlowPin'', UnaryUnary, ''workflow_pb2.BumpFlowPinRequest'', ''empty_pb2.Empty''),
     (''ListFlowShares'', ''/dop.v1.WorkflowService/ListFlowShares'', UnaryUnary, ''workflow_pb2.ListFlowSharesRequest'', ''workflow_pb2.ListFlowSharesResponse''),
     (''ListFlowAdoptions'', ''/dop.v1.WorkflowService/ListFlowAdoptions'', UnaryUnary, ''workflow_pb2.ListFlowAdoptionsRequest'', ''workflow_pb2.ListFlowAdoptionsResponse'')]"

definition core_demand_static :: "stub_method list" where
  "core_demand_static = [
     (''ListDemands'', ''/dop.v1.DemandService/ListDemands'', UnaryUnary, ''demand_pb2.ListDemandsRequest'', ''demand_pb2.ListDemandsResponse''),
     (''GetDemand'', ''/dop.v1.DemandService/GetDemand'', UnaryUnary, ''demand_pb2.GetDemandRequest'', ''demand_pb2.Demand''),
     (''StartDemand'', ''/dop.v1.DemandService/StartDemand'', UnaryUnary, ''demand_pb2.StartDemandRequest'', ''demand_pb2.Demand''),
     (''AdvanceStage'', ''/dop.v1.DemandService/AdvanceStage'', UnaryUnary, ''demand_pb2.AdvanceStageRequest'', ''demand_pb2.DemandStage''),
     (''DecideGate'', ''/dop.v1.DemandService/DecideGate'', UnaryUnary, ''demand_pb2.DecideGateRequest'', ''demand_pb2.DemandStage''),
     (''ListThreads'', ''/dop.v1.DemandService/ListThreads'', UnaryUnary, ''demand_pb2.ListThreadsRequest'', ''demand_pb2.ListThreadsResponse''),
     (''CreateThread'', ''/dop.v1.DemandService/CreateThread'', UnaryUnary, ''demand_pb2.CreateThreadRequest'', ''demand_pb2.Thread''),
     (''PostMessage'', ''/dop.v1.DemandService/PostMessage'', UnaryUnary, ''demand_pb2.PostMessageRequest'', ''demand_pb2.Message''),
     (''PublishFinding'', ''/dop.v1.DemandService/PublishFinding'', UnaryUnary, ''demand_pb2.PublishFindingRequest'', ''demand_pb2.Finding''),
     (''ListFindings'', ''/dop.v1.DemandService/ListFindings'', UnaryUnary, ''demand_pb2.ListFindingsRequest'', ''demand_pb2.ListFindingsResponse''),
     (''WatchDemand'', ''/dop.v1.DemandService/WatchDemand'', UnaryStream, ''demand_pb2.WatchDemandRequest'', ''demand_pb2.DemandEvent'')]"

definition core_knowledge_static :: "stub_method list" where
  "core_knowledge_static = [
     (''BuildContextPackage'', ''/dop.v1.KnowledgeService/BuildContextPackage'', UnaryUnary, ''knowledge_pb2.BuildContextPackageRequest'', ''knowledge_pb2.ContextPackage''),
     (''SearchMemory'', ''/dop.v1.KnowledgeService/SearchMemory'', UnaryUnary, ''knowledge_pb2.SearchMemoryRequest'', ''knowledge_pb2.SearchMemoryResponse''),
     (''ReadIndex'', ''/dop.v1.KnowledgeService/ReadIndex'', UnaryUnary, ''knowledge_pb2.ReadIndexRequest'', ''knowledge_pb2.KnowledgeArtifact''),
     (''PutArtifact'', ''/dop.v1.KnowledgeService/PutArtifact'', UnaryUnary, ''knowledge_pb2.PutArtifactRequest'', ''knowledge_pb2.KnowledgeArtifact''),
     (''ListRules'', ''/dop.v1.KnowledgeService/ListRules'', UnaryUnary, ''knowledge_pb2.ListRulesRequest'', ''knowledge_pb2.ListRulesResponse'')]"

definition core_cost_static :: "stub_method list" where
  "core_cost_static = [
     (''RecordUsage'', ''/dop.v1.CostService/RecordUsage'', UnaryUnary, ''cost_pb2.RecordUsageRequest'', ''cost_pb2.RecordUsageResponse''),
     (''GetBudget'', ''/dop.v1.CostService/GetBudget'', UnaryUnary, ''cost_pb2.GetBudgetRequest'', ''cost_pb2.Budget''),
     (''SetBudget'', ''/dop.v1.CostService/SetBudget'', UnaryUnary, ''cost_pb2.SetBudgetRequest'', ''cost_pb2.Budget''),
     (''RouteModel'', ''/dop.v1.CostService/RouteModel'', UnaryUnary, ''cost_pb2.RouteModelRequest'', ''cost_pb2.RoutingDecision''),
     (''SummarizeCost'', ''/dop.v1.CostService/SummarizeCost'', UnaryUnary, ''cost_pb2.SummarizeCostRequest'', ''cost_pb2.SummarizeCostResponse'')]"

definition core_delivery_static :: "stub_method list" where
  "core_delivery_static = [
     (''ListPullRequests'', ''/dop.v1.DeliveryService/ListPullRequests'', UnaryUnary, ''delivery_pb2.ListPullRequestsRequest'', ''delivery_pb2.ListPullRequestsResponse''),
     (''GetMergeQueue'', ''/dop.v1.DeliveryService/GetMergeQueue'', UnaryUnary, ''delivery_pb2.GetMergeQueueRequest'', ''delivery_pb2.GetMergeQueueResponse''),
     (''EnqueueMerge'', ''/dop.v1.DeliveryService/EnqueueMerge'', UnaryUnary, ''delivery_pb2.EnqueueMergeRequest'', ''delivery_pb2.MergeQueueEntry''),
     (''ListDirectives'', ''/dop.v1.DeliveryService/ListDirectives'', UnaryUnary, ''delivery_pb2.ListDirectivesRequest'', ''delivery_pb2.ListDirectivesResponse''),
     (''DecideDirective'', ''/dop.v1.DeliveryService/DecideDirective'', UnaryUnary, ''delivery_pb2.DecideDirectiveRequest'', ''delivery_pb2.Directive'')]"

definition core_execution_static :: "stub_method list" where
  "core_execution_static = [
     (''ProvisionSandbox'', ''/dop.v1.ExecutionService/ProvisionSandbox'', UnaryUnary, ''execution_pb2.ProvisionSandboxRequest'', ''execution_pb2.Sandbox''),
     (''SuspendSandbox'', ''/dop.v1.ExecutionService/SuspendSandbox'', UnaryUnary, ''execution_pb2.SuspendSandboxRequest'', ''execution_pb2.Sandbox''),
     (''ResumeSandbox'', ''/dop.v1.ExecutionService/ResumeSandbox'', UnaryUnary, ''execution_pb2.ResumeSandboxRequest'', ''execution_pb2.Sandbox''),
     (''DestroySandbox'', ''/dop.v1.ExecutionService/DestroySandbox'', UnaryUnary, ''execution_pb2.DestroySandboxRequest'', ''execution_pb2.DestroySandboxResponse''),
     (''DescribeSandbox'', ''/dop.v1.ExecutionService/DescribeSandbox'', UnaryUnary, ''execution_pb2.DescribeSandboxRequest'', ''execution_pb2.Sandbox''),
     (''StreamLogs'', ''/dop.v1.ExecutionService/StreamLogs'', UnaryStream, ''execution_pb2.StreamLogsRequest'', ''execution_pb2.LogLine'')]"

definition core_event_static :: "stub_method list" where
  "core_event_static = [
     (''WatchEvents'', ''/dop.v1.EventService/WatchEvents'', UnaryStream, ''event_pb2.WatchEventsRequest'', ''event_pb2.EventEnvelope'')]"

definition core_attention_static :: "stub_method list" where
  "core_attention_static = [
     (''ListAttention'', ''/dop.v1.AttentionService/ListAttention'', UnaryUnary, ''attention_pb2.ListAttentionRequest'', ''attention_pb2.ListAttentionResponse''),
     (''WatchAttention'', ''/dop.v1.AttentionService/WatchAttention'', UnaryStream, ''attention_pb2.WatchAttentionRequest'', ''attention_pb2.AttentionUpdate'')]"

definition core_agent_static :: "stub_method list" where
  "core_agent_static = [
     (''RunTurn'', ''/dop.v1.AgentService/RunTurn'', UnaryUnary, ''agent_pb2.RunTurnRequest'', ''agent_pb2.TurnOutcome'')]"

definition core_agentmetrics_static :: "stub_method list" where
  "core_agentmetrics_static = [
     (''RecordTurns'', ''/dop.v1.AgentMetricsService/RecordTurns'', UnaryUnary, ''agentmetrics_pb2.RecordTurnsRequest'', ''agentmetrics_pb2.RecordTurnsResponse''),
     (''GetDemandConsumption'', ''/dop.v1.AgentMetricsService/GetDemandConsumption'', UnaryUnary, ''agentmetrics_pb2.GetDemandConsumptionRequest'', ''agentmetrics_pb2.DemandConsumption'')]"

definition edge_identity_static :: "stub_method list" where
  "edge_identity_static = [
     (''GetMe'', ''/dop.bff.v1.IdentityService/GetMe'', UnaryUnary, ''identity_pb2.GetMeRequest'', ''identity_pb2.Me''),
     (''ListAccounts'', ''/dop.bff.v1.IdentityService/ListAccounts'', UnaryUnary, ''identity_pb2.ListAccountsRequest'', ''identity_pb2.ListAccountsResponse''),
     (''ListMembers'', ''/dop.bff.v1.IdentityService/ListMembers'', UnaryUnary, ''identity_pb2.ListMembersRequest'', ''identity_pb2.ListMembersResponse''),
     (''CreateAccount'', ''/dop.bff.v1.IdentityService/CreateAccount'', UnaryUnary, ''identity_pb2.CreateAccountRequest'', ''identity_pb2.AccountSummary''),
     (''CreateInvite'', ''/dop.bff.v1.IdentityService/CreateInvite'', UnaryUnary, ''identity_pb2.CreateInviteRequest'', ''identity_pb2.InviteSummary''),
     (''ListInvites'', ''/dop.bff.v1.IdentityService/ListInvites'', UnaryUnary, ''identity_pb2.ListInvitesRequest'', ''identity_pb2.ListInvitesResponse''),
     (''GetInvite'', ''/dop.bff.v1.IdentityService/GetInvite'', UnaryUnary, ''identity_pb2.GetInviteRequest'', ''identity_pb2.InvitePreview''),
     (''AcceptInvite'', ''/dop.bff.v1.IdentityService/AcceptInvite'', UnaryUnary, ''identity_pb2.AcceptInviteRequest'', ''identity_pb2.AcceptInviteResponse''),
     (''RevokeInvite'', ''/dop.bff.v1.IdentityService/RevokeInvite'', UnaryUnary, ''identity_pb2.RevokeInviteRequest'', ''identity_pb2.InviteSummary''),
     (''UpdateMember'', ''/dop.bff.v1.IdentityService/UpdateMember'', UnaryUnary, ''identity_pb2.UpdateMemberRequest'', ''identity_pb2.MemberSummary''),
     (''UpdateProfile'', ''/dop.bff.v1.IdentityService/UpdateProfile'', UnaryUnary, ''identity_pb2.UpdateProfileRequest'', ''identity_pb2.Me''),
     (''GetOnboarding'', ''/dop.bff.v1.IdentityService/GetOnboarding'', UnaryUnary, ''identity_pb2.GetOnboardingRequest'', ''identity_pb2.OnboardingState''),
     (''RecordOnboardingStep'', ''/dop.bff.v1.IdentityService/RecordOnboardingStep'', UnaryUnary, ''identity_pb2.RecordOnboardingStepRequest'', ''identity_pb2.OnboardingState''),
     (''CompleteOnboarding'', ''/dop.bff.v1.IdentityService/CompleteOnboarding'', UnaryUnary, ''identity_pb2.CompleteOnboardingRequest'', ''identity_pb2.OnboardingState''),
     (''CheckHandle'', ''/dop.bff.v1.IdentityService/CheckHandle'', UnaryUnary, ''identity_pb2.CheckHandleRequest'', ''identity_pb2.HandleAvailability''),
     (''UpdatePersonalAccount'', ''/dop.bff.v1.IdentityService/UpdatePersonalAccount'', UnaryUnary, ''identity_pb2.UpdatePersonalAccountRequest'', ''identity_pb2.AccountSummary''),
     (''SetPlan'', ''/dop.bff.v1.IdentityService/SetPlan'', UnaryUnary, ''identity_pb2.SetPlanRequest'', ''identity_pb2.AccountSummary'')]"

definition edge_hierarchy_static :: "stub_method list" where
  "edge_hierarchy_static = [
     (''GetTree'', ''/dop.bff.v1.HierarchyService/GetTree'', UnaryUnary, ''hierarchy_pb2.GetTreeRequest'', ''hierarchy_pb2.GetTreeResponse''),
     (''ListWorkspaces'', ''/dop.bff.v1.HierarchyService/ListWorkspaces'', UnaryUnary, ''hierarchy_pb2.ListWorkspacesRequest'', ''hierarchy_pb2.ListWorkspacesResponse''),
     (''CreateWorkspace'', ''/dop.bff.v1.HierarchyService/CreateWorkspace'', UnaryUnary, ''hierarchy_pb2.CreateWorkspaceRequest'', ''hierarchy_pb2.Workspace''),
     (''ListProjects'', ''/dop.bff.v1.HierarchyService/ListProjects'', UnaryUnary, ''hierarchy_pb2.ListProjectsRequest'', ''hierarchy_pb2.ListProjectsResponse''),
     (''GetProject'', ''/dop.bff.v1.HierarchyService/GetProject'', UnaryUnary, ''hierarchy_pb2.GetProjectRequest'', ''hierarchy_pb2.Project''),
     (''CreateProject'', ''/dop.bff.v1.HierarchyService/CreateProject'', UnaryUnary, ''hierarchy_pb2.CreateProjectRequest'', ''hierarchy_pb2.Project''),
     (''BindTaskManager'', ''/dop.bff.v1.HierarchyService/BindTaskManager'', UnaryUnary, ''hierarchy_pb2.BindTaskManagerRequest'', ''hierarchy_pb2.Project'')]"

definition edge_resource_static :: "stub_method list" where
  "edge_resource_static = [
     (''ListResources'', ''/dop.bff.v1.ResourceService/ListResources'', UnaryUnary, ''resource_pb2.ListResourcesRequest'', ''resource_pb2.ListResourcesResponse''),
     (''GetResource'', ''/dop.bff.v1.ResourceService/GetResource'', UnaryUnary, ''resource_pb2.GetResourceRequest'', ''resource_pb2.Resource''),
     (''CreateResource'', ''/dop.bff.v1.ResourceService/CreateResource'', UnaryUnary, ''resource_pb2.CreateResourceRequest'', ''resource_pb2.Resource''),
     (''SetCredential'', ''/dop.bff.v1.ResourceService/SetCredential'', UnaryUnary, ''resource_pb2.SetCredentialRequest'', ''resource_pb2.Resource''),
     (''GrantResource'', ''/dop.bff.v1.ResourceService/GrantResource'', UnaryUnary, ''resource_pb2.GrantResourceRequest'', ''resource_pb2.Grant''),
     (''RevokeGrant'', ''/dop.bff.v1.ResourceService/RevokeGrant'', UnaryUnary, ''resource_pb2.RevokeGrantRequest'', ''resource_pb2.RevokeGrantResponse''),
     (''CheckResource'', ''/dop.bff.v1.ResourceService/CheckResource'', UnaryUnary, ''resource_pb2.CheckResourceRequest'', ''resource_pb2.CheckResult'')]"

definition edge_secondfactor_static :: "stub_method list" where
  "edge_secondfactor_static = [
     (''GetSecondFactorState'', ''/dop.bff.v1.SecondFactorService/GetSecondFactorState'', UnaryUnary, ''secondfactor_pb2.GetSecondFactorStateRequest'', ''secondfactor_pb2.GetSecondFactorStateResponse''),
     (''ListSecondFactors'', ''/dop.bff.v1.SecondFactorService/ListSecondFactors'', UnaryUnary, ''secondfactor_pb2.ListSecondFactorsRequest'', ''secondfactor_pb2.ListSecondFactorsResponse''),
     (''EnrollSecondFactor'', ''/dop.bff.v1.SecondFactorService/EnrollSecondFactor'', UnaryUnary, ''secondfactor_pb2.EnrollSecondFactorRequest'', ''secondfactor_pb2.EnrollSecondFactorResponse''),
     (''ConfirmSecondFactor'', ''/dop.bff.v1.SecondFactorService/ConfirmSecondFactor'', UnaryUnary, ''secondfactor_pb2.ConfirmSecondFactorRequest'', ''secondfactor_pb2.ConfirmSecondFactorResponse''),
     (''RevokeSecondFactor'', ''/dop.bff.v1.SecondFactorService/RevokeSecondFactor'', UnaryUnary, ''secondfactor_pb2.RevokeSecondFactorRequest'', ''secondfactor_pb2.SecondFactorSummary''),
     (''ChallengeSecondFactor'', ''/dop.bff.v1.SecondFactorService/ChallengeSecondFactor'', UnaryUnary, ''secondfactor_pb2.ChallengeSecondFactorRequest'', ''secondfactor_pb2.ChallengeSecondFactorResponse''),
     (''VerifySecondFactor'', ''/dop.bff.v1.SecondFactorService/VerifySecondFactor'', UnaryUnary, ''secondfactor_pb2.VerifySecondFactorRequest'', ''secondfactor_pb2.StepUpResult''),
     (''VerifyRecoveryCode'', ''/dop.bff.v1.SecondFactorService/VerifyRecoveryCode'', UnaryUnary, ''secondfactor_pb2.VerifyRecoveryCodeRequest'', ''secondfactor_pb2.StepUpResult''),
     (''RegenerateRecoveryCodes'', ''/dop.bff.v1.SecondFactorService/RegenerateRecoveryCodes'', UnaryUnary, ''secondfactor_pb2.RegenerateRecoveryCodesRequest'', ''secondfactor_pb2.RegenerateRecoveryCodesResponse'')]"

definition edge_runtime_static :: "stub_method list" where
  "edge_runtime_static = [
     (''RunTurn'', ''/dop.bff.v1.RuntimeService/RunTurn'', UnaryUnary, ''runtime_pb2.RunTurnRequest'', ''runtime_pb2.TurnOutcome'')]"

definition edge_attention_static :: "stub_method list" where
  "edge_attention_static = [
     (''ListAttention'', ''/dop.bff.v1.AttentionService/ListAttention'', UnaryUnary, ''attention_pb2.ListAttentionRequest'', ''attention_pb2.AttentionBox''),
     (''WatchAttention'', ''/dop.bff.v1.AttentionService/WatchAttention'', UnaryStream, ''attention_pb2.WatchAttentionRequest'', ''attention_pb2.AttentionUpdate'')]"

definition edge_catalog_static :: "stub_method list" where
  "edge_catalog_static = [
     (''ListPlans'', ''/dop.bff.v1.CatalogService/ListPlans'', UnaryUnary, ''catalog_pb2.ListPlansRequest'', ''catalog_pb2.ListPlansResponse''),
     (''ListProviders'', ''/dop.bff.v1.CatalogService/ListProviders'', UnaryUnary, ''catalog_pb2.ListProvidersRequest'', ''catalog_pb2.ListProvidersResponse'')]"

definition edge_cost_static :: "stub_method list" where
  "edge_cost_static = [
     (''RouteModel'', ''/dop.bff.v1.CostService/RouteModel'', UnaryUnary, ''cost_pb2.RouteModelRequest'', ''cost_pb2.RoutingDecision''),
     (''GetBudget'', ''/dop.bff.v1.CostService/GetBudget'', UnaryUnary, ''cost_pb2.GetBudgetRequest'', ''cost_pb2.BudgetView''),
     (''SetBudget'', ''/dop.bff.v1.CostService/SetBudget'', UnaryUnary, ''cost_pb2.SetBudgetRequest'', ''cost_pb2.BudgetView''),
     (''RecordUsage'', ''/dop.bff.v1.CostService/RecordUsage'', UnaryUnary, ''cost_pb2.RecordUsageRequest'', ''cost_pb2.RecordUsageOutcome''),
     (''SummarizeCost'', ''/dop.bff.v1.CostService/SummarizeCost'', UnaryUnary, ''cost_pb2.SummarizeCostRequest'', ''cost_pb2.CostSummary'')]"

definition edge_delivery_static :: "stub_method list" where
  "edge_delivery_static = [
     (''GetDeliveryBoard'', ''/dop.bff.v1.DeliveryService/GetDeliveryBoard'', UnaryUnary, ''delivery_pb2.GetDeliveryBoardRequest'', ''delivery_pb2.DeliveryBoard''),
     (''ListPullRequests'', ''/dop.bff.v1.DeliveryService/ListPullRequests'', UnaryUnary, ''delivery_pb2.ListPullRequestsRequest'', ''delivery_pb2.ListPullRequestsResponse''),
     (''GetMergeQueue'', ''/dop.bff.v1.DeliveryService/GetMergeQueue'', UnaryUnary, ''delivery_pb2.GetMergeQueueRequest'', ''delivery_pb2.GetMergeQueueResponse''),
     (''EnqueueMerge'', ''/dop.bff.v1.DeliveryService/EnqueueMerge'', UnaryUnary, ''delivery_pb2.EnqueueMergeRequest'', ''delivery_pb2.EnqueueMergeResponse''),
     (''ListDirectives'', ''/dop.bff.v1.DeliveryService/ListDirectives'', UnaryUnary, ''delivery_pb2.ListDirectivesRequest'', ''delivery_pb2.ListDirectivesResponse''),
     (''DecideDirective'', ''/dop.bff.v1.DeliveryService/DecideDirective'', UnaryUnary, ''delivery_pb2.DecideDirectiveRequest'', ''delivery_pb2.Directive'')]"

definition edge_demand_static :: "stub_method list" where
  "edge_demand_static = [
     (''ListDemands'', ''/dop.bff.v1.DemandService/ListDemands'', UnaryUnary, ''demand_pb2.ListDemandsRequest'', ''demand_pb2.ListDemandsResponse''),
     (''GetDemand'', ''/dop.bff.v1.DemandService/GetDemand'', UnaryUnary, ''demand_pb2.GetDemandRequest'', ''demand_pb2.Demand''),
     (''GetDemandCockpit'', ''/dop.bff.v1.DemandService/GetDemandCockpit'', UnaryUnary, ''demand_pb2.GetDemandCockpitRequest'', ''demand_pb2.DemandCockpit''),
     (''StartDemand'', ''/dop.bff.v1.DemandService/StartDemand'', UnaryUnary, ''demand_pb2.StartDemandRequest'', ''demand_pb2.Demand''),
     (''AdvanceStage'', ''/dop.bff.v1.DemandService/AdvanceStage'', UnaryUnary, ''demand_pb2.AdvanceStageRequest'', ''demand_pb2.Stage''),
     (''DecideGate'', ''/dop.bff.v1.DemandService/DecideGate'', UnaryUnary, ''demand_pb2.DecideGateRequest'', ''demand_pb2.Stage''),
     (''ListThreads'', ''/dop.bff.v1.DemandService/ListThreads'', UnaryUnary, ''demand_pb2.ListThreadsRequest'', ''demand_pb2.ListThreadsResponse''),
     (''CreateThread'', ''/dop.bff.v1.DemandService/CreateThread'', UnaryUnary, ''demand_pb2.CreateThreadRequest'', ''demand_pb2.Thread''),
     (''PostMessage'', ''/dop.bff.v1.DemandService/PostMessage'', UnaryUnary, ''demand_pb2.PostMessageRequest'', ''demand_pb2.Message''),
     (''PublishFinding'', ''/dop.bff.v1.DemandService/PublishFinding'', UnaryUnary, ''demand_pb2.PublishFindingRequest'', ''demand_pb2.Finding'')]"

definition edge_execution_static :: "stub_method list" where
  "edge_execution_static = [
     (''ProvisionSandbox'', ''/dop.bff.v1.ExecutionService/ProvisionSandbox'', UnaryUnary, ''execution_pb2.ProvisionSandboxRequest'', ''execution_pb2.Sandbox''),
     (''DescribeSandbox'', ''/dop.bff.v1.ExecutionService/DescribeSandbox'', UnaryUnary, ''execution_pb2.DescribeSandboxRequest'', ''execution_pb2.Sandbox''),
     (''SuspendSandbox'', ''/dop.bff.v1.ExecutionService/SuspendSandbox'', UnaryUnary, ''execution_pb2.SuspendSandboxRequest'', ''execution_pb2.Sandbox''),
     (''ResumeSandbox'', ''/dop.bff.v1.ExecutionService/ResumeSandbox'', UnaryUnary, ''execution_pb2.ResumeSandboxRequest'', ''execution_pb2.Sandbox''),
     (''DestroySandbox'', ''/dop.bff.v1.ExecutionService/DestroySandbox'', UnaryUnary, ''execution_pb2.DestroySandboxRequest'', ''execution_pb2.DestroySandboxResponse'')]"

definition edge_knowledge_static :: "stub_method list" where
  "edge_knowledge_static = [
     (''GetContextPackage'', ''/dop.bff.v1.KnowledgeService/GetContextPackage'', UnaryUnary, ''knowledge_pb2.GetContextPackageRequest'', ''knowledge_pb2.ContextPackage''),
     (''SearchMemory'', ''/dop.bff.v1.KnowledgeService/SearchMemory'', UnaryUnary, ''knowledge_pb2.SearchMemoryRequest'', ''knowledge_pb2.SearchMemoryResponse''),
     (''ReadIndex'', ''/dop.bff.v1.KnowledgeService/ReadIndex'', UnaryUnary, ''knowledge_pb2.ReadIndexRequest'', ''knowledge_pb2.KnowledgeArtifact''),
     (''PutArtifact'', ''/dop.bff.v1.KnowledgeService/PutArtifact'', UnaryUnary, ''knowledge_pb2.PutArtifactRequest'', ''knowledge_pb2.KnowledgeArtifact''),
     (''ListRules'', ''/dop.bff.v1.KnowledgeService/ListRules'', UnaryUnary, ''knowledge_pb2.ListRulesRequest'', ''knowledge_pb2.ListRulesResponse'')]"

definition edge_stream_static :: "stub_method list" where
  "edge_stream_static = [
     (''WatchEvents'', ''/dop.bff.v1.StreamService/WatchEvents'', UnaryStream, ''stream_pb2.WatchEventsRequest'', ''stream_pb2.StreamEvent''),
     (''WatchDemand'', ''/dop.bff.v1.StreamService/WatchDemand'', UnaryStream, ''stream_pb2.WatchDemandRequest'', ''stream_pb2.StreamEvent''),
     (''TailLogs'', ''/dop.bff.v1.StreamService/TailLogs'', UnaryStream, ''stream_pb2.TailLogsRequest'', ''stream_pb2.LogLine'')]"

definition edge_workflow_static :: "stub_method list" where
  "edge_workflow_static = [
     (''ListFlows'', ''/dop.bff.v1.WorkflowService/ListFlows'', UnaryUnary, ''workflow_pb2.ListFlowsRequest'', ''workflow_pb2.ListFlowsResponse''),
     (''GetFlow'', ''/dop.bff.v1.WorkflowService/GetFlow'', UnaryUnary, ''workflow_pb2.GetFlowRequest'', ''workflow_pb2.Flow''),
     (''CreateFlow'', ''/dop.bff.v1.WorkflowService/CreateFlow'', UnaryUnary, ''workflow_pb2.CreateFlowRequest'', ''workflow_pb2.Flow''),
     (''UpdateFlow'', ''/dop.bff.v1.WorkflowService/UpdateFlow'', UnaryUnary, ''workflow_pb2.UpdateFlowRequest'', ''workflow_pb2.Flow''),
     (''ValidateFlow'', ''/dop.bff.v1.WorkflowService/ValidateFlow'', UnaryUnary, ''workflow_pb2.ValidateFlowRequest'', ''workflow_pb2.ValidateFlowResponse''),
     (''ResolveFlow'', ''/dop.bff.v1.WorkflowService/ResolveFlow'', UnaryUnary, ''workflow_pb2.ResolveFlowRequest'', ''workflow_pb2.EffectiveFlow''),
     (''PromoteFlow'', ''/dop.bff.v1.WorkflowService/PromoteFlow'', UnaryUnary, ''workflow_pb2.PromoteFlowRequest'', ''workflow_pb2.Flow'')]"

section \<open>Three faces, one contract\<close>

definition static_apis :: "(stub_method list \<times> stub_method list) list" where
  "static_apis = [
     (core_identity_static, IdentityServiceStub),
     (core_catalog_static, CatalogServiceStub),
     (core_resource_static, ResourceServiceStub),
     (core_secondfactor_static, SecondFactorServiceStub),
     (core_hierarchy_static, HierarchyServiceStub),
     (core_workflow_static, WorkflowServiceStub),
     (core_demand_static, DemandServiceStub),
     (core_knowledge_static, KnowledgeServiceStub),
     (core_cost_static, CostServiceStub),
     (core_delivery_static, DeliveryServiceStub),
     (core_execution_static, ExecutionServiceStub),
     (core_event_static, EventServiceStub),
     (core_attention_static, AttentionServiceStub),
     (core_agent_static, AgentServiceStub),
     (core_agentmetrics_static, AgentMetricsServiceStub),
     (edge_identity_static, identity_client),
     (edge_hierarchy_static, hierarchy_client),
     (edge_resource_static, resource_client),
     (edge_secondfactor_static, secondfactor_client),
     (edge_runtime_static, runtime_client),
     (edge_attention_static, attention_client),
     (edge_catalog_static, catalog_client),
     (edge_cost_static, cost_client),
     (edge_delivery_static, delivery_client),
     (edge_demand_static, demand_client),
     (edge_execution_static, execution_client),
     (edge_knowledge_static, knowledge_client),
     (edge_stream_static, stream_client),
     (edge_workflow_static, workflow_client)]"

lemma static_agrees: "list_all (\<lambda>(static, stub). static = stub) static_apis"
  by code_simp

end
