(* ===== verification/Identity_Ports.thy ===== *)
theory Identity_Ports
  imports Identity
begin

text \<open>
  The two ports of identity, \<^verbatim>\<open>app/grpcapi/identity.py\<close> and the bodies \<^verbatim>\<open>app/routers/identity.py\<close> checks:
  one adapter per operation over the same use cases. An instant crosses as the text the use case gives, read back
  by the gRPC port.
\<close>

section \<open>Bodies\<close>

text \<open>What building a body checks, for both ports; a role or a level that is absent has its default.\<close>

definition StepUpdate :: "string \<Rightarrow> ('w, string) io" where
  "StepUpdate status = (if status \<in> {''done'', ''skipped''} then ret status else raise (ValidationError ''status''))"

definition PlanChoice :: "string \<Rightarrow> ('w, string) io" where
  "PlanChoice plan_key = (if plan_key = [] then raise (ValidationError ''plan_key'') else ret plan_key)"

definition NewAccount :: "string \<Rightarrow> string \<Rightarrow> string \<Rightarrow> ('w, new_account) io" where
  "NewAccount handle display_name legal_id =
     (if handle = [] then raise (ValidationError ''handle'')
      else if display_name = [] then raise (ValidationError ''display_name'')
      else ret \<lparr>na_handle = handle, na_display_name = display_name, na_legal_id = legal_id\<rparr>)"

definition GrantSpec :: "string \<times> string option \<Rightarrow> grant_spec" where
  "GrantSpec g = \<lparr>gs_resource_id = fst g, gs_level = (case snd g of None \<Rightarrow> ''use'' | Some l \<Rightarrow> l)\<rparr>"

definition NewInvite :: "string \<Rightarrow> string option \<Rightarrow> grant_spec list \<Rightarrow> ('w, new_invite) io" where
  "NewInvite email role gs =
     (if length email < 3 then raise (ValidationError ''email'')
      else ret \<lparr>ni_email = email, ni_role = (case role of None \<Rightarrow> ''developer'' | Some r \<Rightarrow> r), ni_grants = gs\<rparr>)"

section \<open>REST\<close>

definition rest_record_step :: "'w env \<Rightarrow> 'w identity_stub \<Rightarrow> string \<Rightarrow> string \<Rightarrow> ('w, onboarding_state) io" where
  "rest_record_step env st step status = bnd (StepUpdate status) (record_step env st step)"

definition rest_set_plan :: "'w env \<Rightarrow> 'w identity_stub \<Rightarrow> string \<Rightarrow> ('w, account_summary) io" where
  "rest_set_plan env st plan_key = bnd (PlanChoice plan_key) (set_plan env st)"

definition rest_create_account :: "'w env \<Rightarrow> 'w identity_stub \<Rightarrow> string \<Rightarrow> string \<Rightarrow> string \<Rightarrow> ('w, account_summary) io" where
  "rest_create_account env st handle display_name legal_id =
     bnd (NewAccount handle display_name legal_id) (\<lambda>body. create_account env st body [])"

definition rest_create_invite :: "'w env \<Rightarrow> 'w identity_stub \<Rightarrow> string \<Rightarrow> string option
    \<Rightarrow> (string \<times> string option) list \<Rightarrow> ('w, invite_summary) io" where
  "rest_create_invite env st email role gs =
     bnd (NewInvite email role (map GrantSpec gs)) (\<lambda>body. create_invite env st body [])"

definition rest_accept_invite :: "'w env \<Rightarrow> 'w identity_stub \<Rightarrow> string \<Rightarrow> ('w, accepted_invite) io" where
  "rest_accept_invite env st invite_id = accept_invite env st invite_id []"

definition rest_remove_member :: "'w env \<Rightarrow> 'w identity_stub \<Rightarrow> string \<Rightarrow> ('w, unit) io" where
  "rest_remove_member env st membership_id = mapv (\<lambda>_. ()) (remove_member env st membership_id)"

section \<open>The gRPC messages\<close>

record bff_me =
  bm_subject :: string
  bm_user_id :: string
  bm_email :: string
  bm_name :: string
  bm_providers :: "string list"
  bm_account_id :: string
  bm_role :: int
  bm_avatar_url :: string
  bm_locale :: string
  bm_timezone :: string
  bm_phone :: string
  bm_phone_verified :: bool
  bm_email_verified :: bool
  bm_birth_date :: string
  bm_onboarded :: bool
  bm_phone_whatsapp :: bool

record bff_account =
  ba_id :: string
  ba_kind :: int
  ba_handle :: string
  ba_display_name :: string
  ba_role :: int
  ba_plan_key :: string

record bff_member =
  bf_id :: string
  bf_user_id :: string
  bf_role :: int

record bff_invite =
  bi_id :: string
  bi_email :: string
  bi_role :: int
  bi_status :: int
  bi_expires_at :: "timestamp option"

record bff_preview =
  bv_id :: string
  bv_account_name :: string
  bv_role :: int
  bv_status :: int
  bv_usable :: bool
  bv_expires_at :: "timestamp option"

definition bff_me_of :: "me_response \<Rightarrow> bff_me" where
  "bff_me_of r = \<lparr>bm_subject = me_subject r, bm_user_id = me_user_id r, bm_email = me_email r, bm_name = me_name r,
     bm_providers = me_providers r, bm_account_id = me_account_id r, bm_role = role_enum (me_role r),
     bm_avatar_url = me_avatar_url r, bm_locale = me_locale r, bm_timezone = me_timezone r, bm_phone = me_phone r,
     bm_phone_verified = me_phone_verified r, bm_email_verified = me_email_verified r,
     bm_birth_date = me_birth_date r, bm_onboarded = me_onboarded r, bm_phone_whatsapp = me_phone_whatsapp r\<rparr>"

definition bff_account_of :: "account_summary \<Rightarrow> bff_account" where
  "bff_account_of a = \<lparr>ba_id = as_id a, ba_kind = kind_enum (as_kind a), ba_handle = as_handle a,
     ba_display_name = as_display_name a, ba_role = role_enum (as_role a), ba_plan_key = as_plan_key a\<rparr>"

definition bff_member_of :: "member_summary \<Rightarrow> bff_member" where
  "bff_member_of m = \<lparr>bf_id = ms_id m, bf_user_id = ms_user_id m, bf_role = role_enum (ms_role m)\<rparr>"

definition bff_invite_of :: "invite_summary \<Rightarrow> bff_invite" where
  "bff_invite_of i = \<lparr>bi_id = is_id i, bi_email = is_email i, bi_role = role_enum (is_role i),
     bi_status = status_enum (is_status i),
     bi_expires_at = grpc_ts (is_expires_at i)\<rparr>"

definition bff_onboarding_of :: "onboarding_state \<Rightarrow> onboarding_state" where
  "bff_onboarding_of st = \<lparr>os_steps = os_steps st, os_current = os_current st, os_complete = os_complete st,
     os_email_verified = os_email_verified st, os_phone = os_phone st, os_phone_verified = os_phone_verified st,
     os_code_connections = os_code_connections st, os_task_connections = os_task_connections st,
     os_plan_key = os_plan_key st, os_personal_account_id = os_personal_account_id st\<rparr>"

section \<open>The gRPC servicer\<close>

definition grpc_GetMe :: "'w env \<Rightarrow> 'w identity_stub \<Rightarrow> ('w, bff_me) io" where
  "grpc_GetMe env st = mapv bff_me_of (me env st)"

text \<open>A field of the request that is not set is absent from the patch.\<close>

definition grpc_UpdateProfile :: "'w env \<Rightarrow> 'w identity_stub \<Rightarrow> profile_patch \<Rightarrow> ('w, bff_me) io" where
  "grpc_UpdateProfile env st q = mapv bff_me_of (update_profile env st
     \<lparr>pp_name = pp_name q, pp_birth_date = pp_birth_date q, pp_locale = pp_locale q, pp_timezone = pp_timezone q,
      pp_phone = pp_phone q, pp_phone_whatsapp = pp_phone_whatsapp q\<rparr>)"

definition grpc_GetOnboarding :: "'w env \<Rightarrow> 'w identity_stub \<Rightarrow> ('w, onboarding_state) io" where
  "grpc_GetOnboarding env st = mapv bff_onboarding_of (onboarding env st)"

definition grpc_RecordOnboardingStep :: "'w env \<Rightarrow> 'w identity_stub \<Rightarrow> string \<Rightarrow> string \<Rightarrow> ('w, onboarding_state) io" where
  "grpc_RecordOnboardingStep env st step status =
     bnd (StepUpdate status) (\<lambda>x. mapv bff_onboarding_of (record_step env st step x))"

definition grpc_CompleteOnboarding :: "'w env \<Rightarrow> 'w identity_stub \<Rightarrow> ('w, onboarding_state) io" where
  "grpc_CompleteOnboarding env st = mapv bff_onboarding_of (complete_onboarding env st)"

definition grpc_CheckHandle :: "'w env \<Rightarrow> 'w identity_stub \<Rightarrow> string \<Rightarrow> ('w, handle_availability) io" where
  "grpc_CheckHandle env st handle =
     mapv (\<lambda>h. \<lparr>ha_handle = ha_handle h, ha_available = ha_available h, ha_suggestion = ha_suggestion h\<rparr>)
       (handle_availability env st handle)"

definition grpc_UpdatePersonalAccount :: "'w env \<Rightarrow> 'w identity_stub \<Rightarrow> string \<Rightarrow> string \<Rightarrow> ('w, bff_account) io" where
  "grpc_UpdatePersonalAccount env st handle display_name =
     mapv bff_account_of (update_personal_account env st (handle, display_name))"

definition grpc_SetPlan :: "'w env \<Rightarrow> 'w identity_stub \<Rightarrow> string \<Rightarrow> ('w, bff_account) io" where
  "grpc_SetPlan env st plan_key = bnd (PlanChoice plan_key) (\<lambda>k. mapv bff_account_of (set_plan env st k))"

definition grpc_ListAccounts :: "'w env \<Rightarrow> 'w identity_stub \<Rightarrow> ('w, bff_account list) io" where
  "grpc_ListAccounts env st = mapv (map bff_account_of) (list_accounts env st)"

definition grpc_ListMembers :: "'w env \<Rightarrow> 'w identity_stub \<Rightarrow> ('w, bff_member list) io" where
  "grpc_ListMembers env st = mapv (map bff_member_of) (list_members env st)"

definition grpc_ListInvites :: "'w env \<Rightarrow> 'w identity_stub \<Rightarrow> ('w, bff_invite list) io" where
  "grpc_ListInvites env st = mapv (map bff_invite_of) (list_invites env st)"

definition grpc_GetInvite :: "'w env \<Rightarrow> 'w identity_stub \<Rightarrow> string \<Rightarrow> ('w, bff_preview) io" where
  "grpc_GetInvite env st invite_id = mapv (\<lambda>p. \<lparr>bv_id = ip_id p, bv_account_name = ip_account_name p,
     bv_role = role_enum (ip_role p), bv_status = status_enum (ip_status p), bv_usable = ip_usable p,
     bv_expires_at = grpc_ts (ip_expires_at p)\<rparr>) (get_invite env st invite_id)"

text \<open>The message of an acceptance: the account's id and name, its other fields unset.\<close>

definition grpc_AcceptInvite :: "'w env \<Rightarrow> 'w identity_stub \<Rightarrow> string \<Rightarrow> ('w, bff_account \<times> int) io" where
  "grpc_AcceptInvite env st invite_id = mapv (\<lambda>r. (\<lparr>ba_id = ai_account_id r, ba_kind = 0, ba_handle = [],
     ba_display_name = ai_account_name r, ba_role = 0, ba_plan_key = []\<rparr>, role_enum (ai_role r)))
     (accept_invite env st invite_id [])"

definition grpc_RevokeInvite :: "'w env \<Rightarrow> 'w identity_stub \<Rightarrow> string \<Rightarrow> ('w, bff_invite) io" where
  "grpc_RevokeInvite env st invite_id = mapv bff_invite_of (revoke_invite env st invite_id)"

definition grpc_UpdateMember :: "'w env \<Rightarrow> 'w identity_stub \<Rightarrow> string \<Rightarrow> int \<Rightarrow> ('w, bff_member) io" where
  "grpc_UpdateMember env st membership_id role =
     mapv bff_member_of (update_member env st membership_id (bff_role_name role))"

definition grpc_CreateAccount :: "'w env \<Rightarrow> 'w identity_stub \<Rightarrow> string \<Rightarrow> string \<Rightarrow> string \<Rightarrow> string
    \<Rightarrow> ('w, bff_account) io" where
  "grpc_CreateAccount env st handle display_name legal_id key =
     bnd (NewAccount handle display_name legal_id) (\<lambda>body. mapv bff_account_of (create_account env st body key))"

text \<open>A role with no name is omitted from the body; the expiry is not copied into the message.\<close>

definition grpc_CreateInvite :: "'w env \<Rightarrow> 'w identity_stub \<Rightarrow> string \<Rightarrow> int \<Rightarrow> (string \<times> string) list \<Rightarrow> string
    \<Rightarrow> ('w, bff_invite) io" where
  "grpc_CreateInvite env st email role gs key =
     bnd (NewInvite email (if bff_role_name role = [] then None else Some (bff_role_name role))
            (map (\<lambda>(r, l). \<lparr>gs_resource_id = r, gs_level = l\<rparr>) gs))
       (\<lambda>body. mapv (\<lambda>r. \<lparr>bi_id = is_id r, bi_email = is_email r, bi_role = role_enum (is_role r),
            bi_status = status_enum (is_status r), bi_expires_at = None\<rparr>)
         (create_invite env st body key))"

section \<open>An invite is the same on either port\<close>

lemma NewInvite_run: "NewInvite email role gs s =
    (if length email < 3 then Inl (ValidationError ''email'')
     else Inr \<lparr>ni_email = email, ni_role = (case role of None \<Rightarrow> ''developer'' | Some r \<Rightarrow> r), ni_grants = gs\<rparr>, s)"
  by (simp add: NewInvite_def)

lemma invited_role:
  "role_value (if bff_role_name n = [] then ''developer'' else bff_role_name n) = (if n \<in> {1, 2, 3, 4} then n else 3)"
proof -
  have k: "known_number ROLE_TO_NAME n \<longleftrightarrow> n \<in> {1, 2, 3, 4}" by (simp add: known_number_def ROLE_TO_NAME_def)
  have "bff_role_name n = role_name n" by (simp add: bff_role_name_def role_name_def bff_roles.same_name)
  moreover have "role_name n = [] \<longleftrightarrow> n \<notin> {1, 2, 3, 4}" by (simp only: role_name_def roles.name_empty_iff k)
  moreover have "role_value ''developer'' = 3" by code_simp
  ultimately show ?thesis using role_value_name [of n] k by (cases "n \<in> {1, 2, 3, 4}") (simp_all only: if_True if_False simp_thms)
qed

text \<open>
  C22. An invite is the same on either port. Asked for over gRPC it is, run for run, the one REST would
  have asked for with the role's name, or with no role where the number names none, but for the
  expiry, which the message loses. When it is created, the caller manages the account, the address is
  not a stub, and the core was sent the address, each grant as given, the key, and the role's number,
  a developer's where the client named none: a number outside the vocabulary is never promoted.
\<close>

theorem invites_alike:
  "grpc_CreateInvite env st email n gs [] s =
     mapv (\<lambda>r. (bff_invite_of r)\<lparr>bi_expires_at := None\<rparr>)
       (rest_create_invite env st email (if bff_role_name n = [] then None else Some (bff_role_name n))
         (map (\<lambda>(r, l). (r, Some l)) gs)) s
   \<and> (\<forall>x s'. grpc_CreateInvite env st email n gs key s = (Inr x, s') \<longrightarrow>
      3 \<le> length email
      \<and> (\<exists>ctx k resp s1 s2. auth_ctx s = Some ctx \<and> may_call managers ctx \<and> keyed env key s k
         \<and> asked env (CreateInvite st) \<lparr>iv_email = email, iv_role = (if n \<in> {1, 2, 3, 4} then n else 3),
              iv_grants = gs, iv_idempotency_key = k\<rparr> s1 resp s2
         \<and> auth_ctx s1 = auth_ctx s \<and> x = (bff_invite_of (invite_of resp))\<lparr>bi_expires_at := None\<rparr>))"
proof (intro conjI allI impI)
  have same: "map GrantSpec (map (\<lambda>(r, l). (r, Some l)) gs) = map (\<lambda>(r, l). \<lparr>gs_resource_id = r, gs_level = l\<rparr>) gs"
    by (auto simp: GrantSpec_def)
  show "grpc_CreateInvite env st email n gs [] s =
     mapv (\<lambda>r. (bff_invite_of r)\<lparr>bi_expires_at := None\<rparr>)
       (rest_create_invite env st email (if bff_role_name n = [] then None else Some (bff_role_name n))
         (map (\<lambda>(r, l). (r, Some l)) gs)) s"
    by (simp add: grpc_CreateInvite_def rest_create_invite_def bnd_run mapv_run NewInvite_run bff_invite_of_def same
        del: map_map)
next
  fix x s' assume a: "grpc_CreateInvite env st email n gs key s = (Inr x, s')"
  then show "3 \<le> length email" by (auto simp: grpc_CreateInvite_def bnd_run NewInvite_run split: if_splits)
  let ?b = "\<lparr>ni_email = email, ni_role = (if bff_role_name n = [] then ''developer'' else bff_role_name n),
      ni_grants = map (\<lambda>(r, l). \<lparr>gs_resource_id = r, gs_level = l\<rparr>) gs\<rparr>"
  from a obtain i where i: "create_invite env st ?b key s = (Inr i, s')"
    and x: "x = (bff_invite_of i)\<lparr>bi_expires_at := None\<rparr>"
    by (auto simp: grpc_CreateInvite_def bnd_Inr NewInvite_run mapv_Inr bff_invite_of_def split: if_splits)
  have g: "map (\<lambda>g. (gs_resource_id g, gs_level g)) (ni_grants ?b) = gs" by (auto simp: comp_def split_def)
  from write_Inr [OF i [unfolded create_invite_def]] obtain ctx k resp s1 s2 where
    "auth_ctx s = Some ctx" "may_call managers ctx" "keyed env key s k" "auth_ctx s1 = auth_ctx s" "i = invite_of resp"
    and "asked env (CreateInvite st) \<lparr>iv_email = ni_email ?b, iv_role = role_value (ni_role ?b),
        iv_grants = map (\<lambda>g. (gs_resource_id g, gs_level g)) (ni_grants ?b), iv_idempotency_key = k\<rparr> s1 resp s2"
    by (elim exE conjE) (rule that; assumption)
  moreover have "role_value (ni_role ?b) = (if n \<in> {1, 2, 3, 4} then n else 3)"
    using invited_role [of n] by simp
  ultimately show "\<exists>ctx k resp s1 s2. auth_ctx s = Some ctx \<and> may_call managers ctx \<and> keyed env key s k
         \<and> asked env (CreateInvite st) \<lparr>iv_email = email, iv_role = (if n \<in> {1, 2, 3, 4} then n else 3),
              iv_grants = gs, iv_idempotency_key = k\<rparr> s1 resp s2
         \<and> auth_ctx s1 = auth_ctx s \<and> x = (bff_invite_of (invite_of resp))\<lparr>bi_expires_at := None\<rparr>"
    using x g by (simp only: new_invite.simps) blast
qed

theorem invites_alike_witness:
  "\<exists>x s'. grpc_CreateInvite demo_env demo_identity ''ana@dop.t'' 9 [] ''k-1''
      (demo_rt (Some (demo_ctx ''acc-1'' ''owner''))) = (Inr x, s') \<and> bi_expires_at x = None"
proof -
  let ?s = "demo_rt (Some (demo_ctx ''acc-1'' ''owner''))"
  have "\<exists>x s'. grpc_CreateInvite demo_env demo_identity ''ana@dop.t'' 9 [] ''k-1'' ?s = (Inr x, s')"
    by (simp add: grpc_CreateInvite_def NewInvite_def create_invite_def io_simps demo_run unary_def unary_by_def
        core_metadata_def idempotency_def demo_identity_def managers_def)
  then obtain x s' where run: "grpc_CreateInvite demo_env demo_identity ''ana@dop.t'' 9 [] ''k-1'' ?s = (Inr x, s')" by blast
  from invites_alike [of demo_env demo_identity "''ana@dop.t''" 9 "[]" ?s "''k-1''"] run
  have "\<exists>resp. x = (bff_invite_of (invite_of resp))\<lparr>bi_expires_at := None\<rparr>" by blast
  with run show ?thesis by auto
qed

end
