(* ===== verification/Work_Ports.thy ===== *)
theory Work_Ports
  imports Delivery Demand Cost Hierarchy Execution
begin

text \<open>
  The rest of the two ports of the work cycle: the gRPC servicers of \<^verbatim>\<open>app/grpcapi/\<close> for delivery,
  demand, cost, hierarchy, workflow and execution beyond the handlers the components' own theories
  have, and the REST handlers of \<^verbatim>\<open>app/routers/\<close> whose bodies are checked. A message of the edge that
  only repeats the model's fields is the model's own record.
\<close>

section \<open>Delivery\<close>

definition bff_STATE_BY_ENUM :: "(int \<times> string) list" where
  "bff_STATE_BY_ENUM = [(1, ''queued''), (2, ''rebasing''), (3, ''verifying''), (4, ''merged''), (5, ''conflict'')]"

definition bff_DIRECTIVE_BY_ENUM :: "(int \<times> string) list" where
  "bff_DIRECTIVE_BY_ENUM = [(1, ''cherry_pick''), (2, ''merge_order''), (3, ''file_partition''), (4, ''cross_verify'')]"

interpretation queue_states: shared_vocabulary Delivery.STATE_BY_ENUM bff_STATE_BY_ENUM
  by unfold_locales (simp_all add: Delivery.STATE_BY_ENUM_def bff_STATE_BY_ENUM_def)

interpretation directives: shared_vocabulary DIRECTIVE_BY_ENUM bff_DIRECTIVE_BY_ENUM
  by unfold_locales (simp_all add: DIRECTIVE_BY_ENUM_def bff_DIRECTIVE_BY_ENUM_def)

definition bff_pull_request :: "pull_request \<Rightarrow> pull_request" where
  "bff_pull_request p = \<lparr>pr_id = pr_id p, pr_demand_id = pr_demand_id p, pr_repo = pr_repo p,
     pr_source_branch = pr_source_branch p, pr_target_branch = pr_target_branch p, pr_url = pr_url p,
     pr_merged = pr_merged p, pr_has_conflict = pr_has_conflict p,
     pr_reviewers = map (\<lambda>r. \<lparr>rv_name = rv_name r, rv_initials = rv_initials r, rv_status = rv_status r\<rparr>) (pr_reviewers p),
     pr_pending_reviews = pr_pending_reviews p\<rparr>"

definition bff_entry :: "merge_queue_entry \<Rightarrow> core_queue_entry" where
  "bff_entry e = \<lparr>cn_id = qe_id e, cn_repo_id = qe_repo_id e, cn_demand = qe_demand_id e, cn_position = qe_position e,
     cn_state = enum_value bff_STATE_BY_ENUM (qe_state e), cn_overlapping_files = qe_overlapping_files e\<rparr>"

definition bff_directive :: "directive \<Rightarrow> core_directive" where
  "bff_directive d = \<lparr>cd_id = di_id d, cd_project = di_project_id d,
     cd_kind = enum_value bff_DIRECTIVE_BY_ENUM (di_kind d), cd_payload = Some (di_payload d),
     cd_decided_by_id = di_decided_by_id d, cd_decided_by_name = di_decided_by_name d\<rparr>"

definition NewMergeEntry :: "string \<Rightarrow> ('w, string) io" where
  "NewMergeEntry demand_id = (if demand_id = [] then raise (ValidationError ''demand_id'') else ret demand_id)"

definition grpc_GetDeliveryBoard :: "bool \<Rightarrow> 'w env \<Rightarrow> 'w delivery_stub \<Rightarrow> string
    \<Rightarrow> ('w, pull_request list \<times> core_directive list) io" where
  "grpc_GetDeliveryBoard left_first env st project_id =
     mapv (\<lambda>b. (map bff_pull_request (db_pull_requests b), map bff_directive (db_directives b)))
       (get_board left_first env st project_id)"

definition grpc_ListPullRequests :: "'w env \<Rightarrow> 'w delivery_stub \<Rightarrow> string \<Rightarrow> string \<Rightarrow> ('w, pull_request list) io" where
  "grpc_ListPullRequests env st demand_id project_id =
     mapv (map bff_pull_request) (list_pull_requests env st demand_id project_id)"

definition grpc_GetMergeQueue :: "'w env \<Rightarrow> 'w delivery_stub \<Rightarrow> string \<Rightarrow> ('w, core_queue_entry list) io" where
  "grpc_GetMergeQueue env st repo_id = mapv (map bff_entry) (get_merge_queue env st repo_id)"

definition grpc_EnqueueMerge :: "'w env \<Rightarrow> 'w delivery_stub \<Rightarrow> string \<Rightarrow> string \<Rightarrow> string
    \<Rightarrow> ('w, core_queue_entry option \<times> merge_refusal option) io" where
  "grpc_EnqueueMerge env st repo_id demand_id key = bnd (NewMergeEntry demand_id) (\<lambda>d.
     mapv (\<lambda>a. (map_option bff_entry (mt_entry a),
         map_option (\<lambda>r. \<lparr>mr_reason = mr_reason r, mr_missing = mr_missing r\<rparr>) (mt_refusal a)))
       (enqueue_merge env st repo_id d key))"

definition grpc_ListDirectives :: "'w env \<Rightarrow> 'w delivery_stub \<Rightarrow> string \<Rightarrow> ('w, core_directive list) io" where
  "grpc_ListDirectives env st project_id = mapv (map bff_directive) (list_directives env st project_id)"

definition grpc_DecideDirective :: "'w env \<Rightarrow> 'w delivery_stub \<Rightarrow> string \<Rightarrow> (string \<times> pyval) list option \<Rightarrow> string
    \<Rightarrow> ('w, core_directive) io" where
  "grpc_DecideDirective env st directive_id decision key =
     mapv bff_directive (decide_directive env st directive_id (case decision of None \<Rightarrow> [] | Some d \<Rightarrow> d) key)"

text \<open>The whole REST route of the queue: FastAPI checks the body before the handler runs.\<close>

definition rest_post_merge :: "'w env \<Rightarrow> 'w delivery_stub \<Rightarrow> string \<Rightarrow> string \<Rightarrow> string
    \<Rightarrow> ('w, int \<times> (merge_refusal + merge_queue_entry)) io" where
  "rest_post_merge env st repo_id demand_id key =
     bnd (NewMergeEntry demand_id) (\<lambda>d. rest_enqueue_merge env st repo_id d key)"

section \<open>Demand\<close>

definition bff_thread :: "thread \<Rightarrow> thread" where
  "bff_thread t = \<lparr>th_id = th_id t, th_key = th_key t, th_blocked = th_blocked t,
     th_card = (case th_card t of None \<Rightarrow> None | Some c \<Rightarrow>
       Some \<lparr>ag_purpose = ag_purpose c, ag_tools = ag_tools c, ag_model = ag_model c,
         ag_effort = ag_effort c, ag_budget_micros = ag_budget_micros c\<rparr>)\<rparr>"

definition bff_message :: "message \<Rightarrow> message" where
  "bff_message m = \<lparr>mg_id = mg_id m, mg_thread_id = mg_thread_id m, mg_author_kind = mg_author_kind m,
     mg_author_id = mg_author_id m, mg_author_name = mg_author_name m, mg_text = mg_text m, mg_at = mg_at m\<rparr>"

definition bff_finding :: "finding \<Rightarrow> finding" where
  "bff_finding f = \<lparr>fd_id = fd_id f, fd_thread_id = fd_thread_id f, fd_title = fd_title f, fd_payload = fd_payload f\<rparr>"

definition NewDemand :: "string \<Rightarrow> string \<Rightarrow> ('w, string \<times> string) io" where
  "NewDemand project_id external_key =
     (if project_id = [] then raise (ValidationError ''project_id'')
      else if external_key = [] then raise (ValidationError ''external_key'') else ret (project_id, external_key))"

definition NewThread :: "string \<Rightarrow> agent_card option \<Rightarrow> ('w, string \<times> agent_card option) io" where
  "NewThread key brief = (if key = [] then raise (ValidationError ''key'') else ret (key, brief))"

definition NewMessage :: "string \<Rightarrow> ('w, string) io" where
  "NewMessage body = (if body = [] then raise (ValidationError ''text'') else ret body)"

definition NewFinding :: "string \<Rightarrow> string \<Rightarrow> (string \<times> pyval) list
    \<Rightarrow> ('w, string \<times> string \<times> (string \<times> pyval) list) io" where
  "NewFinding thread_id title payload =
     (if thread_id = [] then raise (ValidationError ''thread_id'')
      else if title = [] then raise (ValidationError ''title'') else ret (thread_id, title, payload))"

definition grpc_ListDemands :: "'w env \<Rightarrow> 'w demand_stub \<Rightarrow> string \<Rightarrow> int \<Rightarrow> string
    \<Rightarrow> ('w, bff_demand list \<times> string) io" where
  "grpc_ListDemands env st project_id page_size page_token =
     mapv (\<lambda>(ds, token). (map bff_demand_of ds, token)) (list_demands env st project_id page_size page_token)"

definition grpc_GetDemandCockpit :: "task list \<Rightarrow> 'w env \<Rightarrow> 'w demand_stub \<Rightarrow> string
    \<Rightarrow> ('w, bff_demand \<times> thread list \<times> finding list) io" where
  "grpc_GetDemandCockpit order env st demand_id =
     mapv (\<lambda>c. (bff_demand_of (kp_demand c), map bff_thread (kp_threads c), map bff_finding (kp_findings c)))
       (get_cockpit order env st demand_id)"

definition grpc_ListThreads :: "'w env \<Rightarrow> 'w demand_stub \<Rightarrow> string \<Rightarrow> ('w, thread list) io" where
  "grpc_ListThreads env st demand_id = mapv (map bff_thread) (list_threads env st demand_id)"

definition grpc_CreateThread :: "'w env \<Rightarrow> 'w demand_stub \<Rightarrow> string \<Rightarrow> string \<Rightarrow> agent_card option \<Rightarrow> string
    \<Rightarrow> ('w, thread) io" where
  "grpc_CreateThread env st demand_id thread_key brief key =
     bnd (NewThread thread_key (case brief of None \<Rightarrow> None | Some c \<Rightarrow>
            Some \<lparr>ag_purpose = ag_purpose c, ag_tools = ag_tools c, ag_model = ag_model c,
              ag_effort = ag_effort c, ag_budget_micros = ag_budget_micros c\<rparr>))
       (\<lambda>(k, b). mapv bff_thread (create_thread env st demand_id k b key))"

definition grpc_PostMessage :: "'w env \<Rightarrow> 'w demand_stub \<Rightarrow> string \<Rightarrow> string \<Rightarrow> string \<Rightarrow> ('w, message) io" where
  "grpc_PostMessage env st thread_id body key =
     bnd (NewMessage body) (\<lambda>b. mapv bff_message (post_message env st thread_id b key ''user''))"

definition grpc_PublishFinding :: "'w env \<Rightarrow> 'w demand_stub \<Rightarrow> string \<Rightarrow> string \<Rightarrow> string
    \<Rightarrow> (string \<times> pyval) list option \<Rightarrow> string \<Rightarrow> ('w, finding) io" where
  "grpc_PublishFinding env st demand_id thread_id title payload key =
     bnd (NewFinding thread_id title (case payload of None \<Rightarrow> [] | Some p \<Rightarrow> p))
       (\<lambda>(t, ti, p). mapv bff_finding (publish_finding env st demand_id t ti p key))"

definition rest_start_demand :: "'w env \<Rightarrow> 'w demand_stub \<Rightarrow> string \<Rightarrow> string \<Rightarrow> string \<Rightarrow> ('w, demand) io" where
  "rest_start_demand env st project_id external_key key =
     bnd (NewDemand project_id external_key) (\<lambda>(p, e). start_demand env st p e key)"

definition rest_create_thread :: "'w env \<Rightarrow> 'w demand_stub \<Rightarrow> string \<Rightarrow> string \<Rightarrow> agent_card option \<Rightarrow> string
    \<Rightarrow> ('w, thread) io" where
  "rest_create_thread env st demand_id thread_key brief key =
     bnd (NewThread thread_key brief) (\<lambda>(k, b). create_thread env st demand_id k b key)"

definition rest_post_message :: "'w env \<Rightarrow> 'w demand_stub \<Rightarrow> string \<Rightarrow> string \<Rightarrow> string \<Rightarrow> ('w, message) io" where
  "rest_post_message env st thread_id body key =
     bnd (NewMessage body) (\<lambda>b. post_message env st thread_id b key ''user'')"

definition rest_publish_finding :: "'w env \<Rightarrow> 'w demand_stub \<Rightarrow> string \<Rightarrow> string \<Rightarrow> string
    \<Rightarrow> (string \<times> pyval) list \<Rightarrow> string \<Rightarrow> ('w, finding) io" where
  "rest_publish_finding env st demand_id thread_id title payload key =
     bnd (NewFinding thread_id title payload) (\<lambda>(t, ti, p). publish_finding env st demand_id t ti p key)"

section \<open>Cost\<close>

definition bff_usage :: "usage_summary \<Rightarrow> usage_summary" where
  "bff_usage u = \<lparr>uv_id = uv_id u, uv_demand_id = uv_demand_id u, uv_thread_id = uv_thread_id u, uv_model = uv_model u,
     uv_input_tokens = uv_input_tokens u, uv_output_tokens = uv_output_tokens u,
     uv_cache_read_tokens = uv_cache_read_tokens u, uv_cache_creation_tokens = uv_cache_creation_tokens u,
     uv_cost = money_of (uv_cost u), uv_at = uv_at u\<rparr>"

definition NewUsage :: "new_usage \<Rightarrow> ('w, new_usage) io" where
  "NewUsage u =
     (if nu_model u = [] then raise (ValidationError ''model'')
      else if nu_input_tokens u < 0 then raise (ValidationError ''input_tokens'')
      else if nu_output_tokens u < 0 then raise (ValidationError ''output_tokens'')
      else if nu_cache_read_tokens u < 0 then raise (ValidationError ''cache_read_tokens'')
      else if nu_cache_creation_tokens u < 0 then raise (ValidationError ''cache_creation_tokens'')
      else if nu_cost_micros u < 0 then raise (ValidationError ''cost_micros'')
      else ret u)"

definition grpc_RouteModel :: "'w env \<Rightarrow> 'w cost_stub \<Rightarrow> string \<Rightarrow> string \<Rightarrow> ('w, routing_decision) io" where
  "grpc_RouteModel env st task_kind demand_id =
     mapv (\<lambda>d. \<lparr>rd_task_kind = rd_task_kind d, rd_model = rd_model d, rd_effort = rd_effort d, rd_reason = rd_reason d\<rparr>)
       (route_model env st task_kind demand_id)"

definition grpc_RecordUsage :: "'w env \<Rightarrow> 'w cost_stub \<Rightarrow> new_usage \<Rightarrow> string \<Rightarrow> ('w, record_usage_outcome) io" where
  "grpc_RecordUsage env st u key = bnd (NewUsage u) (\<lambda>body.
     mapv (\<lambda>out. \<lparr>ro_recorded = ro_recorded out, ro_budget_exceeded = ro_budget_exceeded out,
         ro_notice = ro_notice out, ro_budgets = map bff_budget (ro_budgets out)\<rparr>)
       (record_usage env st body key))"

definition grpc_SummarizeCost :: "'w env \<Rightarrow> 'w cost_stub \<Rightarrow> string \<Rightarrow> string \<Rightarrow> ('w, cost_summary) io" where
  "grpc_SummarizeCost env st scope scope_id =
     mapv (\<lambda>s. \<lparr>zv_total = money_of (zv_total s), zv_cache_hit_ratio = zv_cache_hit_ratio s,
         zv_recent = map bff_usage (zv_recent s)\<rparr>) (summarize_cost env st scope scope_id)"

definition rest_route_model :: "'w env \<Rightarrow> 'w cost_stub \<Rightarrow> string \<Rightarrow> string \<Rightarrow> ('w, routing_decision) io" where
  "rest_route_model env st task_kind demand_id =
     (if task_kind = [] then raise (ValidationError ''task_kind'') else route_model env st task_kind demand_id)"

definition rest_set_budget :: "'w env \<Rightarrow> 'w cost_stub \<Rightarrow> string \<Rightarrow> string \<Rightarrow> int \<Rightarrow> ('w, budget_view) io" where
  "rest_set_budget env st scope scope_id limit_micros =
     bnd (NewBudget scope scope_id limit_micros) (set_budget env st)"

definition rest_record_usage :: "'w env \<Rightarrow> 'w cost_stub \<Rightarrow> new_usage \<Rightarrow> string \<Rightarrow> ('w, record_usage_outcome) io" where
  "rest_record_usage env st u key = bnd (NewUsage u) (\<lambda>body. record_usage env st body key)"

section \<open>Hierarchy\<close>

definition NewWorkspace :: "string \<Rightarrow> string \<Rightarrow> ('w, unit) io" where
  "NewWorkspace name wkey =
     (if name = [] then raise (ValidationError ''name'')
      else if wkey = [] then raise (ValidationError ''key'') else ret ())"

definition NewProject :: "string \<Rightarrow> string \<Rightarrow> ('w, unit) io" where
  "NewProject workspace_id name =
     (if workspace_id = [] then raise (ValidationError ''workspace_id'')
      else if name = [] then raise (ValidationError ''name'') else ret ())"

definition grpc_GetTree :: "'w env \<Rightarrow> 'w hierarchy_stub \<Rightarrow> ('w, tree_node list) io" where
  "grpc_GetTree env st = mapv (map (\<lambda>n. \<lparr>nd_workspace = workspace_of (nd_workspace n),
     nd_projects = map bff_project (nd_projects n)\<rparr>)) (get_tree env st)"

definition grpc_ListWorkspaces :: "'w env \<Rightarrow> 'w hierarchy_stub \<Rightarrow> ('w, workspace list) io" where
  "grpc_ListWorkspaces env st = mapv (map workspace_of) (list_workspaces env st)"

definition grpc_CreateWorkspace :: "'w env \<Rightarrow> 'w hierarchy_stub \<Rightarrow> string \<Rightarrow> string \<Rightarrow> string \<Rightarrow> string list \<Rightarrow> string
    \<Rightarrow> ('w, workspace) io" where
  "grpc_CreateWorkspace env st name wkey description tags key =
     bnd (NewWorkspace name wkey) (\<lambda>_. mapv workspace_of (create_workspace env st name wkey description tags key))"

definition grpc_ListProjects :: "'w env \<Rightarrow> 'w hierarchy_stub \<Rightarrow> string \<Rightarrow> ('w, project list) io" where
  "grpc_ListProjects env st workspace_id = mapv (map bff_project) (list_projects env st workspace_id)"

definition grpc_GetProject :: "'w env \<Rightarrow> 'w hierarchy_stub \<Rightarrow> string \<Rightarrow> ('w, project) io" where
  "grpc_GetProject env st project_id = mapv bff_project (get_project env st project_id)"

definition grpc_CreateProject :: "'w env \<Rightarrow> 'w hierarchy_stub \<Rightarrow> string \<Rightarrow> string \<Rightarrow> string \<Rightarrow> string
    \<Rightarrow> ('w, project) io" where
  "grpc_CreateProject env st workspace_id name description key =
     bnd (NewProject workspace_id name) (\<lambda>_. mapv bff_project (create_project env st workspace_id name description key))"

definition rest_create_workspace :: "'w env \<Rightarrow> 'w hierarchy_stub \<Rightarrow> string \<Rightarrow> string \<Rightarrow> string \<Rightarrow> string list \<Rightarrow> string
    \<Rightarrow> ('w, workspace) io" where
  "rest_create_workspace env st name wkey description tags key =
     bnd (NewWorkspace name wkey) (\<lambda>_. create_workspace env st name wkey description tags key)"

definition rest_create_project :: "'w env \<Rightarrow> 'w hierarchy_stub \<Rightarrow> string \<Rightarrow> string \<Rightarrow> string \<Rightarrow> string
    \<Rightarrow> ('w, project) io" where
  "rest_create_project env st workspace_id name description key =
     bnd (NewProject workspace_id name) (\<lambda>_. create_project env st workspace_id name description key)"

section \<open>Workflow\<close>

definition NewFlow :: "new_flow \<Rightarrow> ('w, new_flow) io" where
  "NewFlow body =
     (if list_ex (\<lambda>s. sg_key s = []) (nf_stages body) then raise (ValidationError ''key'')
      else if nf_name body = [] then raise (ValidationError ''name'')
      else if nf_owner_scope body = [] then raise (ValidationError ''owner_scope'')
      else ret body)"

definition PromotionTarget :: "string \<Rightarrow> string \<Rightarrow> ('w, string \<times> string) io" where
  "PromotionTarget target_scope target_id =
     (if target_scope = [] then raise (ValidationError ''target_scope'') else ret (target_scope, target_id))"

definition grpc_ListFlows :: "'w env \<Rightarrow> 'w workflow_stub \<Rightarrow> string \<Rightarrow> string \<Rightarrow> ('w, core_flow list) io" where
  "grpc_ListFlows env st owner_scope owner_id = mapv (map bff_flow) (list_flows env st owner_scope owner_id)"

definition grpc_GetFlow :: "'w env \<Rightarrow> 'w workflow_stub \<Rightarrow> string \<Rightarrow> ('w, core_flow) io" where
  "grpc_GetFlow env st flow_id = mapv bff_flow (get_flow env st flow_id)"

definition grpc_ValidateFlow :: "'w env \<Rightarrow> 'w workflow_stub \<Rightarrow> core_flow \<Rightarrow> ('w, validation_report) io" where
  "grpc_ValidateFlow env st f = bnd (grpc_new_flow f) (\<lambda>body.
     mapv (\<lambda>r. \<lparr>vp_valid = vp_valid r, vp_errors = vp_errors r, vp_warnings = vp_warnings r\<rparr>) (validate_flow env st body))"

definition grpc_ResolveFlow :: "'w env \<Rightarrow> 'w workflow_stub \<Rightarrow> string \<Rightarrow> string
    \<Rightarrow> ('w, core_flow option \<times> provenance) io" where
  "grpc_ResolveFlow env st scope scope_id = mapv (\<lambda>eff. let p = fx_provenance eff in
       (map_option bff_flow (fx_flow eff),
        \<lparr>pv_contributors = pv_contributors p, pv_origins = pv_origins p, pv_sentence = pv_sentence p,
         pv_truncated = pv_truncated p\<rparr>))
     (resolve_flow env st scope scope_id)"

definition grpc_PromoteFlow :: "'w env \<Rightarrow> 'w workflow_stub \<Rightarrow> string \<Rightarrow> string \<Rightarrow> string \<Rightarrow> ('w, core_flow) io" where
  "grpc_PromoteFlow env st flow_id target_scope target_id =
     bnd (PromotionTarget target_scope target_id) (\<lambda>target. mapv bff_flow (promote_flow env st flow_id target))"

definition rest_create_flow :: "'w env \<Rightarrow> 'w workflow_stub \<Rightarrow> new_flow \<Rightarrow> string \<Rightarrow> ('w, flow) io" where
  "rest_create_flow env st q key = bnd (NewFlow q) (\<lambda>body. create_flow env st body key)"

definition rest_update_flow :: "'w env \<Rightarrow> 'w workflow_stub \<Rightarrow> string \<Rightarrow> new_flow \<Rightarrow> ('w, flow) io" where
  "rest_update_flow env st flow_id q = bnd (NewFlow q) (update_flow env st flow_id)"

definition rest_validate_flow :: "'w env \<Rightarrow> 'w workflow_stub \<Rightarrow> new_flow \<Rightarrow> ('w, validation_report) io" where
  "rest_validate_flow env st q = bnd (NewFlow q) (validate_flow env st)"

definition rest_promote_flow :: "'w env \<Rightarrow> 'w workflow_stub \<Rightarrow> string \<Rightarrow> string \<Rightarrow> string \<Rightarrow> ('w, flow) io" where
  "rest_promote_flow env st flow_id target_scope target_id =
     bnd (PromotionTarget target_scope target_id) (promote_flow env st flow_id)"

section \<open>Execution\<close>

definition grpc_DescribeSandbox :: "'w env \<Rightarrow> 'w execution_stub \<Rightarrow> string \<Rightarrow> ('w, core_sandbox) io" where
  "grpc_DescribeSandbox env st sandbox_id = mapv bff_sandbox (describe_sandbox env st sandbox_id)"

definition grpc_ResumeSandbox :: "'w env \<Rightarrow> 'w execution_stub \<Rightarrow> string \<Rightarrow> ('w, core_sandbox) io" where
  "grpc_ResumeSandbox env st sandbox_id = mapv bff_sandbox (resume_sandbox env st sandbox_id)"

definition grpc_DestroySandbox :: "'w env \<Rightarrow> 'w execution_stub \<Rightarrow> string \<Rightarrow> ('w, bool) io" where
  "grpc_DestroySandbox env st sandbox_id = mapv id (destroy_sandbox env st sandbox_id)"

section \<open>The queue's answer is one on both ports\<close>

lemma enqueue_shape:
  assumes "enqueue_merge env st repo d key s = (Inr a, s')"
  shows "(\<exists>e. a = \<lparr>mt_entry = Some (entry_of e), mt_refusal = None\<rparr>) \<or> (\<exists>r. a = \<lparr>mt_entry = None, mt_refusal = Some r\<rparr>)"
  using logged_Inr [OF assms [unfolded enqueue_merge_def]]
  by (auto simp: managed_Inr try_with_run mapv_run split: prod.splits sum.splits exn.splits if_splits)

text \<open>
  The queue's answer is one, told two ways. For every request and state the two ports end alike and
  leave the process in the same state: a failure is the same exception; a refusal for want of green is
  a 412 with the reason and the list of what is missing over REST, and over gRPC an answer with those
  very two, and no entry; an entry is a 201 over REST, and over gRPC the same entry and no refusal,
  its state the core's number where the edge knows it.
\<close>

theorem merge_ports_agree:
  "case rest_post_merge env st repo d key s of
     (Inl e, s') \<Rightarrow> grpc_EnqueueMerge env st repo d key s = (Inl e, s')
   | (Inr (code, Inl r), s') \<Rightarrow> code = 412 \<and> grpc_EnqueueMerge env st repo d key s = (Inr (None, Some r), s')
   | (Inr (code, Inr en), s') \<Rightarrow> code = 201 \<and> grpc_EnqueueMerge env st repo d key s = (Inr (Some (bff_entry en), None), s')
       \<and> (\<exists>e. en = entry_of e \<and> cn_state (bff_entry en) = (if cn_state e \<in> {1, 2, 3, 4, 5} then cn_state e else 0))"
proof (cases "d = []")
  case True
  then show ?thesis by (simp add: rest_post_merge_def grpc_EnqueueMerge_def NewMergeEntry_def)
next
  case False
  have k: "known_number Delivery.STATE_BY_ENUM n \<longleftrightarrow> n \<in> {1, 2, 3, 4, 5}" for n
    by (simp add: known_number_def Delivery.STATE_BY_ENUM_def)
  have states: "cn_state (bff_entry (entry_of e)) = (if cn_state e \<in> {1, 2, 3, 4, 5} then cn_state e else 0)" for e
    by (simp only: bff_entry_def entry_of_def core_queue_entry.simps merge_queue_entry.simps queue_states.crossing_out k)
  obtain r s' where run: "enqueue_merge env st repo d key s = (r, s')" by (metis prod.collapse)
  show ?thesis
  proof (cases r)
    case (Inl e)
    with run False show ?thesis
      by (simp add: rest_post_merge_def rest_enqueue_merge_def grpc_EnqueueMerge_def NewMergeEntry_def bnd_run mapv_run)
  next
    case (Inr a)
    with enqueue_shape [of env st repo d key s a s'] run
    consider (entry) e where "a = \<lparr>mt_entry = Some (entry_of e), mt_refusal = None\<rparr>"
      | (refusal) q where "a = \<lparr>mt_entry = None, mt_refusal = Some q\<rparr>" by auto
    then show ?thesis
    proof cases
      case entry
      with run Inr False have rest: "rest_post_merge env st repo d key s = (Inr (201, Inr (entry_of e)), s')"
        and grpc: "grpc_EnqueueMerge env st repo d key s = (Inr (Some (bff_entry (entry_of e)), None), s')"
        by (simp_all add: rest_post_merge_def rest_enqueue_merge_def grpc_EnqueueMerge_def NewMergeEntry_def bnd_run mapv_run)
      from grpc states [of e] show ?thesis unfolding rest prod.case sum.case by blast
    next
      case refusal
      with run Inr False show ?thesis
        by (simp add: rest_post_merge_def rest_enqueue_merge_def grpc_EnqueueMerge_def NewMergeEntry_def bnd_run mapv_run)
    qed
  qed
qed

end
