(* ===== verification/Application.thy ===== *)
theory Application
  imports Surface Identity_Ports Work_Ports TurnRuntime Attention Resource Knowledge SecondFactor Catalog
begin

text \<open>
  The REST application whole: every request FastAPI can read for a route of \<^verbatim>\<open>create_app\<close>, the route it takes, and
  what \<^verbatim>\<open>app/routers/\<close> does with it, behind the door. The four routes that open a stream have their handlers in
  the theories Streams and Attention.
\<close>

section \<open>Requests\<close>

text \<open>
  A request by the handler it is for, with what FastAPI reads for its parameters: the segments of the path, the
  query, the fields of the body, and the idempotency key.
\<close>

datatype (plugins only: code) identity_call =
    RestMe | RestUpdateProfile profile_patch | RestOnboarding
  | RestRecordStep string string | RestCompleteOnboarding | RestHandleAvailability string
  | RestUpdatePersonalAccount "string \<times> string" | RestSetPlan string | RestSendEmailVerification
  | RestListAccounts | RestCreateAccount string string string | RestListMembers
  | RestCreateInvite string "string option" "(string \<times> string option) list" | RestListInvites
  | RestGetInvite string | RestAcceptInvite string | RestRevokeInvite string | RestUpdateMember string string
  | RestRemoveMember string

datatype (plugins only: code) catalog_call =
    RestListPlans | RestListProviders

datatype (plugins only: code) secondfactor_call =
    RestSecondFactorState | RestListSecondFactors
  | RestEnrollSecondFactor new_factor | RestConfirmSecondFactor string string string
  | RestRevokeSecondFactor string | RestChallengeSecondFactor string | RestVerifySecondFactor string string
  | RestVerifyRecoveryCode string | RestRegenerateRecoveryCodes

datatype (plugins only: code) hierarchy_call =
    RestGetTree | RestListWorkspaces
  | RestCreateWorkspace string string string "string list" string | RestListProjects string
  | RestCreateProject string string string string | RestGetProject string
  | RestBindTaskManager string task_manager

datatype (plugins only: code) resource_call =
    RestListResources string
  | RestCreateResource string string "(string \<times> pyval) list" string | RestGetResource string
  | RestSetCredential string string | RestListMemberGrants string | RestGrantResource string string string
  | RestRevokeGrant string | RestCheckResource string

datatype (plugins only: code) workflow_call =
    RestListFlows string string | RestCreateFlow new_flow string
  | RestResolveFlow string string | RestValidateFlow new_flow | RestGetFlow string
  | RestUpdateFlow string new_flow | RestPromoteFlow string string string

datatype (plugins only: code) demand_call =
    RestListDemands string int string
  | RestStartDemand string string string | RestGetDemand string | RestGetCockpit string
  | RestAdvanceStage string string string string | RestDecideGate string string bool string string
  | RestListThreads string | RestCreateThread string string "agent_card option" string
  | RestPublishFinding string string string "(string \<times> pyval) list" string
  | RestPostMessage string string string

datatype (plugins only: code) delivery_call =
    RestGetBoard string | RestListPullRequests string string
  | RestGetMergeQueue string | RestEnqueueMerge string string string | RestListDirectives string
  | RestDecideDirective string "(string \<times> pyval) list" string

datatype (plugins only: code) knowledge_call =
    RestGetContextPackage string | RestListRules string
  | RestSearchMemory string string int | RestReadIndex string string | RestPutArtifact new_artifact string

datatype (plugins only: code) cost_call =
    RestRouteModel string string | RestGetBudget string string
  | RestSetBudget string string int | RestRecordUsage new_usage string | RestSummarizeCost string string

datatype (plugins only: code) execution_call =
    RestProvisionSandbox string string string
  | RestDescribeSandbox string | RestSuspendSandbox string | RestResumeSandbox string
  | RestDestroySandbox string

datatype (plugins only: code) runtime_call =
    RestRunTurn string string run_turn_body string

datatype (plugins only: code) attention_call =
    RestListAttention bool string int

text \<open>One of any router.\<close>

datatype (plugins only: code) rest_call =
    RestHealthz | ToIdentity identity_call | ToCatalog catalog_call
  | ToSecondFactor secondfactor_call | ToHierarchy hierarchy_call | ToResource resource_call
  | ToWorkflow workflow_call | ToDemand demand_call | ToDelivery delivery_call | ToKnowledge knowledge_call
  | ToCost cost_call | ToExecution execution_call | ToRuntime runtime_call | ToAttention attention_call

text \<open>The row of the router.\<close>

primrec identity_route :: "identity_call \<Rightarrow> api_route" where
  "identity_route RestMe = GET ''/api/v1/me'' ''me''"
| "identity_route (RestUpdateProfile _) = PATCH ''/api/v1/me'' ''update_profile''"
| "identity_route RestOnboarding = GET ''/api/v1/me/onboarding'' ''onboarding''"
| "identity_route (RestRecordStep _ _) = POST ''/api/v1/me/onboarding/steps/{step}'' ''record_step''"
| "identity_route RestCompleteOnboarding = POST ''/api/v1/me/onboarding/complete'' ''complete_onboarding''"
| "identity_route (RestHandleAvailability _) = GET ''/api/v1/accounts/handles/{handle}/availability'' ''handle_availability''"
| "identity_route (RestUpdatePersonalAccount _) = PATCH ''/api/v1/accounts/current'' ''update_personal_account''"
| "identity_route (RestSetPlan _) = PUT ''/api/v1/accounts/current/plan'' ''set_plan''"
| "identity_route RestSendEmailVerification = token_only (POST ''/api/v1/verification/email'' ''send_email_verification'')"
| "identity_route RestListAccounts = GET ''/api/v1/accounts'' ''list_accounts''"
| "identity_route (RestCreateAccount _ _ _) = POST ''/api/v1/accounts'' ''create_account''"
| "identity_route RestListMembers = GET ''/api/v1/accounts/current/members'' ''list_members''"
| "identity_route (RestCreateInvite _ _ _) = POST ''/api/v1/invites'' ''create_invite''"
| "identity_route RestListInvites = GET ''/api/v1/invites'' ''list_invites''"
| "identity_route (RestGetInvite _) = GET ''/api/v1/invites/{invite_id}'' ''get_invite''"
| "identity_route (RestAcceptInvite _) = POST ''/api/v1/invites/{invite_id}/accept'' ''accept_invite''"
| "identity_route (RestRevokeInvite _) = DELETE ''/api/v1/invites/{invite_id}'' ''revoke_invite''"
| "identity_route (RestUpdateMember _ _) = PATCH ''/api/v1/members/{membership_id}'' ''update_member''"
| "identity_route (RestRemoveMember _) = DELETE ''/api/v1/members/{membership_id}'' ''remove_member''"

primrec catalog_route :: "catalog_call \<Rightarrow> api_route" where
  "catalog_route RestListPlans = GET ''/api/v1/catalog/plans'' ''list_plans''"
| "catalog_route RestListProviders = GET ''/api/v1/catalog/providers'' ''list_providers''"

primrec secondfactor_route :: "secondfactor_call \<Rightarrow> api_route" where
  "secondfactor_route RestSecondFactorState = GET ''/api/v1/me/second-factor'' ''second_factor_state''"
| "secondfactor_route RestListSecondFactors = GET ''/api/v1/me/second-factor/factors'' ''list_second_factors''"
| "secondfactor_route (RestEnrollSecondFactor _) = POST ''/api/v1/me/second-factor/factors'' ''enroll_second_factor''"
| "secondfactor_route (RestConfirmSecondFactor _ _ _) = POST ''/api/v1/me/second-factor/factors/{factor_id}/confirm'' ''confirm_second_factor''"
| "secondfactor_route (RestRevokeSecondFactor _) = DELETE ''/api/v1/me/second-factor/factors/{factor_id}'' ''revoke_second_factor''"
| "secondfactor_route (RestChallengeSecondFactor _) = POST ''/api/v1/me/second-factor/challenge'' ''challenge_second_factor''"
| "secondfactor_route (RestVerifySecondFactor _ _) = POST ''/api/v1/me/second-factor/verify'' ''verify_second_factor''"
| "secondfactor_route (RestVerifyRecoveryCode _) = POST ''/api/v1/me/second-factor/recovery'' ''verify_recovery_code''"
| "secondfactor_route RestRegenerateRecoveryCodes = POST ''/api/v1/me/second-factor/recovery-codes'' ''regenerate_recovery_codes''"

primrec hierarchy_route :: "hierarchy_call \<Rightarrow> api_route" where
  "hierarchy_route RestGetTree = GET ''/api/v1/tree'' ''get_tree''"
| "hierarchy_route RestListWorkspaces = GET ''/api/v1/workspaces'' ''list_workspaces''"
| "hierarchy_route (RestCreateWorkspace _ _ _ _ _) = POST ''/api/v1/workspaces'' ''create_workspace''"
| "hierarchy_route (RestListProjects _) = GET ''/api/v1/projects'' ''list_projects''"
| "hierarchy_route (RestCreateProject _ _ _ _) = POST ''/api/v1/projects'' ''create_project''"
| "hierarchy_route (RestGetProject _) = GET ''/api/v1/projects/{project_id}'' ''get_project''"
| "hierarchy_route (RestBindTaskManager _ _) = PUT ''/api/v1/projects/{project_id}/task-manager'' ''bind_task_manager''"

primrec resource_route :: "resource_call \<Rightarrow> api_route" where
  "resource_route (RestListResources _) = GET ''/api/v1/resources'' ''list_resources''"
| "resource_route (RestCreateResource _ _ _ _) = POST ''/api/v1/resources'' ''create_resource''"
| "resource_route (RestGetResource _) = GET ''/api/v1/resources/{resource_id}'' ''get_resource''"
| "resource_route (RestSetCredential _ _) = PUT ''/api/v1/resources/{resource_id}/credential'' ''set_credential''"
| "resource_route (RestListMemberGrants _) = GET ''/api/v1/members/{user_id}/grants'' ''list_member_grants''"
| "resource_route (RestGrantResource _ _ _) = POST ''/api/v1/grants'' ''grant_resource''"
| "resource_route (RestRevokeGrant _) = DELETE ''/api/v1/grants/{grant_id}'' ''revoke_grant''"
| "resource_route (RestCheckResource _) = POST ''/api/v1/resources/{resource_id}/check'' ''check_resource''"

primrec workflow_route :: "workflow_call \<Rightarrow> api_route" where
  "workflow_route (RestListFlows _ _) = GET ''/api/v1/flows'' ''list_flows''"
| "workflow_route (RestCreateFlow _ _) = POST ''/api/v1/flows'' ''create_flow''"
| "workflow_route (RestResolveFlow _ _) = GET ''/api/v1/flows/effective'' ''resolve_flow''"
| "workflow_route (RestValidateFlow _) = POST ''/api/v1/flows/validate'' ''validate_flow''"
| "workflow_route (RestGetFlow _) = GET ''/api/v1/flows/{flow_id}'' ''get_flow''"
| "workflow_route (RestUpdateFlow _ _) = PUT ''/api/v1/flows/{flow_id}'' ''update_flow''"
| "workflow_route (RestPromoteFlow _ _ _) = POST ''/api/v1/flows/{flow_id}/promotion'' ''promote_flow''"

primrec demand_route :: "demand_call \<Rightarrow> api_route" where
  "demand_route (RestListDemands _ _ _) = GET ''/api/v1/demands'' ''list_demands''"
| "demand_route (RestStartDemand _ _ _) = POST ''/api/v1/demands'' ''start_demand''"
| "demand_route (RestGetDemand _) = GET ''/api/v1/demands/{demand_id}'' ''get_demand''"
| "demand_route (RestGetCockpit _) = GET ''/api/v1/demands/{demand_id}/cockpit'' ''get_cockpit''"
| "demand_route (RestAdvanceStage _ _ _ _) = POST ''/api/v1/demands/{demand_id}/stages/{stage_key}/advance'' ''advance_stage''"
| "demand_route (RestDecideGate _ _ _ _ _) = POST ''/api/v1/demands/{demand_id}/stages/{stage_key}/gate'' ''decide_gate''"
| "demand_route (RestListThreads _) = GET ''/api/v1/demands/{demand_id}/threads'' ''list_threads''"
| "demand_route (RestCreateThread _ _ _ _) = POST ''/api/v1/demands/{demand_id}/threads'' ''create_thread''"
| "demand_route (RestPublishFinding _ _ _ _ _) = POST ''/api/v1/demands/{demand_id}/findings'' ''publish_finding''"
| "demand_route (RestPostMessage _ _ _) = POST ''/api/v1/threads/{thread_id}/messages'' ''post_message''"

primrec delivery_route :: "delivery_call \<Rightarrow> api_route" where
  "delivery_route (RestGetBoard _) = GET ''/api/v1/delivery/board'' ''get_board''"
| "delivery_route (RestListPullRequests _ _) = GET ''/api/v1/pull-requests'' ''list_pull_requests''"
| "delivery_route (RestGetMergeQueue _) = GET ''/api/v1/repos/{repo_id}/merge-queue'' ''get_merge_queue''"
| "delivery_route (RestEnqueueMerge _ _ _) = POST ''/api/v1/repos/{repo_id}/merge-queue'' ''enqueue_merge''"
| "delivery_route (RestListDirectives _) = GET ''/api/v1/directives'' ''list_directives''"
| "delivery_route (RestDecideDirective _ _ _) = POST ''/api/v1/directives/{directive_id}/decision'' ''decide_directive''"

primrec knowledge_route :: "knowledge_call \<Rightarrow> api_route" where
  "knowledge_route (RestGetContextPackage _) = GET ''/api/v1/demands/{demand_id}/context-package'' ''get_context_package''"
| "knowledge_route (RestListRules _) = GET ''/api/v1/knowledge/rules'' ''list_rules''"
| "knowledge_route (RestSearchMemory _ _ _) = GET ''/api/v1/knowledge/memory'' ''search_memory''"
| "knowledge_route (RestReadIndex _ _) = GET ''/api/v1/knowledge/index'' ''read_index''"
| "knowledge_route (RestPutArtifact _ _) = POST ''/api/v1/knowledge/artifacts'' ''put_artifact''"

primrec cost_route :: "cost_call \<Rightarrow> api_route" where
  "cost_route (RestRouteModel _ _) = GET ''/api/v1/cost/routing'' ''route_model''"
| "cost_route (RestGetBudget _ _) = GET ''/api/v1/cost/budget'' ''get_budget''"
| "cost_route (RestSetBudget _ _ _) = PUT ''/api/v1/cost/budget'' ''set_budget''"
| "cost_route (RestRecordUsage _ _) = POST ''/api/v1/cost/usage'' ''record_usage''"
| "cost_route (RestSummarizeCost _ _) = GET ''/api/v1/cost/summary'' ''summarize_cost''"

primrec execution_route :: "execution_call \<Rightarrow> api_route" where
  "execution_route (RestProvisionSandbox _ _ _) = POST ''/api/v1/sandboxes'' ''provision_sandbox''"
| "execution_route (RestDescribeSandbox _) = GET ''/api/v1/sandboxes/{sandbox_id}'' ''describe_sandbox''"
| "execution_route (RestSuspendSandbox _) = POST ''/api/v1/sandboxes/{sandbox_id}/suspend'' ''suspend_sandbox''"
| "execution_route (RestResumeSandbox _) = POST ''/api/v1/sandboxes/{sandbox_id}/resume'' ''resume_sandbox''"
| "execution_route (RestDestroySandbox _) = DELETE ''/api/v1/sandboxes/{sandbox_id}'' ''destroy_sandbox''"

primrec runtime_route :: "runtime_call \<Rightarrow> api_route" where
  "runtime_route (RestRunTurn _ _ _ _) = POST ''/api/v1/demands/{demand_id}/threads/{thread_id}/turns'' ''run_turn''"

primrec attention_route :: "attention_call \<Rightarrow> api_route" where
  "attention_route (RestListAttention _ _ _) = GET ''/api/v1/attention'' ''list_attention''"

primrec route_of :: "rest_call \<Rightarrow> api_route" where
  "route_of RestHealthz = public (GET ''/healthz'' ''healthz'')"
| "route_of (ToIdentity c) = identity_route c"
| "route_of (ToCatalog c) = catalog_route c"
| "route_of (ToSecondFactor c) = secondfactor_route c"
| "route_of (ToHierarchy c) = hierarchy_route c"
| "route_of (ToResource c) = resource_route c"
| "route_of (ToWorkflow c) = workflow_route c"
| "route_of (ToDemand c) = demand_route c"
| "route_of (ToDelivery c) = delivery_route c"
| "route_of (ToKnowledge c) = knowledge_route c"
| "route_of (ToCost c) = cost_route c"
| "route_of (ToExecution c) = execution_route c"
| "route_of (ToRuntime c) = runtime_route c"
| "route_of (ToAttention c) = attention_route c"

text \<open>What goes into the template's parameters, in their order.\<close>

primrec identity_args :: "identity_call \<Rightarrow> string list" where
  "identity_args RestMe = []"
| "identity_args (RestUpdateProfile _) = []"
| "identity_args RestOnboarding = []"
| "identity_args (RestRecordStep step _) = [step]"
| "identity_args RestCompleteOnboarding = []"
| "identity_args (RestHandleAvailability handle) = [handle]"
| "identity_args (RestUpdatePersonalAccount _) = []"
| "identity_args (RestSetPlan _) = []"
| "identity_args RestSendEmailVerification = []"
| "identity_args RestListAccounts = []"
| "identity_args (RestCreateAccount _ _ _) = []"
| "identity_args RestListMembers = []"
| "identity_args (RestCreateInvite _ _ _) = []"
| "identity_args RestListInvites = []"
| "identity_args (RestGetInvite invite_id) = [invite_id]"
| "identity_args (RestAcceptInvite invite_id) = [invite_id]"
| "identity_args (RestRevokeInvite invite_id) = [invite_id]"
| "identity_args (RestUpdateMember membership_id _) = [membership_id]"
| "identity_args (RestRemoveMember membership_id) = [membership_id]"

primrec catalog_args :: "catalog_call \<Rightarrow> string list" where
  "catalog_args RestListPlans = []"
| "catalog_args RestListProviders = []"

primrec secondfactor_args :: "secondfactor_call \<Rightarrow> string list" where
  "secondfactor_args RestSecondFactorState = []"
| "secondfactor_args RestListSecondFactors = []"
| "secondfactor_args (RestEnrollSecondFactor _) = []"
| "secondfactor_args (RestConfirmSecondFactor factor_id _ _) = [factor_id]"
| "secondfactor_args (RestRevokeSecondFactor factor_id) = [factor_id]"
| "secondfactor_args (RestChallengeSecondFactor _) = []"
| "secondfactor_args (RestVerifySecondFactor _ _) = []"
| "secondfactor_args (RestVerifyRecoveryCode _) = []"
| "secondfactor_args RestRegenerateRecoveryCodes = []"

primrec hierarchy_args :: "hierarchy_call \<Rightarrow> string list" where
  "hierarchy_args RestGetTree = []"
| "hierarchy_args RestListWorkspaces = []"
| "hierarchy_args (RestCreateWorkspace _ _ _ _ _) = []"
| "hierarchy_args (RestListProjects _) = []"
| "hierarchy_args (RestCreateProject _ _ _ _) = []"
| "hierarchy_args (RestGetProject project_id) = [project_id]"
| "hierarchy_args (RestBindTaskManager project_id _) = [project_id]"

primrec resource_args :: "resource_call \<Rightarrow> string list" where
  "resource_args (RestListResources _) = []"
| "resource_args (RestCreateResource _ _ _ _) = []"
| "resource_args (RestGetResource resource_id) = [resource_id]"
| "resource_args (RestSetCredential resource_id _) = [resource_id]"
| "resource_args (RestListMemberGrants user_id) = [user_id]"
| "resource_args (RestGrantResource _ _ _) = []"
| "resource_args (RestRevokeGrant grant_id) = [grant_id]"
| "resource_args (RestCheckResource resource_id) = [resource_id]"

primrec workflow_args :: "workflow_call \<Rightarrow> string list" where
  "workflow_args (RestListFlows _ _) = []"
| "workflow_args (RestCreateFlow _ _) = []"
| "workflow_args (RestResolveFlow _ _) = []"
| "workflow_args (RestValidateFlow _) = []"
| "workflow_args (RestGetFlow flow_id) = [flow_id]"
| "workflow_args (RestUpdateFlow flow_id _) = [flow_id]"
| "workflow_args (RestPromoteFlow flow_id _ _) = [flow_id]"

primrec demand_args :: "demand_call \<Rightarrow> string list" where
  "demand_args (RestListDemands _ _ _) = []"
| "demand_args (RestStartDemand _ _ _) = []"
| "demand_args (RestGetDemand demand_id) = [demand_id]"
| "demand_args (RestGetCockpit demand_id) = [demand_id]"
| "demand_args (RestAdvanceStage demand_id stage_key _ _) = [demand_id, stage_key]"
| "demand_args (RestDecideGate demand_id stage_key _ _ _) = [demand_id, stage_key]"
| "demand_args (RestListThreads demand_id) = [demand_id]"
| "demand_args (RestCreateThread demand_id _ _ _) = [demand_id]"
| "demand_args (RestPublishFinding demand_id _ _ _ _) = [demand_id]"
| "demand_args (RestPostMessage thread_id _ _) = [thread_id]"

primrec delivery_args :: "delivery_call \<Rightarrow> string list" where
  "delivery_args (RestGetBoard _) = []"
| "delivery_args (RestListPullRequests _ _) = []"
| "delivery_args (RestGetMergeQueue repo_id) = [repo_id]"
| "delivery_args (RestEnqueueMerge repo_id _ _) = [repo_id]"
| "delivery_args (RestListDirectives _) = []"
| "delivery_args (RestDecideDirective directive_id _ _) = [directive_id]"

primrec knowledge_args :: "knowledge_call \<Rightarrow> string list" where
  "knowledge_args (RestGetContextPackage demand_id) = [demand_id]"
| "knowledge_args (RestListRules _) = []"
| "knowledge_args (RestSearchMemory _ _ _) = []"
| "knowledge_args (RestReadIndex _ _) = []"
| "knowledge_args (RestPutArtifact _ _) = []"

primrec cost_args :: "cost_call \<Rightarrow> string list" where
  "cost_args (RestRouteModel _ _) = []"
| "cost_args (RestGetBudget _ _) = []"
| "cost_args (RestSetBudget _ _ _) = []"
| "cost_args (RestRecordUsage _ _) = []"
| "cost_args (RestSummarizeCost _ _) = []"

primrec execution_args :: "execution_call \<Rightarrow> string list" where
  "execution_args (RestProvisionSandbox _ _ _) = []"
| "execution_args (RestDescribeSandbox sandbox_id) = [sandbox_id]"
| "execution_args (RestSuspendSandbox sandbox_id) = [sandbox_id]"
| "execution_args (RestResumeSandbox sandbox_id) = [sandbox_id]"
| "execution_args (RestDestroySandbox sandbox_id) = [sandbox_id]"

primrec runtime_args :: "runtime_call \<Rightarrow> string list" where
  "runtime_args (RestRunTurn demand_id thread_id _ _) = [demand_id, thread_id]"

primrec attention_args :: "attention_call \<Rightarrow> string list" where
  "attention_args (RestListAttention _ _ _) = []"

primrec path_args :: "rest_call \<Rightarrow> string list" where
  "path_args RestHealthz = []"
| "path_args (ToIdentity c) = identity_args c"
| "path_args (ToCatalog c) = catalog_args c"
| "path_args (ToSecondFactor c) = secondfactor_args c"
| "path_args (ToHierarchy c) = hierarchy_args c"
| "path_args (ToResource c) = resource_args c"
| "path_args (ToWorkflow c) = workflow_args c"
| "path_args (ToDemand c) = demand_args c"
| "path_args (ToDelivery c) = delivery_args c"
| "path_args (ToKnowledge c) = knowledge_args c"
| "path_args (ToCost c) = cost_args c"
| "path_args (ToExecution c) = execution_args c"
| "path_args (ToRuntime c) = runtime_args c"
| "path_args (ToAttention c) = attention_args c"

fun fill :: "tok list \<Rightarrow> string list \<Rightarrow> string" where
  "fill [] ws = []"
| "fill (Lit c # ts) ws = c # fill ts ws"
| "fill (Seg # ts) (w # ws) = w @ fill ts ws"
| "fill (Seg # ts) [] = []"

definition request_of :: "rest_call \<Rightarrow> (string \<rightharpoonup> string) \<Rightarrow> request" where
  "request_of c h = \<lparr>rq_method = av_method (route_of c),
     rq_path = fill (compile (av_path (route_of c))) (path_args c), rq_headers = h\<rparr>"

section \<open>Handlers\<close>

text \<open>What the edge is made of: the verifier, the core's stubs, and the parameters of the use cases.\<close>

record 'w edge =
  e_fb :: "'w fb_env"
  e_admin :: "'w admin_env"
  e_identity :: "'w identity_stub"
  e_catalog :: "'w catalog_stub"
  e_factor :: "'w factor_stub"
  e_hierarchy :: "'w hierarchy_stub"
  e_resource :: "'w resource_stub"
  e_workflow :: "'w workflow_stub"
  e_demand :: "'w demand_stub"
  e_delivery :: "'w delivery_stub"
  e_knowledge :: "'w knowledge_stub"
  e_cost :: "'w cost_stub"
  e_execution :: "'w execution_stub"
  e_agent :: "'w agent_stub"
  e_attention :: "'w attention_stub"
  e_str :: "pyval \<Rightarrow> string"
  e_repr :: "string \<Rightarrow> string"
  e_order :: "task list"
  e_first :: bool

text \<open>The body of an answer, by its \<^verbatim>\<open>response_model\<close>.\<close>

datatype (plugins only: code) identity_reply = MeReply me_response | OnboardingReply onboarding_state
  | HandleReply handle_availability | AccountReply account_summary | AccountsReply "account_summary list"
  | VerificationReply string | MembersReply "member_summary list" | MemberReply member_summary
  | InviteReply invite_summary | InvitesReply "invite_summary list" | PreviewReply invite_preview
  | AcceptedReply accepted_invite | MemberRemoved

datatype (plugins only: code) catalog_reply = PlansReply "plan list" | ProvidersReply "provider list"

datatype (plugins only: code) secondfactor_reply = FactorStateReply factor_state
  | FactorsReply "factor_summary list" | EnrolledReply enroll_response
  | ConfirmedReply "factor_summary option \<times> string list" | ChallengeReply challenge_response
  | StepUpReply step_up | CodesReply "string list" | FactorRevoked

datatype (plugins only: code) hierarchy_reply = TreeReply "tree_node list" | WorkspacesReply "workspace list"
  | WorkspaceReply workspace | ProjectsReply "project list" | ProjectReply project

datatype (plugins only: code) resource_reply = ResourcesReply "resource_summary list"
  | ResourceReply resource_summary | GrantsReply "grant_summary list" | GrantReply grant_summary
  | CheckReply check_result | GrantRevoked

datatype (plugins only: code) workflow_reply = FlowsReply "flow list" | FlowReply flow
  | EffectiveReply effective_flow | ValidationReply validation_report

datatype (plugins only: code) demand_reply = DemandsReply "demand list \<times> string" | DemandReply demand
  | CockpitReply cockpit | StageReply stage | ThreadsReply "thread list" | ThreadReply thread
  | FindingReply finding | MessageReply message

datatype (plugins only: code) delivery_reply = BoardReply delivery_board | PullRequestsReply "pull_request list"
  | QueueReply "merge_queue_entry list" | MergeReply "merge_refusal + merge_queue_entry"
  | DirectivesReply "directive list" | DirectiveReply directive

datatype (plugins only: code) knowledge_reply = PackageReply package_summary | RulesReply "string list"
  | HitsReply "memory_hit list" | ArtifactReply artifact_summary

datatype (plugins only: code) cost_reply = RoutingReply routing_decision | BudgetReply budget_view
  | UsageReply record_usage_outcome | CostReply cost_summary

datatype (plugins only: code) execution_reply = SandboxReply sandbox | DestroyedReply bool

datatype (plugins only: code) runtime_reply = TurnReply turn_outcome

datatype (plugins only: code) attention_reply = AttentionReply attention_box

datatype (plugins only: code) reply =
    HealthReply | FromIdentity identity_reply | FromCatalog catalog_reply
  | FromSecondFactor secondfactor_reply | FromHierarchy hierarchy_reply | FromResource resource_reply
  | FromWorkflow workflow_reply | FromDemand demand_reply | FromDelivery delivery_reply
  | FromKnowledge knowledge_reply | FromCost cost_reply | FromExecution execution_reply
  | FromRuntime runtime_reply | FromAttention attention_reply

text \<open>A handler's \<^verbatim>\<open>status_code\<close> with its answer.\<close>

definition answered :: "int \<Rightarrow> ('a \<Rightarrow> 'r) \<Rightarrow> ('w, 'a) io \<Rightarrow> ('w, int \<times> 'r) io" where
  "answered status f m = mapv (\<lambda>x. (status, f x)) m"

text \<open>\<^verbatim>\<open>project_id: str = Query(min_length=1)\<close>.\<close>

definition rest_list_rules :: "'w env \<Rightarrow> 'w knowledge_stub \<Rightarrow> string \<Rightarrow> ('w, string list) io" where
  "rest_list_rules env st project_id =
     (if project_id = [] then raise (ValidationError ''project_id'') else list_rules env st project_id)"

primrec identity_handler :: "'w edge \<Rightarrow> identity_call \<Rightarrow> ('w, int \<times> identity_reply) io" where
  "identity_handler ap RestMe = answered 200 MeReply (me (f_env (e_fb ap)) (e_identity ap))"
| "identity_handler ap (RestUpdateProfile body) =
     answered 200 MeReply (update_profile (f_env (e_fb ap)) (e_identity ap) body)"
| "identity_handler ap RestOnboarding =
     answered 200 OnboardingReply (onboarding (f_env (e_fb ap)) (e_identity ap))"
| "identity_handler ap (RestRecordStep step status) =
     answered 200 OnboardingReply (rest_record_step (f_env (e_fb ap)) (e_identity ap) step status)"
| "identity_handler ap RestCompleteOnboarding =
     answered 200 OnboardingReply (complete_onboarding (f_env (e_fb ap)) (e_identity ap))"
| "identity_handler ap (RestHandleAvailability handle) =
     answered 200 HandleReply (handle_availability (f_env (e_fb ap)) (e_identity ap) handle)"
| "identity_handler ap (RestUpdatePersonalAccount body) =
     answered 200 AccountReply (update_personal_account (f_env (e_fb ap)) (e_identity ap) body)"
| "identity_handler ap (RestSetPlan plan_key) =
     answered 200 AccountReply (rest_set_plan (f_env (e_fb ap)) (e_identity ap) plan_key)"
| "identity_handler ap RestSendEmailVerification =
     answered 200 VerificationReply (send_email_verification (f_env (e_fb ap)) (e_admin ap) (e_identity ap))"
| "identity_handler ap RestListAccounts =
     answered 200 AccountsReply (list_accounts (f_env (e_fb ap)) (e_identity ap))"
| "identity_handler ap (RestCreateAccount handle display_name legal_id) =
     answered 201 AccountReply (rest_create_account (f_env (e_fb ap)) (e_identity ap) handle display_name legal_id)"
| "identity_handler ap RestListMembers =
     answered 200 MembersReply (list_members (f_env (e_fb ap)) (e_identity ap))"
| "identity_handler ap (RestCreateInvite email role gs) =
     answered 201 InviteReply (rest_create_invite (f_env (e_fb ap)) (e_identity ap) email role gs)"
| "identity_handler ap RestListInvites =
     answered 200 InvitesReply (list_invites (f_env (e_fb ap)) (e_identity ap))"
| "identity_handler ap (RestGetInvite invite_id) =
     answered 200 PreviewReply (get_invite (f_env (e_fb ap)) (e_identity ap) invite_id)"
| "identity_handler ap (RestAcceptInvite invite_id) =
     answered 200 AcceptedReply (rest_accept_invite (f_env (e_fb ap)) (e_identity ap) invite_id)"
| "identity_handler ap (RestRevokeInvite invite_id) =
     answered 200 InviteReply (revoke_invite (f_env (e_fb ap)) (e_identity ap) invite_id)"
| "identity_handler ap (RestUpdateMember membership_id role) =
     answered 200 MemberReply (update_member (f_env (e_fb ap)) (e_identity ap) membership_id role)"
| "identity_handler ap (RestRemoveMember membership_id) =
     answered 204 (\<lambda>_. MemberRemoved) (rest_remove_member (f_env (e_fb ap)) (e_identity ap) membership_id)"

primrec catalog_handler :: "'w edge \<Rightarrow> catalog_call \<Rightarrow> ('w, int \<times> catalog_reply) io" where
  "catalog_handler ap RestListPlans = answered 200 PlansReply (plans (f_env (e_fb ap)) (e_catalog ap))"
| "catalog_handler ap RestListProviders =
     answered 200 ProvidersReply (providers (f_env (e_fb ap)) (e_catalog ap))"

primrec secondfactor_handler :: "'w edge \<Rightarrow> secondfactor_call \<Rightarrow> ('w, int \<times> secondfactor_reply) io" where
  "secondfactor_handler ap RestSecondFactorState =
     answered 200 FactorStateReply (factor_state_of (f_env (e_fb ap)) (e_factor ap))"
| "secondfactor_handler ap RestListSecondFactors =
     answered 200 FactorsReply (list_factors (f_env (e_fb ap)) (e_factor ap))"
| "secondfactor_handler ap (RestEnrollSecondFactor body) =
     answered 201 EnrolledReply (rest_enroll (e_repr ap) (f_env (e_fb ap)) (e_factor ap) body)"
| "secondfactor_handler ap (RestConfirmSecondFactor factor_id challenge_id otp) =
     answered 200 ConfirmedReply (bnd (ConfirmFactor challenge_id otp) (\<lambda>(ch, co). confirm (f_env (e_fb ap)) (e_factor ap) factor_id ch co))"
| "secondfactor_handler ap (RestRevokeSecondFactor factor_id) =
     answered 204 (\<lambda>_. FactorRevoked) (revoke (f_env (e_fb ap)) (e_factor ap) factor_id)"
| "secondfactor_handler ap (RestChallengeSecondFactor factor_id) =
     answered 200 ChallengeReply (challenge (f_env (e_fb ap)) (e_factor ap) factor_id)"
| "secondfactor_handler ap (RestVerifySecondFactor challenge_id otp) =
     answered 200 StepUpReply (bnd (VerifyRequest challenge_id otp) (\<lambda>(ch, co). verify_code (f_env (e_fb ap)) (e_factor ap) ch co))"
| "secondfactor_handler ap (RestVerifyRecoveryCode otp) =
     answered 200 StepUpReply (bnd (RecoveryRequest otp) (verify_recovery (f_env (e_fb ap)) (e_factor ap)))"
| "secondfactor_handler ap RestRegenerateRecoveryCodes =
     answered 200 CodesReply (regenerate_recovery_codes (f_env (e_fb ap)) (e_factor ap))"

primrec hierarchy_handler :: "'w edge \<Rightarrow> hierarchy_call \<Rightarrow> ('w, int \<times> hierarchy_reply) io" where
  "hierarchy_handler ap RestGetTree = answered 200 TreeReply (get_tree (f_env (e_fb ap)) (e_hierarchy ap))"
| "hierarchy_handler ap RestListWorkspaces =
     answered 200 WorkspacesReply (list_workspaces (f_env (e_fb ap)) (e_hierarchy ap))"
| "hierarchy_handler ap (RestCreateWorkspace name wkey description tags key) =
     answered 201 WorkspaceReply (rest_create_workspace (f_env (e_fb ap)) (e_hierarchy ap) name wkey description tags key)"
| "hierarchy_handler ap (RestListProjects workspace_id) =
     answered 200 ProjectsReply (list_projects (f_env (e_fb ap)) (e_hierarchy ap) workspace_id)"
| "hierarchy_handler ap (RestCreateProject workspace_id name description key) =
     answered 201 ProjectReply (rest_create_project (f_env (e_fb ap)) (e_hierarchy ap) workspace_id name description key)"
| "hierarchy_handler ap (RestGetProject project_id) =
     answered 200 ProjectReply (get_project (f_env (e_fb ap)) (e_hierarchy ap) project_id)"
| "hierarchy_handler ap (RestBindTaskManager project_id body) =
     answered 200 ProjectReply (bind_task_manager (f_env (e_fb ap)) (e_hierarchy ap) project_id body)"

primrec resource_handler :: "'w edge \<Rightarrow> resource_call \<Rightarrow> ('w, int \<times> resource_reply) io" where
  "resource_handler ap (RestListResources kind) =
     answered 200 ResourcesReply (list_resources (f_env (e_fb ap)) (e_resource ap) kind)"
| "resource_handler ap (RestCreateResource kind name config key) =
     answered 201 ResourceReply (rest_create_resource (f_env (e_fb ap)) (e_resource ap) kind name config key)"
| "resource_handler ap (RestGetResource resource_id) =
     answered 200 ResourceReply (get_resource (f_env (e_fb ap)) (e_resource ap) resource_id)"
| "resource_handler ap (RestSetCredential resource_id secret_base64) =
     answered 200 ResourceReply (rest_set_credential (f_env (e_fb ap)) (e_resource ap) resource_id secret_base64)"
| "resource_handler ap (RestListMemberGrants user_id) =
     answered 200 GrantsReply (list_member_grants (f_env (e_fb ap)) (e_resource ap) user_id)"
| "resource_handler ap (RestGrantResource resource_id user_id level) =
     answered 201 GrantReply (rest_grant_resource (f_env (e_fb ap)) (e_resource ap) resource_id user_id level)"
| "resource_handler ap (RestRevokeGrant grant_id) =
     answered 204 (\<lambda>_. GrantRevoked) (rest_revoke_grant (f_env (e_fb ap)) (e_resource ap) grant_id)"
| "resource_handler ap (RestCheckResource resource_id) =
     answered 200 CheckReply (check_resource (f_env (e_fb ap)) (e_resource ap) resource_id)"

primrec workflow_handler :: "'w edge \<Rightarrow> workflow_call \<Rightarrow> ('w, int \<times> workflow_reply) io" where
  "workflow_handler ap (RestListFlows owner_scope owner_id) =
     answered 200 FlowsReply (list_flows (f_env (e_fb ap)) (e_workflow ap) owner_scope owner_id)"
| "workflow_handler ap (RestCreateFlow body key) =
     answered 201 FlowReply (rest_create_flow (f_env (e_fb ap)) (e_workflow ap) body key)"
| "workflow_handler ap (RestResolveFlow scope scope_id) =
     answered 200 EffectiveReply (resolve_flow (f_env (e_fb ap)) (e_workflow ap) scope scope_id)"
| "workflow_handler ap (RestValidateFlow body) =
     answered 200 ValidationReply (rest_validate_flow (f_env (e_fb ap)) (e_workflow ap) body)"
| "workflow_handler ap (RestGetFlow flow_id) =
     answered 200 FlowReply (get_flow (f_env (e_fb ap)) (e_workflow ap) flow_id)"
| "workflow_handler ap (RestUpdateFlow flow_id body) =
     answered 200 FlowReply (rest_update_flow (f_env (e_fb ap)) (e_workflow ap) flow_id body)"
| "workflow_handler ap (RestPromoteFlow flow_id target_scope target_id) =
     answered 200 FlowReply (rest_promote_flow (f_env (e_fb ap)) (e_workflow ap) flow_id target_scope target_id)"

primrec demand_handler :: "'w edge \<Rightarrow> demand_call \<Rightarrow> ('w, int \<times> demand_reply) io" where
  "demand_handler ap (RestListDemands project_id page_size page_token) =
     answered 200 DemandsReply (list_demands (f_env (e_fb ap)) (e_demand ap) project_id page_size page_token)"
| "demand_handler ap (RestStartDemand project_id external_key key) =
     answered 201 DemandReply (rest_start_demand (f_env (e_fb ap)) (e_demand ap) project_id external_key key)"
| "demand_handler ap (RestGetDemand demand_id) =
     answered 200 DemandReply (get_demand (f_env (e_fb ap)) (e_demand ap) demand_id)"
| "demand_handler ap (RestGetCockpit demand_id) =
     answered 200 CockpitReply (get_cockpit (e_order ap) (f_env (e_fb ap)) (e_demand ap) demand_id)"
| "demand_handler ap (RestAdvanceStage demand_id stage_key status key) =
     answered 200 StageReply (rest_advance_stage (f_env (e_fb ap)) (e_demand ap) demand_id stage_key status key)"
| "demand_handler ap (RestDecideGate demand_id stage_key approved remark key) =
     answered 200 StageReply (decide_gate (f_env (e_fb ap)) (e_demand ap) demand_id stage_key approved remark key)"
| "demand_handler ap (RestListThreads demand_id) =
     answered 200 ThreadsReply (list_threads (f_env (e_fb ap)) (e_demand ap) demand_id)"
| "demand_handler ap (RestCreateThread demand_id thread_key brief key) =
     answered 201 ThreadReply (rest_create_thread (f_env (e_fb ap)) (e_demand ap) demand_id thread_key brief key)"
| "demand_handler ap (RestPublishFinding demand_id thread_id title payload key) =
     answered 201 FindingReply (rest_publish_finding (f_env (e_fb ap)) (e_demand ap) demand_id thread_id title payload key)"
| "demand_handler ap (RestPostMessage thread_id body key) =
     answered 201 MessageReply (rest_post_message (f_env (e_fb ap)) (e_demand ap) thread_id body key)"

primrec delivery_handler :: "'w edge \<Rightarrow> delivery_call \<Rightarrow> ('w, int \<times> delivery_reply) io" where
  "delivery_handler ap (RestGetBoard project_id) =
     answered 200 BoardReply (get_board (e_first ap) (f_env (e_fb ap)) (e_delivery ap) project_id)"
| "delivery_handler ap (RestListPullRequests demand_id project_id) =
     answered 200 PullRequestsReply (list_pull_requests (f_env (e_fb ap)) (e_delivery ap) demand_id project_id)"
| "delivery_handler ap (RestGetMergeQueue repo_id) =
     answered 200 QueueReply (get_merge_queue (f_env (e_fb ap)) (e_delivery ap) repo_id)"
| "delivery_handler ap (RestEnqueueMerge repo_id demand_id key) =
     mapv (\<lambda>(status, content). (status, MergeReply content))
      (rest_post_merge (f_env (e_fb ap)) (e_delivery ap) repo_id demand_id key)"
| "delivery_handler ap (RestListDirectives project_id) =
     answered 200 DirectivesReply (list_directives (f_env (e_fb ap)) (e_delivery ap) project_id)"
| "delivery_handler ap (RestDecideDirective directive_id decision key) =
     answered 200 DirectiveReply (decide_directive (f_env (e_fb ap)) (e_delivery ap) directive_id decision key)"

primrec knowledge_handler :: "'w edge \<Rightarrow> knowledge_call \<Rightarrow> ('w, int \<times> knowledge_reply) io" where
  "knowledge_handler ap (RestGetContextPackage demand_id) =
     answered 200 PackageReply (get_context_package (e_str ap) (f_env (e_fb ap)) (e_knowledge ap) demand_id)"
| "knowledge_handler ap (RestListRules project_id) =
     answered 200 RulesReply (rest_list_rules (f_env (e_fb ap)) (e_knowledge ap) project_id)"
| "knowledge_handler ap (RestSearchMemory q project_id limit) =
     answered 200 HitsReply (rest_search_memory (e_str ap) (f_env (e_fb ap)) (e_knowledge ap) q project_id limit)"
| "knowledge_handler ap (RestReadIndex project_id repo) =
     answered 200 ArtifactReply (rest_read_index (e_str ap) (f_env (e_fb ap)) (e_knowledge ap) project_id repo)"
| "knowledge_handler ap (RestPutArtifact body key) =
     answered 201 ArtifactReply (rest_put_artifact (e_str ap) (f_env (e_fb ap)) (e_knowledge ap) body key)"

primrec cost_handler :: "'w edge \<Rightarrow> cost_call \<Rightarrow> ('w, int \<times> cost_reply) io" where
  "cost_handler ap (RestRouteModel task_kind demand_id) =
     answered 200 RoutingReply (rest_route_model (f_env (e_fb ap)) (e_cost ap) task_kind demand_id)"
| "cost_handler ap (RestGetBudget scope scope_id) =
     answered 200 BudgetReply (get_budget (f_env (e_fb ap)) (e_cost ap) scope scope_id)"
| "cost_handler ap (RestSetBudget scope scope_id limit_micros) =
     answered 200 BudgetReply (rest_set_budget (f_env (e_fb ap)) (e_cost ap) scope scope_id limit_micros)"
| "cost_handler ap (RestRecordUsage body key) =
     answered 200 UsageReply (rest_record_usage (f_env (e_fb ap)) (e_cost ap) body key)"
| "cost_handler ap (RestSummarizeCost scope scope_id) =
     answered 200 CostReply (summarize_cost (f_env (e_fb ap)) (e_cost ap) scope scope_id)"

primrec execution_handler :: "'w edge \<Rightarrow> execution_call \<Rightarrow> ('w, int \<times> execution_reply) io" where
  "execution_handler ap (RestProvisionSandbox demand_id min_tier key) =
     answered 201 SandboxReply (rest_provision_sandbox (f_env (e_fb ap)) (e_execution ap) demand_id min_tier key)"
| "execution_handler ap (RestDescribeSandbox sandbox_id) =
     answered 200 SandboxReply (describe_sandbox (f_env (e_fb ap)) (e_execution ap) sandbox_id)"
| "execution_handler ap (RestSuspendSandbox sandbox_id) =
     answered 200 SandboxReply (suspend_sandbox (f_env (e_fb ap)) (e_execution ap) sandbox_id)"
| "execution_handler ap (RestResumeSandbox sandbox_id) =
     answered 200 SandboxReply (resume_sandbox (f_env (e_fb ap)) (e_execution ap) sandbox_id)"
| "execution_handler ap (RestDestroySandbox sandbox_id) =
     answered 200 DestroyedReply (destroy_sandbox (f_env (e_fb ap)) (e_execution ap) sandbox_id)"

primrec runtime_handler :: "'w edge \<Rightarrow> runtime_call \<Rightarrow> ('w, int \<times> runtime_reply) io" where
  "runtime_handler ap (RestRunTurn demand_id thread_id body key) =
     answered 200 TurnReply (rest_run_turn (f_env (e_fb ap)) (e_agent ap) demand_id thread_id body key)"

primrec attention_handler :: "'w edge \<Rightarrow> attention_call \<Rightarrow> ('w, int \<times> attention_reply) io" where
  "attention_handler ap (RestListAttention include_resolved demand_id page_size) =
     answered 200 AttentionReply (list_attention (f_env (e_fb ap)) (e_attention ap) include_resolved demand_id page_size)"

primrec rest_handler :: "'w edge \<Rightarrow> rest_call \<Rightarrow> ('w, int \<times> reply) io" where
  "rest_handler ap RestHealthz = ret (200, HealthReply)"
| "rest_handler ap (ToIdentity c) = mapv (\<lambda>(status, a). (status, FromIdentity a)) (identity_handler ap c)"
| "rest_handler ap (ToCatalog c) = mapv (\<lambda>(status, a). (status, FromCatalog a)) (catalog_handler ap c)"
| "rest_handler ap (ToSecondFactor c) = mapv (\<lambda>(status, a). (status, FromSecondFactor a)) (secondfactor_handler ap c)"
| "rest_handler ap (ToHierarchy c) = mapv (\<lambda>(status, a). (status, FromHierarchy a)) (hierarchy_handler ap c)"
| "rest_handler ap (ToResource c) = mapv (\<lambda>(status, a). (status, FromResource a)) (resource_handler ap c)"
| "rest_handler ap (ToWorkflow c) = mapv (\<lambda>(status, a). (status, FromWorkflow a)) (workflow_handler ap c)"
| "rest_handler ap (ToDemand c) = mapv (\<lambda>(status, a). (status, FromDemand a)) (demand_handler ap c)"
| "rest_handler ap (ToDelivery c) = mapv (\<lambda>(status, a). (status, FromDelivery a)) (delivery_handler ap c)"
| "rest_handler ap (ToKnowledge c) = mapv (\<lambda>(status, a). (status, FromKnowledge a)) (knowledge_handler ap c)"
| "rest_handler ap (ToCost c) = mapv (\<lambda>(status, a). (status, FromCost a)) (cost_handler ap c)"
| "rest_handler ap (ToExecution c) = mapv (\<lambda>(status, a). (status, FromExecution a)) (execution_handler ap c)"
| "rest_handler ap (ToRuntime c) = mapv (\<lambda>(status, a). (status, FromRuntime a)) (runtime_handler ap c)"
| "rest_handler ap (ToAttention c) = mapv (\<lambda>(status, a). (status, FromAttention a)) (attention_handler ap c)"

text \<open>A request through the whole application.\<close>

definition rest_serve :: "'w edge \<Rightarrow> route list \<Rightarrow> string option \<Rightarrow> rest_call \<Rightarrow> (string \<rightharpoonup> string)
    \<Rightarrow> ('w, (json_response + int \<times> reply) \<times> string) io" where
  "rest_serve ap routes client c h =
     rest_app (e_fb ap) (e_identity ap) routes (request_of c h) client (rest_handler ap c)"

section \<open>Each request takes its route\<close>

text \<open>A row under another path.\<close>

lemma prefixed:
  "(decorated m p n)\<lparr>av_path := x\<rparr> = decorated m x n" "av_path (decorated m p n) = p"
  "(public r)\<lparr>av_path := x\<rparr> = public (r\<lparr>av_path := x\<rparr>)" "av_path (public r) = av_path r"
  "(token_only r)\<lparr>av_path := x\<rparr> = token_only (r\<lparr>av_path := x\<rparr>)" "av_path (token_only r) = av_path r"
  by (simp_all add: decorated_def public_def token_only_def)

lemma app_routes_list: "app_routes = [
   public (GET ''/healthz'' ''healthz''),
   GET ''/api/v1/me'' ''me'',
   PATCH ''/api/v1/me'' ''update_profile'',
   GET ''/api/v1/me/onboarding'' ''onboarding'',
   POST ''/api/v1/me/onboarding/steps/{step}'' ''record_step'',
   POST ''/api/v1/me/onboarding/complete'' ''complete_onboarding'',
   GET ''/api/v1/accounts/handles/{handle}/availability'' ''handle_availability'',
   PATCH ''/api/v1/accounts/current'' ''update_personal_account'',
   PUT ''/api/v1/accounts/current/plan'' ''set_plan'',
   token_only (POST ''/api/v1/verification/email'' ''send_email_verification''),
   GET ''/api/v1/accounts'' ''list_accounts'',
   POST ''/api/v1/accounts'' ''create_account'',
   GET ''/api/v1/accounts/current/members'' ''list_members'',
   POST ''/api/v1/invites'' ''create_invite'',
   GET ''/api/v1/invites'' ''list_invites'',
   GET ''/api/v1/invites/{invite_id}'' ''get_invite'',
   POST ''/api/v1/invites/{invite_id}/accept'' ''accept_invite'',
   DELETE ''/api/v1/invites/{invite_id}'' ''revoke_invite'',
   PATCH ''/api/v1/members/{membership_id}'' ''update_member'',
   DELETE ''/api/v1/members/{membership_id}'' ''remove_member'',
   GET ''/api/v1/catalog/plans'' ''list_plans'',
   GET ''/api/v1/catalog/providers'' ''list_providers'',
   GET ''/api/v1/me/second-factor'' ''second_factor_state'',
   GET ''/api/v1/me/second-factor/factors'' ''list_second_factors'',
   POST ''/api/v1/me/second-factor/factors'' ''enroll_second_factor'',
   POST ''/api/v1/me/second-factor/factors/{factor_id}/confirm'' ''confirm_second_factor'',
   DELETE ''/api/v1/me/second-factor/factors/{factor_id}'' ''revoke_second_factor'',
   POST ''/api/v1/me/second-factor/challenge'' ''challenge_second_factor'',
   POST ''/api/v1/me/second-factor/verify'' ''verify_second_factor'',
   POST ''/api/v1/me/second-factor/recovery'' ''verify_recovery_code'',
   POST ''/api/v1/me/second-factor/recovery-codes'' ''regenerate_recovery_codes'',
   GET ''/api/v1/tree'' ''get_tree'',
   GET ''/api/v1/workspaces'' ''list_workspaces'',
   POST ''/api/v1/workspaces'' ''create_workspace'',
   GET ''/api/v1/projects'' ''list_projects'',
   POST ''/api/v1/projects'' ''create_project'',
   GET ''/api/v1/projects/{project_id}'' ''get_project'',
   PUT ''/api/v1/projects/{project_id}/task-manager'' ''bind_task_manager'',
   GET ''/api/v1/resources'' ''list_resources'',
   POST ''/api/v1/resources'' ''create_resource'',
   GET ''/api/v1/resources/{resource_id}'' ''get_resource'',
   PUT ''/api/v1/resources/{resource_id}/credential'' ''set_credential'',
   GET ''/api/v1/members/{user_id}/grants'' ''list_member_grants'',
   POST ''/api/v1/grants'' ''grant_resource'',
   DELETE ''/api/v1/grants/{grant_id}'' ''revoke_grant'',
   POST ''/api/v1/resources/{resource_id}/check'' ''check_resource'',
   GET ''/api/v1/flows'' ''list_flows'',
   POST ''/api/v1/flows'' ''create_flow'',
   GET ''/api/v1/flows/effective'' ''resolve_flow'',
   POST ''/api/v1/flows/validate'' ''validate_flow'',
   GET ''/api/v1/flows/{flow_id}'' ''get_flow'',
   PUT ''/api/v1/flows/{flow_id}'' ''update_flow'',
   POST ''/api/v1/flows/{flow_id}/promotion'' ''promote_flow'',
   GET ''/api/v1/demands'' ''list_demands'',
   POST ''/api/v1/demands'' ''start_demand'',
   GET ''/api/v1/demands/{demand_id}'' ''get_demand'',
   GET ''/api/v1/demands/{demand_id}/cockpit'' ''get_cockpit'',
   POST ''/api/v1/demands/{demand_id}/stages/{stage_key}/advance'' ''advance_stage'',
   POST ''/api/v1/demands/{demand_id}/stages/{stage_key}/gate'' ''decide_gate'',
   GET ''/api/v1/demands/{demand_id}/threads'' ''list_threads'',
   POST ''/api/v1/demands/{demand_id}/threads'' ''create_thread'',
   POST ''/api/v1/demands/{demand_id}/findings'' ''publish_finding'',
   POST ''/api/v1/threads/{thread_id}/messages'' ''post_message'',
   GET ''/api/v1/delivery/board'' ''get_board'',
   GET ''/api/v1/pull-requests'' ''list_pull_requests'',
   GET ''/api/v1/repos/{repo_id}/merge-queue'' ''get_merge_queue'',
   POST ''/api/v1/repos/{repo_id}/merge-queue'' ''enqueue_merge'',
   GET ''/api/v1/directives'' ''list_directives'',
   POST ''/api/v1/directives/{directive_id}/decision'' ''decide_directive'',
   GET ''/api/v1/demands/{demand_id}/context-package'' ''get_context_package'',
   GET ''/api/v1/knowledge/rules'' ''list_rules'',
   GET ''/api/v1/knowledge/memory'' ''search_memory'',
   GET ''/api/v1/knowledge/index'' ''read_index'',
   POST ''/api/v1/knowledge/artifacts'' ''put_artifact'',
   GET ''/api/v1/cost/routing'' ''route_model'',
   GET ''/api/v1/cost/budget'' ''get_budget'',
   PUT ''/api/v1/cost/budget'' ''set_budget'',
   POST ''/api/v1/cost/usage'' ''record_usage'',
   GET ''/api/v1/cost/summary'' ''summarize_cost'',
   POST ''/api/v1/sandboxes'' ''provision_sandbox'',
   GET ''/api/v1/sandboxes/{sandbox_id}'' ''describe_sandbox'',
   POST ''/api/v1/sandboxes/{sandbox_id}/suspend'' ''suspend_sandbox'',
   POST ''/api/v1/sandboxes/{sandbox_id}/resume'' ''resume_sandbox'',
   DELETE ''/api/v1/sandboxes/{sandbox_id}'' ''destroy_sandbox'',
   POST ''/api/v1/demands/{demand_id}/threads/{thread_id}/turns'' ''run_turn'',
   GET ''/api/v1/attention'' ''list_attention'',
   GET ''/api/v1/stream/attention'' ''stream_attention'',
   GET ''/api/v1/stream/events'' ''stream_account_events'',
   GET ''/api/v1/stream/demands/{demand_id}'' ''stream_demand'',
   GET ''/api/v1/stream/sandboxes/{sandbox_id}/logs'' ''stream_sandbox_logs'']"
  by (simp only: app_routes_def include_router_def list.map concat.simps api_router.select_convs append.simps prefixed
      health_router_def identity_router_def catalog_router_def secondfactor_router_def hierarchy_router_def resource_router_def workflow_router_def demand_router_def delivery_router_def knowledge_router_def cost_router_def execution_router_def runtime_router_def attention_router_def stream_router_def)
definition stream_routes :: "api_route list" where
  "stream_routes = [GET ''/api/v1/stream/attention'' ''stream_attention'',
     GET ''/api/v1/stream/events'' ''stream_account_events'',
     GET ''/api/v1/stream/demands/{demand_id}'' ''stream_demand'',
     GET ''/api/v1/stream/sandboxes/{sandbox_id}/logs'' ''stream_sandbox_logs'']"

lemmas listed = app_routes_list list.set insert_iff simp_thms

lemma router_routes:
  "identity_route c1 \<in> set app_routes" "catalog_route c2 \<in> set app_routes"
  "secondfactor_route c3 \<in> set app_routes" "hierarchy_route c4 \<in> set app_routes"
  "resource_route c5 \<in> set app_routes" "workflow_route c6 \<in> set app_routes"
  "demand_route c7 \<in> set app_routes" "delivery_route c8 \<in> set app_routes"
  "knowledge_route c9 \<in> set app_routes" "cost_route c10 \<in> set app_routes"
  "execution_route c11 \<in> set app_routes" "runtime_route c12 \<in> set app_routes"
  "attention_route c13 \<in> set app_routes"
  by ((cases c1; simp only: identity_route.simps listed), (cases c2; simp only: catalog_route.simps listed),
      (cases c3; simp only: secondfactor_route.simps listed), (cases c4; simp only: hierarchy_route.simps listed),
      (cases c5; simp only: resource_route.simps listed), (cases c6; simp only: workflow_route.simps listed),
      (cases c7; simp only: demand_route.simps listed), (cases c8; simp only: delivery_route.simps listed),
      (cases c9; simp only: knowledge_route.simps listed), (cases c10; simp only: cost_route.simps listed),
      (cases c11; simp only: execution_route.simps listed), (cases c12; simp only: runtime_route.simps listed),
      (cases c13; simp only: attention_route.simps listed))

lemma route_in_app: "route_of c \<in> set app_routes"
  by (cases c) (simp_all only: route_of.simps router_routes, simp only: listed)

text \<open>One request for each row.\<close>

lemma routes_sampled: "\<exists>cs. app_routes = map route_of cs @ stream_routes"
  unfolding app_routes_list stream_routes_def
  by (rule exI [of _ "[RestHealthz,
     ToIdentity RestMe,
     ToIdentity (RestUpdateProfile undefined),
     ToIdentity RestOnboarding,
     ToIdentity (RestRecordStep undefined undefined),
     ToIdentity RestCompleteOnboarding,
     ToIdentity (RestHandleAvailability undefined),
     ToIdentity (RestUpdatePersonalAccount undefined),
     ToIdentity (RestSetPlan undefined),
     ToIdentity RestSendEmailVerification,
     ToIdentity RestListAccounts,
     ToIdentity (RestCreateAccount undefined undefined undefined),
     ToIdentity RestListMembers,
     ToIdentity (RestCreateInvite undefined undefined undefined),
     ToIdentity RestListInvites,
     ToIdentity (RestGetInvite undefined),
     ToIdentity (RestAcceptInvite undefined),
     ToIdentity (RestRevokeInvite undefined),
     ToIdentity (RestUpdateMember undefined undefined),
     ToIdentity (RestRemoveMember undefined),
     ToCatalog RestListPlans,
     ToCatalog RestListProviders,
     ToSecondFactor RestSecondFactorState,
     ToSecondFactor RestListSecondFactors,
     ToSecondFactor (RestEnrollSecondFactor undefined),
     ToSecondFactor (RestConfirmSecondFactor undefined undefined undefined),
     ToSecondFactor (RestRevokeSecondFactor undefined),
     ToSecondFactor (RestChallengeSecondFactor undefined),
     ToSecondFactor (RestVerifySecondFactor undefined undefined),
     ToSecondFactor (RestVerifyRecoveryCode undefined),
     ToSecondFactor RestRegenerateRecoveryCodes,
     ToHierarchy RestGetTree,
     ToHierarchy RestListWorkspaces,
     ToHierarchy (RestCreateWorkspace undefined undefined undefined undefined undefined),
     ToHierarchy (RestListProjects undefined),
     ToHierarchy (RestCreateProject undefined undefined undefined undefined),
     ToHierarchy (RestGetProject undefined),
     ToHierarchy (RestBindTaskManager undefined undefined),
     ToResource (RestListResources undefined),
     ToResource (RestCreateResource undefined undefined undefined undefined),
     ToResource (RestGetResource undefined),
     ToResource (RestSetCredential undefined undefined),
     ToResource (RestListMemberGrants undefined),
     ToResource (RestGrantResource undefined undefined undefined),
     ToResource (RestRevokeGrant undefined),
     ToResource (RestCheckResource undefined),
     ToWorkflow (RestListFlows undefined undefined),
     ToWorkflow (RestCreateFlow undefined undefined),
     ToWorkflow (RestResolveFlow undefined undefined),
     ToWorkflow (RestValidateFlow undefined),
     ToWorkflow (RestGetFlow undefined),
     ToWorkflow (RestUpdateFlow undefined undefined),
     ToWorkflow (RestPromoteFlow undefined undefined undefined),
     ToDemand (RestListDemands undefined undefined undefined),
     ToDemand (RestStartDemand undefined undefined undefined),
     ToDemand (RestGetDemand undefined),
     ToDemand (RestGetCockpit undefined),
     ToDemand (RestAdvanceStage undefined undefined undefined undefined),
     ToDemand (RestDecideGate undefined undefined undefined undefined undefined),
     ToDemand (RestListThreads undefined),
     ToDemand (RestCreateThread undefined undefined undefined undefined),
     ToDemand (RestPublishFinding undefined undefined undefined undefined undefined),
     ToDemand (RestPostMessage undefined undefined undefined),
     ToDelivery (RestGetBoard undefined),
     ToDelivery (RestListPullRequests undefined undefined),
     ToDelivery (RestGetMergeQueue undefined),
     ToDelivery (RestEnqueueMerge undefined undefined undefined),
     ToDelivery (RestListDirectives undefined),
     ToDelivery (RestDecideDirective undefined undefined undefined),
     ToKnowledge (RestGetContextPackage undefined),
     ToKnowledge (RestListRules undefined),
     ToKnowledge (RestSearchMemory undefined undefined undefined),
     ToKnowledge (RestReadIndex undefined undefined),
     ToKnowledge (RestPutArtifact undefined undefined),
     ToCost (RestRouteModel undefined undefined),
     ToCost (RestGetBudget undefined undefined),
     ToCost (RestSetBudget undefined undefined undefined),
     ToCost (RestRecordUsage undefined undefined),
     ToCost (RestSummarizeCost undefined undefined),
     ToExecution (RestProvisionSandbox undefined undefined undefined),
     ToExecution (RestDescribeSandbox undefined),
     ToExecution (RestSuspendSandbox undefined),
     ToExecution (RestResumeSandbox undefined),
     ToExecution (RestDestroySandbox undefined),
     ToRuntime (RestRunTurn undefined undefined undefined undefined),
     ToAttention (RestListAttention undefined undefined undefined)]"])
    (simp only: list.map append.simps route_of.simps identity_route.simps catalog_route.simps secondfactor_route.simps hierarchy_route.simps resource_route.simps workflow_route.simps demand_route.simps delivery_route.simps knowledge_route.simps cost_route.simps execution_route.simps runtime_route.simps attention_route.simps)

lemma app_routes_calls: "set app_routes = range route_of \<union> set stream_routes"
proof -
  from routes_sampled obtain cs where cs: "app_routes = map route_of cs @ stream_routes" by blast
  then have "set app_routes = set (map route_of cs @ stream_routes)" by (rule arg_cong)
  moreover have "range route_of \<subseteq> set app_routes" using route_in_app by blast
  ultimately show ?thesis by auto
qed

text \<open>A template takes as many segments as the handler takes from the path.\<close>

fun takes :: "tok list \<Rightarrow> string list \<Rightarrow> bool" where
  "takes [] ws \<longleftrightarrow> ws = []"
| "takes (Lit c # ts) ws \<longleftrightarrow> takes ts ws"
| "takes (Seg # ts) [] \<longleftrightarrow> False"
| "takes (Seg # ts) (w # ws) \<longleftrightarrow> takes ts ws"

lemma router_takes:
  "takes (compile (av_path (identity_route c1))) (identity_args c1)"
  "takes (compile (av_path (catalog_route c2))) (catalog_args c2)"
  "takes (compile (av_path (secondfactor_route c3))) (secondfactor_args c3)"
  "takes (compile (av_path (hierarchy_route c4))) (hierarchy_args c4)"
  "takes (compile (av_path (resource_route c5))) (resource_args c5)"
  "takes (compile (av_path (workflow_route c6))) (workflow_args c6)"
  "takes (compile (av_path (demand_route c7))) (demand_args c7)"
  "takes (compile (av_path (delivery_route c8))) (delivery_args c8)"
  "takes (compile (av_path (knowledge_route c9))) (knowledge_args c9)"
  "takes (compile (av_path (cost_route c10))) (cost_args c10)"
  "takes (compile (av_path (execution_route c11))) (execution_args c11)"
  "takes (compile (av_path (runtime_route c12))) (runtime_args c12)"
  "takes (compile (av_path (attention_route c13))) (attention_args c13)"
  by ((induct c1; code_simp), (induct c2; code_simp), (induct c3; code_simp), (induct c4; code_simp),
      (induct c5; code_simp), (induct c6; code_simp), (induct c7; code_simp), (induct c8; code_simp),
      (induct c9; code_simp), (induct c10; code_simp), (induct c11; code_simp), (induct c12; code_simp),
      (induct c13; code_simp))

lemma call_takes: "takes (compile (av_path (route_of c))) (path_args c)"
proof (cases c)
  case RestHealthz
  show ?thesis unfolding RestHealthz by code_simp
qed (simp_all only: route_of.simps path_args.simps router_takes)

lemma fills_fill: "takes ts ws \<Longrightarrow> \<forall>w \<in> set ws. w \<noteq> [] \<and> CHR ''/'' \<notin> set w \<Longrightarrow> fills ts (fill ts ws)"
  by (induction ts ws rule: takes.induct) auto

lemma set_fill: "takes ts ws \<Longrightarrow> x \<in> set (fill ts ws) \<Longrightarrow> Lit x \<in> set ts \<or> (\<exists>w \<in> set ws. x \<in> set w)"
  by (induction ts ws rule: takes.induct) auto

lemma app_one_line: "\<forall>r \<in> set app_routes. Lit CHR 0x0A \<notin> set (compile (av_path r))"
  by code_simp

text \<open>
  What a client can put in a path: segments that are not empty and hold no slash and no line end. The one
  request with no path of its own is for the flow named \<^verbatim>\<open>effective\<close>.
\<close>

definition fits :: "rest_call \<Rightarrow> bool" where
  "fits c \<longleftrightarrow> (\<forall>w \<in> set (path_args c). w \<noteq> [] \<and> CHR ''/'' \<notin> set w \<and> CHR 0x0A \<notin> set w)
     \<and> c \<noteq> ToWorkflow (RestGetFlow ''effective'')"

lemma call_served: "fits c \<Longrightarrow> serves (leaf_of (route_of c)) (request_of c h)"
  using fills_fill [OF call_takes [of c]] by (simp add: serves_def leaf_of_def request_of_def fits_def)

lemma call_one_line: "fits c \<Longrightarrow> CHR 0x0A \<notin> set (rq_path (request_of c h))"
  using set_fill [OF call_takes [of c], of "CHR 0x0A"] app_one_line route_in_app [of c]
  by (auto simp: request_of_def fits_def)

lemma fill_literals: "fill (map Lit p @ ts) ws = p @ fill ts ws"
  by (induction p) auto

lemma flow_template: "compile ''/api/v1/flows/{flow_id}'' = map Lit ''/api/v1/flows/'' @ [Seg]"
  by code_simp

lemma row_fields [simp]: "av_handler (decorated m p n) = n" "av_path (decorated m p n) = p"
  "av_handler (public r) = av_handler r" "av_handler (token_only r) = av_handler r"
  "av_path (public r) = av_path r" "av_path (token_only r) = av_path r"
  by (simp_all add: decorated_def public_def token_only_def)

lemma other_handlers:
  "av_handler (identity_route c1) \<noteq> ''get_flow''" "av_handler (catalog_route c2) \<noteq> ''get_flow''"
  "av_handler (secondfactor_route c3) \<noteq> ''get_flow''" "av_handler (hierarchy_route c4) \<noteq> ''get_flow''"
  "av_handler (resource_route c5) \<noteq> ''get_flow''" "av_handler (demand_route c7) \<noteq> ''get_flow''"
  "av_handler (delivery_route c8) \<noteq> ''get_flow''" "av_handler (knowledge_route c9) \<noteq> ''get_flow''"
  "av_handler (cost_route c10) \<noteq> ''get_flow''" "av_handler (execution_route c11) \<noteq> ''get_flow''"
  "av_handler (runtime_route c12) \<noteq> ''get_flow''" "av_handler (attention_route c13) \<noteq> ''get_flow''"
  by (cases c1, simp_all) (cases c2, simp_all, cases c3, simp_all, cases c4, simp_all, cases c5, simp_all,
      cases c7, simp_all, cases c8, simp_all, cases c9, simp_all, cases c10, simp_all, cases c11, simp_all,
      cases c12, simp_all, cases c13, simp_all)

lemma get_flow_call: "av_handler (route_of c) = ''get_flow'' \<Longrightarrow> \<exists>f. c = ToWorkflow (RestGetFlow f)"
proof (cases c)
  case (ToWorkflow w)
  then show "av_handler (route_of c) = ''get_flow'' \<Longrightarrow> ?thesis" by (cases w) simp_all
qed (simp_all add: other_handlers)

lemma call_dispatched:
  assumes "fits c"
  shows "dispatched (request_of c h) = Some (route_of c)"
proof -
  have "rq_path (request_of c h) \<noteq> ''/api/v1/flows/effective''" if g: "av_handler (route_of c) = ''get_flow''"
  proof -
    from get_flow_call [OF g] obtain f where c: "c = ToWorkflow (RestGetFlow f)" by blast
    with assms have "f \<noteq> ''effective''" by (auto simp: fits_def)
    then show ?thesis unfolding c
      by (simp add: request_of_def flow_template fill_literals decorated_def del: compile.simps)
  qed
  with no_route_hidden [OF route_in_app call_served [OF assms] call_one_line [OF assms]]
  show ?thesis by blast
qed

text \<open>
  C38. Every request takes its route, and every route has its request. A request FastAPI can read for a handler, its
  path made of the handler's template and any segments, is dispatched to that handler's row whatever the rows
  before it; and the rows of \<^verbatim>\<open>create_app\<close> are those of the requests and the four that open a stream.
\<close>

theorem every_request_takes_its_route:
  assumes "fits c"
  shows "dispatched (request_of c h) = Some (route_of c) \<and> set app_routes = range route_of \<union> set stream_routes"
  by (intro conjI call_dispatched assms app_routes_calls)

theorem every_request_takes_its_route_witness:
  "dispatched (request_of (ToWorkflow (RestGetFlow ''f-1'')) Map.empty) = Some (GET ''/api/v1/flows/{flow_id}'' ''get_flow'')"
  using every_request_takes_its_route [of "ToWorkflow (RestGetFlow ''f-1'')" Map.empty, THEN conjunct1]
  by (simp add: fits_def)

end
