(* ===== verification/Admission.thy ===== *)
theory Admission
  imports Application
begin

text \<open>
  What every REST request takes of its caller, and that the application serves nobody who does not have it.
\<close>

section \<open>Who is served\<close>

text \<open>What a request takes of its caller: that there is one, an active account, or a role in it.\<close>

datatype need = Identified | Scoped | Roled "string list"

fun meets :: "need \<Rightarrow> auth_context \<Rightarrow> bool" where
  "meets Identified ctx \<longleftrightarrow> True"
| "meets Scoped ctx \<longleftrightarrow> a_account_id ctx \<noteq> []"
| "meets (Roled roles) ctx \<longleftrightarrow> may_call roles ctx"

primrec identity_need :: "identity_call \<Rightarrow> need" where
  "identity_need RestMe = Identified"
| "identity_need (RestUpdateProfile _) = Identified"
| "identity_need RestOnboarding = Identified"
| "identity_need (RestRecordStep _ _) = Identified"
| "identity_need RestCompleteOnboarding = Identified"
| "identity_need (RestHandleAvailability _) = Identified"
| "identity_need (RestUpdatePersonalAccount _) = Identified"
| "identity_need (RestSetPlan _) = Identified"
| "identity_need RestSendEmailVerification = Identified"
| "identity_need RestListAccounts = Identified"
| "identity_need (RestCreateAccount _ _ _) = Scoped"
| "identity_need RestListMembers = Roled managers"
| "identity_need (RestCreateInvite _ _ _) = Roled managers"
| "identity_need RestListInvites = Roled managers"
| "identity_need (RestGetInvite _) = Identified"
| "identity_need (RestAcceptInvite _) = Identified"
| "identity_need (RestRevokeInvite _) = Roled managers"
| "identity_need (RestUpdateMember _ _) = Roled managers"
| "identity_need (RestRemoveMember _) = Identified"

primrec catalog_need :: "catalog_call \<Rightarrow> need" where
  "catalog_need RestListPlans = Identified"
| "catalog_need RestListProviders = Identified"

primrec secondfactor_need :: "secondfactor_call \<Rightarrow> need" where
  "secondfactor_need RestSecondFactorState = Identified"
| "secondfactor_need RestListSecondFactors = Identified"
| "secondfactor_need (RestEnrollSecondFactor _) = Identified"
| "secondfactor_need (RestConfirmSecondFactor _ _ _) = Identified"
| "secondfactor_need (RestRevokeSecondFactor _) = Identified"
| "secondfactor_need (RestChallengeSecondFactor _) = Identified"
| "secondfactor_need (RestVerifySecondFactor _ _) = Identified"
| "secondfactor_need (RestVerifyRecoveryCode _) = Identified"
| "secondfactor_need RestRegenerateRecoveryCodes = Identified"

primrec hierarchy_need :: "hierarchy_call \<Rightarrow> need" where
  "hierarchy_need RestGetTree = Scoped"
| "hierarchy_need RestListWorkspaces = Scoped"
| "hierarchy_need (RestCreateWorkspace _ _ _ _ _) = Roled managers"
| "hierarchy_need (RestListProjects _) = Scoped"
| "hierarchy_need (RestCreateProject _ _ _ _) = Roled managers"
| "hierarchy_need (RestGetProject _) = Scoped"
| "hierarchy_need (RestBindTaskManager _ _) = Roled managers"

primrec resource_need :: "resource_call \<Rightarrow> need" where
  "resource_need (RestListResources _) = Scoped"
| "resource_need (RestCreateResource _ _ _ _) = Scoped"
| "resource_need (RestGetResource _) = Scoped"
| "resource_need (RestSetCredential _ _) = Scoped"
| "resource_need (RestListMemberGrants _) = Roled managers"
| "resource_need (RestGrantResource _ _ _) = Roled managers"
| "resource_need (RestRevokeGrant _) = Identified"
| "resource_need (RestCheckResource _) = Scoped"

primrec workflow_need :: "workflow_call \<Rightarrow> need" where
  "workflow_need (RestListFlows _ _) = Scoped"
| "workflow_need (RestCreateFlow _ _) = Roled writers"
| "workflow_need (RestResolveFlow _ _) = Scoped"
| "workflow_need (RestValidateFlow _) = Scoped"
| "workflow_need (RestGetFlow _) = Scoped"
| "workflow_need (RestUpdateFlow _ _) = Roled writers"
| "workflow_need (RestPromoteFlow _ _ _) = Roled managers"

primrec demand_need :: "demand_call \<Rightarrow> need" where
  "demand_need (RestListDemands _ _ _) = Scoped"
| "demand_need (RestStartDemand _ _ _) = Roled writers"
| "demand_need (RestGetDemand _) = Scoped"
| "demand_need (RestGetCockpit _) = Scoped"
| "demand_need (RestAdvanceStage _ _ _ _) = Roled writers"
| "demand_need (RestDecideGate _ _ _ _ _) = Roled writers"
| "demand_need (RestListThreads _) = Scoped"
| "demand_need (RestCreateThread _ _ _ _) = Roled writers"
| "demand_need (RestPublishFinding _ _ _ _ _) = Roled writers"
| "demand_need (RestPostMessage _ _ _) = Roled writers"

primrec delivery_need :: "delivery_call \<Rightarrow> need" where
  "delivery_need (RestGetBoard _) = Scoped"
| "delivery_need (RestListPullRequests _ _) = Scoped"
| "delivery_need (RestGetMergeQueue _) = Scoped"
| "delivery_need (RestEnqueueMerge _ _ _) = Roled writers"
| "delivery_need (RestListDirectives _) = Scoped"
| "delivery_need (RestDecideDirective _ _ _) = Roled writers"

primrec knowledge_need :: "knowledge_call \<Rightarrow> need" where
  "knowledge_need (RestGetContextPackage _) = Scoped"
| "knowledge_need (RestListRules _) = Scoped"
| "knowledge_need (RestSearchMemory _ _ _) = Scoped"
| "knowledge_need (RestReadIndex _ _) = Scoped"
| "knowledge_need (RestPutArtifact _ _) = Scoped"

primrec cost_need :: "cost_call \<Rightarrow> need" where
  "cost_need (RestRouteModel _ _) = Scoped"
| "cost_need (RestGetBudget _ _) = Scoped"
| "cost_need (RestSetBudget _ _ _) = Roled managers"
| "cost_need (RestRecordUsage _ _) = Scoped"
| "cost_need (RestSummarizeCost _ _) = Scoped"

primrec execution_need :: "execution_call \<Rightarrow> need" where
  "execution_need (RestProvisionSandbox _ _ _) = Roled writers"
| "execution_need (RestDescribeSandbox _) = Scoped"
| "execution_need (RestSuspendSandbox _) = Roled writers"
| "execution_need (RestResumeSandbox _) = Roled writers"
| "execution_need (RestDestroySandbox _) = Roled writers"

primrec runtime_need :: "runtime_call \<Rightarrow> need" where
  "runtime_need (RestRunTurn _ _ _ _) = Roled writers"

primrec attention_need :: "attention_call \<Rightarrow> need" where
  "attention_need (RestListAttention _ _ _) = Scoped"

primrec need_of :: "rest_call \<Rightarrow> need" where
  "need_of RestHealthz = Identified"
| "need_of (ToIdentity c) = identity_need c"
| "need_of (ToCatalog c) = catalog_need c"
| "need_of (ToSecondFactor c) = secondfactor_need c"
| "need_of (ToHierarchy c) = hierarchy_need c"
| "need_of (ToResource c) = resource_need c"
| "need_of (ToWorkflow c) = workflow_need c"
| "need_of (ToDemand c) = demand_need c"
| "need_of (ToDelivery c) = delivery_need c"
| "need_of (ToKnowledge c) = knowledge_need c"
| "need_of (ToCost c) = cost_need c"
| "need_of (ToExecution c) = execution_need c"
| "need_of (ToRuntime c) = runtime_need c"
| "need_of (ToAttention c) = attention_need c"

text \<open>
  A computation kept for those who meet a need: for anybody else it ends in 400, 403 or 422 and the outside world is
  not touched.
\<close>

definition turned_away :: "exn \<Rightarrow> bool" where
  "turned_away e \<longleftrightarrow> e \<in> {no_account, HTTPException 403 ''Insufficient permission''} \<union> range ValidationError"

definition kept_for :: "need \<Rightarrow> ('w, 'a) io \<Rightarrow> bool" where
  "kept_for n m \<longleftrightarrow> (\<forall>s ctx. auth_ctx s = Some ctx \<and> \<not> meets n ctx \<longrightarrow> (\<exists>e. turned_away e \<and> refuses m s e))"

text \<open>A body read, or refused with a 422, and nothing else.\<close>

definition reads :: "('w, 'a) io \<Rightarrow> bool" where
  "reads m \<longleftrightarrow> (\<forall>s. (\<exists>x. m s = (Inr x, s)) \<or> (\<exists>f. m s = (Inl (ValidationError f), s)))"

lemma kept_Identified: "kept_for Identified m"
  by (simp add: kept_for_def)

lemma kept_Scoped: "kept_for Scoped (account_scoped m)" "kept_for Scoped (logged n (account_scoped m))"
  by (auto simp: kept_for_def turned_away_def refusal_of_def account_check_def no_account_def
      intro!: exI [of _ no_account] scoped.refused_untouched scoped.logged_refusal)

lemma kept_Roled: "kept_for (Roled roles) (logged n (account_scoped (require_role roles m)))"
  unfolding kept_for_def
proof (intro allI impI, elim conjE)
  fix s :: "'a rt" and ctx assume ctx: "auth_ctx s = Some ctx" "\<not> meets (Roled roles) ctx"
  then obtain e where e: "role_check roles ctx = Some e" "turned_away e"
    by (cases "a_account_id ctx = []") (simp_all add: role_check_def may_call_def has_role_def turned_away_def)
  with ctx have "refusal_of (role_check roles) (write_log (LogCall n) s) = Some e" by (simp add: refusal_of_def)
  with e(2) show "\<exists>e. turned_away e \<and> refuses (logged n (account_scoped (require_role roles m))) s e"
    using managed.logged_refusal by blast
qed

lemma refuses_mapv: "refuses m s e \<Longrightarrow> refuses (mapv f m) s e"
  by (auto simp: refuses_def result_def after_def mapv_run split: prod.splits sum.splits)

lemma kept_mapv: "kept_for n m \<Longrightarrow> kept_for n (mapv f m)"
  unfolding kept_for_def using refuses_mapv by blast

lemma kept_bnd: "kept_for n m \<Longrightarrow> kept_for n (bnd m g)"
  unfolding kept_for_def using refuses_bnd by blast

lemma kept_read: "reads b \<Longrightarrow> (\<And>x. kept_for n (g x)) \<Longrightarrow> kept_for n (bnd b g)"
  unfolding kept_for_def
proof (intro allI impI, elim conjE)
  fix s :: "'a rt" and ctx
  assume b: "reads b" and g: "\<And>x. \<forall>s ctx. auth_ctx s = Some ctx \<and> \<not> meets n ctx \<longrightarrow> (\<exists>e. turned_away e \<and> refuses (g x) s e)"
    and ctx: "auth_ctx s = Some ctx" "\<not> meets n ctx"
  from b consider x where "b s = (Inr x, s)" | f where "b s = (Inl (ValidationError f), s)" unfolding reads_def by blast
  then show "\<exists>e. turned_away e \<and> refuses (bnd b g) s e"
  proof cases
    case 1
    with g ctx show ?thesis by (fastforce simp: refuses_def result_def after_def bnd_run)
  next
    case (2 f)
    then have "refuses (bnd b g) s (ValidationError f)" by (simp add: refuses_def result_def after_def bnd_run)
    then show ?thesis unfolding turned_away_def by blast
  qed
qed

lemma kept_if: "kept_for n m \<Longrightarrow> kept_for n (if b then raise (ValidationError f) else m)"
  by (auto simp: kept_for_def turned_away_def refuses_def result_def after_def)

lemma kept_split: "(\<And>a b. kept_for n (g a b)) \<Longrightarrow> kept_for n (case p of (a, b) \<Rightarrow> g a b)"
  by (simp split: prod.splits)

lemma reads_intros: "reads (ret x)" "reads (raise (ValidationError f))" "reads m \<Longrightarrow> reads m' \<Longrightarrow> reads (if b then m else m')"
  by (auto simp: reads_def)

lemma reads_bodies:
  "reads (NewAccount h d l)" "reads (NewInvite e r gs)" "reads (NewWorkspace n k)" "reads (NewProject w n)"
  "reads (NewResource kd n)" "reads (NewGrant r' u l)" "reads (NewCredential sb)" "reads (NewFlow fl)"
  "reads (PromotionTarget ts ti)" "reads (NewDemand p x)" "reads (StageTransition st)" "reads (NewThread tk br)"
  "reads (NewFinding th ti' pl)" "reads (NewMessage tx)" "reads (NewMergeEntry de)" "reads (NewBudget sc si li)"
  "reads (NewUsage us)" "reads (NewSandbox de ti)" "reads (RunTurn tx tk' re op mx)"
  "reads (NewArtifact ak an ap ac am)"
  unfolding NewAccount_def NewInvite_def NewWorkspace_def NewProject_def NewResource_def NewGrant_def NewCredential_def
    NewFlow_def PromotionTarget_def NewDemand_def StageTransition_def NewThread_def NewFinding_def NewMessage_def
    NewMergeEntry_def NewBudget_def NewUsage_def NewSandbox_def RunTurn_def NewArtifact_def
  by (intro reads_intros)+

lemmas kept_rules = kept_Scoped kept_Roled kept_mapv reads_bodies [THEN kept_read] kept_if kept_split

lemma kept_identity: "kept_for (identity_need c) (identity_handler ap c)"
  by (induct c; simp only: identity_need.simps identity_handler.simps answered_def kept_Identified;
      unfold rest_create_account_def rest_create_invite_def create_account_def list_members_def create_invite_def
        list_invites_def revoke_invite_def update_member_def; intro kept_rules)

lemma kept_hierarchy: "kept_for (hierarchy_need c) (hierarchy_handler ap c)"
  by (induct c; simp only: hierarchy_need.simps hierarchy_handler.simps answered_def;
      unfold rest_create_workspace_def rest_create_project_def get_tree_def list_workspaces_def create_workspace_def
        list_projects_def create_project_def get_project_def bind_task_manager_def; intro kept_rules)

lemma kept_resource: "kept_for (resource_need c) (resource_handler ap c)"
  by (induct c; simp only: resource_need.simps resource_handler.simps answered_def kept_Identified;
      unfold rest_create_resource_def rest_set_credential_def rest_grant_resource_def list_resources_def
        create_resource_def get_resource_def set_credential_def list_member_grants_def grant_resource_def
        check_resource_def; intro kept_rules)

lemma kept_workflow: "kept_for (workflow_need c) (workflow_handler ap c)"
  by (induct c; simp only: workflow_need.simps workflow_handler.simps answered_def;
      unfold rest_create_flow_def rest_validate_flow_def rest_update_flow_def rest_promote_flow_def list_flows_def
        create_flow_def resolve_flow_def validate_flow_def get_flow_def update_flow_def promote_flow_def;
      intro kept_rules)

lemma kept_demand: "kept_for (demand_need c) (demand_handler ap c)"
  by (induct c; simp only: demand_need.simps demand_handler.simps answered_def;
      unfold rest_start_demand_def rest_advance_stage_def rest_create_thread_def rest_publish_finding_def
        rest_post_message_def list_demands_def start_demand_def get_demand_def get_cockpit_def advance_stage_def
        decide_gate_def list_threads_def create_thread_def publish_finding_def post_message_def; intro kept_rules)

lemma kept_enqueue: "kept_for (Roled writers) (rest_enqueue_merge env st repo demand key)"
  unfolding rest_enqueue_merge_def enqueue_merge_def by (intro kept_bnd kept_Roled)

lemma kept_delivery: "kept_for (delivery_need c) (delivery_handler ap c)"
  by (induct c; simp only: delivery_need.simps delivery_handler.simps answered_def;
      unfold rest_post_merge_def get_board_def list_pull_requests_def get_merge_queue_def list_directives_def
        decide_directive_def; intro kept_rules kept_enqueue)

lemma kept_knowledge: "kept_for (knowledge_need c) (knowledge_handler ap c)"
  by (induct c; simp only: knowledge_need.simps knowledge_handler.simps answered_def;
      unfold rest_list_rules_def rest_search_memory_def rest_read_index_def rest_put_artifact_def
        get_context_package_def list_rules_def search_memory_def read_index_def put_artifact_def; intro kept_rules)

lemma kept_cost: "kept_for (cost_need c) (cost_handler ap c)"
  by (induct c; simp only: cost_need.simps cost_handler.simps answered_def;
      unfold rest_route_model_def rest_set_budget_def rest_record_usage_def route_model_def get_budget_def
        set_budget_def record_usage_def summarize_cost_def; intro kept_rules)

lemma kept_execution: "kept_for (execution_need c) (execution_handler ap c)"
  by (induct c; simp only: execution_need.simps execution_handler.simps answered_def;
      unfold rest_provision_sandbox_def provision_sandbox_def describe_sandbox_def suspend_sandbox_def
        resume_sandbox_def destroy_sandbox_def; intro kept_rules)

lemma kept_others:
  "kept_for (runtime_need c1) (runtime_handler ap c1)" "kept_for (attention_need c2) (attention_handler ap c2)"
  "kept_for (catalog_need c3) (catalog_handler ap c3)" "kept_for (secondfactor_need c4) (secondfactor_handler ap c4)"
  by ((induct c1; simp only: runtime_need.simps runtime_handler.simps answered_def;
        unfold rest_run_turn_def run_turn_def; intro kept_rules),
      (induct c2; simp only: attention_need.simps attention_handler.simps answered_def;
        unfold list_attention_def; intro kept_rules),
      (induct c3; simp only: catalog_need.simps kept_Identified), (induct c4; simp only: secondfactor_need.simps kept_Identified))

lemma call_kept: "need_of c \<noteq> Identified \<Longrightarrow> kept_for (need_of c) (rest_handler ap c)"
  by (cases c) (simp_all add: kept_mapv kept_identity kept_hierarchy kept_resource kept_workflow kept_demand
      kept_delivery kept_knowledge kept_cost kept_execution kept_others)

text \<open>A request that takes more than an identity is for no exempt route.\<close>

lemma router_exempt:
  "identity_need c1 \<noteq> Identified \<Longrightarrow> av_handler (identity_route c1) \<noteq> ''send_email_verification''"
  "av_handler (hierarchy_route c4) \<noteq> ''send_email_verification''"
  "av_handler (resource_route c5) \<noteq> ''send_email_verification''" "av_handler (workflow_route c6) \<noteq> ''send_email_verification''"
  "av_handler (demand_route c7) \<noteq> ''send_email_verification''" "av_handler (delivery_route c8) \<noteq> ''send_email_verification''"
  "av_handler (knowledge_route c9) \<noteq> ''send_email_verification''" "av_handler (cost_route c10) \<noteq> ''send_email_verification''"
  "av_handler (execution_route c11) \<noteq> ''send_email_verification''" "av_handler (runtime_route c12) \<noteq> ''send_email_verification''"
  "av_handler (attention_route c13) \<noteq> ''send_email_verification''"
  by (cases c1, simp_all) (cases c4, simp_all, cases c5, simp_all, cases c6, simp_all, cases c7, simp_all,
      cases c8, simp_all, cases c9, simp_all, cases c10, simp_all, cases c11, simp_all, cases c12, simp_all,
      cases c13, simp_all)

lemma not_exempt_call: "need_of c \<noteq> Identified \<Longrightarrow> av_handler (route_of c) \<noteq> ''send_email_verification''"
proof (cases c)
  case (ToCatalog x)
  then show "need_of c \<noteq> Identified \<Longrightarrow> ?thesis" by (cases x) simp_all
next
  case (ToSecondFactor x)
  then show "need_of c \<noteq> Identified \<Longrightarrow> ?thesis" by (cases x) simp_all
qed (simp_all add: router_exempt)

lemma api_templates: "\<forall>r \<in> set app_routes. av_handler r = ''healthz'' \<or> take 4 (compile (av_path r)) = map Lit ''/api''"
  by code_simp

lemma router_unmarked:
  "\<not> is_public_marked (av_endpoint (identity_route c1))" "\<not> is_public_marked (av_endpoint (catalog_route c2))"
  "\<not> is_public_marked (av_endpoint (secondfactor_route c3))" "\<not> is_public_marked (av_endpoint (hierarchy_route c4))"
  "\<not> is_public_marked (av_endpoint (resource_route c5))" "\<not> is_public_marked (av_endpoint (workflow_route c6))"
  "\<not> is_public_marked (av_endpoint (demand_route c7))" "\<not> is_public_marked (av_endpoint (delivery_route c8))"
  "\<not> is_public_marked (av_endpoint (knowledge_route c9))" "\<not> is_public_marked (av_endpoint (cost_route c10))"
  "\<not> is_public_marked (av_endpoint (execution_route c11))" "\<not> is_public_marked (av_endpoint (runtime_route c12))"
  "\<not> is_public_marked (av_endpoint (attention_route c13))"
  by (cases c1, simp_all add: decorated_def token_only_def)
    (cases c2, simp_all add: decorated_def, cases c3, simp_all add: decorated_def,
      cases c4, simp_all add: decorated_def, cases c5, simp_all add: decorated_def,
      cases c6, simp_all add: decorated_def, cases c7, simp_all add: decorated_def,
      cases c8, simp_all add: decorated_def, cases c9, simp_all add: decorated_def,
      cases c10, simp_all add: decorated_def, cases c11, simp_all add: decorated_def,
      cases c12, simp_all add: decorated_def, cases c13, simp_all add: decorated_def)

lemma healthz_call: "need_of c \<noteq> Identified \<Longrightarrow> av_handler (route_of c) \<noteq> ''healthz''"
proof
  assume need: "need_of c \<noteq> Identified" and "av_handler (route_of c) = ''healthz''"
  then have "route_of c \<in> set (filter (\<lambda>r. av_handler r = ''healthz'') app_routes)" using route_in_app by simp
  moreover have "filter (\<lambda>r. av_handler r = ''healthz'') app_routes = [public (GET ''/healthz'' ''healthz'')]" by code_simp
  ultimately have "is_public_marked (av_endpoint (route_of c))" by (simp add: public_def)
  with need show False by (cases c) (simp_all add: router_unmarked)
qed

lemma call_path_api: "need_of c \<noteq> Identified \<Longrightarrow> \<exists>p. rq_path (request_of c h) = ''/api'' @ p"
proof -
  assume "need_of c \<noteq> Identified"
  with healthz_call api_templates route_in_app [of c] have "take 4 (compile (av_path (route_of c))) = map Lit ''/api''"
    by blast
  then have "compile (av_path (route_of c)) = map Lit ''/api'' @ drop 4 (compile (av_path (route_of c)))"
    by (metis append_take_drop_id)
  then show ?thesis unfolding request_of_def request.select_convs by (metis fill_literals)
qed

lemma call_authenticated:
  assumes routes: "set (flatten routes) = set framework \<union> leaf_of ` set app_routes" "\<forall>r \<in> set framework. unmarked r"
    and c: "fits c" "need_of c \<noteq> Identified"
  shows "\<not> is_public (register_public_routes routes reg) (request_of c h)"
    and "\<not> is_token_only (register_public_routes routes reg) (request_of c h)"
    and "rq_path (request_of c h) \<notin> set UNAUTHENTICATED_PATHS"
proof -
  obtain p where p: "rq_path (request_of c h) = ''/api'' @ p" using call_path_api [OF c(2)] by blast
  then show "\<not> is_public (register_public_routes routes reg) (request_of c h)"
    "rq_path (request_of c h) \<notin> set UNAUTHENTICATED_PATHS"
    by (simp_all add: exempt_exactly(1) [OF routes] UNAUTHENTICATED_PATHS_def)
  show "\<not> is_token_only (register_public_routes routes reg) (request_of c h)"
  proof
    let ?r = "token_only (POST ''/api/v1/verification/email'' ''send_email_verification'')"
    assume "is_token_only (register_public_routes routes reg) (request_of c h)"
    then have q: "upper (rq_method (request_of c h)) = ''POST''" "rq_path (request_of c h) = ''/api/v1/verification/email''"
      using call_one_line [OF c(1), of h] by (auto simp: exempt_exactly(2) [OF routes])
    have r: "?r \<in> set app_routes" by (simp only: listed)
    have "serves (leaf_of ?r) (request_of c h)"
    proof -
      have lit: "compile ''/api/v1/verification/email'' = map Lit ''/api/v1/verification/email''" "upper ''POST'' = ''POST''"
        by code_simp+
      show ?thesis
        using serves_literal [of ?r "request_of c h"] q lit by (simp add: token_only_def decorated_def del: compile.simps)
    qed
    from no_route_hidden [OF r this call_one_line [OF c(1)]] call_dispatched [OF c(1), of h]
    have "av_handler (route_of c) = ''send_email_verification''" by auto
    with not_exempt_call [OF c(2)] show False by simp
  qed
qed

definition arrived :: "'w edge \<Rightarrow> string option \<Rightarrow> rest_call \<Rightarrow> (string \<rightharpoonup> string) \<Rightarrow> 'w rt \<Rightarrow> 'w rt" where
  "arrived ap client c h s = (case request_id_of (f_env (e_fb ap)) h s of
      (Inr rid, s0) \<Rightarrow> s0\<lparr>request_ctx := request_fields rid (rq_path (request_of c h)) (rq_method (request_of c h))
        (case client of None \<Rightarrow> [] | Some a \<Rightarrow> a)\<rparr>
    | (Inl _, s0) \<Rightarrow> s0)"

lemma request_id_always: "\<exists>rid s0. request_id_of env h s = (Inr rid, s0)"
  by (cases "uuid4_hex env (ext s)") (auto simp: request_id_of_def io_simps)

lemma log_dispatch_run:
  assumes "request_id_of env (rq_headers rq) s = (Inr rid, s0)"
    and "m (s0\<lparr>request_ctx := request_fields rid (rq_path rq) (rq_method rq) (case client of None \<Rightarrow> [] | Some a \<Rightarrow> a)\<rparr>) = (Inr x, s1)"
  shows "\<exists>s2. log_dispatch env rq client m s = (Inr (x, rid), s2) \<and> ext s2 = ext s1"
  using assms by (auto simp: log_dispatch_def with_request_run io_simps)

lemma log_dispatch_answers:
  assumes "request_id_of env (rq_headers rq) s = (Inr r, s0)" and "log_dispatch env rq client m s = (Inr (x, rid), s')"
  shows "\<exists>s2. m (s0\<lparr>request_ctx := request_fields r (rq_path rq) (rq_method rq) (case client of None \<Rightarrow> [] | Some a \<Rightarrow> a)\<rparr>)
    = (Inr x, s2)"
  using assms by (auto simp: log_dispatch_def with_request_run io_simps split: prod.splits sum.splits)

text \<open>What the door does for a known caller.\<close>

lemma rest_door_known:
  assumes "raises_no_http fe" and "\<not> is_public reg rq" and "rq_path rq \<notin> set UNAUTHENTICATED_PATHS"
    and "\<not> is_token_only reg rq" and "identity_of fe resolver (rq_headers rq) s = (Inr ctx, s1)"
  shows "rest_door fe reg resolver rq m s = mapv one_answer (with_auth ctx (mapv Inr (exception_layer m))) s1"
  using auth_dispatch_identity [OF assms(1-4), of resolver "exception_layer m" s] assms(5)
  by (simp add: rest_door_def mapv_def bnd_run)

lemma rest_door_unknown:
  assumes "raises_no_http fe" and "\<not> is_public reg rq" and "rq_path rq \<notin> set UNAUTHENTICATED_PATHS"
    and "\<not> is_token_only reg rq" and "identity_of fe resolver (rq_headers rq) s = (Inl e, s1)"
  shows "rest_door fe reg resolver rq m s \<noteq> (Inr (Inr x), s2)"
  using auth_dispatch_identity [OF assms(1-4), of resolver "exception_layer m" s] assms(5)
  by (cases e) (auto simp: rest_door_def one_answer_def json_def mapv_def bnd_run)

lemma exception_layer_turned_away:
  assumes "turned_away e" and "refuses m s e"
  shows "\<exists>j s'. exception_layer m s = (Inr (Inl j), s') \<and> jr_status j \<in> {400, 403, 422} \<and> ext s' = ext s"
  using assms
  by (cases "m s") (auto simp: turned_away_def refuses_def result_def after_def exception_layer_def no_account_def json_def io_simps)

lemma known_turned_away:
  assumes "kept_for n m" and "\<not> meets n ctx"
  shows "\<exists>j s'. mapv one_answer (with_auth ctx (mapv Inr (exception_layer m))) s = (Inr (Inl j), s')
    \<and> jr_status j \<in> {400, 403, 422} \<and> ext s' = ext s"
proof -
  from assms obtain e where e: "turned_away e" "refuses m (s\<lparr>auth_ctx := Some ctx\<rparr>) e"
    using assms(1) [unfolded kept_for_def, rule_format, of "s\<lparr>auth_ctx := Some ctx\<rparr>" ctx] by auto
  from exception_layer_turned_away [OF this] show ?thesis by (auto simp: io_simps one_answer_def)
qed

text \<open>
  C9. Nobody is served over REST what they may not have. For every request but those that take an identity alone,
  whatever FastAPI's own routes and the shape it keeps the routers in: an answer of the handler's means that the door
  made out a caller with what the request takes, an account or a role in it; and a caller the door made out
  without it is answered 400, 403 or 422 and the core, told who is calling, hears nothing more.
\<close>

theorem served_what_they_may:
  assumes "set (flatten routes) = set framework \<union> leaf_of ` set app_routes" and "\<forall>r \<in> set framework. unmarked r"
    and "raises_no_http (e_fb ap)" and "fits c" and "need_of c \<noteq> Identified"
  shows "(rest_serve ap routes client c h s = (Inr (Inr x, rid), s') \<longrightarrow>
      (\<exists>ctx s1. identity_of (e_fb ap) (Some (core_resolver (f_env (e_fb ap)) (e_identity ap))) h (arrived ap client c h s)
        = (Inr ctx, s1) \<and> meets (need_of c) ctx))
    \<and> (identity_of (e_fb ap) (Some (core_resolver (f_env (e_fb ap)) (e_identity ap))) h (arrived ap client c h s)
        = (Inr ctx, s1) \<and> \<not> meets (need_of c) ctx \<longrightarrow>
      (\<exists>j rid s'. rest_serve ap routes client c h s = (Inr (Inl j, rid), s') \<and> jr_status j \<in> {400, 403, 422} \<and> ext s' = ext s1))"
proof -
  let ?id = "identity_of (e_fb ap) (Some (core_resolver (f_env (e_fb ap)) (e_identity ap))) h (arrived ap client c h s)"
  let ?door = "rest_door (e_fb ap) (register_public_routes routes \<lparr>PUBLIC_PATTERNS = [], TOKEN_ONLY_PATTERNS = []\<rparr>)
    (Some (core_resolver (f_env (e_fb ap)) (e_identity ap))) (request_of c h) (rest_handler ap c)"
  have hd: "rq_headers (request_of c h) = h" by (simp add: request_of_def)
  obtain r s0 where r: "request_id_of (f_env (e_fb ap)) (rq_headers (request_of c h)) s = (Inr r, s0)"
    using request_id_always by blast
  then have arr: "arrived ap client c h s = s0\<lparr>request_ctx := request_fields r (rq_path (request_of c h))
      (rq_method (request_of c h)) (case client of None \<Rightarrow> [] | Some a \<Rightarrow> a)\<rparr>"
    by (simp add: arrived_def hd)
  note authn = call_authenticated [OF assms(1,2,4,5), where h = h]
  note door = rest_door_known [OF assms(3) authn(1,3,2), unfolded hd] rest_door_unknown [OF assms(3) authn(1,3,2), unfolded hd]
  note log = log_dispatch_run [OF r, where client = client, folded arr]
  have away: "\<exists>j rid s'. rest_serve ap routes client c h s = (Inr (Inl j, rid), s') \<and> jr_status j \<in> {400, 403, 422} \<and> ext s' = ext s1"
    if "?id = (Inr ctx, s1)" "\<not> meets (need_of c) ctx" for ctx s1
  proof -
    from known_turned_away [OF call_kept [OF assms(5)] that(2), of ap s1] obtain j s2 where
      j: "mapv one_answer (with_auth ctx (mapv Inr (exception_layer (rest_handler ap c)))) s1 = (Inr (Inl j), s2)"
        "jr_status j \<in> {400, 403, 422}" "ext s2 = ext s1" by blast
    have "?door (arrived ap client c h s) = (Inr (Inl j), s2)" by (rule trans [OF door(1) [OF that(1)] j(1)])
    from log [where m = ?door, OF this] j(2,3) show ?thesis unfolding rest_serve_def rest_app_def by fastforce
  qed
  have known: "\<exists>ctx s1. ?id = (Inr ctx, s1)" if "rest_serve ap routes client c h s = (Inr (Inr x, rid), s')"
  proof (cases ?id)
    case (Pair i s1)
    from log_dispatch_answers [OF r that [unfolded rest_serve_def rest_app_def], folded arr] obtain s2 where
      served: "?door (arrived ap client c h s) = (Inr (Inr x), s2)" by blast
    show ?thesis
    proof (cases i)
      case (Inl e)
      from notE [OF door(2) [OF Pair [unfolded Inl]] served] show ?thesis .
    qed (use Pair in blast)
  qed
  have "meets (need_of c) ctx" if "rest_serve ap routes client c h s = (Inr (Inr x, rid), s')" "?id = (Inr ctx, s1)" for ctx s1
    using away [OF that(2)] that(1) by auto
  with known away show ?thesis by blast
qed

text \<open>A core whose plans, box and agents are down, and whose people and budgets answer; a developer sets a budget.\<close>

definition demo_edge :: "nat edge" where
  "demo_edge = \<lparr>e_fb = demo_fb, e_admin = demo_admin, e_identity = demo_identity,
     e_catalog = \<lparr>ListPlans = failing UNAVAILABLE ''down'', ListProviders = failing UNAVAILABLE ''down''\<rparr>,
     e_factor = demo_factors, e_hierarchy = demo_hierarchy, e_resource = demo_resources, e_workflow = demo_workflow,
     e_demand = demo_demands, e_delivery = demo_delivery, e_knowledge = demo_knowledge, e_cost = demo_cost,
     e_execution = demo_execution, e_agent = \<lparr>core_RunTurn = failing UNAVAILABLE ''down''\<rparr>,
     e_attention = \<lparr>ListAttention = failing UNAVAILABLE ''down'',
       WatchAttention = \<lparr>sr_open = (\<lambda>req opts w. (0, w)), sr_next = (\<lambda>h w. (Inr None, w)), sr_cancel = (\<lambda>h w. w)\<rparr>\<rparr>,
     e_str = (\<lambda>v. []), e_repr = (\<lambda>v. v), e_order = [FirstTask, SecondTask, ThirdTask], e_first = True\<rparr>"

theorem served_what_they_may_witness:
  "\<exists>j rid s'. rest_serve demo_edge demo_routes None (ToCost (RestSetBudget ''account'' [] 100)) demo_headers (demo_rt None)
     = (Inr (Inl j, rid), s') \<and> jr_status j \<in> {400, 403, 422} \<and> ext s' = 3"
proof -
  let ?c = "ToCost (RestSetBudget ''account'' [] 100)"
  have role: "role_name 3 = ''developer''" by code_simp
  have e: "e_fb demo_edge = demo_fb" "e_identity demo_edge = demo_identity" "f_env demo_fb = demo_env"
    by (simp_all add: demo_edge_def demo_fb_def)
  have "\<exists>ctx s1. identity_of demo_fb (Some (core_resolver demo_env demo_identity)) demo_headers
      (arrived demo_edge None ?c demo_headers (demo_rt None)) = (Inr ctx, s1) \<and> a_role ctx = ''developer'' \<and> ext s1 = 3"
    by (simp add: arrived_def e request_id_of_def identity_of_def authenticate_def resolve_account_def header_def demo_headers_def
        demo_verify Let_def core_resolver_def ensure_user_def assert_membership_def role_in_account_def context_of_def
        via_http_def io_simps demo_run idempotency_key_def demo_identity_def role grants_def demo_user_def demo_account_def
        demo_membership_def current_request_id_def request_fields_def)
  then obtain ctx s1 where id: "identity_of demo_fb (Some (core_resolver demo_env demo_identity)) demo_headers
      (arrived demo_edge None ?c demo_headers (demo_rt None)) = (Inr ctx, s1)" "a_role ctx = ''developer''" "ext s1 = 3" by blast
  have "\<not> meets (need_of ?c) ctx" using id(2) by (simp add: may_call_def managers_def)
  with id served_what_they_may [OF demo_routes_flat demo_unmarked, where ap = demo_edge and c = ?c and client = None
      and h = demo_headers and s = "demo_rt None" and ctx = ctx and ?s1.0 = s1, THEN conjunct2]
  show ?thesis by (simp add: e demo_raises_no_http fits_def)
qed

end
