(* ===== verification/Channel.thy ===== *)
theory Channel
  imports Core_Stubs Demand Resource
begin

text \<open>
  The shared channel to the core: where \<^verbatim>\<open>CoreClient\<close> of \<^verbatim>\<open>app/coreclient/client.py\<close> points it, how it
  opens it, the stubs \<^verbatim>\<open>app/coreclient/stubs.py\<close> makes on it, and the retry policy it carries. gRPC itself
  is a parameter: a channel is any function that repeats a call the way the policy's documentation says.
\<close>

section \<open>Opening the channel\<close>

text \<open>\<^verbatim>\<open>CoreClient.__init__\<close>: \<open>getenv\<close> is the environment of the process.\<close>

definition or_getenv :: "string option \<Rightarrow> (string \<rightharpoonup> string) \<Rightarrow> string \<Rightarrow> string \<Rightarrow> string" where
  "or_getenv given getenv name fallback = (case given of
      Some t \<Rightarrow> if t \<noteq> [] then t else (case getenv name of Some v \<Rightarrow> v | None \<Rightarrow> fallback)
    | None \<Rightarrow> (case getenv name of Some v \<Rightarrow> v | None \<Rightarrow> fallback))"

definition target_of :: "string option \<Rightarrow> (string \<rightharpoonup> string) \<Rightarrow> string" where
  "target_of given getenv = or_getenv given getenv ''CORE_GRPC'' ''dop-core.dop-local.svc:9090''"

definition audience_of :: "(string \<rightharpoonup> string) \<Rightarrow> string" where
  "audience_of getenv = (case getenv ''CORE_AUDIENCE'' of Some v \<Rightarrow> v | None \<Rightarrow> [])"

record retry_policy =
  maxAttempts :: nat
  initialBackoff :: real
  maxBackoff :: real
  backoffMultiplier :: real
  retryableStatusCodes :: "grpc_status list"

definition RETRY_POLICY :: retry_policy where
  "RETRY_POLICY = \<lparr>maxAttempts = 4, initialBackoff = 1 / 10, maxBackoff = 2, backoffMultiplier = 2,
     retryableStatusCodes = [UNAVAILABLE, DEADLINE_EXCEEDED]\<rparr>"

datatype credentials = Plaintext | TlsWithIdentity string

record channel_spec =
  ch_target :: string
  ch_credentials :: credentials
  ch_retry :: retry_policy
  ch_keepalive_ms :: int

definition channel_spec_of :: "string option \<Rightarrow> (string \<rightharpoonup> string) \<Rightarrow> channel_spec" where
  "channel_spec_of given getenv = \<lparr>ch_target = target_of given getenv,
     ch_credentials = (if audience_of getenv \<noteq> [] then TlsWithIdentity (audience_of getenv) else Plaintext),
     ch_retry = RETRY_POLICY, ch_keepalive_ms = 30000\<rparr>"

section \<open>The stubs on it\<close>

definition stub_factories :: "(string \<times> stub_method list) list" where
  "stub_factories = [(''identity_stub'', IdentityServiceStub), (''catalog_stub'', CatalogServiceStub),
     (''resource_stub'', ResourceServiceStub), (''second_factor_stub'', SecondFactorServiceStub),
     (''hierarchy_stub'', HierarchyServiceStub), (''workflow_stub'', WorkflowServiceStub),
     (''demand_stub'', DemandServiceStub), (''knowledge_stub'', KnowledgeServiceStub),
     (''cost_stub'', CostServiceStub), (''delivery_stub'', DeliveryServiceStub),
     (''execution_stub'', ExecutionServiceStub), (''event_stub'', EventServiceStub),
     (''attention_stub'', AttentionServiceStub), (''agent_stub'', AgentServiceStub)]"

text \<open>A factory called: the channel is looked up first, then the stub is made.\<close>

definition make_stub :: "string \<Rightarrow> ('w, stub_method list) io" where
  "make_stub factory = bnd channel (\<lambda>_. case map_of stub_factories factory of
      Some methods \<Rightarrow> ret methods | None \<Rightarrow> raise (OtherError ''AttributeError''))"

section \<open>Retrying\<close>

text \<open>
  What gRPC documents of a retry policy: a call is a number of attempts of the same message, every one
  but the last failed with a code the policy names, and the last one's outcome is the call's. Between two
  attempts time passes, and \<open>others\<close> may act on the world. Whether it goes on after a failure it could
  retry (the deadline, the throttle, the back-off) is gRPC's business, up to the number allowed.
\<close>

inductive attempts :: "retry_policy \<Rightarrow> ('w \<Rightarrow> 'w \<Rightarrow> bool) \<Rightarrow> ('w, 'q, 'r) rpc \<Rightarrow> 'q \<Rightarrow> call_opts \<Rightarrow> nat \<Rightarrow> 'w
    \<Rightarrow> (grpc_status \<times> string option) + 'r \<Rightarrow> 'w \<Rightarrow> bool"
  for policy others raw req opts where
  last: "raw req opts w = (out, w') \<Longrightarrow> attempts policy others raw req opts (Suc 0) w out w'"
| again: "raw req opts w = (Inl (c, d), w1) \<Longrightarrow> c \<in> set (retryableStatusCodes policy) \<Longrightarrow> others w1 w2 \<Longrightarrow>
    attempts policy others raw req opts n w2 out w' \<Longrightarrow> attempts policy others raw req opts (Suc n) w out w'"

definition honours :: "retry_policy \<Rightarrow> ('w \<Rightarrow> 'w \<Rightarrow> bool) \<Rightarrow> ('w, 'q, 'r) rpc \<Rightarrow> ('w, 'q, 'r) rpc \<Rightarrow> bool" where
  "honours policy others raw ch \<longleftrightarrow> (\<forall>req opts w out w'. ch req opts w = (out, w') \<longrightarrow>
     (\<exists>n \<le> maxAttempts policy. attempts policy others raw req opts n w out w'))"

text \<open>The eager channel: it retries whatever it may, at once.\<close>

fun eager :: "nat \<Rightarrow> grpc_status list \<Rightarrow> ('w, 'q, 'r) rpc \<Rightarrow> ('w, 'q, 'r) rpc" where
  "eager 0 codes raw req opts w = raw req opts w"
| "eager (Suc n) codes raw req opts w = (case raw req opts w of
      (Inl (c, d), w') \<Rightarrow> if c \<in> set codes then eager n codes raw req opts w' else (Inl (c, d), w')
    | (Inr r, w') \<Rightarrow> (Inr r, w'))"

lemma eager_attempts:
  assumes "eager n (retryableStatusCodes p) raw req opts w = (out, w')" and "\<And>w. others w w"
  shows "\<exists>m \<le> Suc n. attempts p others raw req opts m w out w'"
  using assms(1)
proof (induction n arbitrary: w)
  case 0
  then show ?case by (auto intro: attempts.last)
next
  case (Suc n)
  obtain o1 w1 where r: "raw req opts w = (o1, w1)" by (metis prod.collapse)
  show ?case
  proof (cases "\<exists>c d. o1 = Inl (c, d) \<and> c \<in> set (retryableStatusCodes p)")
    case True
    then obtain c d where c: "o1 = Inl (c, d)" "c \<in> set (retryableStatusCodes p)" by blast
    with Suc.prems r have "eager n (retryableStatusCodes p) raw req opts w1 = (out, w')" by simp
    from Suc.IH [OF this] obtain m where "m \<le> Suc n" "attempts p others raw req opts m w1 out w'" by blast
    with r c assms(2) show ?thesis by (intro exI [of _ "Suc m"]) (auto intro: attempts.again)
  next
    case False
    with Suc.prems r have "out = o1 \<and> w' = w1" by (auto split: sum.splits prod.splits if_splits)
    with r show ?thesis by (intro exI [of _ "Suc 0"]) (auto intro: attempts.last)
  qed
qed

lemma eager_honours: "honours RETRY_POLICY (=) raw (eager 3 (retryableStatusCodes RETRY_POLICY) raw)"
proof -
  have "\<exists>n \<le> maxAttempts RETRY_POLICY. attempts RETRY_POLICY (=) raw req opts n w out w'"
    if "eager 3 (retryableStatusCodes RETRY_POLICY) raw req opts w = (out, w')" for req opts w out w'
    using eager_attempts [OF that, of "(=)"] by (simp add: RETRY_POLICY_def)
  then show ?thesis unfolding honours_def by blast
qed

section \<open>What moves the world\<close>

text \<open>
  How far a computation may move the world: \<open>stays n\<close> is a bound that adds up along a run, and a
  computation is as good as the operations of the outside it calls.
\<close>

locale world_bound =
  fixes stays :: "nat \<Rightarrow> 'w \<Rightarrow> 'w \<Rightarrow> bool"
  assumes same: "stays n w w"
    and then_stays: "stays m w1 w2 \<Longrightarrow> stays n w2 w3 \<Longrightarrow> stays (m + n) w1 w3"
begin

definition moves :: "nat \<Rightarrow> ('w, 'a) io \<Rightarrow> bool" where
  "moves n m \<longleftrightarrow> (\<forall>s r s'. m s = (r, s') \<longrightarrow> stays n (ext s) (ext s'))"

definition moves_rpc :: "nat \<Rightarrow> ('w, 'q, 'r) rpc \<Rightarrow> bool" where
  "moves_rpc n rpc \<longleftrightarrow> (\<forall>q opts w r w'. rpc q opts w = (r, w') \<longrightarrow> stays n w w')"

definition still_env :: "'w env \<Rightarrow> bool" where
  "still_env env \<longleftrightarrow> (\<forall>w. stays 0 w (snd (uuid4_hex env w)) \<and> stays 0 w (snd (time_now env w)))"

lemma movesD: "moves n m \<Longrightarrow> m s = (r, s') \<Longrightarrow> stays n (ext s) (ext s')"
  by (auto simp: moves_def)

lemma stays_mono: "stays m w w' \<Longrightarrow> m \<le> n \<Longrightarrow> stays n w w'"
  using then_stays [of m w w' "n - m" w'] same by simp

lemma stays_then: "stays n w1 w2 \<Longrightarrow> stays 0 w2 w3 \<Longrightarrow> stays n w1 w3"
    "stays 0 w1 w2 \<Longrightarrow> stays n w2 w3 \<Longrightarrow> stays n w1 w3"
  using then_stays [of n w1 w2 0 w3] then_stays [of 0 w1 w2 n w3] by simp_all

lemma moves_simple: "moves n (ret x)" "moves n (raise e)" "moves n (ask f)" "moves n (emit l)" "moves n channel"
  by (auto simp: moves_def same)

lemma moves_bnd:
  assumes "moves m c" and "\<And>x. moves n (f x)"
  shows "moves (m + n) (bnd c f)"
  unfolding moves_def
proof (intro allI impI)
  fix s r s' assume run: "bnd c f s = (r, s')"
  obtain o1 s1 where c: "c s = (o1, s1)" by (cases "c s")
  from movesD [OF assms(1) c] have m: "stays m (ext s) (ext s1)" .
  show "stays (m + n) (ext s) (ext s')"
  proof (cases o1)
    case (Inl e)
    with run c have "s' = s1" by (simp add: bnd_run)
    with m stays_mono show ?thesis by auto
  next
    case (Inr x)
    with run c have "f x s1 = (r, s')" by (simp add: bnd_run)
    from then_stays [OF m movesD [OF assms(2) this]] show ?thesis .
  qed
qed

lemma moves_after: "moves 0 m \<Longrightarrow> (\<And>x. moves n (f x)) \<Longrightarrow> moves n (bnd m f)"
  using moves_bnd [of 0 m n f] by simp

lemma moves_before: "moves n m \<Longrightarrow> (\<And>x. moves 0 (f x)) \<Longrightarrow> moves n (bnd m f)"
  using moves_bnd [of n m 0 f] by simp

lemma moves_try:
  assumes "moves n m" and "\<And>e. moves 0 (h e)"
  shows "moves n (try_with m h)"
  unfolding moves_def
proof (intro allI impI)
  fix s r s' assume run: "try_with m h s = (r, s')"
  obtain o1 s1 where c: "m s = (o1, s1)" by (cases "m s")
  from movesD [OF assms(1) c] have m: "stays n (ext s) (ext s1)" .
  show "stays n (ext s) (ext s')"
  proof (cases o1)
    case (Inl e)
    with run c have "h e s1 = (r, s')" by (simp add: try_with_run)
    from stays_then(1) [OF m movesD [OF assms(2) this]] show ?thesis .
  next
    case (Inr x)
    with run c m show ?thesis by (simp add: try_with_run)
  qed
qed

lemma moves_mapv: "moves n m \<Longrightarrow> moves n (mapv f m)"
  unfolding mapv_def by (intro moves_before moves_simple)

lemma moves_if: "(b \<Longrightarrow> moves n m) \<Longrightarrow> (\<not> b \<Longrightarrow> moves n m') \<Longrightarrow> moves n (if b then m else m')"
  by simp

lemma moves_sum: "(\<And>e. moves n (f e)) \<Longrightarrow> (\<And>x. moves n (g x)) \<Longrightarrow> moves n (case z of Inl e \<Rightarrow> f e | Inr x \<Rightarrow> g x)"
  by (cases z) auto

lemma moves_option: "moves n m \<Longrightarrow> (\<And>x. moves n (g x)) \<Longrightarrow> moves n (case z of None \<Rightarrow> m | Some x \<Rightarrow> g x)"
  by (cases z) auto

lemma moves_logged: "moves n m \<Longrightarrow> moves n (logged name m)"
  unfolding logged_def by (intro moves_after moves_simple moves_try moves_before)

lemma moves_scoped: "moves n m \<Longrightarrow> moves n (account_scoped m)"
  by (auto simp: moves_def account_scoped_run same split: option.splits)

lemma moves_roled: "moves n m \<Longrightarrow> moves n (require_role roles m)"
  by (auto simp: moves_def require_role_run same split: option.splits)

lemma moves_outside: "still_env env \<Longrightarrow> moves 0 (outside (uuid4_hex env))"
    "still_env env \<Longrightarrow> moves 0 (outside (time_now env))"
  by (auto simp: moves_def still_env_def outside_run split: prod.splits) (metis snd_conv)+

lemma moves_call: "moves_rpc n rpc \<Longrightarrow> moves n (call rpc req opts)"
  by (auto simp: moves_def moves_rpc_def call_run split: prod.splits sum.splits)

lemma moves_metadata: "still_env env \<Longrightarrow> moves 0 (core_metadata env)"
  unfolding core_metadata_def metadata_for_def sign_def
  by (intro moves_after moves_simple moves_outside moves_mapv moves_if moves_sum) auto

lemma moves_idempotency: "still_env env \<Longrightarrow> moves 0 (idempotency env key)"
  unfolding idempotency_def idempotency_key_def by (intro moves_if moves_simple moves_outside)

lemma moves_unary: "still_env env \<Longrightarrow> moves_rpc n rpc \<Longrightarrow> moves 0 request \<Longrightarrow> moves n (unary env rpc request)"
  unfolding unary_def unary_by_def by (intro moves_after moves_simple moves_metadata moves_call)

lemma moves_on_stub: "still_env env \<Longrightarrow> moves_rpc n rpc \<Longrightarrow> moves n (on_stub env rpc req)"
  unfolding on_stub_def by (intro moves_after moves_metadata moves_call)

lemma moves_attempts:
  assumes "attempts p others raw req opts k w out w'" and "moves_rpc n raw" and "\<And>w w'. others w w' \<Longrightarrow> stays 0 w w'"
  shows "stays (k * n) w w'"
  using assms(1)
proof induction
  case (last w out w')
  then show ?case using assms(2) by (simp add: moves_rpc_def)
next
  case (again w c d w1 w2 k out w')
  then have "stays n w w1" using assms(2) unfolding moves_rpc_def by blast
  from stays_then(1) [OF this assms(3) [OF again(3)]] have "stays n w w2" .
  from then_stays [OF this again.IH] show ?case by simp
qed

text \<open>What a policy adds: as many times what one attempt may do as it allows attempts.\<close>

lemma moves_channel:
  assumes "honours p others raw ch" and "moves_rpc n raw" and "\<And>w w'. others w w' \<Longrightarrow> stays 0 w w'"
  shows "moves_rpc (maxAttempts p * n) ch"
proof -
  have "stays (maxAttempts p * n) w w'" if c: "ch q opts w = (r, w')" for q opts w r w'
  proof -
    from assms(1) c obtain k where k: "k \<le> maxAttempts p" "attempts p others raw q opts k w r w'"
      unfolding honours_def by blast
    from moves_attempts [OF k(2) assms(2,3)] k(1) show ?thesis by (auto elim: stays_mono)
  qed
  then show ?thesis by (simp add: moves_rpc_def)
qed

end

text \<open>
  Two such bounds: under any key, a write is applied at most once more, and only if it was not applied
  before; and without keys, the number of writes grows by what is counted.
\<close>

definition at_most_once :: "('w \<Rightarrow> string \<Rightarrow> nat) \<Rightarrow> nat \<Rightarrow> 'w \<Rightarrow> 'w \<Rightarrow> bool" where
  "at_most_once applied n w w' \<longleftrightarrow> (\<forall>k. k \<noteq> [] \<longrightarrow> applied w k \<le> applied w' k \<and> applied w' k \<le> max 1 (applied w k))"

definition grows :: "('w \<Rightarrow> nat) \<Rightarrow> nat \<Rightarrow> 'w \<Rightarrow> 'w \<Rightarrow> bool" where
  "grows written n w w' \<longleftrightarrow> written w \<le> written w' \<and> written w' \<le> written w + n"

interpretation once: world_bound "at_most_once applied" for applied
  by unfold_locales (fastforce simp: at_most_once_def max_def split: if_splits)+

interpretation grown: world_bound "grows written" for written
  by unfold_locales (auto simp: grows_def)

section \<open>Writes under a key\<close>

text \<open>
  What the core promises of a write that carries a key: an attempt, answered or not, applies the write of
  no key a second time, and an answered one has applied its own.
\<close>

definition deduplicates :: "('w, 'q, 'r) rpc \<Rightarrow> ('q \<Rightarrow> string) \<Rightarrow> ('w \<Rightarrow> string \<Rightarrow> nat) \<Rightarrow> bool" where
  "deduplicates raw key_of applied \<longleftrightarrow> (\<forall>q opts w r w'. raw q opts w = (r, w') \<longrightarrow> at_most_once applied 0 w w'
     \<and> (key_of q \<noteq> [] \<and> \<not> isl r \<longrightarrow> 1 \<le> applied w' (key_of q)))"

text \<open>
  A client that sends the same request again and again, each time in a request of its own, with the
  others at work in between.
\<close>

inductive resends :: "('w \<Rightarrow> 'w \<Rightarrow> bool) \<Rightarrow> ('w, 'a) io \<Rightarrow> 'w rt \<Rightarrow> (exn + 'a) list \<Rightarrow> 'w rt \<Rightarrow> bool"
  for others m where
  unsent: "resends others m s [] s"
| resent: "resends others m s rs s1 \<Longrightarrow> others (ext s1) (ext s2) \<Longrightarrow> m s2 = (r, s3) \<Longrightarrow> resends others m s (rs @ [r]) s3"

lemma attempts_answered:
  assumes "attempts p others raw req opts n w out w'" and "deduplicates raw key_of applied"
    and "key_of req \<noteq> []" and "out = Inr x"
  shows "1 \<le> applied w' (key_of req)"
  using assms(1,4) by induction (use assms(2,3) in \<open>auto simp: deduplicates_def\<close>)

lemma deduplicates_moves: "deduplicates raw key_of applied \<Longrightarrow> once.moves_rpc applied 0 raw"
  by (auto simp: deduplicates_def once.moves_rpc_def)

lemma once_trans: "at_most_once applied m w1 w2 \<Longrightarrow> at_most_once applied n w2 w3 \<Longrightarrow> at_most_once applied 0 w1 w3"
  using once.then_stays [of applied m w1 w2 n w3] by (simp add: at_most_once_def)

lemma resends_once:
  assumes "resends others m s rs s'" and "once.moves applied 0 m" and "\<And>w w'. others w w' \<Longrightarrow> at_most_once applied 0 w w'"
  shows "at_most_once applied 0 (ext s) (ext s')"
  using assms(1)
proof induction
  case (unsent s)
  show ?case by (rule once.same)
next
  case (resent s rs s1 s2 r s3)
  from once_trans [OF once_trans [OF resent.IH assms(3) [OF resent(2)]] once.movesD [OF assms(2) resent(3)]] show ?case .
qed

lemma resends_answered:
  assumes "resends others m s rs s'" and "Inr x \<in> set rs" and "once.moves applied 0 m"
    and "\<And>w w'. others w w' \<Longrightarrow> at_most_once applied 0 w w'" and "key \<noteq> []"
    and "\<And>s1 x s2. m s1 = (Inr x, s2) \<Longrightarrow> 1 \<le> applied (ext s2) key"
  shows "1 \<le> applied (ext s') key"
  using assms(1,2)
proof induction
  case (unsent s)
  then show ?case by simp
next
  case (resent s rs s1 s2 r s3)
  show ?case
  proof (cases "Inr x \<in> set rs")
    case True
    then have "1 \<le> applied (ext s1) key" by (rule resent.IH)
    moreover from once_trans [OF assms(4) [OF resent(2)] once.movesD [OF assms(3) resent(3)]]
    have "applied (ext s1) key \<le> applied (ext s3) key" using assms(5) by (simp add: at_most_once_def)
    ultimately show ?thesis by simp
  next
    case False
    with resent(3,5) assms(6) show ?thesis by auto
  qed
qed

lemma start_demand_moves:
  assumes "once.still_env applied env" and "once.moves_rpc applied 0 (StartDemand st)"
  shows "once.moves applied 0 (start_demand env st project_id external_key key)"
  unfolding start_demand_def
  by (intro once.moves_logged once.moves_scoped once.moves_roled once.moves_mapv once.moves_unary
      once.moves_idempotency assms)

lemma start_demand_sent:
  assumes "start_demand env st project_id external_key key s = (Inr x, s')" and "key \<noteq> []"
  shows "\<exists>opts w resp. StartDemand st \<lparr>sd_project = project_id, sd_external_key = external_key, sd_idempotency_key = key\<rparr>
    opts w = (Inr resp, ext s')"
  using logged_Inr [OF assms(1) [unfolded start_demand_def]] assms(2)
  by (auto simp: managed_Inr mapv_Inr unary_Inr) blast

text \<open>
  C15. A write under a key is applied once, however often it is repeated. The channel repeats an attempt that
  timed out or found nobody, when the core may have applied it already; the client repeats a request that
  failed, or that it saw fail; other clients work in between. As the message of every attempt of every
  repetition carries the key the client chose, a core that keeps its promise about keys has in the end
  started the demand at most once, and exactly once if any repetition was answered.
\<close>

theorem keyed_write_once:
  assumes "honours RETRY_POLICY others raw (StartDemand st)"
    and "deduplicates raw sd_idempotency_key applied"
    and "\<And>w w'. others w w' \<Longrightarrow> at_most_once applied 0 w w'"
    and "\<And>w. at_most_once applied 0 w (snd (uuid4_hex env w))" and "\<And>w. at_most_once applied 0 w (snd (time_now env w))"
    and "resends others (start_demand env st project_id external_key key) s rs s'"
    and "key \<noteq> []" and "applied (ext s) key = 0"
  shows "applied (ext s') key \<le> 1 \<and> ((\<exists>x. Inr x \<in> set rs) \<longrightarrow> applied (ext s') key = 1)"
proof -
  have raw: "once.moves_rpc applied 0 raw" using assms(2) by (rule deduplicates_moves)
  have ch: "once.moves_rpc applied 0 (StartDemand st)"
    using once.moves_channel [OF assms(1) raw assms(3)] by simp
  have env: "once.still_env applied env" using assms(4,5) by (simp add: once.still_env_def)
  note m = start_demand_moves [OF env ch, of project_id external_key key]
  have "applied (ext s') key \<le> 1"
    using resends_once [OF assms(6) m assms(3)] assms(7,8) by (auto simp: at_most_once_def)
  moreover have "1 \<le> applied (ext s') key" if x: "Inr x \<in> set rs" for x
  proof (rule resends_answered [OF assms(6) x m assms(3) assms(7)])
    fix s1 y s2 assume "start_demand env st project_id external_key key s1 = (Inr y, s2)"
    from start_demand_sent [OF this assms(7)] obtain opts w resp where
      "StartDemand st \<lparr>sd_project = project_id, sd_external_key = external_key, sd_idempotency_key = key\<rparr> opts w
        = (Inr resp, ext s2)" by blast
    with assms(1) obtain n where "attempts RETRY_POLICY others raw
        \<lparr>sd_project = project_id, sd_external_key = external_key, sd_idempotency_key = key\<rparr> opts n w (Inr resp) (ext s2)"
      unfolding honours_def by blast
    from attempts_answered [OF this assms(2)] assms(7) show "1 \<le> applied (ext s2) key" by simp
  qed
  ultimately show ?thesis by (auto intro: le_antisym)
qed

text \<open>
  A core whose world is the keys it applied: the first attempt under a key is applied and its answer lost,
  the next finds it applied.
\<close>

definition lossy_start :: "(string list, start_demand_request, core_demand) rpc" where
  "lossy_start q opts w = (if sd_idempotency_key q \<in> set w then (Inr demo_demand, w)
     else (Inl (UNAVAILABLE, Some ''connection reset''), w @ [sd_idempotency_key q]))"

definition keys_env :: "string list env" where
  "keys_env = \<lparr>cfg = demo_settings, uuid4_hex = (\<lambda>w. (''0f'', w)), time_now = (\<lambda>w. (1000, w)),
     hmac_sha256_hex = (\<lambda>k p. k)\<rparr>"

definition keys_stub :: "string list demand_stub" where
  "keys_stub = (undefined :: string list demand_stub)\<lparr>StartDemand := eager 3 (retryableStatusCodes RETRY_POLICY) lossy_start\<rparr>"

definition keys_rt :: "string list \<Rightarrow> string list rt" where
  "keys_rt w = \<lparr>auth_ctx = Some (demo_ctx ''acc-1'' ''developer''), request_ctx = [''request_id'' \<mapsto> ''r-1''],
     channel_open = True, log_lines = [], ext = w\<rparr>"

lemma lossy_deduplicates: "deduplicates lossy_start sd_idempotency_key count_list"
  by (auto simp: deduplicates_def lossy_start_def at_most_once_def count_list_0_iff split: if_splits)
    (metis One_nat_def Suc_leI count_list_0_iff neq0_conv)

lemma keys_metadata: "core_metadata keys_env s = (Inr md, s') \<Longrightarrow> ext s' = ext s"
  by (auto simp: core_metadata_def metadata_for_def keys_env_def demo_settings_def io_simps split: if_splits)

lemma keys_run: "\<exists>x s'. start_demand keys_env keys_stub ''p-1'' ''JIRA-7'' ''k'' (keys_rt w) = (Inr x, s')"
proof -
  have "\<exists>md. core_metadata keys_env (write_log l (keys_rt w)) = (Inr md, write_log l (keys_rt w))" for l
    by (simp add: core_metadata_def io_simps keys_rt_def metadata_for_plain keys_env_def demo_settings_def
        current_request_id_def write_log_def)
  then obtain md where md: "core_metadata keys_env (write_log (LogCall ''start_demand'') (keys_rt w))
      = (Inr md, write_log (LogCall ''start_demand'') (keys_rt w))" by blast
  let ?s = "write_log (LogCall ''start_demand'') (keys_rt w)"
  let ?u = "unary keys_env (StartDemand keys_stub)
    (mapv (\<lambda>k. \<lparr>sd_project = ''p-1'', sd_external_key = ''JIRA-7'', sd_idempotency_key = k\<rparr>) (idempotency keys_env ''k''))"
  have "\<exists>s'. ?u ?s = (Inr demo_demand, s')"
    by (cases "''k'' \<in> set w")
       (simp_all add: unary_def unary_by_def bnd_run md mapv_run call_run keys_stub_def RETRY_POLICY_def lossy_start_def
        numeral_3_eq_3, simp_all add: keys_rt_def)
  then obtain s' where u: "?u ?s = (Inr demo_demand, s')" by blast
  have "\<exists>ctx. auth_ctx ?s = Some ctx \<and> may_call writers ctx"
    by (simp add: keys_rt_def may_call_def demo_ctx_def writers_def has_role_def)
  with u have "account_scoped (require_role writers (mapv demand_of ?u)) ?s = (Inr (demand_of demo_demand), s')"
    by (simp add: managed_Inr mapv_Inr)
  then show ?thesis by (simp add: start_demand_def logged_run)
qed

theorem keyed_write_once_witness:
  "\<exists>rs s'. resends (=) (start_demand keys_env keys_stub ''p-1'' ''JIRA-7'' ''k'') (keys_rt []) rs s'
     \<and> length rs = 2 \<and> count_list (ext s') ''k'' = 1"
proof -
  let ?m = "start_demand keys_env keys_stub ''p-1'' ''JIRA-7'' ''k''"
  obtain x s1 where 1: "?m (keys_rt []) = (Inr x, s1)" using keys_run by blast
  obtain y s2 where 2: "?m (keys_rt (ext s1)) = (Inr y, s2)" using keys_run by blast
  have e: "ext (keys_rt w) = w" for w by (simp add: keys_rt_def)
  have "resends (=) ?m (keys_rt []) [Inr x] s1"
    using resends.resent [of "(=)" ?m "keys_rt []" "[]", OF resends.unsent _ 1] by simp
  from resends.resent [of "(=)" ?m "keys_rt []" "[Inr x]", OF this _ 2] have two: "resends (=) ?m (keys_rt []) [Inr x, Inr y] s2" by (simp add: e)
  have "count_list (ext s2) ''k'' \<le> 1 \<and> ((\<exists>x. Inr x \<in> set [Inr x, Inr y]) \<longrightarrow> count_list (ext s2) ''k'' = 1)"
    using keyed_write_once [where others = "(=)" and raw = lossy_start and applied = count_list and st = keys_stub
        and env = keys_env, OF _ _ _ _ _ two]
    by (auto simp: lossy_deduplicates keys_stub_def eager_honours at_most_once_def keys_env_def e)
  with two show ?thesis by (intro exI [of _ "[Inr x, Inr y]"] exI [of _ s2]) auto
qed

section \<open>Writes without a key\<close>

text \<open>
  C32. Not every write has a key: writing a resource's credential carries none, and the channel repeats it all
  the same. A core that applies every attempt it gets, once, applies a single use of the operation up to
  four times, as many as the policy allows attempts, and no more: the read that follows, the metadata and
  whoever else is at work (on other writes) add nothing. The bound is reached by an operation the caller
  sees answered once.
\<close>

theorem keyless_write_bounded:
  assumes "honours RETRY_POLICY others raw (SetCredential st)"
    and "\<And>q opts w r w'. raw q opts w = (r, w') \<Longrightarrow> written w \<le> written w' \<and> written w' \<le> Suc (written w)"
    and "\<And>w w'. others w w' \<Longrightarrow> written w' = (written w :: nat)"
    and "\<And>q opts w r w'. GetResource st q opts w = (r, w') \<Longrightarrow> written w' = written w"
    and "\<And>w. written (snd (uuid4_hex env w)) = written w" and "\<And>w. written (snd (time_now env w)) = written w"
    and "set_credential env st resource_id secret_base64 s = (r, s')"
  shows "written (ext s) \<le> written (ext s') \<and> written (ext s') \<le> written (ext s) + maxAttempts RETRY_POLICY"
proof -
  have raw: "grown.moves_rpc written 1 raw"
    using assms(2) by (auto simp: grown.moves_rpc_def grows_def)
  have ch: "grown.moves_rpc written (maxAttempts RETRY_POLICY) (SetCredential st)"
    using grown.moves_channel [OF assms(1) raw] assms(3) by (simp add: grows_def)
  have get: "grown.moves_rpc written 0 (GetResource st)"
    using assms(4) by (auto simp: grown.moves_rpc_def grows_def)
  have env: "grown.still_env written env" using assms(5,6) by (simp add: grown.still_env_def grows_def)
  have sec: "grown.moves written 0 (decoded_secret b)" for b
    unfolding decoded_secret_def by (intro grown.moves_option grown.moves_simple)
  have "grown.moves written (maxAttempts RETRY_POLICY) (set_credential env st resource_id secret_base64)"
    unfolding set_credential_def
    by (intro grown.moves_logged grown.moves_scoped grown.moves_before grown.moves_mapv grown.moves_unary
        grown.moves_on_stub env ch get sec)
  from grown.movesD [OF this assms(7)] show ?thesis by (simp add: grows_def)
qed

text \<open>A core that applies every attempt and loses the answers of the first three.\<close>

definition lossy_set :: "(nat, set_credential_request, string) rpc" where
  "lossy_set q opts n = (if n < 3 then (Inl (UNAVAILABLE, Some ''connection reset''), Suc n) else (Inr ''ref'', Suc n))"

definition counting_stub :: "nat resource_stub" where
  "counting_stub = demo_resources\<lparr>SetCredential := eager 3 (retryableStatusCodes RETRY_POLICY) lossy_set,
     GetResource := (\<lambda>q opts n. (Inr demo_resource, n))\<rparr>"

lemma counting_run:
  "\<exists>s'. set_credential demo_env counting_stub ''i-1'' ''aHVudGVyMg=='' (demo_rt (Some (demo_ctx ''acc-1'' ''developer'')))
     = (Inr (resource_of demo_resource), s') \<and> ext s' = 4"
proof -
  have "b64decode False ''aHVudGVyMg=='' = Some ''hunter2''" by code_simp
  then show ?thesis
    by (simp add: set_credential_def io_simps demo_run refusal_of_def account_check_def unary_def unary_by_def on_stub_def
        core_metadata_def counting_stub_def RETRY_POLICY_def lossy_set_def numeral_3_eq_3 decoded_secret_def)
qed

theorem keyless_write_bounded_witness:
  "\<exists>x s'. set_credential demo_env counting_stub ''i-1'' ''aHVudGVyMg=='' (demo_rt (Some (demo_ctx ''acc-1'' ''developer'')))
     = (Inr x, s') \<and> ext s' = ext (demo_rt (Some (demo_ctx ''acc-1'' ''developer''))) + maxAttempts RETRY_POLICY
     \<and> ext s' \<le> ext (demo_rt (Some (demo_ctx ''acc-1'' ''developer''))) + maxAttempts RETRY_POLICY"
proof -
  from counting_run obtain s' where run: "set_credential demo_env counting_stub ''i-1'' ''aHVudGVyMg==''
      (demo_rt (Some (demo_ctx ''acc-1'' ''developer''))) = (Inr (resource_of demo_resource), s')" and e: "ext s' = 4"
    by blast
  have "ext (demo_rt (Some (demo_ctx ''acc-1'' ''developer''))) \<le> ext s'
      \<and> ext s' \<le> ext (demo_rt (Some (demo_ctx ''acc-1'' ''developer''))) + maxAttempts RETRY_POLICY"
    by (rule keyless_write_bounded [where written = "\<lambda>n. n" and others = "(=)" and raw = lossy_set, OF _ _ _ _ _ _ run])
       (auto simp: counting_stub_def eager_honours lossy_set_def demo_env_def split: if_splits)
  with run e show ?thesis by (simp add: RETRY_POLICY_def demo_rt_def)
qed

section \<open>Where the client points\<close>

text \<open>
  The target is the process's environment or the cluster's address; \<^verbatim>\<open>settings.core_grpc\<close>, the field the
  configuration declares for it, has no part in it.
\<close>

lemma target_default: "target_of None Map.empty = ''dop-core.dop-local.svc:9090''"
    "target_of None [''CORE_GRPC'' \<mapsto> t] = t"
    "t \<noteq> [] \<Longrightarrow> target_of (Some t) getenv = t"
  by (simp_all add: target_of_def or_getenv_def)

text \<open>Only a client with an audience sends the service's identity, and then never in the clear.\<close>

lemma identity_needs_tls: "ch_credentials (channel_spec_of given getenv) = Plaintext \<longleftrightarrow> audience_of getenv = []"
  by (simp add: channel_spec_of_def)

end
