(* ===== verification/Brake.thy ===== *)
theory Brake
  imports Firebase
begin

text \<open>
  The certificate cache of \<^verbatim>\<open>app/platform/security/firebase.py\<close> under concurrent requests. A coroutine of
  asyncio runs alone between two of its awaits, and \<^verbatim>\<open>_public_key\<close> with \<^verbatim>\<open>_fetch_certificates\<close> has one place
  to wait at: the request to the certificate endpoint. So a task is two segments, and any number of tasks
  interleave by whole segments, on one cache and one clock, which does not go back.
\<close>

section \<open>The two segments\<close>

text \<open>Asking for a key id, waiting for the endpoint, or done with an error or what the cache then has.\<close>

datatype cert_task = Asking string | Fetching string | Done string "exn + string option"

text \<open>From the lookup to the brake: the task ends, or it sends the request.\<close>

definition until_request :: "real \<Rightarrow> cert_cache \<Rightarrow> string \<Rightarrow> cert_task" where
  "until_request now cache kid =
     (if cc_keys cache kid \<noteq> None then Done kid (Inr (cc_keys cache kid))
      else if now - cc_fetched_at cache < 30 then Done kid (Inr (cc_keys cache kid))
      else Fetching kid)"

text \<open>From the endpoint's answer, an exception or the certificates, to the second lookup.\<close>

definition from_answer :: "real \<Rightarrow> cert_cache \<Rightarrow> string \<Rightarrow> exn + (string \<rightharpoonup> string) \<Rightarrow> cert_task \<times> cert_cache" where
  "from_answer now cache kid answer = (case answer of
      Inl e \<Rightarrow> (Done kid (Inl e), cache)
    | Inr keys \<Rightarrow> (Done kid (Inr (keys kid)), \<lparr>cc_keys = keys, cc_fetched_at = now\<rparr>))"

text \<open>A task alone is the big-step function: its two segments, at the instants it reads the clock.\<close>

lemma lone_task:
  assumes "\<forall>c w. f_cache fe (f_put_cache fe c w) = c" and "\<forall>w. f_cache fe (snd (time_now (f_env fe) w)) = f_cache fe w"
    and "\<forall>w. f_cache fe (snd (f_http_certs fe w)) = f_cache fe w"
    and unknown: "cc_keys (f_cache fe (ext s)) kid = None"
    and "time_now (f_env fe) (ext s) = (now, w1)" and "fetch_certificates fe s = (r, s')"
  shows "case until_request now (f_cache fe (ext s)) kid of
      Fetching k \<Rightarrow> (let answer = fst (f_http_certs fe w1); t = fst (time_now (f_env fe) (snd (f_http_certs fe w1)))
        in k = kid \<and> from_answer t (f_cache fe (ext s)) kid answer
          = (Done kid (case r of Inl e \<Rightarrow> Inl e | Inr _ \<Rightarrow> Inr (cc_keys (f_cache fe (ext s')) kid)), f_cache fe (ext s')))
    | Done k res \<Rightarrow> k = kid \<and> r = Inr () \<and> res = Inr (cc_keys (f_cache fe (ext s')) kid)
        \<and> f_cache fe (ext s') = f_cache fe (ext s)
    | Asking k \<Rightarrow> False"
  using certificate_brake [OF assms(1-3,5,6)] unknown
  by (auto simp: until_request_def from_answer_def Let_def split: sum.splits if_splits)

section \<open>Interleaving\<close>

datatype brake_event = Sent real | Stored real "string \<rightharpoonup> string"

record brake_state =
  bk_now :: real
  bk_cache :: cert_cache
  bk_tasks :: "cert_task list"
  bk_history :: "brake_event list"

text \<open>The newest event of the history is first.\<close>

inductive brake_step :: "brake_state \<Rightarrow> brake_state \<Rightarrow> bool" where
  clock: "bk_now st \<le> t \<Longrightarrow> brake_step st (st\<lparr>bk_now := t\<rparr>)"
| arrives: "brake_step st (st\<lparr>bk_tasks := bk_tasks st @ [Asking kid]\<rparr>)"
| looks: "i < length (bk_tasks st) \<Longrightarrow> bk_tasks st ! i = Asking kid \<Longrightarrow>
    until_request (bk_now st) (bk_cache st) kid = tsk \<Longrightarrow>
    brake_step st (st\<lparr>bk_tasks := (bk_tasks st)[i := tsk],
      bk_history := (if tsk = Fetching kid then Sent (bk_now st) # bk_history st else bk_history st)\<rparr>)"
| answered: "i < length (bk_tasks st) \<Longrightarrow> bk_tasks st ! i = Fetching kid \<Longrightarrow>
    from_answer (bk_now st) (bk_cache st) kid answer = (tsk, cache) \<Longrightarrow>
    brake_step st (st\<lparr>bk_tasks := (bk_tasks st)[i := tsk], bk_cache := cache,
      bk_history := (case answer of Inl e \<Rightarrow> bk_history st | Inr keys \<Rightarrow> Stored (bk_now st) keys # bk_history st)\<rparr>)"

definition idle :: "real \<Rightarrow> brake_state" where
  "idle t = \<lparr>bk_now = t, bk_cache = \<lparr>cc_keys = Map.empty, cc_fetched_at = 0\<rparr>, bk_tasks = [], bk_history = []\<rparr>"

inductive brake_run :: "real \<Rightarrow> brake_state \<Rightarrow> bool" for t0 where
  idles: "brake_run t0 (idle t0)"
| steps: "brake_run t0 st \<Longrightarrow> brake_step st st' \<Longrightarrow> brake_run t0 st'"

section \<open>What the brake keeps\<close>

definition sends :: "brake_event list \<Rightarrow> real list" where
  "sends h = concat (map (\<lambda>e. case e of Sent t \<Rightarrow> [t] | Stored t ks \<Rightarrow> []) h)"

definition stores :: "brake_event list \<Rightarrow> (real \<times> (string \<rightharpoonup> string)) list" where
  "stores h = concat (map (\<lambda>e. case e of Sent t \<Rightarrow> [] | Stored t ks \<Rightarrow> [(t, ks)]) h)"

lemma history_simps [simp]:
  "sends [] = []" "stores [] = []" "sends (Sent t # h) = t # sends h" "stores (Sent t # h) = stores h"
  "sends (Stored t ks # h) = sends h" "stores (Stored t ks # h) = (t, ks) # stores h"
  by (simp_all add: sends_def stores_def)

text \<open>No request was sent within 30 seconds after a fetch that had succeeded by then.\<close>

fun spaced :: "brake_event list \<Rightarrow> bool" where
  "spaced [] \<longleftrightarrow> True"
| "spaced (Sent t # h) \<longleftrightarrow> (\<forall>(t', ks) \<in> set (stores h). 30 \<le> t - t') \<and> spaced h"
| "spaced (Stored t ks # h) \<longleftrightarrow> spaced h"

text \<open>The cache is the last answer the endpoint gave, or empty; the tasks that have asked are those past it.\<close>

definition past_request :: "cert_task \<Rightarrow> bool" where
  "past_request tsk \<longleftrightarrow> (case tsk of Asking k \<Rightarrow> False | _ \<Rightarrow> True)"

definition brake_inv :: "brake_state \<Rightarrow> bool" where
  "brake_inv st \<longleftrightarrow> spaced (bk_history st)
     \<and> bk_cache st = (case stores (bk_history st) of [] \<Rightarrow> \<lparr>cc_keys = Map.empty, cc_fetched_at = 0\<rparr>
         | (t, ks) # _ \<Rightarrow> \<lparr>cc_keys = ks, cc_fetched_at = t\<rparr>)
     \<and> sorted_wrt (\<lambda>a b. fst b \<le> fst a) (stores (bk_history st)) \<and> (\<forall>(t, ks) \<in> set (stores (bk_history st)). t \<le> bk_now st)
     \<and> length (sends (bk_history st)) \<le> length (filter past_request (bk_tasks st))
     \<and> (\<forall>k pem. Done k (Inr (Some pem)) \<in> set (bk_tasks st) \<longrightarrow> (\<exists>(t, ks) \<in> set (stores (bk_history st)). ks k = Some pem))"

lemma filter_update:
  "i < length xs \<Longrightarrow> length (filter P (xs[i := x])) + (if P (xs ! i) then 1 else 0)
     = length (filter P xs) + (if P x then 1 else 0)"
proof (induction xs arbitrary: i)
  case (Cons y ys)
  then show ?case by (cases i) auto
qed simp

lemma done_updated: "Done k r \<in> set (xs[i := tsk]) \<Longrightarrow> Done k r \<in> set xs \<or> tsk = Done k r"
  using set_update_subset_insert [of xs i tsk] by auto

lemma newest_last:
  assumes "brake_inv st" and "(t, ks) \<in> set (stores (bk_history st))"
  shows "t \<le> cc_fetched_at (bk_cache st)"
  using assms by (cases "stores (bk_history st)") (auto simp: brake_inv_def)

lemma cached_stored:
  assumes "brake_inv st" and "cc_keys (bk_cache st) k = Some pem"
  shows "\<exists>(t, ks) \<in> set (stores (bk_history st)). ks k = Some pem"
  using assms by (cases "stores (bk_history st)") (auto simp: brake_inv_def)

lemma brake_inv_looks:
  assumes inv: "brake_inv st" and i: "i < length (bk_tasks st)" "bk_tasks st ! i = Asking kid"
    and u: "until_request (bk_now st) (bk_cache st) kid = tsk"
  shows "brake_inv (st\<lparr>bk_tasks := (bk_tasks st)[i := tsk],
      bk_history := (if tsk = Fetching kid then Sent (bk_now st) # bk_history st else bk_history st)\<rparr>)"
proof (cases "tsk = Fetching kid")
  case True
  with u have "30 \<le> bk_now st - cc_fetched_at (bk_cache st)"
    by (auto simp: until_request_def split: if_splits)
  then have "\<forall>(t, ks) \<in> set (stores (bk_history st)). 30 \<le> bk_now st - t"
    using newest_last [OF inv] by fastforce
  moreover have "length (filter past_request ((bk_tasks st)[i := tsk])) = Suc (length (filter past_request (bk_tasks st)))"
    using filter_update [OF i(1), of past_request tsk] i(2) True by (simp add: past_request_def)
  ultimately show ?thesis using inv True by (auto simp: brake_inv_def dest!: done_updated)
next
  case False
  then obtain r where tsk: "tsk = Done kid (Inr (cc_keys (bk_cache st) kid))"
    using u by (auto simp: until_request_def split: if_splits)
  have "length (filter past_request (bk_tasks st)) \<le> length (filter past_request ((bk_tasks st)[i := tsk]))"
    using filter_update [OF i(1), of past_request tsk] i(2) by (simp add: past_request_def split: if_splits)
  moreover have "\<exists>(t, ks) \<in> set (stores (bk_history st)). ks k = Some pem"
    if "Done k (Inr (Some pem)) \<in> set ((bk_tasks st)[i := tsk])" for k pem
    using done_updated [OF that] tsk inv cached_stored [OF inv] by (auto simp: brake_inv_def)
  ultimately show ?thesis using inv False by (auto simp: brake_inv_def)
qed

lemma brake_inv_answered:
  assumes inv: "brake_inv st" and i: "i < length (bk_tasks st)" "bk_tasks st ! i = Fetching kid"
    and a: "from_answer (bk_now st) (bk_cache st) kid answer = (tsk, cache)"
  shows "brake_inv (st\<lparr>bk_tasks := (bk_tasks st)[i := tsk], bk_cache := cache,
      bk_history := (case answer of Inl e \<Rightarrow> bk_history st | Inr keys \<Rightarrow> Stored (bk_now st) keys # bk_history st)\<rparr>)"
proof -
  have p: "past_request tsk" using a by (auto simp: from_answer_def past_request_def split: sum.splits)
  have n: "length (filter past_request ((bk_tasks st)[i := tsk])) = length (filter past_request (bk_tasks st))"
    using filter_update [OF i(1), of past_request tsk] i(2) p by (simp add: past_request_def)
  show ?thesis
  proof (cases answer)
    case (Inl e)
    with a inv n show ?thesis by (auto simp: from_answer_def brake_inv_def dest!: done_updated)
  next
    case (Inr keys)
    with a have t: "tsk = Done kid (Inr (keys kid))" "cache = \<lparr>cc_keys = keys, cc_fetched_at = bk_now st\<rparr>"
      by (auto simp: from_answer_def)
    have "\<exists>(t, ks) \<in> set ((bk_now st, keys) # stores (bk_history st)). ks k = Some pem"
      if "Done k (Inr (Some pem)) \<in> set ((bk_tasks st)[i := tsk])" for k pem
      using done_updated [OF that] t inv by (auto simp: brake_inv_def)
    with inv n t Inr show ?thesis by (auto simp: brake_inv_def)
  qed
qed

lemma brake_inv_run: "brake_run t0 st \<Longrightarrow> brake_inv st"
proof (induction rule: brake_run.induct)
  case idles
  show ?case by (simp add: idle_def brake_inv_def)
next
  case (steps st st')
  from steps(2) show ?case
  proof cases
    case (clock t)
    with steps.IH show ?thesis by (fastforce simp: brake_inv_def)
  next
    case (arrives kid)
    with steps.IH show ?thesis by (auto simp: brake_inv_def past_request_def)
  next
    case (looks i kid tsk)
    with brake_inv_looks [OF steps.IH] show ?thesis by blast
  next
    case (answered i kid answer tsk cache)
    with brake_inv_answered [OF steps.IH] show ?thesis by blast
  qed
qed

section \<open>What it does not\<close>

text \<open>Any number of tasks that come while no fetch has succeeded are all past the brake at one instant.\<close>

definition flooded :: "real \<Rightarrow> string \<Rightarrow> nat \<Rightarrow> brake_state" where
  "flooded t kid n = (idle t)\<lparr>bk_tasks := replicate n (Fetching kid), bk_history := replicate n (Sent t)\<rparr>"

lemma flood_runs:
  assumes "30 \<le> t"
  shows "brake_run t (flooded t kid n)"
proof (induction n)
  case 0
  show ?case using brake_run.idles [of t] by (simp add: flooded_def idle_def)
next
  case (Suc n)
  let ?st = "flooded t kid n"
  let ?st' = "?st\<lparr>bk_tasks := bk_tasks ?st @ [Asking kid]\<rparr>"
  have "brake_run t ?st'" using Suc brake_step.arrives by (rule brake_run.steps)
  moreover have "brake_step ?st' (flooded t kid (Suc n))"
  proof -
    have "until_request (bk_now ?st') (bk_cache ?st') kid = Fetching kid"
      using assms by (simp add: until_request_def flooded_def idle_def)
    from brake_step.looks [of n ?st' kid, OF _ _ this] show ?thesis
      by (simp add: flooded_def idle_def nth_append list_update_append replicate_append_same)
  qed
  ultimately show ?case by (rule brake_run.steps)
qed

lemma spaced_split: "spaced (xs @ Sent t # ys) \<Longrightarrow> (t', ks) \<in> set (stores ys) \<Longrightarrow> 30 \<le> t - t'"
proof (induction xs)
  case (Cons e xs)
  then show ?case by (cases e) auto
qed auto

lemma stored_iff: "Stored t ks \<in> set h \<longleftrightarrow> (t, ks) \<in> set (stores h)"
  by (induction h) (auto simp: stores_def split: brake_event.splits)

lemma sends_count: "length (sends h) = length (filter (\<lambda>e. \<exists>t. e = Sent t) h)"
  by (induction h) (auto simp: sends_def split: brake_event.splits)

text \<open>
  C16. The brake under load. However the requests interleave, none asks the certificate endpoint within 30
  seconds after an answer that was stored, each asks at most once, and a certificate a token is checked
  against is one that some answer of the endpoint gave for that very key id. But the brake looks at the
  last answer only: from an empty cache, any number of requests with an unknown key id can be waiting for
  the endpoint at one instant, all let through.
\<close>

theorem brake_under_load:
  assumes "brake_run t0 st"
  shows "(\<forall>newer older t t' ks. bk_history st = newer @ Sent t # older \<and> Stored t' ks \<in> set older \<longrightarrow> 30 \<le> t - t')
    \<and> length (filter (\<lambda>e. \<exists>t. e = Sent t) (bk_history st)) \<le> length (bk_tasks st)
    \<and> (\<forall>kid pem. Done kid (Inr (Some pem)) \<in> set (bk_tasks st) \<longrightarrow>
         (\<exists>t ks. Stored t ks \<in> set (bk_history st) \<and> ks kid = Some pem))
    \<and> (30 \<le> t0 \<longrightarrow> (\<forall>kid n. \<exists>st'. brake_run t0 st' \<and> bk_now st' = t0 \<and> bk_tasks st' = replicate n (Fetching kid)))"
proof (intro conjI allI impI; (elim conjE)?)
  note inv = brake_inv_run [OF assms]
  fix newer older t t' ks assume "bk_history st = newer @ Sent t # older" "Stored t' ks \<in> set older"
  with inv show "30 \<le> t - t'" by (auto simp: brake_inv_def stored_iff dest!: spaced_split)
next
  show "length (filter (\<lambda>e. \<exists>t. e = Sent t) (bk_history st)) \<le> length (bk_tasks st)"
    using brake_inv_run [OF assms] le_trans [OF _ length_filter_le] by (fastforce simp: brake_inv_def sends_count)
next
  fix kid pem assume "Done kid (Inr (Some pem)) \<in> set (bk_tasks st)"
  with brake_inv_run [OF assms] show "\<exists>t ks. Stored t ks \<in> set (bk_history st) \<and> ks kid = Some pem"
    by (fastforce simp: brake_inv_def stored_iff)
next
  fix kid n assume "30 \<le> t0"
  from flood_runs [OF this, of kid n]
  show "\<exists>st'. brake_run t0 st' \<and> bk_now st' = t0 \<and> bk_tasks st' = replicate n (Fetching kid)"
    by (intro exI [of _ "flooded t0 kid n"]) (simp add: flooded_def idle_def)
qed

text \<open>An answer after a minute: the token is checked, and the next unknown key id waits half a minute.\<close>

definition answered_state :: brake_state where
  "answered_state = \<lparr>bk_now = 60, bk_cache = \<lparr>cc_keys = [''k1'' \<mapsto> ''PEM1''], cc_fetched_at = 60\<rparr>,
     bk_tasks = [Done ''k1'' (Inr (Some ''PEM1''))], bk_history = [Stored 60 [''k1'' \<mapsto> ''PEM1''], Sent 60]\<rparr>"

lemma answered_run: "brake_run 60 answered_state"
proof -
  let ?st = "flooded 60 ''k1'' 1"
  have "from_answer (bk_now ?st) (bk_cache ?st) ''k1'' (Inr [''k1'' \<mapsto> ''PEM1''])
      = (Done ''k1'' (Inr (Some ''PEM1'')), \<lparr>cc_keys = [''k1'' \<mapsto> ''PEM1''], cc_fetched_at = 60\<rparr>)"
    by (simp add: from_answer_def flooded_def idle_def)
  from brake_step.answered [of 0 ?st, OF _ _ this] have "brake_step ?st answered_state"
    by (simp add: flooded_def idle_def answered_state_def)
  with flood_runs [of 60 "''k1''" 1] show ?thesis by (auto intro: brake_run.steps)
qed

theorem brake_under_load_witness:
  "(\<exists>t ks. Stored t ks \<in> set (bk_history answered_state) \<and> ks ''k1'' = Some ''PEM1'')
   \<and> (\<exists>st. brake_run 60 st \<and> bk_tasks st = replicate 1000 (Fetching ''k9''))"
proof -
  note load = brake_under_load [OF answered_run]
  from load have "\<exists>t ks. Stored t ks \<in> set (bk_history answered_state) \<and> ks ''k1'' = Some ''PEM1''"
    by (auto simp: answered_state_def)
  moreover from load have "\<exists>st. brake_run 60 st \<and> bk_tasks st = replicate 1000 (Fetching ''k9'')"
    by (elim conjE) (drule mp, simp, blast)
  ultimately show ?thesis ..
qed

end
