(* ===== verification/Lifecycle.thy ===== *)
theory Lifecycle
  imports Routes Callauth
begin

text \<open>
  The life of the process: \<^verbatim>\<open>app/main.py\<close>'s lifespan, \<^verbatim>\<open>app/platform/tracing.py\<close>, the start and stop of
  \<^verbatim>\<open>app/grpcapi/server.py\<close> and of the core's client. The world of these computations is the process
  itself; what the libraries do when asked to dial, bind, serve or build an exporter is a parameter.
  \<^verbatim>\<open>channel_open\<close> of the runtime state is, as everywhere, that \<^verbatim>\<open>_channel\<close> is not None; closing it
  leaves the attribute set.
\<close>

section \<open>State and configuration\<close>

record boot_settings =
  bs_app_name :: string
  bs_version :: string
  bs_trace_backend :: string
  bs_otlp_endpoint :: string
  bs_trace_gcp_project :: string
  bs_trace_sample_ratio :: real
  bs_http_port :: int
  bs_grpc_port :: int
  bs_grpc_enabled :: bool

datatype exporter = OTLPSpanExporter string | CloudTraceSpanExporter "string option"

record provider =
  pd_service_name :: string
  pd_service_version :: string
  pd_ratio :: real
  pd_exporter :: exporter

record process =
  environ :: "string \<rightharpoonup> string"
  root_handled :: bool
  threshold :: "int option"
  propagator_installed :: bool
  trace_provider :: "provider option"
  provider_shut_down :: bool
  grpc_instrumented :: bool
  core_live :: bool
  route_registry :: registry
  listening :: "int option"

text \<open>What the libraries answer: an exception, or the result.\<close>

record boot_lib =
  lb_exporter :: "exporter \<Rightarrow> exn + unit"
  lb_dial :: "exn + unit"
  lb_bind :: "string \<Rightarrow> int \<Rightarrow> exn + int"
  lb_serve :: "exn + unit"

definition update :: "(process \<Rightarrow> process) \<Rightarrow> (process, unit) io" where
  "update f = (\<lambda>s. (Inr (), s\<lparr>ext := f (ext s)\<rparr>))"

definition library :: "exn + 'a \<Rightarrow> (process, 'a) io" where
  "library r = (\<lambda>s. (r, s))"

section \<open>Logging\<close>

text \<open>
  The levels of Python's \<^verbatim>\<open>logging\<close> by name. \<^verbatim>\<open>basicConfig\<close> does nothing, not even look at the level, if the
  root logger has a handler already, and otherwise raises on a name it does not know; so the default of
  \<^verbatim>\<open>getattr(logging, level, logging.INFO)\<close> is reached only in the first case. (The module's upper-case names
  that are no levels are left aside.) \<open>threshold\<close> is what structlog's filter is made with.
\<close>

definition LEVELS :: "(string \<times> int) list" where
  "LEVELS = [(''CRITICAL'', 50), (''FATAL'', 50), (''ERROR'', 40), (''WARN'', 30), (''WARNING'', 30), (''INFO'', 20),
     (''DEBUG'', 10), (''NOTSET'', 0)]"

definition log_level :: "process \<Rightarrow> string" where
  "log_level p = upper (case environ p ''LOG_LEVEL'' of None \<Rightarrow> ''info'' | Some v \<Rightarrow> v)"

definition configure_logging :: "(process, unit) io" where
  "configure_logging = bnd (ask ext) (\<lambda>p.
     if \<not> root_handled p \<and> map_of LEVELS (log_level p) = None then raise (OtherError ''ValueError'')
     else update (\<lambda>p. p\<lparr>root_handled := True,
       threshold := Some (case map_of LEVELS (log_level p) of Some n \<Rightarrow> n | None \<Rightarrow> 20)\<rparr>))"

section \<open>Tracing\<close>

definition sample_ratio :: "real \<Rightarrow> real" where
  "sample_ratio r = (if r \<le> 0 \<or> 1 < r then 1 else r)"

definition install_provider :: "boot_lib \<Rightarrow> boot_settings \<Rightarrow> exporter \<Rightarrow> (process, unit) io" where
  "install_provider lib conf e = bnd (library (lb_exporter lib e)) (\<lambda>_.
     bnd (update (\<lambda>p. p\<lparr>trace_provider := Some \<lparr>pd_service_name = bs_app_name conf,
            pd_service_version = bs_version conf, pd_ratio = sample_ratio (bs_trace_sample_ratio conf), pd_exporter = e\<rparr>\<rparr>))
       (\<lambda>_. emit (LogInfo ''tracing on'' (bs_trace_backend conf))))"

text \<open>Python's \<^verbatim>\<open>repr\<close> of the backend, for the message, is a parameter.\<close>

definition setup_tracing :: "(string \<Rightarrow> string) \<Rightarrow> boot_lib \<Rightarrow> boot_settings \<Rightarrow> (process, unit) io" where
  "setup_tracing repr_of lib conf = bnd (update (\<lambda>p. p\<lparr>propagator_installed := True\<rparr>)) (\<lambda>_.
     if bs_trace_backend conf \<in> {[], ''none''} then ret ()
     else if bs_trace_backend conf = ''otlp'' then
       (if bs_otlp_endpoint conf = [] then raise (RuntimeError ''TRACE_BACKEND=otlp needs OTEL_EXPORTER_OTLP_ENDPOINT'')
        else install_provider lib conf (OTLPSpanExporter (bs_otlp_endpoint conf)))
     else if bs_trace_backend conf = ''gcp'' then
       install_provider lib conf (CloudTraceSpanExporter
         (if bs_trace_gcp_project conf = [] then None else Some (bs_trace_gcp_project conf)))
     else raise (RuntimeError (''unknown TRACE_BACKEND '' @ repr_of (bs_trace_backend conf) @ '' (use none, otlp or gcp)'')))"

definition shutdown_tracing :: "(process, unit) io" where
  "shutdown_tracing = update (\<lambda>p. if trace_provider p \<noteq> None then p\<lparr>provider_shut_down := True\<rparr> else p)"

definition instrument_grpc :: "(process, unit) io" where
  "instrument_grpc = update (\<lambda>p. p\<lparr>grpc_instrumented := True\<rparr>)"

text \<open>The span's ids for a line of the log, in lower-case hexadecimal padded with zeros.\<close>

record span_context =
  sn_is_valid :: bool
  sn_trace_id :: nat
  sn_span_id :: nat

definition hex_digit :: "nat \<Rightarrow> char" where
  "hex_digit d = ''0123456789abcdef'' ! d"

fun hex :: "nat \<Rightarrow> string" where
  "hex n = (if n < 16 then [hex_digit n] else hex (n div 16) @ [hex_digit (n mod 16)])"

declare hex.simps [simp del]

definition zero_filled :: "nat \<Rightarrow> string \<Rightarrow> string" where
  "zero_filled w s = replicate (w - length s) CHR ''0'' @ s"

definition span_ids :: "span_context \<Rightarrow> string \<times> string" where
  "span_ids ctx = (if \<not> sn_is_valid ctx then ([], [])
     else (zero_filled 32 (hex (sn_trace_id ctx)), zero_filled 16 (hex (sn_span_id ctx))))"

section \<open>The core's client and the gRPC server\<close>

definition core_start :: "boot_lib \<Rightarrow> (process, unit) io" where
  "core_start lib = bnd (library (lb_dial lib)) (\<lambda>_ s.
     (Inr (), s\<lparr>channel_open := True, ext := (ext s)\<lparr>core_live := True\<rparr>\<rparr>))"

definition core_stop :: "(process, unit) io" where
  "core_stop = (\<lambda>s. (Inr (), if channel_open s then s\<lparr>ext := (ext s)\<lparr>core_live := False\<rparr>\<rparr> else s))"

text \<open>Every servicer registered, and the services reflection names.\<close>

definition registered_services :: "string list" where
  "registered_services = [''IdentityService'', ''HierarchyService'', ''ResourceService'', ''SecondFactorService'',
     ''RuntimeService'', ''AttentionService'', ''CatalogService'', ''CostService'', ''DeliveryService'',
     ''DemandService'', ''ExecutionService'', ''KnowledgeService'', ''StreamService'', ''WorkflowService'']"

definition reflected_services :: "string list" where
  "reflected_services = [''IdentityService'', ''HierarchyService'', ''ResourceService'',
     ''RuntimeService'', ''AttentionService'', ''CatalogService'', ''CostService'', ''DeliveryService'',
     ''DemandService'', ''ExecutionService'', ''KnowledgeService'', ''StreamService'', ''WorkflowService'']"

definition grpc_start :: "boot_lib \<Rightarrow> string \<Rightarrow> int \<Rightarrow> (process, int) io" where
  "grpc_start lib host requested = bnd (library (lb_bind lib host requested)) (\<lambda>port.
     if port = 0 then raise (RuntimeError (''could not listen on '' @ host @ '':'' @ str_int requested))
     else bnd (library (lb_serve lib)) (\<lambda>_. bnd (update (\<lambda>p. p\<lparr>listening := Some port\<rparr>)) (\<lambda>_.
       bnd (emit (LogInfo ''gRPC port opened'' [])) (\<lambda>_. ret port))))"

definition grpc_stop :: "(process, unit) io" where
  "grpc_stop = bnd (update (\<lambda>p. p\<lparr>listening := None\<rparr>)) (\<lambda>_. emit (LogInfo ''gRPC port closed'' []))"

section \<open>The lifespan\<close>

definition bridge_storage_emulator :: "(process, unit) io" where
  "bridge_storage_emulator = update (\<lambda>p.
     case environ p ''FIREBASE_STORAGE_EMULATOR_HOST'' of
       None \<Rightarrow> p
     | Some fb \<Rightarrow>
         if fb \<noteq> [] \<and> environ p ''STORAGE_EMULATOR_HOST'' \<in> {None, Some []}
         then p\<lparr>environ := (environ p)(''STORAGE_EMULATOR_HOST'' \<mapsto>
                (if startswith ''http'' fb then fb else ''http://'' @ fb))\<rparr>
         else p)"

text \<open>
  The statements of \<^verbatim>\<open>lifespan\<close> before its \<^verbatim>\<open>yield\<close>, and after it. There is no \<^verbatim>\<open>try\<close>: an exception
  before the \<^verbatim>\<open>yield\<close> ends the function where it was raised.
\<close>

definition boot_steps :: "(string \<Rightarrow> string) \<Rightarrow> boot_lib \<Rightarrow> boot_settings \<Rightarrow> route list \<Rightarrow> (process, unit) io list" where
  "boot_steps repr_of lib conf routes =
     [configure_logging,
      bridge_storage_emulator,
      setup_tracing repr_of lib conf,
      instrument_grpc,
      core_start lib,
      emit (LogInfo ''core connected'' []),
      update (\<lambda>p. p\<lparr>route_registry := register_public_routes routes (route_registry p)\<rparr>),
      (if bs_grpc_enabled conf then mapv (\<lambda>_. ()) (grpc_start lib ''[::]'' (bs_grpc_port conf)) else ret ()),
      emit (LogInfo ''dop-api ready'' [])]"

definition stop_steps :: "boot_settings \<Rightarrow> (process, unit) io list" where
  "stop_steps conf =
     [(if bs_grpc_enabled conf then grpc_stop else ret ()), core_stop, shutdown_tracing, emit (LogInfo ''dop-api stopped'' [])]"

datatype phase = Booting nat | BootFailed exn | Serving | Stopping nat

text \<open>
  The process moves one statement at a time. While it serves, requests change the state as they like,
  but the process's own part of it is the lifespan's.
\<close>

inductive life :: "(string \<Rightarrow> string) \<Rightarrow> boot_lib \<Rightarrow> boot_settings \<Rightarrow> route list \<Rightarrow> process rt \<Rightarrow> phase \<Rightarrow> process rt \<Rightarrow> bool"
  for repr_of lib conf routes s0 where
  born: "life repr_of lib conf routes s0 (Booting 0) s0"
| boots: "life repr_of lib conf routes s0 (Booting k) s \<Longrightarrow> k < length (boot_steps repr_of lib conf routes) \<Longrightarrow>
    (boot_steps repr_of lib conf routes ! k) s = (Inr (), s') \<Longrightarrow> life repr_of lib conf routes s0 (Booting (Suc k)) s'"
| fails: "life repr_of lib conf routes s0 (Booting k) s \<Longrightarrow> k < length (boot_steps repr_of lib conf routes) \<Longrightarrow>
    (boot_steps repr_of lib conf routes ! k) s = (Inl e, s') \<Longrightarrow> life repr_of lib conf routes s0 (BootFailed e) s'"
| yields: "life repr_of lib conf routes s0 (Booting (length (boot_steps repr_of lib conf routes))) s \<Longrightarrow>
    life repr_of lib conf routes s0 Serving s"
| serves: "life repr_of lib conf routes s0 Serving s \<Longrightarrow> ext s' = ext s \<Longrightarrow> channel_open s' = channel_open s \<Longrightarrow>
    life repr_of lib conf routes s0 Serving s'"
| ends: "life repr_of lib conf routes s0 Serving s \<Longrightarrow> life repr_of lib conf routes s0 (Stopping 0) s"
| stops: "life repr_of lib conf routes s0 (Stopping k) s \<Longrightarrow> k < length (stop_steps conf) \<Longrightarrow>
    (stop_steps conf ! k) s = (Inr (), s') \<Longrightarrow> life repr_of lib conf routes s0 (Stopping (Suc k)) s'"

section \<open>Nothing is open in front of what is not\<close>

lemma update_run [simp]: "update f s = (Inr (), s\<lparr>ext := f (ext s)\<rparr>)"
  by (simp add: update_def)

lemma library_run [simp]: "library r s = (r, s)"
  by (simp add: library_def)

lemma setup_tracing_result:
  assumes "setup_tracing repr_of lib conf s = (r, s')"
  shows "channel_open s' = channel_open s \<and> (\<exists>pv. ext s' = (ext s)\<lparr>propagator_installed := True, trace_provider := pv\<rparr>
    \<and> (pv = trace_provider (ext s) \<or> (\<exists>v. pv = Some v \<and> 0 < pd_ratio v \<and> pd_ratio v \<le> 1)))"
  using assms
  by (auto simp: setup_tracing_def install_provider_def bnd_run sample_ratio_def split: if_splits sum.splits
      intro: exI [of _ "trace_provider (ext s)"])

definition ratios_ok :: "process rt \<Rightarrow> bool" where
  "ratios_ok s \<longleftrightarrow> (\<forall>v. trace_provider (ext s) = Some v \<longrightarrow> 0 < pd_ratio v \<and> pd_ratio v \<le> 1)"

text \<open>What holds after \<open>k\<close> statements of the boot, and after \<open>k\<close> of the stop.\<close>

definition booted :: "boot_settings \<Rightarrow> registry \<Rightarrow> nat \<Rightarrow> process rt \<Rightarrow> bool" where
  "booted conf reg k s \<longleftrightarrow> ratios_ok s
     \<and> (1 \<le> k \<longrightarrow> threshold (ext s) \<noteq> None) \<and> (3 \<le> k \<longrightarrow> propagator_installed (ext s))
     \<and> (5 \<le> k \<longrightarrow> core_live (ext s) \<and> channel_open s) \<and> (7 \<le> k \<longrightarrow> route_registry (ext s) = reg)
     \<and> (if k < 8 then listening (ext s) = None
        else (listening (ext s) \<noteq> None \<longleftrightarrow> bs_grpc_enabled conf) \<and> listening (ext s) \<noteq> Some 0)"

definition stopped :: "boot_settings \<Rightarrow> registry \<Rightarrow> nat \<Rightarrow> process rt \<Rightarrow> bool" where
  "stopped conf reg k s \<longleftrightarrow> ratios_ok s \<and> threshold (ext s) \<noteq> None \<and> propagator_installed (ext s)
     \<and> channel_open s \<and> route_registry (ext s) = reg
     \<and> (k = 0 \<longrightarrow> (listening (ext s) \<noteq> None \<longleftrightarrow> bs_grpc_enabled conf) \<and> listening (ext s) \<noteq> Some 0)
     \<and> (1 \<le> k \<longrightarrow> listening (ext s) = None)
     \<and> (core_live (ext s) \<longleftrightarrow> k \<le> 1) \<and> (3 \<le> k \<longrightarrow> trace_provider (ext s) = None \<or> provider_shut_down (ext s))"

lemma below_nine: "(k::nat) < 9 \<Longrightarrow> k \<in> {0, 1, 2, 3, 4, 5, 6, 7, 8}"
  by auto

lemma boot_step:
  assumes "k < 9" and "booted conf (register_public_routes routes r0) k s"
    and "(boot_steps repr_of lib conf routes ! k) s = (r, s')"
  shows "case r of Inl e \<Rightarrow> ratios_ok s' \<and> listening (ext s') = None
    | Inr u \<Rightarrow> booted conf (register_public_routes routes r0) (Suc k) s'"
proof -
  have tracing: ?thesis if k: "k = 2"
  proof -
    from assms(3) k have "setup_tracing repr_of lib conf s = (r, s')" by (simp add: boot_steps_def)
    from setup_tracing_result [OF this] assms(2) k show ?thesis
      by (auto simp: booted_def ratios_ok_def split: sum.splits)
  qed
  have others: ?thesis if "k \<in> {0, 1, 3, 4, 5, 6, 7, 8}"
    using that assms(2,3)
    by (elim insertE emptyE)
       (auto simp: boot_steps_def booted_def ratios_ok_def configure_logging_def bridge_storage_emulator_def instrument_grpc_def core_start_def
         grpc_start_def register_public_routes_def bnd_run mapv_run split: if_splits sum.splits option.splits)
  from below_nine [OF assms(1)] tracing others show ?thesis by blast
qed

lemma stop_step:
  assumes "k < 4" and "stopped conf reg k s" and "(stop_steps conf ! k) s = (Inr (), s')"
  shows "stopped conf reg (Suc k) s'"
proof -
  from assms(1) have "k \<in> {0, 1, 2, 3}" by auto
  then show ?thesis using assms(2,3)
    by (elim insertE emptyE)
       (auto simp: stop_steps_def stopped_def ratios_ok_def grpc_stop_def core_stop_def shutdown_tracing_def bnd_run
         split: if_splits)
qed

lemma steps_length [simp]:
  "length (boot_steps repr_of lib conf routes) = 9" "length (stop_steps conf) = 4"
  by (simp_all add: boot_steps_def stop_steps_def)

lemma life_inv:
  assumes "life repr_of lib conf routes s0 ph s"
    and "trace_provider (ext s0) = None" and "listening (ext s0) = None"
  shows "case ph of
      Booting k \<Rightarrow> k \<le> 9 \<and> booted conf (register_public_routes routes r0) k s
    | BootFailed e \<Rightarrow> ratios_ok s \<and> listening (ext s) = None
    | Serving \<Rightarrow> booted conf (register_public_routes routes r0) 9 s
    | Stopping k \<Rightarrow> k \<le> 4 \<and> stopped conf (register_public_routes routes r0) k s"
  using assms(1)
proof (induction rule: life.induct)
  case born
  then show ?case using assms(2,3) by (simp add: booted_def ratios_ok_def)
next
  case (boots k s s')
  with boot_step [of k conf routes r0 s repr_of lib "Inr ()" s'] show ?case by simp
next
  case (fails k s e s')
  with boot_step [of k conf routes r0 s repr_of lib "Inl e" s'] show ?case by simp
next
  case (serves s s')
  then show ?case by (simp add: booted_def ratios_ok_def)
next
  case (ends s)
  then show ?case by (simp add: booted_def stopped_def)
next
  case (stops k s s')
  with stop_step [of k conf _ s s'] show ?case by simp
qed simp

text \<open>
  C14. No door is open in front of something that is not. In every state a process that started with
  nothing open can be in, while it boots, serves, stops or after a failed boot: if the gRPC port is
  listening, then its number is a real one, the configuration asks for it, the channel to the core is
  there and not closed, the propagator is installed and the exempt routes are the ones the routers
  marked. While it serves REST all of that holds too, and the port listens exactly if the
  configuration asks. A finished stop has closed the port and the channel and shut the span provider
  down; a failed boot leaves no port behind. The sampling ratio is always in range.
\<close>

theorem no_door_before_the_core:
  assumes "life repr_of lib conf routes s0 ph s"
    and "trace_provider (ext s0) = None" and "listening (ext s0) = None"
  shows "(\<forall>v. trace_provider (ext s) = Some v \<longrightarrow> 0 < pd_ratio v \<and> pd_ratio v \<le> 1)
    \<and> (\<forall>p. listening (ext s) = Some p \<longrightarrow> p \<noteq> 0 \<and> bs_grpc_enabled conf \<and> core_live (ext s) \<and> channel_open s
        \<and> propagator_installed (ext s) \<and> route_registry (ext s) = register_public_routes routes r0)
    \<and> (ph = Serving \<longrightarrow> core_live (ext s) \<and> channel_open s \<and> threshold (ext s) \<noteq> None
        \<and> route_registry (ext s) = register_public_routes routes r0
        \<and> (listening (ext s) \<noteq> None \<longleftrightarrow> bs_grpc_enabled conf))
    \<and> (ph = Stopping 4 \<longrightarrow> listening (ext s) = None \<and> \<not> core_live (ext s)
        \<and> (trace_provider (ext s) = None \<or> provider_shut_down (ext s)))
    \<and> (\<forall>e. ph = BootFailed e \<longrightarrow> listening (ext s) = None)"
proof (cases ph)
  case (Booting k)
  with life_inv [OF assms, of r0] show ?thesis
    by (auto simp: booted_def ratios_ok_def split: if_splits)
next
  case (BootFailed e)
  with life_inv [OF assms, of r0] show ?thesis by (simp add: ratios_ok_def)
next
  case Serving
  with life_inv [OF assms, of r0] show ?thesis by (auto simp: booted_def ratios_ok_def)
next
  case (Stopping k)
  with life_inv [OF assms, of r0] have st: "k \<le> 4" "stopped conf (register_public_routes routes r0) k s" by simp_all
  show ?thesis
  proof (cases k)
    case 0
    with st(2) Stopping show ?thesis by (auto simp: stopped_def ratios_ok_def)
  next
    case (Suc j)
    with st Stopping show ?thesis by (auto simp: stopped_def ratios_ok_def)
  qed
qed

definition demo_lib :: boot_lib where
  "demo_lib = \<lparr>lb_exporter = (\<lambda>e. Inr ()), lb_dial = Inr (), lb_bind = (\<lambda>h p. Inr 9095), lb_serve = Inr ()\<rparr>"

definition demo_conf :: "string \<Rightarrow> boot_settings" where
  "demo_conf backend = \<lparr>bs_app_name = ''dop-api'', bs_version = ''dev'', bs_trace_backend = backend, bs_otlp_endpoint = [],
     bs_trace_gcp_project = [], bs_trace_sample_ratio = 7, bs_http_port = 8000, bs_grpc_port = 9095, bs_grpc_enabled = True\<rparr>"

definition demo_process :: "process rt" where
  "demo_process = \<lparr>auth_ctx = None, request_ctx = Map.empty, channel_open = False, log_lines = [],
     ext = \<lparr>environ = Map.empty, root_handled = False, threshold = None, propagator_installed = False, trace_provider = None,
       provider_shut_down = False, grpc_instrumented = False, core_live = False,
       route_registry = \<lparr>PUBLIC_PATTERNS = [], TOKEN_ONLY_PATTERNS = []\<rparr>, listening = None\<rparr>\<rparr>"

text \<open>A boot whose statements succeed from a state of the kind they leave gets to the end.\<close>

lemma run_up_to:
  assumes "life repr_of lib conf routes s0 (Booting k) s" and "k \<le> 9" and "P k s"
    and "\<And>j t. j < 9 \<Longrightarrow> P j t \<Longrightarrow> \<exists>t'. (boot_steps repr_of lib conf routes ! j) t = (Inr (), t') \<and> P (Suc j) t'"
  shows "\<exists>s'. life repr_of lib conf routes s0 Serving s'"
  using assms(1-3)
proof (induction "9 - k" arbitrary: k s)
  case 0
  then have "k = length (boot_steps repr_of lib conf routes)" by simp
  with 0 yields show ?case by blast
next
  case (Suc n)
  then have k: "k < 9" by simp
  with assms(4) [of k s] Suc.prems(3) obtain t where
    t: "(boot_steps repr_of lib conf routes ! k) s = (Inr (), t)" "P (Suc k) t" by blast
  with boots [OF Suc.prems(1)] k have "life repr_of lib conf routes s0 (Booting (Suc k)) t" by simp
  from Suc.hyps(1) [OF _ this _ t(2)] Suc.hyps(2) k show ?case by simp
qed

lemma demo_boots:
  "j < 9 \<Longrightarrow> (j = 0 \<longrightarrow> environ (ext t) = Map.empty) \<Longrightarrow>
    \<exists>t'. (boot_steps id demo_lib (demo_conf ''gcp'') [] ! j) t = (Inr (), t') \<and> (Suc j = 0 \<longrightarrow> environ (ext t') = Map.empty)"
proof -
  have info: "upper ''info'' = ''INFO''" by code_simp
  assume "j < 9" and e: "j = 0 \<longrightarrow> environ (ext t) = Map.empty"
  from below_nine [OF this(1)] show ?thesis
    by (elim insertE emptyE)
       (use e info in \<open>simp_all add: boot_steps_def configure_logging_def log_level_def LEVELS_def demo_lib_def
         demo_conf_def bridge_storage_emulator_def setup_tracing_def install_provider_def instrument_grpc_def
         core_start_def grpc_start_def bnd_run mapv_run\<close>)
qed

theorem no_door_before_the_core_witness:
  "\<exists>s. life id demo_lib (demo_conf ''gcp'') [] demo_process Serving s \<and> listening (ext s) \<noteq> None \<and> core_live (ext s)"
proof -
  have "\<exists>s. life id demo_lib (demo_conf ''gcp'') [] demo_process Serving s"
  proof (rule run_up_to [OF born, where P = "\<lambda>j t. j = 0 \<longrightarrow> environ (ext t) = Map.empty"])
    show "0 = 0 \<longrightarrow> environ (ext demo_process) = Map.empty" by (simp add: demo_process_def)
  qed (simp, rule demo_boots)
  then obtain s where s: "life id demo_lib (demo_conf ''gcp'') [] demo_process Serving s" by blast
  have "trace_provider (ext demo_process) = None" "listening (ext demo_process) = None" "bs_grpc_enabled (demo_conf ''gcp'')"
    by (simp_all add: demo_process_def demo_conf_def)
  with no_door_before_the_core [OF s] s show ?thesis by blast
qed

section \<open>A typo in the configuration is a boot error\<close>

definition misconfigured :: "boot_settings \<Rightarrow> bool" where
  "misconfigured conf \<longleftrightarrow> bs_trace_backend conf \<notin> {[], ''none'', ''otlp'', ''gcp''}
     \<or> (bs_trace_backend conf = ''otlp'' \<and> bs_otlp_endpoint conf = [])"

lemma misconfigured_setup:
  assumes "misconfigured conf"
  shows "\<exists>m s'. setup_tracing repr_of lib conf s = (Inl (RuntimeError m), s') \<and> channel_open s' = channel_open s
    \<and> core_live (ext s') = core_live (ext s) \<and> trace_provider (ext s') = trace_provider (ext s)"
  using assms by (auto simp: misconfigured_def setup_tracing_def bnd_run)

definition bad_level :: "process \<Rightarrow> bool" where
  "bad_level p \<longleftrightarrow> \<not> root_handled p \<and> map_of LEVELS (log_level p) = None"

lemma configure_logging_run:
  "configure_logging s = (if bad_level (ext s) then (Inl (OtherError ''ValueError''), s)
     else (Inr (), s\<lparr>ext := (ext s)\<lparr>root_handled := True,
       threshold := Some (case map_of LEVELS (log_level (ext s)) of Some n \<Rightarrow> n | None \<Rightarrow> 20)\<rparr>\<rparr>))"
  by (simp add: configure_logging_def bad_level_def bnd_run)

text \<open>Where a misconfigured process can be: before its tracing is set up, or failed.\<close>

definition held_back :: "process rt \<Rightarrow> phase \<Rightarrow> process rt \<Rightarrow> bool" where
  "held_back s0 ph s \<longleftrightarrow> (case ph of
       Booting k \<Rightarrow> k \<le> 2 \<and> (if k = 0 then s = s0 else \<not> bad_level (ext s0))
     | BootFailed e \<Rightarrow> (if bad_level (ext s0) then e = OtherError ''ValueError'' else \<exists>m. e = RuntimeError m)
     | Serving \<Rightarrow> False | Stopping k \<Rightarrow> False)
   \<and> channel_open s = channel_open s0 \<and> core_live (ext s) = core_live (ext s0)
   \<and> trace_provider (ext s) = trace_provider (ext s0)"

lemma held_back_step:
  assumes "misconfigured conf \<or> bad_level (ext s0)" and "held_back s0 (Booting k) s"
    and "(boot_steps repr_of lib conf routes ! k) s = (r, s')"
  shows "held_back s0 (case r of Inl e \<Rightarrow> BootFailed e | Inr u \<Rightarrow> Booting (Suc k)) s'"
proof -
  from assms(2) consider "k = 0" | "k = 1" | "k = 2" by (fastforce simp: held_back_def)
  then show ?thesis
  proof cases
    case 1
    with assms(2,3) show ?thesis
      by (auto simp: held_back_def boot_steps_def configure_logging_run split: if_splits)
  next
    case 2
    with assms(2,3) show ?thesis
      by (auto simp: held_back_def boot_steps_def bridge_storage_emulator_def split: option.splits if_splits)
  next
    case 3
    with assms(2) have b: "\<not> bad_level (ext s0)" by (simp add: held_back_def)
    with assms(1) have "misconfigured conf" by simp
    from misconfigured_setup [OF this, of repr_of lib s] assms(2,3) 3 b show ?thesis
      by (auto simp: held_back_def boot_steps_def)
  qed
qed

lemma life_held_back:
  assumes "misconfigured conf \<or> bad_level (ext s0)" and "life repr_of lib conf routes s0 ph s"
  shows "held_back s0 ph s"
  using assms(2)
proof (induction rule: life.induct)
  case (boots k s s')
  from held_back_step [OF assms(1) boots.IH boots.hyps(3)] show ?case by simp
next
  case (fails k s e s')
  from held_back_step [OF assms(1) fails.IH fails.hyps(3)] show ?case by simp
qed (simp_all add: held_back_def)

lemma misconfigured_fails:
  assumes "misconfigured conf \<or> bad_level (ext s0)"
  shows "\<exists>e s. life repr_of lib conf routes s0 (BootFailed e) s"
proof (cases "bad_level (ext s0)")
  case True
  then have "(boot_steps repr_of lib conf routes ! 0) s0 = (Inl (OtherError ''ValueError''), s0)"
    by (simp add: boot_steps_def configure_logging_run)
  from fails [OF born _ this] show ?thesis by auto
next
  case False
  then have "\<exists>s1 s2. (boot_steps repr_of lib conf routes ! 0) s0 = (Inr (), s1)
      \<and> (boot_steps repr_of lib conf routes ! 1) s1 = (Inr (), s2)"
    by (simp add: boot_steps_def configure_logging_run bridge_storage_emulator_def)
  then obtain s1 s2 where b: "(boot_steps repr_of lib conf routes ! 0) s0 = (Inr (), s1)"
      "(boot_steps repr_of lib conf routes ! 1) s1 = (Inr (), s2)" by blast
  have "life repr_of lib conf routes s0 (Booting (Suc 0)) s1" using boots [OF born _ b(1)] by simp
  from boots [OF this, of s2] b(2) have two: "life repr_of lib conf routes s0 (Booting (Suc (Suc 0))) s2" by simp
  from False assms have "misconfigured conf" by simp
  from misconfigured_setup [OF this, of repr_of lib s2] obtain m s3 where
    "(boot_steps repr_of lib conf routes ! Suc (Suc 0)) s2 = (Inl (RuntimeError m), s3)" by (auto simp: boot_steps_def)
  from fails [OF two _ this] show ?thesis by auto
qed

text \<open>
  C40. A typo must not silently export nothing, nor log at another level. With a trace backend nobody knows, with
  \<^verbatim>\<open>otlp\<close> and no endpoint, or with a \<^verbatim>\<open>LOG_LEVEL\<close> that is no level (where nobody has set the root logger up
  before), the process never serves and never stops: the only end it can reach is a boot that failed, with a
  \<^verbatim>\<open>ValueError\<close> for the level and a \<^verbatim>\<open>RuntimeError\<close> for the tracing, before the core was dialled and with no
  provider installed; and whatever the libraries do, the boot does get to that end.
\<close>

theorem misconfigured_never_serves:
  assumes "misconfigured conf \<or> bad_level (ext s0)"
  shows "(life repr_of lib conf routes s0 ph s \<longrightarrow>
      (case ph of Booting k \<Rightarrow> k \<le> 2
       | BootFailed e \<Rightarrow> (if bad_level (ext s0) then e = OtherError ''ValueError'' else \<exists>m. e = RuntimeError m)
       | Serving \<Rightarrow> False | Stopping k \<Rightarrow> False)
      \<and> channel_open s = channel_open s0 \<and> core_live (ext s) = core_live (ext s0)
      \<and> trace_provider (ext s) = trace_provider (ext s0))
    \<and> (\<exists>e s. life repr_of lib conf routes s0 (BootFailed e) s)"
proof (intro conjI impI misconfigured_fails [OF assms])
  assume "life repr_of lib conf routes s0 ph s"
  note held = life_held_back [OF assms this, unfolded held_back_def]
  from held show "case ph of Booting k \<Rightarrow> k \<le> 2
       | BootFailed e \<Rightarrow> (if bad_level (ext s0) then e = OtherError ''ValueError'' else \<exists>m. e = RuntimeError m)
       | Serving \<Rightarrow> False | Stopping k \<Rightarrow> False"
    by (cases ph) simp_all
  from held show "channel_open s = channel_open s0" "core_live (ext s) = core_live (ext s0)"
    "trace_provider (ext s) = trace_provider (ext s0)" by simp_all
qed

theorem misconfigured_never_serves_witness:
  "(\<exists>e s. life id demo_lib (demo_conf ''otel'') [] demo_process (BootFailed e) s)
   \<and> (\<forall>s. \<not> life id demo_lib (demo_conf ''gcp'') [] (demo_process\<lparr>ext := (ext demo_process)\<lparr>environ := [''LOG_LEVEL'' \<mapsto> ''verbose'']\<rparr>\<rparr>) Serving s)"
proof -
  have "map_of LEVELS (upper ''verbose'') = None" by code_simp
  then have "bad_level ((ext demo_process)\<lparr>environ := [''LOG_LEVEL'' \<mapsto> ''verbose'']\<rparr>)"
    by (simp add: bad_level_def log_level_def demo_process_def)
  then have "\<not> life id demo_lib (demo_conf ''gcp'') []
      (demo_process\<lparr>ext := (ext demo_process)\<lparr>environ := [''LOG_LEVEL'' \<mapsto> ''verbose'']\<rparr>\<rparr>) Serving s" for s
    using misconfigured_never_serves [of "demo_conf ''gcp''"
      "demo_process\<lparr>ext := (ext demo_process)\<lparr>environ := [''LOG_LEVEL'' \<mapsto> ''verbose'']\<rparr>\<rparr>" id demo_lib "[]" Serving s] by simp
  moreover have "\<exists>e s. life id demo_lib (demo_conf ''otel'') [] demo_process (BootFailed e) s"
    using misconfigured_never_serves [of "demo_conf ''otel''" demo_process id demo_lib "[]"]
    by (simp add: misconfigured_def demo_conf_def)
  ultimately show ?thesis by blast
qed

section \<open>What reflection shows\<close>

text \<open>Every service but one that is served is also listed.\<close>

lemma reflection_omits:
  "set registered_services - set reflected_services = {''SecondFactorService''}
   \<and> set reflected_services \<subseteq> set registered_services"
  by (auto simp: registered_services_def reflected_services_def)

lemma hex_length: "n < 16 ^ Suc k \<Longrightarrow> length (hex n) \<le> Suc k"
proof (induction k arbitrary: n)
  case (Suc k)
  then have "n div 16 < 16 ^ Suc k" by (simp add: div_less_iff_less_mult)
  with Suc.IH [of "n div 16"] show ?case by (subst hex.simps) simp
qed (subst hex.simps, simp)

text \<open>The ids of a valid span are exactly 32 and 16 digits, as the log's readers join on them.\<close>

lemma span_ids_width:
  assumes "sn_is_valid ctx" and "sn_trace_id ctx < 16 ^ 32" and "sn_span_id ctx < 16 ^ 16"
  shows "length (fst (span_ids ctx)) = 32 \<and> length (snd (span_ids ctx)) = 16"
  using hex_length [of "sn_trace_id ctx" 31] hex_length [of "sn_span_id ctx" 15] assms
  by (simp add: span_ids_def zero_filled_def)

end
