(* ===== verification/Spec2Isabelle.thy ===== *)
theory Spec2Isabelle
  imports Sessions Surface Grpc_Surface EndToEnd OnBehalf Trace Log_Lines Static_Api Admission Channel Brake Lifecycle Identity Identity_Ports Work_Ports Attention
    Delivery Demand TurnRuntime Hierarchy Execution Resource Knowledge SecondFactor Catalog
begin

text \<open>
  A model of the DOP platform's BFF: the Python service that stands between the cockpit (REST and SSE)
  or any gRPC client and the platform's core, which it calls over gRPC. It keeps no data of its own. What it
  owns is the identity of a call, the translation of vocabularies, messages and errors in both directions, and
  the live streams; that is what is modelled, and every other thing is a parameter.

  \<^bold>\<open>How the parts meet.\<close> A request enters by one of two doors (\<^verbatim>\<open>app/platform/security/middleware.py\<close>,
  \<^verbatim>\<open>app/grpcapi/interceptors.py\<close>), which read the token, have it verified
  (\<^verbatim>\<open>app/platform/security/firebase.py\<close>), ask the core who the user is and what they may do
  (\<^verbatim>\<open>app/coreclient/resolver.py\<close>), put the answer in the context variable \<^verbatim>\<open>auth_ctx\<close> and run the
  handler. The handler is a thin adapter (\<^verbatim>\<open>app/routers/\<close>, \<^verbatim>\<open>app/grpcapi/\<close>) over a use case
  (\<^verbatim>\<open>app/usecases/\<close>), which is guarded by decorators that read \<^verbatim>\<open>auth_ctx\<close>, builds a request,
  signs it (\<^verbatim>\<open>app/coreclient/callauth.py\<close>, \<^verbatim>\<open>app/coreclient/client.py\<close>) and calls the core. What the
  core answers, or the status it fails with, is translated back for each port
  (\<^verbatim>\<open>app/platform/errors.py\<close>).

  \<^bold>\<open>The computations.\<close> An \<^verbatim>\<open>async def\<close> is a value of \<open>('w, 'a) io\<close>, theory Effects: a function of
  the runtime state to an exception or a result, and the state after. The state holds the two context
  variables, the lines logged, each stamped with the context it was written in, whether the channel is open, and
  the outside world \<open>'w\<close>. A step of one
  computation is not interleaved with another's: context variables are private to a task, and the code
  shares nothing else but the verifier's certificate cache, which lives in the world. That cache under
  interleaved tasks is theory Brake's, as a step relation whose steps are what asyncio runs between two awaits.

  \<^bold>\<open>Theories, from the bottom.\<close>
  \<^item> Dates: protobuf's instants, Python's calendar, \<^verbatim>\<open>isoformat\<close> and \<^verbatim>\<open>fromisoformat\<close>, and the two \<^verbatim>\<open>_ts\<close>
    that go from one to the other.
  \<^item> Prelude, Effects, Context, Base64: Python's strings, dictionaries and base64; exceptions and
    computations; the context and the settings (\<^verbatim>\<open>app/platform/context.py\<close>, \<^verbatim>\<open>app/settings.py\<close>).
  \<^item> Vocabulary: the enum tables and what every table owes its readers, as the locales \<open>vocabulary\<close> and
    \<open>shared_vocabulary\<close>, interpreted once for each table by the theory that owns it.
  \<^item> Errors, Callauth, CoreClient, Logging, Security, Routes, Firebase, Links, Resolver: the platform
    layer. The interfaces \<open>error_writer\<close> (nothing of a 5xx leaks) and \<open>guard\<close> (an admitted call is the
    body, a refused one touches nothing; two guards are a guard) are locales here.
  \<^item> Log_Lines: a line of the log from its call site through the processors \<^verbatim>\<open>configure\<close> lists.
  \<^item> Brake: the certificate cache with any number of requests at once.
  \<^item> Contract, Core_Stubs, Grpc_Surface: what protoc wrote of the services, on the client's and the server's
    side; the core's stubs; and the edge's handlers, with the classes that implement them and the interceptors'
    choice by kind. Core_Servers, Static_Api: the rest of the generated services, the core's server half and
    the static API, checked against the stubs. Channel: where the client of the core points, its policy of retries, and what repeating does
    to writes; the locale \<open>world_bound\<close> is how far a computation may move the world, interpreted for writes
    under a key and for counted writes.
  \<^item> Gateway: the two doors around any handler, unary calls. Doors: the exception handlers of the REST
    application, and what either door makes of a handler's failure. Surface: every REST route with its markers,
    as \<^verbatim>\<open>create_app\<close> assembles them, behind that door. Application: every request those routes can be sent, with
    its handler, from the path to the answer. Admission: what each takes of its caller. Streams: the use case's
    generators, the SSE port and the streaming interceptors. Sessions: a browser that reconnects, on top of Streams.
  \<^item> Usecase: how a successful call through the decorators is read back to the one call it made
    (\<open>asked\<close>), a failed one to the core's refusal (\<open>turned_down\<close>), and a write to its key (\<open>keyed\<close>).
  \<^item> Identity_Core and Identity, Hierarchy, Demand, Workflow, Delivery, Cost, TurnRuntime, Execution,
    Attention, Resource, Knowledge, SecondFactor, Catalog: one theory for each module of
    \<^verbatim>\<open>app/usecases/\<close>, with the handlers of its two ports; where those are many they are in
    Identity_Ports and Work_Ports.
  \<^item> Lifecycle: \<^verbatim>\<open>app/main.py\<close>'s lifespan, the level of the log, \<^verbatim>\<open>app/platform/tracing.py\<close> and the servers'
    start and stop, as a step relation over the phases of the process.
  \<^item> EndToEnd: one request through the whole edge, from its headers to the call of the core.
    Watched: every use case behind a stub that refuses some calls; \<open>same_while\<close> says that two computations are
    the same as long as a condition on the state holds, its rules go through the code as it is composed, and the
    locale \<open>watched\<close> is what the condition owes for a stub to go unnoticed. OnBehalf interprets it for the
    caller's name; Trace, in \<open>watched_all\<close>, which adds the calls made by hand, for the request's id.

  A definition has the name of the function it translates; \<open>grpc_X\<close> is the servicer's method \<^verbatim>\<open>X\<close>,
  \<open>rest_x\<close> the route's handler together with the validation of its body, \<open>x_of\<close> a converter from the
  core's message to the edge's model and \<open>bff_x\<close> one from the model to the edge's message. A record is
  named after its class, its fields after the class's with a two-letter prefix. A message field that can
  be absent is an option.

  \<^bold>\<open>What the lemmas show.\<close>
  \<^item> Identity: no handler runs unidentified, both doors let in the same callers with the same context and put
    the context back, a production token is verified by the key the certificates hold, the user, role and
    account are the core's answers, exempt routes are exactly the marked ones, which in the application are two; every request
    takes its route, and nobody is served over REST what they may not have.
  \<^item> The gRPC surface: every handler is written, wrapped and reachable by the contract's own client, and none
    answers an unverified caller; and what a caller is given was asked of the core in that caller's name,
    as is every call of every use case, two of them without the caller's token and session. A request has one id:
    the core is asked under it, every line logged is under it, and it goes back to a REST client.
  \<^item> Authority: the decorator stack refuses in a fixed order, outside of it nothing happens, and otherwise
    it is the body; what every use case takes of its caller, and the two writes that take nothing.
  \<^item> The wire to the core: what metadata carries, and that an assertion reads back as what was signed; a
    write under a key is applied once however often it is repeated, one without is repeated up to four times.
  \<^item> Translation: each status and its detail on each port; the two doors, whatever the handler does, answer the
    same; every enum number that goes out is one the
    contract declares; flows, refusals and roles cross and come back whole; derived fields (the
    demand's stage, the package's drops, the budget's remainder) are what they are said to be; the two ports
    of a use case tell the same; a date goes through its text and comes back.
  \<^item> Streams: items, errors and cancellation on both ports; reconnecting refines one reader of the log,
    whoever keeps coming back gets all of it, and the frames end when the stream does.
  \<^item> The log: what goes out has no secret under its name, and says which request and caller it belongs to.
  \<^item> The process: no port listens before the core is connected or after it is gone; a process whose
    tracing or log level is misconfigured never serves; what the brake on the certificate endpoint keeps, and
    that a burst passes it.

  \<^bold>\<open>Bounds and termination.\<close> Everything is a total function. A loop over a list is structural recursion; a
  stream, which may never end, is a function of how many items its consumer takes, and the theorem on
  the frames' end says that if the core's call ends after \<open>N\<close> items then \<open>N + 3\<close> frames are enough
  and every larger number gives the same frames. Python's integers are \<open>int\<close>, its floats in the modelled
  code (instants, ratios, scores) are \<open>real\<close>: rounding is not modelled.

  \<^bold>\<open>Parameters.\<close> PyJWT, the certificate parser and endpoint, HMAC and SHA-256, the clock and the
  random source (\<open>env\<close>, \<open>fb_env\<close>); every method of the core's stubs (a record per service); what grpc.aio
  and OpenTelemetry answer when asked to dial, bind, serve or export (\<open>boot_lib\<close>). Nothing is assumed of
  them but where a theorem says so by name: \<open>replays\<close> and \<open>delivers\<close>, the core's contract on a
  stream's cursor, \<open>deduplicates\<close>, its contract on idempotency keys, \<open>honours\<close>, gRPC's on a retry policy,
  \<open>raises_no_http\<close>, that the libraries under the verifier raise no HTTP exception, \<open>documented\<close>,
  which keys of an event structlog's own processors write, and \<open>in_range\<close>,
  the dates protobuf allows: for another, Python's conversion raises, which is not modelled.

  \<^bold>\<open>Not modelled.\<close> The generated messages under \<^verbatim>\<open>gen/\<close>, which are the wire format: a serialised
  descriptor and the classes protobuf builds from it at import. The 500 Starlette answers when an exception escapes
  the application. CORS and the OpenTelemetry instrumentation. How FastAPI and pydantic read a request's values from its text:
  a request is a value of \<open>rest_call\<close>. The loading of settings from the environment, pydantic-settings' own. Durations in log
  lines and the renderer of the log. TLS, and how gRPC paces its attempts: a channel is any function that
  \<open>honours\<close> its policy. The re-validation by pydantic of models the edge builds from the core's own answers.
  Concurrent requests, beyond the certificate cache. Non-ASCII case folding and whitespace.
\<close>

section \<open>Every enum on the gRPC wire is declared\<close>

text \<open>
  A proto enum of the edge's contract has the members 0 to \<open>hi\<close>, zero the unspecified one: a number
  of the core's as a member of it.
\<close>

definition declared :: "int \<Rightarrow> int \<Rightarrow> int" where
  "declared hi n = (if 1 \<le> n \<and> n \<le> hi then n else 0)"

lemma declared_vocabulary:
  assumes "\<And>n. known_number table n \<longleftrightarrow> 1 \<le> n \<and> n \<le> hi"
  shows "(if known_number table n then n else 0) = declared hi n"
  using assms by (simp add: declared_def)

lemma declared_tables:
  "(if known_number STATUS_BY_ENUM n then n else 0) = declared 4 n"
  "(if known_number STAGE_BY_ENUM n then n else 0) = declared 4 n"
  "(if known_number TYPE_BY_ENUM n then n else 0) = declared 8 n"
  "(if known_number GATE_BY_ENUM n then n else 0) = declared 2 n"
  "(if known_number ARTIFACT_BY_ENUM n then n else 0) = declared 6 n"
  "(if known_number Attention.KIND_BY_ENUM n then n else 0) = declared 8 n"
  "(if known_number STATE_BY_ENUM n then n else 0) = declared 4 n"
  "(if known_number Execution.NAME_BY_TIER n then n else 0) = declared 3 n"
  "(if known_number Resource.NAME_BY_KIND n then n else 0) = declared 4 n"
  "(if known_number Knowledge.NAME_BY_KIND n then n else 0) = declared 3 n"
  "(if known_number KIND_FROM_PROTO n then n else 0) = declared 3 n"
  "(if known_number SecondFactor.STATUS_FROM_PROTO n then n else 0) = declared 3 n"
  by (rule declared_vocabulary, simp add: known_number_def STATUS_BY_ENUM_def STAGE_BY_ENUM_def TYPE_BY_ENUM_def
      GATE_BY_ENUM_def ARTIFACT_BY_ENUM_def Attention.KIND_BY_ENUM_def STATE_BY_ENUM_def Execution.NAME_BY_TIER_def
      Resource.NAME_BY_KIND_def Knowledge.NAME_BY_KIND_def KIND_FROM_PROTO_def SecondFactor.STATUS_FROM_PROTO_def,
      arith)+

lemma stage_enums:
  "ck_status (bff_stage_of (stage_of s)) = declared 4 (ck_status s)"
  "ck_type (bff_stage_of (stage_of s)) = declared 8 (ck_type s)"
  "ck_gate (bff_stage_of (stage_of s)) = declared 2 (ck_gate s)"
  "map cx_kind (ck_artifacts (bff_stage_of (stage_of s))) = map (\<lambda>a. declared 6 (cx_kind a)) (ck_artifacts s)"
  by (simp_all add: bff_stage_of_def stage_of_def Demand.bff_artifact_of_def Demand.artifact_of_def
      stage_type_enum_def stage_type_name_def gate_enum_def gate_name_def artifact_enum_def artifact_name_def
      stage_statuses.crossing_out types.crossing_out gates.crossing_out artifacts.crossing_out declared_tables)

text \<open>
  C34. Whatever numbers the core answers with, the gRPC port writes only members its contract declares,
  and the core's own number wherever it is one: for a demand's situation and each of its stages'
  status, type, gate and artifact kinds, an attention item's kind, a sandbox's state and tier, a
  resource's and an artifact's kind, a factor's kind and status, and the method of a step-up. A number
  of a core newer than the edge becomes the unspecified member, never another one.
\<close>

theorem wire_enums_declared:
  "bd_dop_status (bff_demand_of (demand_of d)) = declared 4 (cw_dop_status d)
   \<and> map ck_status (bd_stages (bff_demand_of (demand_of d))) = map (\<lambda>s. declared 4 (ck_status s)) (cw_stages d)
   \<and> map ck_type (bd_stages (bff_demand_of (demand_of d))) = map (\<lambda>s. declared 8 (ck_type s)) (cw_stages d)
   \<and> map ck_gate (bd_stages (bff_demand_of (demand_of d))) = map (\<lambda>s. declared 2 (ck_gate s)) (cw_stages d)
   \<and> map (\<lambda>s. map cx_kind (ck_artifacts s)) (bd_stages (bff_demand_of (demand_of d)))
       = map (\<lambda>s. map (\<lambda>a. declared 6 (cx_kind a)) (ck_artifacts s)) (cw_stages d)
   \<and> bi_kind (bff_item (item_of it)) = declared 8 (ct_kind it)
   \<and> sx_state (bff_sandbox (sandbox_of sb)) = declared 4 (sx_state sb)
   \<and> sx_tier (bff_sandbox (sandbox_of sb)) = declared 3 (sx_tier sb)
   \<and> bz_kind (bff_resource_of (resource_of r)) = declared 4 (rc_kind r)
   \<and> bk_kind (Knowledge.bff_artifact_of (Knowledge.artifact_of str_of a)) = declared 3 (kn_kind a)
   \<and> bt_kind (bff_factor_of (factor_of f)) = declared 3 (ff_kind f)
   \<and> bt_status (bff_factor_of (factor_of f)) = declared 3 (ff_status f)
   \<and> bu_method (bff_step_up_of (step_up_of u)) = (if st_recovery u then 0 else declared 3 (st_method u))"
proof -
  have stages: "bd_stages (bff_demand_of (demand_of d)) = map (\<lambda>s. bff_stage_of (stage_of s)) (cw_stages d)"
    by (simp add: bff_demand_of_def demand_of_def Let_def)
  have "bd_dop_status (bff_demand_of (demand_of d)) = declared 4 (cw_dop_status d)"
    by (simp add: bff_demand_of_def demand_of_def Let_def situations.crossing_out declared_tables)
  moreover have "bi_kind (bff_item (item_of it)) = declared 8 (ct_kind it)"
    by (simp add: bff_item_def item_of_def kind_name_def attention_kinds.crosses declared_tables)
  moreover have "sx_state (bff_sandbox (sandbox_of sb)) = declared 4 (sx_state sb)"
      "sx_tier (bff_sandbox (sandbox_of sb)) = declared 3 (sx_tier sb)"
    by (simp_all add: bff_sandbox_def sandbox_of_def sandbox_states.crosses tiers.crossing_out declared_tables)
  moreover have "bz_kind (bff_resource_of (resource_of r)) = declared 4 (rc_kind r)"
    by (simp add: bff_resource_of_def resource_of_def resource_kinds.crossing_out declared_tables)
  moreover have "bk_kind (Knowledge.bff_artifact_of (Knowledge.artifact_of str_of a)) = declared 3 (kn_kind a)"
    by (simp add: Knowledge.bff_artifact_of_def Knowledge.artifact_of_def Let_def pop_str_def
        knowledge_kinds.crossing_out declared_tables)
  moreover have "bt_kind (bff_factor_of (factor_of f)) = declared 3 (ff_kind f)"
      "bt_status (bff_factor_of (factor_of f)) = declared 3 (ff_status f)"
    by (simp_all add: bff_factor_of_def factor_of_def factor_kinds.crossing_out factor_statuses.crosses declared_tables)
  moreover have "bu_method (bff_step_up_of (step_up_of u)) = (if st_recovery u then 0 else declared 3 (st_method u))"
    using declared_tables(11) [of "st_method u"] by (simp add: step_up_method)
  ultimately show ?thesis by (simp add: stages stage_enums comp_def)
qed

section \<open>A date crosses the text\<close>

text \<open>\<^verbatim>\<open>HasField\<close> of a date the core has, to the microsecond.\<close>

definition crossed :: "timestamp \<Rightarrow> timestamp option" where
  "crossed t = (if t = no_time then None else Some (instant t))"

text \<open>
  C25. Dates survive the text. The use cases of identity and of the second factor answer a date as ISO text and the
  gRPC port parses that text again. For every date protobuf allows, of an invite, of a factor's confirmation
  and last use, of a step-up's end, what the port writes is the core's own instant, to the microsecond, in any
  year from 1 to 9999, leap or not; and a date the core never set stays absent on both ports.
\<close>

theorem dates_cross_the_text:
  assumes "\<forall>t \<in> {ci_expires_at i, ff_confirmed_at f, ff_last_used_at f, st_expires_at u}. in_range t"
  shows "bi_expires_at (bff_invite_of (invite_of i)) = crossed (ci_expires_at i)
    \<and> bt_confirmed_at (bff_factor_of (factor_of f)) = crossed (ff_confirmed_at f)
    \<and> bt_last_used_at (bff_factor_of (factor_of f)) = crossed (ff_last_used_at f)
    \<and> bu_expires_at (bff_step_up_of (step_up_of u)) = crossed (st_expires_at u)
    \<and> (is_expires_at (invite_of i) = None \<longleftrightarrow> ci_expires_at i = no_time)
    \<and> (fs_confirmed_at (factor_of f) = None \<longleftrightarrow> ff_confirmed_at f = no_time)
    \<and> (fs_last_used_at (factor_of f) = None \<longleftrightarrow> ff_last_used_at f = no_time)
    \<and> (su_expires_at (step_up_of u) = None \<longleftrightarrow> st_expires_at u = no_time)"
  using assms
  by (simp add: bff_invite_of_def invite_of_def bff_factor_of_def factor_of_def bff_step_up_of_def step_up_of_def
      grpc_ts_text ts_text_None crossed_def)

theorem dates_cross_the_text_witness:
  "(let leap_day = \<lparr>ts_seconds = 1709164800, ts_nanos = 123456789\<rparr>;
        u = \<lparr>st_method = 1, st_recovery = False, st_expires_at = leap_day\<rparr>
    in su_expires_at (step_up_of u) = Some ''2024-02-29T00:00:00.123456Z''
     \<and> bu_expires_at (bff_step_up_of (step_up_of u)) = Some \<lparr>ts_seconds = 1709164800, ts_nanos = 123456000\<rparr>)"
proof -
  let ?t = "\<lparr>ts_seconds = 1709164800, ts_nanos = 123456789\<rparr>"
  let ?u = "\<lparr>st_method = 1, st_recovery = False, st_expires_at = ?t\<rparr>"
  let ?i = "\<lparr>ci_id = [], ci_email = [], ci_role = 0, ci_status = 0, ci_expires_at = no_time\<rparr>"
  let ?f = "\<lparr>ff_id = [], ff_kind = 0, ff_status = 0, ff_label = [], ff_masked_destination = [],
    ff_confirmed_at = no_time, ff_last_used_at = no_time\<rparr>"
  have written: "ts_text ?t = Some ''2024-02-29T00:00:00.123456Z''" by code_simp
  have "bu_expires_at (bff_step_up_of (step_up_of ?u)) = crossed ?t"
    using dates_cross_the_text [of ?i ?f ?u] by (simp add: in_range_def no_time_def)
  with written show ?thesis by (simp add: Let_def step_up_of_def crossed_def no_time_def instant_def)
qed

section \<open>What each use case asks of its caller\<close>

text \<open>
  The three degrees: an active account, a role that writes, a role that manages. A refusal leaves the
  outside world as it was.
\<close>

definition takes_account :: "('w, 'a) io \<Rightarrow> bool" where
  "takes_account m \<longleftrightarrow> (\<forall>s.
     (auth_ctx s = None \<longrightarrow> refuses m s (HTTPException 401 ''Not authenticated''))
     \<and> (\<forall>ctx. auth_ctx s = Some ctx \<and> a_account_id ctx = [] \<longrightarrow>
          refuses m s (HTTPException 400 ''No active account selected'')))"

definition takes_role :: "string list \<Rightarrow> ('w, 'a) io \<Rightarrow> bool" where
  "takes_role roles m \<longleftrightarrow> takes_account m \<and> (\<forall>s ctx.
     auth_ctx s = Some ctx \<and> a_account_id ctx \<noteq> [] \<and> a_role ctx \<notin> set roles \<longrightarrow>
       refuses m s (HTTPException 403 ''Insufficient permission''))"

lemma takes_account_scoped: "takes_account (account_scoped m)"
  by (auto simp: takes_account_def refusal_of_def account_check_def no_account_def intro!: scoped.refused_untouched)

lemma takes_account_logged: "takes_account (logged n (account_scoped m))"
  by (auto simp: takes_account_def refusal_of_def account_check_def no_account_def intro!: scoped.logged_refusal)

lemma takes_role_logged: "takes_role roles (logged n (account_scoped (require_role roles m)))"
  by (auto simp: takes_role_def takes_account_logged refusal_of_def role_check_def has_role_def
      intro!: managed.logged_refusal)

lemmas degrees = takes_account_scoped takes_account_logged takes_role_logged

lemmas account_operations = create_account_def
  list_attention_def watch_attention_def
  route_model_def get_budget_def record_usage_def summarize_cost_def
  list_pull_requests_def list_directives_def get_board_def get_merge_queue_def
  list_demands_def get_demand_def list_threads_def list_findings_def get_cockpit_def
  describe_sandbox_def get_tree_def list_workspaces_def list_projects_def get_project_def
  get_context_package_def search_memory_def read_index_def list_rules_def put_artifact_def
  list_resources_def get_resource_def create_resource_def set_credential_def check_resource_def
  list_flows_def get_flow_def resolve_flow_def validate_flow_def
  watch_account_events_def watch_demand_def tail_sandbox_logs_def

lemmas role_operations = enqueue_merge_def decide_directive_def
  start_demand_def advance_stage_def decide_gate_def create_thread_def post_message_def publish_finding_def
  provision_sandbox_def suspend_sandbox_def resume_sandbox_def destroy_sandbox_def
  run_turn_def create_flow_def update_flow_def
  list_members_def update_member_def create_invite_def list_invites_def revoke_invite_def
  set_budget_def create_workspace_def create_project_def bind_task_manager_def
  grant_resource_def list_member_grants_def promote_flow_def


end
